(* ===== verification/Prelude.thy ===== *)
theory Prelude
  imports Main "HOL-Library.Word" "HOL-Library.List_Lexorder" "HOL-Library.Char_ord"
begin

text \<open>
  What the components share: the machine integers and byte strings of Go, error values,
  results, the functions of the packages \<^verbatim>\<open>strings\<close>, \<^verbatim>\<open>sort\<close>, \<^verbatim>\<open>slices\<close> and
  \<^verbatim>\<open>strconv\<close> that the source calls, the iteration order of Go maps, and generic lemmas
  on maps and lists.
  A Go string is a \<^typ>\<open>string\<close> (a list of bytes). White space and letter case are those of
  ASCII: the Unicode cases of \<^verbatim>\<open>TrimSpace\<close>, \<^verbatim>\<open>ToLower\<close> and \<^verbatim>\<open>EqualFold\<close> are left out.
\<close>

section \<open>Machine integers and time\<close>

type_synonym byte = "8 word"
type_synonym int64 = "64 word"
type_synonym uint64 = "64 word"

text \<open>The order of Go's \<^verbatim>\<open>int64\<close> is the signed one.\<close>

abbreviation i64_lt :: "int64 \<Rightarrow> int64 \<Rightarrow> bool" where
  "i64_lt a b \<equiv> sint a < sint b"

text \<open>
  A \<^verbatim>\<open>time.Time\<close> is the number of nanoseconds since its zero value, year 1 (UTC), so the
  zero time is \<open>0\<close>; \<^verbatim>\<open>Unix()\<close> counts seconds from 1970.
\<close>

type_synonym gotime = int

definition time_zero :: gotime where
  "time_zero = 0"

definition time_IsZero :: "gotime \<Rightarrow> bool" where
  "time_IsZero t = (t = time_zero)"

definition time_Unix :: "gotime \<Rightarrow> int64" where
  "time_Unix t = word_of_int (t div 1000000000 - 62135596800)"

definition second :: int where
  "second = 1000000000"

section \<open>Errors\<close>

text \<open>
  A Go error carries the text of \<^verbatim>\<open>Error()\<close>, what \<^verbatim>\<open>errors.Is\<close> and \<^verbatim>\<open>errors.As\<close> can see of
  it, and the error it wraps with \<^verbatim>\<open>%w\<close>.
\<close>

datatype grpc_code =
    OK | Canceled | Unknown | InvalidArgument | DeadlineExceeded | NotFound | AlreadyExists
  | PermissionDenied | ResourceExhausted | FailedPrecondition | Aborted | OutOfRange
  | Unimplemented | Internal | Unavailable | DataLoss | Unauthenticated

datatype err_kind =
    Plain | EPERM | EACCES | LinkNotFoundError | ContextCanceled | EOF | Status grpc_code
  | Panic

datatype go_error = GoErr (err_kind_of: err_kind) (Error_text: string) (Unwrap: "go_error option")

type_synonym 'a result = "go_error + 'a"

definition errors_New :: "string \<Rightarrow> go_error" where
  "errors_New s = GoErr Plain s None"

definition Errorf_w :: "string \<Rightarrow> go_error \<Rightarrow> go_error" where
  "Errorf_w pre e = GoErr Plain (pre @ Error_text e) (Some e)"

text \<open>\<^verbatim>\<open>code.String()\<close> and the text of a status error.\<close>

fun code_name :: "grpc_code \<Rightarrow> string" where
  "code_name OK = ''OK''"
| "code_name Canceled = ''Canceled''"
| "code_name Unknown = ''Unknown''"
| "code_name InvalidArgument = ''InvalidArgument''"
| "code_name DeadlineExceeded = ''DeadlineExceeded''"
| "code_name NotFound = ''NotFound''"
| "code_name AlreadyExists = ''AlreadyExists''"
| "code_name PermissionDenied = ''PermissionDenied''"
| "code_name ResourceExhausted = ''ResourceExhausted''"
| "code_name FailedPrecondition = ''FailedPrecondition''"
| "code_name Aborted = ''Aborted''"
| "code_name OutOfRange = ''OutOfRange''"
| "code_name Unimplemented = ''Unimplemented''"
| "code_name Internal = ''Internal''"
| "code_name Unavailable = ''Unavailable''"
| "code_name DataLoss = ''DataLoss''"
| "code_name Unauthenticated = ''Unauthenticated''"

definition status_Error :: "grpc_code \<Rightarrow> string \<Rightarrow> go_error" where
  "status_Error c s = GoErr (Status c) (''rpc error: code = '' @ code_name c @ '' desc = '' @ s) None"

text \<open>A run-time panic is a value of its own kind, so that it shows in the results.\<close>

definition go_panic :: "string \<Rightarrow> go_error" where
  "go_panic s = GoErr Panic s None"

fun err_is :: "err_kind \<Rightarrow> go_error \<Rightarrow> bool" where
  "err_is k (GoErr k' s w) =
     (k = k' \<or> (case w of None \<Rightarrow> False | Some e \<Rightarrow> err_is k e))"

text \<open>\<^verbatim>\<open>status.FromError(err).Code()\<close>: the first status of the chain, else \<^verbatim>\<open>Unknown\<close>.\<close>

fun status_code :: "go_error \<Rightarrow> grpc_code" where
  "status_code (GoErr k s w) =
     (case k of Status c \<Rightarrow> c
      | _ \<Rightarrow> (case w of None \<Rightarrow> Unknown | Some e \<Rightarrow> status_code e))"

section \<open>Strings\<close>

definition is_space :: "char \<Rightarrow> bool" where
  "is_space c \<longleftrightarrow> of_char c \<in> {9, 10, 11, 12, 13, 32 :: nat}"

definition TrimSpace :: "string \<Rightarrow> string" where
  "TrimSpace s = rev (dropWhile is_space (rev (dropWhile is_space s)))"

definition HasPrefix :: "string \<Rightarrow> string \<Rightarrow> bool" where
  "HasPrefix s p \<longleftrightarrow> take (length p) s = p"

definition HasSuffix :: "string \<Rightarrow> string \<Rightarrow> bool" where
  "HasSuffix s p \<longleftrightarrow> HasPrefix (rev s) (rev p)"

fun Contains :: "string \<Rightarrow> string \<Rightarrow> bool" where
  "Contains [] sub = (sub = [])"
| "Contains (c # s) sub = (HasPrefix (c # s) sub \<or> Contains s sub)"

definition lower_char :: "char \<Rightarrow> char" where
  "lower_char c =
     (let n = of_char c :: nat in if 65 \<le> n \<and> n \<le> 90 then char_of (n + 32) else c)"

definition ToLower :: "string \<Rightarrow> string" where
  "ToLower s = map lower_char s"

definition EqualFold :: "string \<Rightarrow> string \<Rightarrow> bool" where
  "EqualFold a b \<longleftrightarrow> ToLower a = ToLower b"

text \<open>\<^verbatim>\<open>strings.Cut\<close>: the text before and after the first \<open>sep\<close>, or \<open>None\<close> if there is none.\<close>

fun Cut :: "string \<Rightarrow> string \<Rightarrow> (string \<times> string) option" where
  "Cut s sep =
     (if HasPrefix s sep then Some ([], drop (length sep) s)
      else (case s of [] \<Rightarrow> None
            | c # s' \<Rightarrow> map_option (\<lambda>(a, b). (c # a, b)) (Cut s' sep)))"

text \<open>\<^verbatim>\<open>strings.Split\<close> for a separator that is not empty: \<open>cur\<close> is the current field, reversed.\<close>

fun split_go :: "string \<Rightarrow> string \<Rightarrow> nat \<Rightarrow> string \<Rightarrow> string list" where
  "split_go sep cur 0 [] = [rev cur]"
| "split_go sep cur (Suc k) [] = [rev cur]"
| "split_go sep cur (Suc k) (c # s) = split_go sep cur k s"
| "split_go sep cur 0 (c # s) =
     (if HasPrefix (c # s) sep then rev cur # split_go sep [] (length sep - 1) s
      else split_go sep (c # cur) 0 s)"

definition Split :: "string \<Rightarrow> string \<Rightarrow> string list" where
  "Split s sep = split_go sep [] 0 s"

text \<open>\<^verbatim>\<open>strings.Fields\<close>: the maximal runs of bytes that are not white space.\<close>

fun fields_go :: "string \<Rightarrow> string \<Rightarrow> string list" where
  "fields_go cur [] = (if cur = [] then [] else [rev cur])"
| "fields_go cur (c # s) =
     (if is_space c then (if cur = [] then fields_go [] s else rev cur # fields_go [] s)
      else fields_go (c # cur) s)"

definition Fields :: "string \<Rightarrow> string list" where
  "Fields s = fields_go [] s"

fun Join :: "string list \<Rightarrow> string \<Rightarrow> string" where
  "Join [] sep = []"
| "Join [x] sep = x"
| "Join (x # y # xs) sep = x @ sep @ Join (y # xs) sep"

definition is_digit :: "char \<Rightarrow> bool" where
  "is_digit c \<longleftrightarrow> (let n = of_char c :: nat in 48 \<le> n \<and> n \<le> 57)"

definition digit_val :: "char \<Rightarrow> nat" where
  "digit_val c = of_char c - 48"

fun decimal :: "nat \<Rightarrow> string" where
  "decimal n =
     (if n < 10 then [char_of (48 + n)] else decimal (n div 10) @ [char_of (48 + n mod 10)])"

declare decimal.simps [simp del]

definition nl :: string where
  "nl = [char_of (10 :: nat)]"

text \<open>The verb \<^verbatim>\<open>%q\<close> on a text that needs no escapes.\<close>

definition quoted :: "string \<Rightarrow> string" where
  "quoted s = [CHR 0x22] @ s @ [CHR 0x22]"

section \<open>The iteration order of Go maps\<close>

text \<open>
  A Go map with string keys is a map \<open>string \<rightharpoonup> 'v\<close>. The order in which \<^verbatim>\<open>range\<close> visits its keys
  is not specified and may differ between two loops, so an operation that ranges over a map
  takes a parameter \<open>rng\<close>: \<open>rng i S\<close> is the order in which its loop number \<open>i\<close> visits the
  key set \<open>S\<close>. \<open>go_range\<close> is all the language promises: every key is visited once.
\<close>

type_synonym go_iter = "nat \<Rightarrow> string set \<Rightarrow> string list"

definition go_range :: "go_iter \<Rightarrow> bool" where
  "go_range rng \<longleftrightarrow> (\<forall>i S. finite S \<longrightarrow> distinct (rng i S) \<and> set (rng i S) = S)"

lemma go_range_set [simp]: "go_range rng \<Longrightarrow> finite S \<Longrightarrow> set (rng i S) = S"
  by (simp add: go_range_def)

lemma go_range_distinct [simp]: "go_range rng \<Longrightarrow> finite S \<Longrightarrow> distinct (rng i S)"
  by (simp add: go_range_def)

text \<open>An order that exists: the keys ascending. Witnesses run the model with it.\<close>

definition asc_iter :: go_iter where
  "asc_iter i S = sorted_list_of_set S"

lemma go_range_asc [simp]: "go_range asc_iter"
  by (simp add: go_range_def asc_iter_def)

text \<open>Collecting the keys of a map and sorting them forgets the iteration order.\<close>

lemma sort_range:
  assumes "go_range rng" "finite S"
  shows "sort (rng i S) = sorted_list_of_set S"
proof -
  have "sorted_list_of_set (set (rng i S)) = sort (remdups (rng i S))"
    by (rule sorted_list_of_set_sort_remdups)
  with assms show ?thesis by (simp add: distinct_remdups_id)
qed

section \<open>Maps and lists\<close>

lemma map_filter_set:
  "set (List.map_filter f xs) = {y. \<exists>x \<in> set xs. f x = Some y}"
  by (induction xs) (auto simp: List.map_filter_simps split: option.splits)

lemma map_filter_append: "List.map_filter f (xs @ ys) = List.map_filter f xs @ List.map_filter f ys"
  by (induction xs) (auto simp: List.map_filter_simps split: option.split)

lemma map_filter_if:
  "List.map_filter (\<lambda>x. if P x then Some (f x) else None) xs = map f (filter P xs)"
  by (induction xs) (auto simp: List.map_filter_simps)

lemma fold_invariant_mem:
  assumes "P s" and "\<And>x s. x \<in> set xs \<Longrightarrow> P s \<Longrightarrow> P (f x s)"
  shows "P (fold f xs s)"
  using assms by (induction xs arbitrary: s) auto

text \<open>A loop that stores one value per element: the last element with a key decides it.\<close>

lemma fold_upd_lookup:
  "fold (\<lambda>x m. m(key x \<mapsto> val x)) xs m k =
     (case filter (\<lambda>x. key x = k) xs of [] \<Rightarrow> m k | y # ys \<Rightarrow> Some (val (last (y # ys))))"
  by (induction xs arbitrary: m) (auto split: list.splits)

lemma fold_upd_dom: "dom (fold (\<lambda>x m. m(key x \<mapsto> val x)) xs m) = key ` set xs \<union> dom m"
  by (induction xs arbitrary: m) auto

lemma fold_upd_notin:
  "k \<notin> key ` set xs \<Longrightarrow> fold (\<lambda>x m. m(key x \<mapsto> val x)) xs m k = m k"
  by (induction xs arbitrary: m) auto

lemma fold_upd_mem:
  "fold (\<lambda>x m. m(key x \<mapsto> val x)) xs m k = Some v \<Longrightarrow>
   m k = Some v \<or> (\<exists>x \<in> set xs. key x = k \<and> val x = v)"
proof (induction xs arbitrary: m)
  case (Cons x xs)
  from Cons.prems have "fold (\<lambda>x m. m(key x \<mapsto> val x)) xs (m(key x \<mapsto> val x)) k = Some v"
    by (simp only: fold_Cons comp_apply)
  from Cons.IH [OF this] show ?case by (auto split: if_splits)
qed simp

lemma fold_upd_distinct:
  "distinct (map key xs) \<Longrightarrow> x \<in> set xs \<Longrightarrow>
   fold (\<lambda>x m. m(key x \<mapsto> val x)) xs m (key x) = Some (val x)"
proof (induction xs arbitrary: m)
  case Nil
  then show ?case by simp
next
  case (Cons a xs)
  show ?case
  proof (cases "x \<in> set xs")
    case True
    with Cons show ?thesis by simp
  next
    case False
    with Cons.prems have "x = a" and "key a \<notin> key ` set xs" by auto
    then show ?thesis by (simp add: fold_upd_notin [where key = key and val = val] del: fun_upd_apply) simp
  qed
qed

lemma fold_upd_iff:
  assumes "distinct (map key xs)"
  shows "fold (\<lambda>x m. m(key x \<mapsto> val x)) xs Map.empty k = Some v \<longleftrightarrow>
    (\<exists>x \<in> set xs. key x = k \<and> val x = v)" (is "?F k = _ \<longleftrightarrow> _")
proof
  assume "?F k = Some v"
  then have "k \<in> key ` set xs" by (metis (no_types) domI fold_upd_dom dom_empty sup_bot_right)
  then obtain x where "x \<in> set xs" "key x = k" by blast
  with fold_upd_distinct [OF assms this(1), of val Map.empty] \<open>?F k = Some v\<close>
  show "\<exists>x \<in> set xs. key x = k \<and> val x = v" by auto
next
  assume "\<exists>x \<in> set xs. key x = k \<and> val x = v"
  with fold_upd_distinct [OF assms, of _ val Map.empty] show "?F k = Some v" by blast
qed

end
