(* ===== verification/GoNet.thy ===== *)
theory GoNet
  imports Prelude
begin

unbundle bit_operations_syntax

text \<open>
  The part of Go's package \<^verbatim>\<open>net\<close> (and \<^verbatim>\<open>net/netip\<close>) that the node calls: \<^verbatim>\<open>ParseCIDR\<close>,
  \<^verbatim>\<open>IPNet.Contains\<close>, \<^verbatim>\<open>IPMask.Size\<close> and \<^verbatim>\<open>IPNet.String\<close>. An \<^verbatim>\<open>IP\<close> or \<^verbatim>\<open>IPMask\<close> is a list of
  4 or 16 bytes, as in the library, so that the checks of the source on \<^verbatim>\<open>len(ip)\<close> mean what
  they mean there. These definitions model the standard library, not code of the repository.
\<close>

section \<open>Addresses, masks, networks\<close>

type_synonym IP = "byte list"
type_synonym IPMask = "byte list"

record IPNet =
  net_IP :: IP
  net_Mask :: IPMask

definition v4InV6Prefix :: "byte list" where
  "v4InV6Prefix = replicate 10 0 @ [255, 255]"

definition To4 :: "IP \<Rightarrow> IP option" where
  "To4 ip =
     (if length ip = 4 then Some ip
      else if length ip = 16 \<and> take 12 ip = v4InV6Prefix then Some (drop 12 ip)
      else None)"

text \<open>\<^verbatim>\<open>CIDRMask(ones, bits)\<close> for a prefix length that is in range.\<close>

fun CIDRMask_bytes :: "nat \<Rightarrow> nat \<Rightarrow> IPMask" where
  "CIDRMask_bytes ones 0 = []"
| "CIDRMask_bytes ones (Suc k) =
     (if ones \<ge> 8 then 255 # CIDRMask_bytes (ones - 8) k
      else NOT (drop_bit ones 255) # CIDRMask_bytes 0 k)"

definition IP_Mask :: "IP \<Rightarrow> IPMask \<Rightarrow> IP option" where
  "IP_Mask ip m =
     (let m' = (if length m = 16 \<and> length ip = 4 \<and> take 12 m = replicate 12 255
                then drop 12 m else m);
          ip' = (if length m' = 4 \<and> length ip = 16 \<and> take 12 ip = v4InV6Prefix
                 then drop 12 ip else ip)
      in if length ip' = length m' then Some (map2 (AND) ip' m') else None)"

fun leading_ones :: "nat \<Rightarrow> byte \<Rightarrow> nat" where
  "leading_ones 0 b = 0"
| "leading_ones (Suc k) b = (if bit b k then Suc (leading_ones k b) else 0)"

text \<open>\<^verbatim>\<open>simpleMaskLength\<close>: the number of leading ones, or \<open>None\<close> (-1) when a one follows a zero.\<close>

fun simpleMaskLength :: "IPMask \<Rightarrow> nat option" where
  "simpleMaskLength [] = Some 0"
| "simpleMaskLength (v # ms) =
     (if v = 255 then map_option ((+) 8) (simpleMaskLength ms)
      else (let n = leading_ones 8 v
            in if v = NOT (drop_bit n 255) \<and> (\<forall>x \<in> set ms. x = 0) then Some n else None))"

text \<open>The first result of \<^verbatim>\<open>IPMask.Size()\<close>.\<close>

definition mask_ones :: "IPMask \<Rightarrow> nat" where
  "mask_ones m = (case simpleMaskLength m of None \<Rightarrow> 0 | Some n \<Rightarrow> n)"

definition networkNumberAndMask :: "IPNet \<Rightarrow> (IP \<times> IPMask) option" where
  "networkNumberAndMask n =
     (let ip = (case To4 (net_IP n) of Some i \<Rightarrow> i | None \<Rightarrow> net_IP n); m = net_Mask n
      in if To4 (net_IP n) = None \<and> length ip \<noteq> 16 then None
         else if length m = 4 then (if length ip = 4 then Some (ip, m) else None)
         else if length m = 16 then Some (ip, if length ip = 4 then drop 12 m else m)
         else None)"

definition IPNet_Contains :: "IPNet \<Rightarrow> IP \<Rightarrow> bool" where
  "IPNet_Contains n ip =
     (case networkNumberAndMask n of
        None \<Rightarrow> ip = []
      | Some (nn, m) \<Rightarrow>
          (let x = (case To4 ip of Some i \<Rightarrow> i | None \<Rightarrow> ip)
           in length x = length nn \<and> map2 (AND) nn m = map2 (AND) x m))"

section \<open>Printing\<close>

definition hex_digit :: "nat \<Rightarrow> char" where
  "hex_digit n = (if n < 10 then char_of (48 + n) else char_of (87 + n))"

fun hex_nat :: "nat \<Rightarrow> string" where
  "hex_nat n = (if n < 16 then [hex_digit n] else hex_nat (n div 16) @ [hex_digit (n mod 16)])"

declare hex_nat.simps [simp del]

definition hex_byte :: "byte \<Rightarrow> string" where
  "hex_byte b = [hex_digit (unat b div 16), hex_digit (unat b mod 16)]"

fun groups :: "byte list \<Rightarrow> nat list" where
  "groups (a # b # bs) = (unat a * 256 + unat b) # groups bs"
| "groups _ = []"

text \<open>The first longest run of at least two zero groups: its start and its end.\<close>

fun zero_runs :: "nat \<Rightarrow> nat list \<Rightarrow> (nat \<times> nat) list" where
  "zero_runs i [] = []"
| "zero_runs i (g # gs) = (i, length (takeWhile (\<lambda>x. x = 0) (g # gs))) # zero_runs (Suc i) gs"

definition longest_zero_run :: "nat list \<Rightarrow> (nat \<times> nat) option" where
  "longest_zero_run gs =
     fold (\<lambda>(i, l) best. case best of
             None \<Rightarrow> (if l \<ge> 2 then Some (i, l) else None)
           | Some (j, k) \<Rightarrow> (if l > k then Some (i, l) else best)) (zero_runs 0 gs) None"

definition IP_String :: "IP \<Rightarrow> string" where
  "IP_String ip =
     (if ip = [] then ''<nil>''
      else case To4 ip of
        Some v4 \<Rightarrow> Join (map (\<lambda>b. decimal (unat b)) v4) ''.''
      | None \<Rightarrow>
          (if length ip \<noteq> 16 then ''?'' @ concat (map hex_byte ip)
           else (let gs = groups ip in
             case longest_zero_run gs of
               None \<Rightarrow> Join (map hex_nat gs) '':''
             | Some (i, l) \<Rightarrow> Join (map hex_nat (take i gs)) '':'' @ ''::'' @
                              Join (map hex_nat (drop (i + l) gs)) '':'')))"

definition IPMask_String :: "IPMask \<Rightarrow> string" where
  "IPMask_String m = (if m = [] then ''<nil>'' else concat (map hex_byte m))"

definition IPNet_String :: "IPNet \<Rightarrow> string" where
  "IPNet_String n =
     (case networkNumberAndMask n of
        None \<Rightarrow> ''<nil>''
      | Some (nn, m) \<Rightarrow>
          (case simpleMaskLength m of
             None \<Rightarrow> IP_String nn @ ''/'' @ IPMask_String m
           | Some l \<Rightarrow> IP_String nn @ ''/'' @ decimal l))"

section \<open>Parsing\<close>

text \<open>An octet of a dotted address: digits, no leading zero, at most 255.\<close>

definition parse_octet :: "string \<Rightarrow> byte option" where
  "parse_octet s =
     (let v = foldl (\<lambda>n c. n * 10 + digit_val c) 0 s
      in if s \<noteq> [] \<and> list_all is_digit s \<and> (length s = 1 \<or> hd s \<noteq> CHR ''0'') \<and>
            length s \<le> 3 \<and> v \<le> 255
         then Some (word_of_nat v) else None)"

definition parseIPv4 :: "string \<Rightarrow> byte list option" where
  "parseIPv4 s =
     (let fs = map parse_octet (Split s ''.'')
      in if length fs = 4 \<and> None \<notin> set fs then Some (map the fs) else None)"

definition is_hex :: "char \<Rightarrow> bool" where
  "is_hex c \<longleftrightarrow>
     (let n = of_char c :: nat
      in 48 \<le> n \<and> n \<le> 57 \<or> 97 \<le> n \<and> n \<le> 102 \<or> 65 \<le> n \<and> n \<le> 70)"

definition hex_val :: "char \<Rightarrow> nat" where
  "hex_val c = (let n = of_char c in if n \<le> 57 then n - 48 else if n \<ge> 97 then n - 87 else n - 55)"

text \<open>
  The loop of \<^verbatim>\<open>parseIPv6\<close>: \<open>ip\<close> holds the bytes read so far and \<open>ell\<close> the position of the
  ellipsis. The result is those two once the whole string is used. Every round reads at
  least one hexadecimal digit, so \<open>k\<close> rounds, at most eight, bound it.
\<close>

fun parseIPv6_loop ::
  "nat \<Rightarrow> string \<Rightarrow> byte list \<Rightarrow> nat option \<Rightarrow> (byte list \<times> nat option) option" where
  "parseIPv6_loop 0 s ip ell = (if s = [] then Some (ip, ell) else None)"
| "parseIPv6_loop (Suc k) s ip ell =
     (let h = takeWhile is_hex s; rest = dropWhile is_hex s;
          acc = foldl (\<lambda>n c. n * 16 + hex_val c) 0 h
      in if h = [] \<or> length h > 4 then None
         else (case rest of
           [] \<Rightarrow> Some (ip @ [word_of_nat (acc div 256), word_of_nat acc], ell)
         | c # r \<Rightarrow>
             if c = CHR ''.'' then
               (if ell = None \<and> length ip \<noteq> 12 \<or> length ip + 4 > 16 then None
                else map_option (\<lambda>v4. (ip @ v4, ell)) (parseIPv4 s))
             else if c \<noteq> CHR '':'' \<or> r = [] then None
             else (let ip' = ip @ [word_of_nat (acc div 256), word_of_nat acc]
               in if hd r = CHR '':'' then
                    (if ell \<noteq> None then None
                     else if tl r = [] then Some (ip', Some (length ip'))
                     else parseIPv6_loop k (tl r) ip' (Some (length ip')))
                  else parseIPv6_loop k r ip' ell)))"

definition parseIPv6 :: "string \<Rightarrow> byte list option" where
  "parseIPv6 s =
     (let lead = HasPrefix s ''::''; s' = (if lead then drop 2 s else s)
      in if lead \<and> s' = [] then Some (replicate 16 0)
         else (case parseIPv6_loop 8 s' [] (if lead then Some 0 else None) of
           None \<Rightarrow> None
         | Some (ip, ell) \<Rightarrow>
             (case ell of
                None \<Rightarrow> (if length ip = 16 then Some ip else None)
              | Some e \<Rightarrow>
                  (if length ip < 16
                   then Some (take e ip @ replicate (16 - length ip) 0 @ drop e ip)
                   else None))))"

text \<open>\<^verbatim>\<open>netip.ParseAddr\<close> for an address without a zone, as 4 or 16 bytes.\<close>

definition ParseAddr :: "string \<Rightarrow> byte list option" where
  "ParseAddr s =
     (case List.find (\<lambda>c. c = CHR ''.'' \<or> c = CHR '':'' \<or> c = CHR ''%'') s of
        None \<Rightarrow> None
      | Some c \<Rightarrow>
          (if c = CHR ''.'' then parseIPv4 s
           else if c = CHR '':'' then (if CHR ''%'' \<in> set s then None else parseIPv6 s)
           else None))"

text \<open>
  \<^verbatim>\<open>dtoi\<close> used on the whole text: a decimal number below \<open>0xFFFFFF\<close>. Its digits are all the
  text, as the check \<^verbatim>\<open>i != len(mask)\<close> of the caller asks.
\<close>

definition dtoi :: "string \<Rightarrow> nat option" where
  "dtoi s =
     (let n = foldl (\<lambda>n c. n * 10 + digit_val c) 0 s
      in if s \<noteq> [] \<and> list_all is_digit s \<and> n < 16777215 then Some n else None)"

definition ParseCIDR :: "string \<Rightarrow> IPNet option" where
  "ParseCIDR s =
     (case Cut s ''/'' of
        None \<Rightarrow> None
      | Some (addr, msk) \<Rightarrow>
          (case (ParseAddr addr, dtoi msk) of
             (Some ip, Some n) \<Rightarrow>
               (if n > 8 * length ip then None
                else (let m = CIDRMask_bytes n (length ip)
                      in map_option (\<lambda>i. \<lparr>net_IP = i, net_Mask = m\<rparr>) (IP_Mask ip m)))
           | _ \<Rightarrow> None))"

end
