(* ===== verification/NodeMessages.thy ===== *)
theory NodeMessages
  imports Prelude
begin

text \<open>
  The messages of \<^verbatim>\<open>common/service.proto\<close> as their Go structs in
  \<^verbatim>\<open>common/service.pb.go\<close>. A pointer to a sub-message is an \<open>option\<close>; the getters of the
  generated code return the zero value on a nil receiver, which the accessors below do.
\<close>

section \<open>Users\<close>

record Vmess =
  vmess_Id :: string

record Vless =
  vless_Id :: string
  vless_Flow :: string

record Trojan =
  trojan_Password :: string

record Shadowsocks =
  ss_Password :: string
  ss_Method :: string

record Wireguard =
  wg_PublicKey :: string
  wg_PeerIps :: "string list"

record Hysteria =
  hy_Auth :: string

record Proxy =
  px_Vmess :: "Vmess option"
  px_Vless :: "Vless option"
  px_Trojan :: "Trojan option"
  px_Shadowsocks :: "Shadowsocks option"
  px_Wireguard :: "Wireguard option"
  px_Hysteria :: "Hysteria option"

record User =
  u_Email :: string
  u_Proxies :: "Proxy option"
  u_Inbounds :: "string list"

definition GetVmess :: "User \<Rightarrow> Vmess option" where
  "GetVmess u = Option.bind (u_Proxies u) px_Vmess"

definition GetVless :: "User \<Rightarrow> Vless option" where
  "GetVless u = Option.bind (u_Proxies u) px_Vless"

definition GetTrojan :: "User \<Rightarrow> Trojan option" where
  "GetTrojan u = Option.bind (u_Proxies u) px_Trojan"

definition GetShadowsocks :: "User \<Rightarrow> Shadowsocks option" where
  "GetShadowsocks u = Option.bind (u_Proxies u) px_Shadowsocks"

definition GetWireguard :: "User \<Rightarrow> Wireguard option" where
  "GetWireguard u = Option.bind (u_Proxies u) px_Wireguard"

definition GetHysteria :: "User \<Rightarrow> Hysteria option" where
  "GetHysteria u = Option.bind (u_Proxies u) px_Hysteria"

text \<open>\<^verbatim>\<open>user.GetProxies().GetWireguard().GetPublicKey()\<close> and \<^verbatim>\<open>.GetPeerIps()\<close>.\<close>

definition GetPublicKey :: "User \<Rightarrow> string" where
  "GetPublicKey u = (case GetWireguard u of None \<Rightarrow> [] | Some w \<Rightarrow> wg_PublicKey w)"

definition GetPeerIps :: "User \<Rightarrow> string list" where
  "GetPeerIps u = (case GetWireguard u of None \<Rightarrow> [] | Some w \<Rightarrow> wg_PeerIps w)"

section \<open>Requests and responses\<close>

record UsersChunk =
  ck_Users :: "User list"
  ck_Index :: uint64
  ck_Last :: bool

record Stat =
  stat_Name :: string
  stat_Type :: string
  stat_Link :: string
  stat_Value :: int64

datatype StatType = Outbounds | Outbound | Inbounds | Inbound | UsersStat | UserStat | StatType_other int

record StatRequest =
  sr_Name :: string
  sr_Reset :: bool
  sr_Type :: StatType

record OnlineStatResponse =
  on_Name :: string
  on_Value :: int64

record StatsOnlineIpListResponse =
  ol_Name :: string
  ol_Ips :: "string \<rightharpoonup> int64"

datatype BackendType = XRAY | WIREGUARD | BackendType_other int

record BackendMsg =
  bk_Type :: BackendType
  bk_Config :: string
  bk_Users :: "User list"
  bk_KeepAlive :: uint64
  bk_ExcludeInbounds :: "string list"

record BaseInfoResponse =
  bi_Started :: bool
  bi_CoreVersion :: string
  bi_NodeVersion :: string

record Latency =
  lt_Name :: string
  lt_Alive :: bool
  lt_Delay :: int64
  lt_Link :: string
  lt_LastTryTime :: int64
  lt_LastSeenTime :: int64
  lt_Source :: string

end
