(* ===== verification/PeerStore.thy ===== *)
theory PeerStore
  imports GoNet NodeMessages
begin

text \<open>
  \<^verbatim>\<open>backend/wireguard/peer_store.go\<close>: the runtime table of WireGuard peers, with its two
  maps (public key to peer, e-mail to public key) and every operation. \<^verbatim>\<open>wgtypes.Key\<close> is a
  type of a third-party module: a key is the list of its bytes and its method
  \<^verbatim>\<open>String()\<close> is the parameter \<open>KeyString\<close> of the operations that print keys.
  The invariant \<open>ps_ok\<close> is the 1:1 mapping the source announces; the locale
  \<open>peer_directory\<close> is what the user synchronisation relies on.
\<close>

section \<open>State\<close>

type_synonym Key = "byte list"

record PeerInfo =
  pi_Email :: string
  pi_PublicKey :: Key
  pi_AllowedIPs :: "IPNet list"

definition clonePeerInfo :: "PeerInfo option \<Rightarrow> PeerInfo option" where
  "clonePeerInfo peer =
     (case peer of
        None \<Rightarrow> None
      | Some p \<Rightarrow> Some \<lparr>pi_Email = pi_Email p, pi_PublicKey = pi_PublicKey p,
                        pi_AllowedIPs = [] @ pi_AllowedIPs p\<rparr>)"

record PeerStore =
  ps_peers :: "string \<rightharpoonup> PeerInfo"
  ps_emailToKey :: "string \<rightharpoonup> string"

definition NewPeerStore :: PeerStore where
  "NewPeerStore = \<lparr>ps_peers = Map.empty, ps_emailToKey = Map.empty\<rparr>"

section \<open>Operations\<close>

text \<open>The loop body shared by \<^verbatim>\<open>Init\<close> and \<^verbatim>\<open>ReplaceAll\<close>: nil peers are skipped.\<close>

definition store_peer :: "(Key \<Rightarrow> string) \<Rightarrow> PeerInfo option \<Rightarrow> PeerStore \<Rightarrow> PeerStore" where
  "store_peer KeyString peer ps =
     (case clonePeerInfo peer of
        None \<Rightarrow> ps
      | Some peerCopy \<Rightarrow>
          (let keyStr = KeyString (pi_PublicKey peerCopy)
           in ps\<lparr>ps_peers := (ps_peers ps)(keyStr \<mapsto> peerCopy),
                 ps_emailToKey := (ps_emailToKey ps)(pi_Email peerCopy \<mapsto> keyStr)\<rparr>))"

definition Init :: "(Key \<Rightarrow> string) \<Rightarrow> PeerStore \<Rightarrow> PeerInfo option list \<Rightarrow> PeerStore" where
  "Init KeyString ps peers = fold (store_peer KeyString) peers ps"

fun apply_removals :: "string list \<Rightarrow> PeerStore \<Rightarrow> string list \<times> PeerStore" where
  "apply_removals [] ps = ([], ps)"
| "apply_removals (key # keys) ps =
     (case ps_peers ps key of
        Some peer \<Rightarrow>
          (let (removed, ps') = apply_removals keys
                 (ps\<lparr>ps_emailToKey := (ps_emailToKey ps)(pi_Email peer := None),
                     ps_peers := (ps_peers ps)(key := None)\<rparr>)
           in (key # removed, ps'))
      | None \<Rightarrow> apply_removals keys ps)"

definition upsert_peer :: "(Key \<Rightarrow> string) \<Rightarrow> PeerInfo option \<Rightarrow> PeerStore \<Rightarrow> PeerStore" where
  "upsert_peer KeyString peer ps =
     (case clonePeerInfo peer of
        None \<Rightarrow> ps
      | Some peerCopy \<Rightarrow>
          (let keyStr = KeyString (pi_PublicKey peerCopy);
               ps1 = (case ps_emailToKey ps (pi_Email peerCopy) of
                        Some oldKey \<Rightarrow>
                          (if oldKey \<noteq> keyStr
                           then ps\<lparr>ps_peers := (ps_peers ps)(oldKey := None)\<rparr> else ps)
                      | None \<Rightarrow> ps);
               ps2 = (case ps_peers ps1 keyStr of
                        Some existingPeer \<Rightarrow>
                          (if pi_Email existingPeer \<noteq> pi_Email peerCopy
                           then ps1\<lparr>ps_emailToKey :=
                                  (ps_emailToKey ps1)(pi_Email existingPeer := None)\<rparr>
                           else ps1)
                      | None \<Rightarrow> ps1)
           in ps2\<lparr>ps_peers := (ps_peers ps2)(keyStr \<mapsto> peerCopy),
                  ps_emailToKey := (ps_emailToKey ps2)(pi_Email peerCopy \<mapsto> keyStr)\<rparr>))"

definition ApplyChanges ::
  "(Key \<Rightarrow> string) \<Rightarrow> PeerStore \<Rightarrow> string list \<Rightarrow> PeerInfo option list \<Rightarrow> string list \<times> PeerStore"
where
  "ApplyChanges KeyString ps removeKeys upsertPeers =
     (let (removed, ps') = apply_removals removeKeys ps
      in (removed, fold (upsert_peer KeyString) upsertPeers ps'))"

definition ReplaceAll ::
  "go_iter \<Rightarrow> (Key \<Rightarrow> string) \<Rightarrow> PeerStore \<Rightarrow> PeerInfo option list \<Rightarrow> string list \<times> PeerStore"
where
  "ReplaceAll rng KeyString ps peers =
     (let new = fold (store_peer KeyString) peers NewPeerStore;
          removed = filter (\<lambda>oldKey. ps_peers new oldKey = None) (rng 0 (dom (ps_peers ps)))
      in (removed, new))"

definition GetByEmail :: "PeerStore \<Rightarrow> string \<Rightarrow> PeerInfo option" where
  "GetByEmail ps email =
     (case ps_emailToKey ps email of
        Some key \<Rightarrow> clonePeerInfo (ps_peers ps key)
      | None \<Rightarrow> None)"

definition GetByKey :: "PeerStore \<Rightarrow> string \<Rightarrow> PeerInfo option" where
  "GetByKey ps publicKey = clonePeerInfo (ps_peers ps publicKey)"

definition GetAll :: "go_iter \<Rightarrow> PeerStore \<Rightarrow> PeerInfo list" where
  "GetAll rng ps = List.map_filter (\<lambda>key. clonePeerInfo (ps_peers ps key)) (rng 0 (dom (ps_peers ps)))"

definition GetEmailMap :: "PeerStore \<Rightarrow> (string \<rightharpoonup> string)" where
  "GetEmailMap ps = (\<lambda>key. map_option pi_Email (ps_peers ps key))"

section \<open>The invariant: one key per e-mail, one e-mail per key\<close>

definition ps_ok :: "(Key \<Rightarrow> string) \<Rightarrow> PeerStore \<Rightarrow> bool" where
  "ps_ok KeyString ps \<longleftrightarrow>
     finite (dom (ps_peers ps)) \<and>
     (\<forall>k p. ps_peers ps k = Some p \<longrightarrow>
        KeyString (pi_PublicKey p) = k \<and> ps_emailToKey ps (pi_Email p) = Some k) \<and>
     (\<forall>e k. ps_emailToKey ps e = Some k \<longrightarrow> (\<exists>p. ps_peers ps k = Some p \<and> pi_Email p = e))"

lemma ps_okI:
  assumes "finite (dom (ps_peers ps))"
    and "\<And>k p. ps_peers ps k = Some p \<Longrightarrow>
           ks (pi_PublicKey p) = k \<and> ps_emailToKey ps (pi_Email p) = Some k"
    and "\<And>e k. ps_emailToKey ps e = Some k \<Longrightarrow> \<exists>p. ps_peers ps k = Some p \<and> pi_Email p = e"
  shows "ps_ok ks ps"
  using assms by (auto simp: ps_ok_def)

lemma ps_ok_finite [simp]: "ps_ok ks ps \<Longrightarrow> finite (dom (ps_peers ps))"
  by (simp add: ps_ok_def)

lemma ps_ok_peer:
  "ps_ok ks ps \<Longrightarrow> ps_peers ps k = Some p \<Longrightarrow>
   ks (pi_PublicKey p) = k \<and> ps_emailToKey ps (pi_Email p) = Some k"
  by (auto simp: ps_ok_def)

lemma ps_ok_email:
  "ps_ok ks ps \<Longrightarrow> ps_emailToKey ps e = Some k \<Longrightarrow> \<exists>p. ps_peers ps k = Some p \<and> pi_Email p = e"
  by (auto simp: ps_ok_def)

lemma clonePeerInfo_id [simp]: "clonePeerInfo p = p"
  by (cases p) (simp_all add: clonePeerInfo_def)

lemma NewPeerStore_ok [simp]: "ps_ok ks NewPeerStore"
  by (simp add: ps_ok_def NewPeerStore_def)

text \<open>Removing one key: the peer and the entry of its e-mail go.\<close>

lemma remove_one_ok:
  assumes ok: "ps_ok ks ps" and p: "ps_peers ps key = Some p"
  shows "ps_ok ks (ps\<lparr>ps_emailToKey := (ps_emailToKey ps)(pi_Email p := None),
                      ps_peers := (ps_peers ps)(key := None)\<rparr>)"
proof (rule ps_okI, goal_cases)
  case 1
  from ok show ?case by (simp add: dom_fun_upd)
next
  case (2 k q)
  with ps_ok_peer [OF ok, of k q] ps_ok_peer [OF ok p] show ?case by (auto split: if_splits)
next
  case (3 e k)
  with ps_ok_email [OF ok, of e k] p show ?case by (auto split: if_splits)
qed

lemma apply_removals_spec:
  "ps_ok ks ps \<Longrightarrow> apply_removals keys ps = (removed, ps') \<Longrightarrow>
   ps_ok ks ps' \<and> set removed = set keys \<inter> dom (ps_peers ps) \<and> distinct removed \<and>
   ps_peers ps' = ps_peers ps |` (- set keys)"
proof (induction keys arbitrary: ps removed)
  case Nil
  then show ?case by auto
next
  case (Cons key keys)
  show ?case
  proof (cases "ps_peers ps key")
    case None
    with Cons.prems have "apply_removals keys ps = (removed, ps')" by simp
    from Cons.IH [OF Cons.prems(1) this] None show ?thesis
      by (auto simp: restrict_map_def fun_eq_iff)
  next
    case (Some p)
    let ?ps1 = "ps\<lparr>ps_emailToKey := (ps_emailToKey ps)(pi_Email p := None),
                    ps_peers := (ps_peers ps)(key := None)\<rparr>"
    from Some Cons.prems obtain r where r: "apply_removals keys ?ps1 = (r, ps')"
      and rem: "removed = key # r"
      by (auto split: prod.splits)
    from Cons.IH [OF remove_one_ok [OF Cons.prems(1) Some] r] Some rem
    show ?thesis by (auto simp: restrict_map_def fun_eq_iff split: if_splits)
  qed
qed

text \<open>
  Upserting one peer: every other peer with its key or its e-mail goes, the new one is in.
\<close>

definition upsert_spec :: "(Key \<Rightarrow> string) \<Rightarrow> PeerInfo \<Rightarrow> (string \<rightharpoonup> PeerInfo) \<Rightarrow> (string \<rightharpoonup> PeerInfo)"
where
  "upsert_spec ks p m =
     (\<lambda>k. if k = ks (pi_PublicKey p) then Some p
          else case m k of None \<Rightarrow> None
               | Some q \<Rightarrow> if pi_Email q = pi_Email p then None else Some q)"

lemma upsert_peer_peers:
  assumes ok: "ps_ok ks ps"
  shows "ps_peers (upsert_peer ks (Some p) ps) = upsert_spec ks p (ps_peers ps)"
proof
  fix k
  show "ps_peers (upsert_peer ks (Some p) ps) k = upsert_spec ks p (ps_peers ps) k"
  proof (cases "ps_peers ps k")
    case None
    then show ?thesis
      by (simp add: upsert_peer_def upsert_spec_def Let_def split: option.split)
  next
    case (Some q)
    have "ps_emailToKey ps (pi_Email p) = Some k \<longleftrightarrow> pi_Email q = pi_Email p"
      using ps_ok_peer [OF ok Some] ps_ok_email [OF ok, of "pi_Email p" k] Some by auto
    with Some show ?thesis
      by (auto simp: upsert_peer_def upsert_spec_def Let_def split: option.split)
  qed
qed

lemma upsert_peer_emails:
  assumes ok: "ps_ok ks ps"
  shows "ps_emailToKey (upsert_peer ks (Some p) ps) e =
     (if e = pi_Email p then Some (ks (pi_PublicKey p))
      else if ps_emailToKey ps e = Some (ks (pi_PublicKey p)) then None
      else ps_emailToKey ps e)"
proof (cases "e = pi_Email p")
  case True
  then show ?thesis by (simp add: upsert_peer_def Let_def split: option.split)
next
  case False
  let ?K = "ks (pi_PublicKey p)"
  have e: "ps_emailToKey ps e = Some ?K \<longleftrightarrow> (\<exists>q. ps_peers ps ?K = Some q \<and> pi_Email q = e)"
    using ps_ok_peer [OF ok, of ?K] ps_ok_email [OF ok, of e ?K] by auto
  show ?thesis
    using False by (simp add: upsert_peer_def Let_def e split: option.split) auto
qed

lemma finite_upsert_spec: "finite (dom m) \<Longrightarrow> finite (dom (upsert_spec ks q m))"
  by (rule finite_subset [of _ "insert (ks (pi_PublicKey q)) (dom m)"])
    (auto simp: upsert_spec_def split: option.splits if_splits)

lemma upsert_peer_ok:
  assumes ok: "ps_ok ks ps"
  shows "ps_ok ks (upsert_peer ks p ps)"
proof (cases p)
  case None
  with ok show ?thesis by (simp add: upsert_peer_def)
next
  case (Some q)
  note upd = upsert_peer_peers [OF ok] upsert_peer_emails [OF ok]
  show ?thesis unfolding Some
  proof (rule ps_okI, goal_cases)
    case 1
    show ?case by (simp add: upd finite_upsert_spec ps_ok_finite [OF ok])
  next
    case (2 k r)
    then show ?case using ps_ok_peer [OF ok, of k r]
      by (auto simp: upd upsert_spec_def split: option.splits if_splits)
  next
    case (3 e k)
    then show ?case using ps_ok_email [OF ok, of e k]
      by (auto simp: upd upsert_spec_def split: option.splits if_splits)
  qed
qed

lemma upsert_peers_spec:
  "ps_ok ks ps \<Longrightarrow>
   ps_ok ks (fold (upsert_peer ks) (map Some qs) ps) \<and>
   ps_peers (fold (upsert_peer ks) (map Some qs) ps) = fold (upsert_spec ks) qs (ps_peers ps)"
  by (induction qs arbitrary: ps) (simp_all add: upsert_peer_ok upsert_peer_peers)

lemma upsert_peers_ok: "ps_ok ks ps \<Longrightarrow> ps_ok ks (fold (upsert_peer ks) ps' ps)"
  by (induction ps' arbitrary: ps) (simp_all add: upsert_peer_ok)

section \<open>Functional behaviour\<close>

text \<open>
  A batch of upserts with distinct e-mails and distinct keys: each of its peers is in, and of the
  others those that share no key and no e-mail with the batch stay.
\<close>

lemma fold_upsert_spec:
  assumes "distinct (map pi_Email qs)" "distinct (map (\<lambda>p. ks (pi_PublicKey p)) qs)"
    and "\<And>k p. m k = Some p \<Longrightarrow> ks (pi_PublicKey p) = k"
  shows "fold (upsert_spec ks) qs m k = Some q \<longleftrightarrow>
     (q \<in> set qs \<and> ks (pi_PublicKey q) = k) \<or>
     (m k = Some q \<and> k \<notin> (\<lambda>p. ks (pi_PublicKey p)) ` set qs \<and> pi_Email q \<notin> pi_Email ` set qs)"
  using assms
proof (induction qs arbitrary: m)
  case Nil
  then show ?case by auto
next
  case (Cons p qs)
  have m': "ks (pi_PublicKey r) = k'" if "upsert_spec ks p m k' = Some r" for k' r
    using that Cons.prems(3) by (auto simp: upsert_spec_def split: if_splits option.splits)
  have IH: "fold (upsert_spec ks) qs (upsert_spec ks p m) k = Some q \<longleftrightarrow>
     (q \<in> set qs \<and> ks (pi_PublicKey q) = k) \<or>
     (upsert_spec ks p m k = Some q \<and> k \<notin> (\<lambda>p. ks (pi_PublicKey p)) ` set qs \<and>
      pi_Email q \<notin> pi_Email ` set qs)"
    using Cons.prems by (intro Cons.IH) (auto dest: m')
  have step: "upsert_spec ks p m k = Some q \<longleftrightarrow>
     (q = p \<and> ks (pi_PublicKey p) = k) \<or>
     (m k = Some q \<and> k \<noteq> ks (pi_PublicKey p) \<and> pi_Email q \<noteq> pi_Email p)"
    by (auto simp: upsert_spec_def split: option.splits)
  show ?case
    using Cons.prems(1,2) unfolding fold_Cons comp_def IH step by auto
qed

lemma fold_store_peer:
  "ps_peers (fold (store_peer ks) (map Some qs) ps) =
     fold (\<lambda>p m. m(ks (pi_PublicKey p) \<mapsto> p)) qs (ps_peers ps)"
  "ps_emailToKey (fold (store_peer ks) (map Some qs) ps) =
     fold (\<lambda>p m. m(pi_Email p \<mapsto> ks (pi_PublicKey p))) qs (ps_emailToKey ps)"
  by (induction qs arbitrary: ps) (simp_all add: store_peer_def Let_def)

lemma store_all_spec:
  fixes qs :: "PeerInfo list"
  assumes E: "distinct (map pi_Email qs)" and K: "distinct (map (\<lambda>p. ks (pi_PublicKey p)) qs)"
  defines "ps \<equiv> fold (store_peer ks) (map Some qs) NewPeerStore"
  shows "ps_peers ps k = Some p \<longleftrightarrow> p \<in> set qs \<and> ks (pi_PublicKey p) = k"
    and "ps_emailToKey ps e = Some k \<longleftrightarrow> (\<exists>p \<in> set qs. pi_Email p = e \<and> ks (pi_PublicKey p) = k)"
    and "ps_ok ks ps"
proof -
  have eqs: "ps_peers ps = fold (\<lambda>p m. m(ks (pi_PublicKey p) \<mapsto> p)) qs Map.empty"
    "ps_emailToKey ps = fold (\<lambda>p m. m(pi_Email p \<mapsto> ks (pi_PublicKey p))) qs Map.empty"
    by (simp_all add: ps_def fold_store_peer NewPeerStore_def del: fun_upd_apply)
  show 1: "ps_peers ps k = Some p \<longleftrightarrow> p \<in> set qs \<and> ks (pi_PublicKey p) = k" for k p
    unfolding eqs fold_upd_iff [OF K] by blast
  show 2: "ps_emailToKey ps e = Some k \<longleftrightarrow> (\<exists>p \<in> set qs. pi_Email p = e \<and> ks (pi_PublicKey p) = k)"
    for e k unfolding eqs fold_upd_iff [OF E] by blast
  have "finite (dom (ps_peers ps))" unfolding eqs fold_upd_dom by simp
  moreover have "ks (pi_PublicKey p) = k \<and> ps_emailToKey ps (pi_Email p) = Some k"
    if "ps_peers ps k = Some p" for k p using that unfolding 1 2 by blast
  moreover have "\<exists>p. ps_peers ps k = Some p \<and> pi_Email p = e"
    if "ps_emailToKey ps e = Some k" for e k using that unfolding 1 2 by blast
  ultimately show "ps_ok ks ps" by (rule ps_okI)
qed

lemma GetAll_set:
  "go_range rng \<Longrightarrow> finite (dom (ps_peers ps)) \<Longrightarrow>
   set (GetAll rng ps) = {p. \<exists>k. ps_peers ps k = Some p}"
  by (auto simp: GetAll_def map_filter_set)

lemma GetByEmail_iff:
  assumes ok: "ps_ok ks ps"
  shows "GetByEmail ps e = Some p \<longleftrightarrow> ps_peers ps (ks (pi_PublicKey p)) = Some p \<and> pi_Email p = e"
proof
  assume "GetByEmail ps e = Some p"
  then obtain k where k: "ps_emailToKey ps e = Some k" "ps_peers ps k = Some p"
    by (auto simp: GetByEmail_def split: option.splits)
  with ps_ok_email [OF ok k(1)] ps_ok_peer [OF ok k(2)]
  show "ps_peers ps (ks (pi_PublicKey p)) = Some p \<and> pi_Email p = e" by simp
next
  assume "ps_peers ps (ks (pi_PublicKey p)) = Some p \<and> pi_Email p = e"
  with ps_ok_peer [OF ok, of "ks (pi_PublicKey p)" p] show "GetByEmail ps e = Some p"
    by (simp add: GetByEmail_def)
qed

section \<open>The interface the synchronisation uses\<close>

text \<open>
  A directory of peers: look a peer up by its key or its e-mail, apply a batch of removals and
  upserts, replace everything. Its laws are the 1:1 mapping and what each update leaves.
\<close>

locale peer_directory =
  fixes inv :: "'s \<Rightarrow> bool"
    and lookup :: "'s \<Rightarrow> string \<Rightarrow> 'p option"
    and find_email :: "'s \<Rightarrow> string \<Rightarrow> 'p option"
    and email :: "'p \<Rightarrow> string"
    and key :: "'p \<Rightarrow> string"
    and change :: "'s \<Rightarrow> string list \<Rightarrow> 'p list \<Rightarrow> string list \<times> 's"
    and replace :: "'s \<Rightarrow> 'p list \<Rightarrow> string list \<times> 's"
  assumes lookup_key: "inv s \<Longrightarrow> lookup s k = Some p \<Longrightarrow> key p = k"
    and find_iff: "inv s \<Longrightarrow> find_email s e = Some p \<longleftrightarrow> lookup s (key p) = Some p \<and> email p = e"
    and change_inv: "inv s \<Longrightarrow> inv (snd (change s rs us))"
    and change_gone: "inv s \<Longrightarrow> set (fst (change s rs us)) = set rs \<inter> dom (lookup s)"
    and change_lookup: "inv s \<Longrightarrow> distinct (map email us) \<Longrightarrow> distinct (map key us) \<Longrightarrow>
       lookup (snd (change s rs us)) k = Some q \<longleftrightarrow>
         (q \<in> set us \<and> key q = k) \<or>
         (lookup s k = Some q \<and> k \<notin> set rs \<and> k \<notin> key ` set us \<and> email q \<notin> email ` set us)"
    and replace_inv: "inv s \<Longrightarrow> distinct (map email us) \<Longrightarrow> distinct (map key us) \<Longrightarrow>
       inv (snd (replace s us))"
    and replace_lookup: "inv s \<Longrightarrow> distinct (map email us) \<Longrightarrow> distinct (map key us) \<Longrightarrow>
       lookup (snd (replace s us)) k = Some q \<longleftrightarrow> q \<in> set us \<and> key q = k"
    and replace_gone: "inv s \<Longrightarrow> distinct (map email us) \<Longrightarrow> distinct (map key us) \<Longrightarrow>
       set (fst (replace s us)) = dom (lookup s) - key ` set us"
begin

lemma email_determines_peer:
  assumes "inv s" "lookup s k = Some p" "lookup s k' = Some q" "email p = email q"
  shows "k = k' \<and> p = q"
proof -
  from assms have "find_email s (email q) = Some p" "find_email s (email q) = Some q"
    using find_iff lookup_key by metis+
  with assms show ?thesis using lookup_key by (metis option.inject)
qed

lemma change_finds:
  assumes "inv s" "distinct (map email us)" "distinct (map key us)" "q \<in> set us"
  shows "find_email (snd (change s rs us)) (email q) = Some q"
proof -
  have "lookup (snd (change s rs us)) (key q) = Some q"
    using assms change_lookup by blast
  with assms(1) show ?thesis by (simp add: find_iff change_inv)
qed

lemma change_keeps:
  assumes "inv s" "distinct (map email us)" "distinct (map key us)" "lookup s k = Some q"
    and "k \<notin> set rs" "k \<notin> key ` set us" "email q \<notin> email ` set us"
  shows "lookup (snd (change s rs us)) k = Some q"
  using assms change_lookup by blast

lemma change_forgets:
  assumes "inv s" "distinct (map email us)" "distinct (map key us)"
    and "k \<in> set rs" "k \<notin> key ` set us"
  shows "lookup (snd (change s rs us)) k = None"
  using assms change_lookup by (metis imageI not_None_eq)

lemma replace_finds:
  assumes "inv s" "distinct (map email us)" "distinct (map key us)" "q \<in> set us"
  shows "find_email (snd (replace s us)) (email q) = Some q"
  using assms by (simp add: find_iff replace_inv replace_lookup)

end

lemma ApplyChanges_ok:
  assumes "ps_ok ks ps"
  shows "ps_ok ks (snd (ApplyChanges ks ps rs us))"
proof -
  obtain removed ps' where r: "apply_removals rs ps = (removed, ps')" by fastforce
  from apply_removals_spec [OF assms r] show ?thesis
    by (simp add: ApplyChanges_def r upsert_peers_ok)
qed

lemma ApplyChanges_removed:
  assumes "ps_ok ks ps"
  shows "set (fst (ApplyChanges ks ps rs us)) = set rs \<inter> dom (ps_peers ps)"
proof -
  obtain removed ps' where r: "apply_removals rs ps = (removed, ps')" by fastforce
  from apply_removals_spec [OF assms r] show ?thesis by (simp add: ApplyChanges_def r)
qed

lemma ApplyChanges_peers:
  assumes ok: "ps_ok ks ps"
    and "distinct (map pi_Email us)" "distinct (map (\<lambda>p. ks (pi_PublicKey p)) us)"
  shows "ps_peers (snd (ApplyChanges ks ps rs (map Some us))) k = Some q \<longleftrightarrow>
     (q \<in> set us \<and> ks (pi_PublicKey q) = k) \<or>
     (ps_peers ps k = Some q \<and> k \<notin> set rs \<and> k \<notin> (\<lambda>p. ks (pi_PublicKey p)) ` set us \<and>
      pi_Email q \<notin> pi_Email ` set us)"
proof -
  obtain removed ps' where r: "apply_removals rs ps = (removed, ps')" by fastforce
  from apply_removals_spec [OF ok r] have ok': "ps_ok ks ps'"
    and m: "ps_peers ps' = ps_peers ps |` (- set rs)" by auto
  have "ps_peers (snd (ApplyChanges ks ps rs (map Some us))) =
      fold (upsert_spec ks) us (ps_peers ps |` (- set rs))"
    using upsert_peers_spec [OF ok', of us] m by (simp add: ApplyChanges_def r)
  moreover have "ks (pi_PublicKey p) = k" if "(ps_peers ps |` (- set rs)) k = Some p" for k p
    using that ps_ok_peer [OF ok] by (auto simp: restrict_map_def split: if_splits)
  ultimately show ?thesis
    using fold_upsert_spec [OF assms(2,3), of "ps_peers ps |` (- set rs)"]
    by (auto simp: restrict_map_def)
qed

lemma ReplaceAll_removed:
  assumes "go_range rng" "ps_ok ks ps"
    and E: "distinct (map pi_Email us)" and K: "distinct (map (\<lambda>p. ks (pi_PublicKey p)) us)"
  shows "set (fst (ReplaceAll rng ks ps (map Some us))) =
     dom (ps_peers ps) - (\<lambda>p. ks (pi_PublicKey p)) ` set us"
proof -
  have "ps_peers (fold (store_peer ks) (map Some us) NewPeerStore) k = None \<longleftrightarrow>
      k \<notin> (\<lambda>p. ks (pi_PublicKey p)) ` set us" for k
    using store_all_spec(1) [OF E K, of k] by (auto simp flip: not_Some_eq)
  with assms(1,2) show ?thesis by (auto simp: ReplaceAll_def Let_def)
qed

interpretation store: peer_directory "\<lambda>ps. go_range rng \<and> ps_ok ks ps" ps_peers GetByEmail
  pi_Email "\<lambda>p. ks (pi_PublicKey p)" "\<lambda>ps rs us. ApplyChanges ks ps rs (map Some us)"
  "\<lambda>ps us. ReplaceAll rng ks ps (map Some us)"
  for ks rng
proof (unfold_locales, goal_cases)
  case (1 s k p)
  then show ?case by (auto dest: ps_ok_peer)
next
  case (2 s e p)
  then show ?case by (auto simp: GetByEmail_iff)
next
  case (3 s rs us)
  then show ?case by (simp add: ApplyChanges_ok)
next
  case (4 s rs us)
  then show ?case by (simp add: ApplyChanges_removed)
next
  case (5 s us rs k q)
  then show ?case by (simp add: ApplyChanges_peers)
next
  case (6 s us)
  then show ?case by (simp add: ReplaceAll_def Let_def store_all_spec(3))
next
  case (7 s us k q)
  then show ?case by (simp add: ReplaceAll_def Let_def store_all_spec(1))
next
  case (8 s us)
  then show ?case by (simp add: ReplaceAll_removed)
qed

section \<open>Reachable stores\<close>

text \<open>
  The stores the backend can build: it starts from \<^verbatim>\<open>NewPeerStore\<close>, initialises the empty store or
  replaces its content with peers that share no key and no e-mail, and applies any batch of
  changes.
\<close>

definition distinct_peers :: "(Key \<Rightarrow> string) \<Rightarrow> PeerInfo list \<Rightarrow> bool" where
  "distinct_peers ks us \<longleftrightarrow> distinct (map pi_Email us) \<and> distinct (map (\<lambda>p. ks (pi_PublicKey p)) us)"

inductive store_reach :: "go_iter \<Rightarrow> (Key \<Rightarrow> string) \<Rightarrow> PeerStore \<Rightarrow> bool" for rng ks where
  new: "store_reach rng ks NewPeerStore"
| init: "distinct_peers ks us \<Longrightarrow> store_reach rng ks (Init ks NewPeerStore (map Some us))"
| change: "store_reach rng ks ps \<Longrightarrow> store_reach rng ks (snd (ApplyChanges ks ps rs us))"
| replace: "store_reach rng ks ps \<Longrightarrow> distinct_peers ks us \<Longrightarrow>
    store_reach rng ks (snd (ReplaceAll rng ks ps (map Some us)))"

lemma store_reach_ok: "store_reach rng ks ps \<Longrightarrow> ps_ok ks ps"
  by (induction rule: store_reach.induct)
    (simp_all add: distinct_peers_def Init_def ReplaceAll_def Let_def store_all_spec(3) ApplyChanges_ok)

text \<open>A concrete pair of key functions (raw bytes as characters) for the examples.\<close>

definition raw_KeyString :: "Key \<Rightarrow> string" where
  "raw_KeyString k = map (\<lambda>b. char_of (unat b)) k"

definition raw_ParseKey :: "string \<Rightarrow> Key option" where
  "raw_ParseKey s = (if length s = 32 then Some (map of_char s) else None)"

text \<open>
  What the source relies on of \<^verbatim>\<open>wgtypes.ParseKey\<close> and \<^verbatim>\<open>Key.String\<close>: keys have 32 bytes and
  printing a key gives a text that parses to it.
\<close>

definition wgtypes_keys :: "(string \<Rightarrow> Key option) \<Rightarrow> (Key \<Rightarrow> string) \<Rightarrow> bool" where
  "wgtypes_keys ParseKey KeyString \<longleftrightarrow>
     (\<forall>k. length k = 32 \<longrightarrow> ParseKey (KeyString k) = Some k) \<and>
     (\<forall>s k. ParseKey s = Some k \<longrightarrow> length k = 32)"

lemma of_char_char_of_byte [simp]: "of_char (char_of (unat b) :: char) = (b :: byte)"
proof -
  have "of_char (char_of (unat b) :: char) = (of_nat (of_char (char_of (unat b) :: char)) :: byte)"
    by (rule of_nat_of_char [symmetric])
  also have "\<dots> = of_nat (unat b mod 256)" by (simp only: of_char_of)
  also have "unat b mod 256 = unat b" using unsigned_less [of b, where 'a = nat] by simp
  finally show ?thesis by simp
qed

lemma raw_wgtypes_keys [simp]: "wgtypes_keys raw_ParseKey raw_KeyString"
  by (auto simp: wgtypes_keys_def raw_ParseKey_def raw_KeyString_def comp_def split: if_splits)

section \<open>Properties\<close>

definition ex_peer :: "string \<Rightarrow> byte \<Rightarrow> PeerInfo" where
  "ex_peer email b = \<lparr>pi_Email = email, pi_PublicKey = replicate 32 b, pi_AllowedIPs = []\<rparr>"

lemma ex_peer_simps [simp]:
  "pi_Email (ex_peer e b) = e" "pi_PublicKey (ex_peer e b) = replicate 32 b"
  by (simp_all add: ex_peer_def)

lemma raw_KeyString_inj [simp]: "raw_KeyString k = raw_KeyString k' \<longleftrightarrow> k = k'"
proof
  assume "raw_KeyString k = raw_KeyString k'"
  then have "map of_char (raw_KeyString k) = (map of_char (raw_KeyString k') :: byte list)" by simp
  then show "k = k'" by (simp add: raw_KeyString_def comp_def)
qed simp



text \<open>
  C2. A batch of changes applied to a reachable store reports as removed exactly the listed keys it
  held, and leaves exactly the upserted peers and those old peers that were not removed and share
  neither key nor e-mail with an upserted one.
\<close>

theorem ApplyChanges_functional:
  assumes "store_reach rng ks ps" "distinct_peers ks us"
  shows "set (fst (ApplyChanges ks ps rs (map Some us))) = {k. k \<in> set rs \<and> GetByKey ps k \<noteq> None} \<and>
    (GetByKey (snd (ApplyChanges ks ps rs (map Some us))) k = Some q \<longleftrightarrow>
       (q \<in> set us \<and> ks (pi_PublicKey q) = k) \<or>
       (GetByKey ps k = Some q \<and> k \<notin> set rs \<and> k \<notin> (\<lambda>p. ks (pi_PublicKey p)) ` set us \<and>
        pi_Email q \<notin> pi_Email ` set us))"
proof -
  note ok = store_reach_ok [OF assms(1)]
  from assms(2) have "distinct (map pi_Email us)" "distinct (map (\<lambda>p. ks (pi_PublicKey p)) us)"
    by (simp_all add: distinct_peers_def)
  from ApplyChanges_peers [OF ok this] ApplyChanges_removed [OF ok] show ?thesis
    by (auto simp: GetByKey_def)
qed

theorem ApplyChanges_functional_witness:
  "set (fst (ApplyChanges raw_KeyString
     (Init raw_KeyString NewPeerStore (map Some [ex_peer ''a'' 1, ex_peer ''b'' 2]))
     [raw_KeyString (replicate 32 2), []] (map Some [ex_peer ''a'' 3]))) = {raw_KeyString (replicate 32 2)} \<and>
   GetByKey (snd (ApplyChanges raw_KeyString
     (Init raw_KeyString NewPeerStore (map Some [ex_peer ''a'' 1, ex_peer ''b'' 2]))
     [raw_KeyString (replicate 32 2), []] (map Some [ex_peer ''a'' 3]))) (raw_KeyString (replicate 32 3)) =
       Some (ex_peer ''a'' 3)"
proof -
  have "distinct_peers raw_KeyString [ex_peer ''a'' 1, ex_peer ''b'' 2]"
    by (simp add: distinct_peers_def replicate_eq_replicate)
  note reach = store_reach.init [OF this, of asc_iter]
  have "distinct_peers raw_KeyString [ex_peer ''a'' 3]" by (simp add: distinct_peers_def)
  from ApplyChanges_functional [OF reach this, of "[raw_KeyString (replicate 32 2), []]"]
  have "set (fst (ApplyChanges raw_KeyString
     (Init raw_KeyString NewPeerStore (map Some [ex_peer ''a'' 1, ex_peer ''b'' 2]))
     [raw_KeyString (replicate 32 2), []] (map Some [ex_peer ''a'' 3]))) =
     {k. k \<in> set [raw_KeyString (replicate 32 2), []] \<and> GetByKey
      (Init raw_KeyString NewPeerStore (map Some [ex_peer ''a'' 1, ex_peer ''b'' 2])) k \<noteq> None}"
    "GetByKey (snd (ApplyChanges raw_KeyString
     (Init raw_KeyString NewPeerStore (map Some [ex_peer ''a'' 1, ex_peer ''b'' 2]))
     [raw_KeyString (replicate 32 2), []] (map Some [ex_peer ''a'' 3]))) (raw_KeyString (replicate 32 3)) =
       Some (ex_peer ''a'' 3)"
    by (blast, simp)
  moreover have "{k. k \<in> set [raw_KeyString (replicate 32 2), []] \<and> GetByKey
      (Init raw_KeyString NewPeerStore (map Some [ex_peer ''a'' 1, ex_peer ''b'' 2])) k \<noteq> None} =
      {raw_KeyString (replicate 32 2)}"
    by (auto simp: Init_def store_peer_def NewPeerStore_def GetByKey_def raw_KeyString_def Let_def
        split: if_splits) 
  ultimately show ?thesis by simp
qed

text \<open>
  Replacing the content of the store leaves exactly the new peers, and reports as removed exactly
  the old keys that no new peer has, in whatever order the old table is visited.
\<close>

theorem ReplaceAll_functional:
  assumes "go_range rng" "store_reach rng ks ps" "distinct_peers ks us"
  shows "(GetByKey (snd (ReplaceAll rng ks ps (map Some us))) k = Some q \<longleftrightarrow>
      q \<in> set us \<and> ks (pi_PublicKey q) = k) \<and>
    set (fst (ReplaceAll rng ks ps (map Some us))) =
      {k. GetByKey ps k \<noteq> None \<and> k \<notin> (\<lambda>p. ks (pi_PublicKey p)) ` set us} \<and>
    distinct (fst (ReplaceAll rng ks ps (map Some us)))"
proof -
  note ok = store_reach_ok [OF assms(2)]
  from assms(3) have d: "distinct (map pi_Email us)" "distinct (map (\<lambda>p. ks (pi_PublicKey p)) us)"
    by (simp_all add: distinct_peers_def)
  have "distinct (fst (ReplaceAll rng ks ps (map Some us)))"
    using assms(1) ok by (simp add: ReplaceAll_def Let_def)
  with store.replace_lookup [of rng ks ps us k q] ReplaceAll_removed [OF assms(1) ok d] assms(1) ok d
  show ?thesis by (auto simp: GetByKey_def)
qed

theorem ReplaceAll_functional_witness:
  "GetByKey (snd (ReplaceAll asc_iter raw_KeyString NewPeerStore (map Some [ex_peer ''a'' 1])))
     (raw_KeyString (replicate 32 1)) = Some (ex_peer ''a'' 1) \<and>
   fst (ReplaceAll asc_iter raw_KeyString NewPeerStore (map Some [ex_peer ''a'' 1])) = []"
proof -
  have "distinct_peers raw_KeyString [ex_peer ''a'' 1]" by (simp add: distinct_peers_def)
  from ReplaceAll_functional [OF go_range_asc store_reach.new this, of "raw_KeyString (replicate 32 1)" "ex_peer ''a'' 1"]
  show ?thesis by (simp add: GetByKey_def NewPeerStore_def)
qed

end
