(* ===== verification/WGConfig.thy ===== *)
theory WGConfig
  imports PeerStore
begin

text \<open>
  \<^verbatim>\<open>backend/wireguard/config.go\<close>: the configuration of the WireGuard interface, its defaults, the
  AmneziaWG profile, the networks of the interface and the two parsed keys, which are cached in
  the configuration. The types \<^verbatim>\<open>wgtypes.Config\<close> and \<^verbatim>\<open>wgtypes.PeerConfig\<close> are records with the
  fields the source sets. Parameters: \<open>unmarshal\<close> (the JSON decoder for this struct),
  \<open>ParseKey\<close> (\<^verbatim>\<open>wgtypes.ParseKey\<close>) and \<open>Validate\<close> (\<^verbatim>\<open>wgtypes.Config.Validate\<close>).
\<close>

section \<open>Device and peer configurations\<close>

record PeerConfig =
  pc_PublicKey :: Key
  pc_Remove :: bool
  pc_PresharedKey :: "Key option"
  pc_PersistentKeepaliveInterval :: "int option"
  pc_ReplaceAllowedIPs :: bool
  pc_AllowedIPs :: "IPNet list"
  pc_AdvancedSecurity :: bool

record AmneziaParams =
  awg_Jc :: "int option"
  awg_Jmin :: "int option"
  awg_Jmax :: "int option"
  awg_S1 :: "int option"
  awg_S2 :: "int option"
  awg_S3 :: "int option"
  awg_S4 :: "int option"
  awg_H1 :: "string option"
  awg_H2 :: "string option"
  awg_H3 :: "string option"
  awg_H4 :: "string option"
  awg_I1 :: "string option"
  awg_I2 :: "string option"
  awg_I3 :: "string option"
  awg_I4 :: "string option"
  awg_I5 :: "string option"

definition no_awg :: AmneziaParams where
  "no_awg = \<lparr>awg_Jc = None, awg_Jmin = None, awg_Jmax = None, awg_S1 = None, awg_S2 = None,
     awg_S3 = None, awg_S4 = None, awg_H1 = None, awg_H2 = None, awg_H3 = None, awg_H4 = None,
     awg_I1 = None, awg_I2 = None, awg_I3 = None, awg_I4 = None, awg_I5 = None\<rparr>"

record DeviceConfig =
  dc_PrivateKey :: "Key option"
  dc_ListenPort :: "int option"
  dc_ReplacePeers :: bool
  dc_Peers :: "PeerConfig list"
  dc_awg :: AmneziaParams

definition empty_device_config :: DeviceConfig where
  "empty_device_config = \<lparr>dc_PrivateKey = None, dc_ListenPort = None, dc_ReplacePeers = False,
     dc_Peers = [], dc_awg = no_awg\<rparr>"

section \<open>The interface configuration\<close>

record LatencyConfig =
  lc_TestURL :: string
  lc_TimeoutSeconds :: int

record Config =
  c_InterfaceName :: string
  c_PrivateKey :: string
  c_PreSharedKey :: string
  c_ListenPort :: int
  c_Address :: "string list"
  c_Latency :: "LatencyConfig option"
  c_AmneziaWG :: bool
  c_Jc :: "int option"
  c_Jmin :: "int option"
  c_Jmax :: "int option"
  c_S1 :: "int option"
  c_S2 :: "int option"
  c_S3 :: "int option"
  c_S4 :: "int option"
  c_H1 :: string
  c_H2 :: string
  c_H3 :: string
  c_H4 :: string
  c_I1 :: string
  c_I2 :: string
  c_I3 :: string
  c_I4 :: string
  c_I5 :: string
  c_privateKeyValue :: Key
  c_privateKeySet :: bool
  c_presharedKeyValue :: "Key option"
  c_presharedKeySet :: bool

definition optionalStringPointer :: "string \<Rightarrow> string option" where
  "optionalStringPointer v = (if TrimSpace v = [] then None else Some v)"

definition buildAmneziaDeviceConfig ::
  "(DeviceConfig \<Rightarrow> go_error option) \<Rightarrow> Config option \<Rightarrow> DeviceConfig result" where
  "buildAmneziaDeviceConfig Validate c0 =
     (case c0 of
        None \<Rightarrow> Inl (errors_New ''AmneziaWG configuration is missing'')
      | Some c \<Rightarrow>
          if \<not> c_AmneziaWG c then Inl (errors_New ''AmneziaWG configuration is missing'')
          else if c_Jc c = None \<or> c_Jmin c = None \<or> c_Jmax c = None \<or> c_S1 c = None \<or> c_S2 c = None \<or>
                  c_S3 c = None \<or> c_S4 c = None
          then Inl (errors_New ''AmneziaWG requires Jc, Jmin, Jmax, and S1-S4 parameters'')
          else if c_H1 c = [] \<or> c_H2 c = [] \<or> c_H3 c = [] \<or> c_H4 c = []
          then Inl (errors_New ''AmneziaWG requires H1-H4 headers'')
          else (let awg = empty_device_config\<lparr>dc_awg :=
                    \<lparr>awg_Jc = c_Jc c, awg_Jmin = c_Jmin c, awg_Jmax = c_Jmax c, awg_S1 = c_S1 c,
                     awg_S2 = c_S2 c, awg_S3 = c_S3 c, awg_S4 = c_S4 c,
                     awg_H1 = Some (c_H1 c), awg_H2 = Some (c_H2 c), awg_H3 = Some (c_H3 c),
                     awg_H4 = Some (c_H4 c),
                     awg_I1 = optionalStringPointer (c_I1 c), awg_I2 = optionalStringPointer (c_I2 c),
                     awg_I3 = optionalStringPointer (c_I3 c), awg_I4 = optionalStringPointer (c_I4 c),
                     awg_I5 = optionalStringPointer (c_I5 c)\<rparr>\<rparr>
                in case Validate awg of
                     Some err \<Rightarrow> Inl (Errorf_w ''invalid AmneziaWG profile: '' err)
                   | None \<Rightarrow> Inr awg))"

text \<open>The defaults \<^verbatim>\<open>NewConfig\<close> fills in after decoding.\<close>

definition default_latency :: "LatencyConfig option \<Rightarrow> LatencyConfig" where
  "default_latency l0 =
     (let l = (case l0 of None \<Rightarrow> \<lparr>lc_TestURL = [], lc_TimeoutSeconds = 0\<rparr> | Some l \<Rightarrow> l);
          l1 = (if TrimSpace (lc_TestURL l) = []
                then l\<lparr>lc_TestURL := ''https://www.gstatic.com/generate_204''\<rparr> else l)
      in if lc_TimeoutSeconds l1 \<le> 0 then l1\<lparr>lc_TimeoutSeconds := 5\<rparr> else l1)"

definition NewConfig ::
  "(DeviceConfig \<Rightarrow> go_error option) \<Rightarrow> (string \<Rightarrow> Config result) \<Rightarrow> string \<Rightarrow> Config result" where
  "NewConfig Validate unmarshal config =
     (case unmarshal config of
        Inl err \<Rightarrow> Inl (Errorf_w ''failed to unmarshal config: '' err)
      | Inr c \<Rightarrow>
          (let c1 = (if c_InterfaceName c = [] then c\<lparr>c_InterfaceName := ''wg0''\<rparr> else c);
               c2 = (if c_ListenPort c1 \<le> 0 then c1\<lparr>c_ListenPort := 51820\<rparr> else c1);
               c3 = c2\<lparr>c_Latency := Some (default_latency (c_Latency c2))\<rparr>
           in if c_AmneziaWG c3
              then (case buildAmneziaDeviceConfig Validate (Some c3) of
                      Inl err \<Rightarrow> Inl err | Inr _ \<Rightarrow> Inr c3)
              else Inr c3))"

fun parse_networks :: "string list \<Rightarrow> IPNet list" where
  "parse_networks [] = []"
| "parse_networks (addr # addrs) =
     (let a = TrimSpace addr
      in if a = [] then parse_networks addrs
         else (case ParseCIDR a of
                 None \<Rightarrow> parse_networks addrs
               | Some ipNet \<Rightarrow> ipNet # parse_networks addrs))"

definition InterfaceNetworks :: "Config option \<Rightarrow> IPNet list" where
  "InterfaceNetworks c0 = (case c0 of None \<Rightarrow> [] | Some c \<Rightarrow> parse_networks (c_Address c))"

text \<open>\<open>None\<close> is the error of \<^verbatim>\<open>wgtypes.ParseKey\<close>; its text does not matter to the callers.\<close>

definition parse_key_error :: "string \<Rightarrow> go_error" where
  "parse_key_error s = errors_New (''wgtypes: failed to parse key '' @ s)"

definition GetPrivateKey :: "(string \<Rightarrow> Key option) \<Rightarrow> Config \<Rightarrow> Key result \<times> Config" where
  "GetPrivateKey ParseKey c =
     (if c_privateKeySet c then (Inr (c_privateKeyValue c), c)
      else if c_PrivateKey c = [] then (Inl (errors_New ''private key is empty''), c)
      else (case ParseKey (c_PrivateKey c) of
              None \<Rightarrow> (Inl (parse_key_error (c_PrivateKey c)), c)
            | Some key \<Rightarrow> (Inr key, c\<lparr>c_privateKeyValue := key, c_privateKeySet := True\<rparr>)))"

definition GetPreSharedKey :: "(string \<Rightarrow> Key option) \<Rightarrow> Config \<Rightarrow> Key option result \<times> Config" where
  "GetPreSharedKey ParseKey c =
     (if c_presharedKeySet c then (Inr (c_presharedKeyValue c), c)
      else if c_PreSharedKey c = []
      then (Inr None, c\<lparr>c_presharedKeySet := True, c_presharedKeyValue := None\<rparr>)
      else (case ParseKey (c_PreSharedKey c) of
              None \<Rightarrow> (Inl (parse_key_error (c_PreSharedKey c)), c)
            | Some key \<Rightarrow> (Inr (Some key), c\<lparr>c_presharedKeyValue := Some key, c_presharedKeySet := True\<rparr>)))"

section \<open>Lemmas\<close>

text \<open>
  The caches hold what parsing the text gives; a configuration as the decoder builds it, with
  both flags off, has consistent caches.
\<close>

definition cache_ok :: "(string \<Rightarrow> Key option) \<Rightarrow> Config \<Rightarrow> bool" where
  "cache_ok ParseKey c \<longleftrightarrow>
     (c_privateKeySet c \<longrightarrow> c_PrivateKey c \<noteq> [] \<and> ParseKey (c_PrivateKey c) = Some (c_privateKeyValue c)) \<and>
     (c_presharedKeySet c \<longrightarrow>
        c_presharedKeyValue c = (if c_PreSharedKey c = [] then None else ParseKey (c_PreSharedKey c)) \<and>
        (c_PreSharedKey c \<noteq> [] \<longrightarrow> ParseKey (c_PreSharedKey c) \<noteq> None))"

text \<open>What a peer configuration is built with: an unreadable text counts as no key.\<close>

definition psk_of :: "(string \<Rightarrow> Key option) \<Rightarrow> Config \<Rightarrow> Key option" where
  "psk_of ParseKey c = (if c_PreSharedKey c = [] then None else ParseKey (c_PreSharedKey c))"

definition private_of :: "(string \<Rightarrow> Key option) \<Rightarrow> Config \<Rightarrow> Key option" where
  "private_of ParseKey c = (if c_PrivateKey c = [] then None else ParseKey (c_PrivateKey c))"

lemma GetPrivateKey_spec:
  assumes "cache_ok ParseKey c" "GetPrivateKey ParseKey c = (r, c')"
  shows "cache_ok ParseKey c'" "(case r of Inl _ \<Rightarrow> None | Inr k \<Rightarrow> Some k) = private_of ParseKey c"
    "c' = c\<lparr>c_privateKeyValue := c_privateKeyValue c', c_privateKeySet := c_privateKeySet c'\<rparr>"
  using assms by (auto simp: GetPrivateKey_def cache_ok_def private_of_def split: if_splits option.splits)

lemma GetPreSharedKey_spec:
  assumes "cache_ok ParseKey c" "GetPreSharedKey ParseKey c = (r, c')"
  shows "cache_ok ParseKey c'" "(case r of Inl _ \<Rightarrow> None | Inr k \<Rightarrow> k) = psk_of ParseKey c"
    "(\<exists>e. r = Inl e) \<longleftrightarrow> c_PreSharedKey c \<noteq> [] \<and> ParseKey (c_PreSharedKey c) = None"
    "c' = c\<lparr>c_presharedKeyValue := c_presharedKeyValue c', c_presharedKeySet := c_presharedKeySet c'\<rparr>"
  using assms by (auto simp: GetPreSharedKey_def cache_ok_def psk_of_def split: if_splits option.splits)

end
