(* ===== verification/WGSync.thy ===== *)
theory WGSync
  imports WGConfig
begin

text \<open>
  \<^verbatim>\<open>backend/wireguard/user_common.go\<close>: from the users of a request to the peers the interface
  should have and to the difference with the peers it has. Log lines are left out. A user
  pointer of a request may be nil, so requests are lists of options.
\<close>

section \<open>Peer configurations\<close>

definition keepAlive :: "int option" where
  "keepAlive = Some 0"

definition buildAddConfig :: "Key \<Rightarrow> IPNet list \<Rightarrow> Key option \<Rightarrow> PeerConfig" where
  "buildAddConfig publicKey allowedIPs presharedKey =
     \<lparr>pc_PublicKey = publicKey, pc_Remove = False, pc_PresharedKey = presharedKey,
      pc_PersistentKeepaliveInterval = keepAlive, pc_ReplaceAllowedIPs = False,
      pc_AllowedIPs = allowedIPs, pc_AdvancedSecurity = False\<rparr>"

definition buildRemoveConfig :: "Key \<Rightarrow> PeerConfig" where
  "buildRemoveConfig publicKey =
     \<lparr>pc_PublicKey = publicKey, pc_Remove = True, pc_PresharedKey = None,
      pc_PersistentKeepaliveInterval = None, pc_ReplaceAllowedIPs = False,
      pc_AllowedIPs = [], pc_AdvancedSecurity = False\<rparr>"

definition setPeerAdvancedSecurity :: "PeerConfig list \<Rightarrow> bool \<Rightarrow> PeerConfig list" where
  "setPeerAdvancedSecurity peers enabled = map (\<lambda>p. p\<lparr>pc_AdvancedSecurity := enabled\<rparr>) peers"

definition buildAddConfigFromPeerInfo :: "PeerInfo \<Rightarrow> Key option \<Rightarrow> PeerConfig result" where
  "buildAddConfigFromPeerInfo peer psk =
     (if pi_AllowedIPs peer = []
      then Inl (errors_New (''peer '' @ pi_Email peer @ '' has no allowed IPs''))
      else Inr (buildAddConfig (pi_PublicKey peer) (pi_AllowedIPs peer) psk))"

section \<open>The desired peers\<close>

record DesiredPeer =
  dp_Email :: string
  dp_PublicKey :: string
  dp_ParsedKey :: Key
  dp_AllowedIPNets :: "IPNet list"

definition shouldIncludeUserInInterface :: "User \<Rightarrow> string \<Rightarrow> bool" where
  "shouldIncludeUserInInterface user interfaceName \<longleftrightarrow> interfaceName \<in> set (u_Inbounds user)"

text \<open>The negation of the cases \<^verbatim>\<open>normalizeUsers\<close> skips.\<close>

definition usable_user :: "User option \<Rightarrow> bool" where
  "usable_user u0 =
     (case u0 of None \<Rightarrow> False
      | Some u \<Rightarrow> u_Email u \<noteq> [] \<and> u_Proxies u \<noteq> None \<and> GetWireguard u \<noteq> None \<and>
                  GetPublicKey u \<noteq> [] \<and> GetPeerIps u \<noteq> [])"

definition last_by_email :: "User option list \<Rightarrow> (string \<rightharpoonup> User)" where
  "last_by_email users =
     fold (\<lambda>u m. if usable_user u then m(u_Email (the u) \<mapsto> the u) else m) users Map.empty"

definition normalizeUsers :: "go_iter \<Rightarrow> User option list \<Rightarrow> User list" where
  "normalizeUsers rng users =
     (let lastByEmail = last_by_email users
      in List.map_filter lastByEmail (rng 1 (dom lastByEmail)))"

definition peerIPAllowedOnInterface :: "IPNet option \<Rightarrow> IPNet option list \<Rightarrow> bool" where
  "peerIPAllowedOnInterface peerNet ifaceNets =
     (if ifaceNets = [] then True
      else list_ex (\<lambda>pool0. case (pool0, peerNet) of
             (Some pool, Some peer) \<Rightarrow>
               length (net_IP peer) = length (net_IP pool) \<and>
               IPNet_Contains pool (net_IP peer) \<and>
               mask_ones (net_Mask pool) \<le> mask_ones (net_Mask peer)
           | _ \<Rightarrow> False) ifaceNets)"

text \<open>
  The inner loop of \<^verbatim>\<open>collectDesiredPeers\<close> for one user: the result is the error that ends
  everything, or the addresses seen, whether an address was invalid, and the networks kept.
\<close>

fun collect_ips ::
  "IPNet list \<Rightarrow> string \<Rightarrow> string list \<Rightarrow> (string \<rightharpoonup> string) \<Rightarrow> IPNet list \<Rightarrow>
   ((string \<rightharpoonup> string) \<times> bool \<times> IPNet list) result" where
  "collect_ips ifaceNets email [] seenIPs nets = Inr (seenIPs, False, nets)"
| "collect_ips ifaceNets email (peerIp # peerIps) seenIPs nets =
     (case ParseCIDR peerIp of
        None \<Rightarrow> Inr (seenIPs, True, nets)
      | Some ipNet \<Rightarrow>
          if \<not> peerIPAllowedOnInterface (Some ipNet) (map Some ifaceNets)
          then collect_ips ifaceNets email peerIps seenIPs nets
          else (let canonicalIP = IPNet_String ipNet
                in case seenIPs canonicalIP of
                     Some existingEmail \<Rightarrow>
                       (if existingEmail \<noteq> email
                        then Inl (errors_New (''duplicate wireguard allowed IP '' @ canonicalIP @
                               '' assigned to users '' @ existingEmail @ '' and '' @ email))
                        else collect_ips ifaceNets email peerIps
                               (seenIPs(canonicalIP \<mapsto> email)) (nets @ [ipNet]))
                   | None \<Rightarrow> collect_ips ifaceNets email peerIps
                               (seenIPs(canonicalIP \<mapsto> email)) (nets @ [ipNet])))"

fun collect_users ::
  "(string \<Rightarrow> Key option) \<Rightarrow> Config \<Rightarrow> User list \<Rightarrow> (string \<rightharpoonup> DesiredPeer) \<Rightarrow>
   (string \<rightharpoonup> string) \<Rightarrow> (string \<rightharpoonup> DesiredPeer) result" where
  "collect_users ParseKey c [] desiredPeers seenIPs = Inr desiredPeers"
| "collect_users ParseKey c (user # users) desiredPeers seenIPs =
     (if \<not> shouldIncludeUserInInterface user (c_InterfaceName c)
      then collect_users ParseKey c users desiredPeers seenIPs
      else
        (let email = u_Email user; publicKey = GetPublicKey user
         in case ParseKey publicKey of
              None \<Rightarrow> collect_users ParseKey c users desiredPeers seenIPs
            | Some parsedKey \<Rightarrow>
                (case collect_ips (InterfaceNetworks (Some c)) email (GetPeerIps user) seenIPs [] of
                   Inl err \<Rightarrow> Inl err
                 | Inr (seenIPs', hasInvalidIP, nets) \<Rightarrow>
                     if hasInvalidIP \<or> nets = []
                     then collect_users ParseKey c users desiredPeers seenIPs'
                     else if (case desiredPeers publicKey of
                                Some existing \<Rightarrow> dp_Email existing \<noteq> email | None \<Rightarrow> False)
                     then Inl (errors_New (''wireguard public key '' @ publicKey @
                            '' is assigned to multiple users: '' @
                            dp_Email (the (desiredPeers publicKey)) @ '' and '' @ email))
                     else collect_users ParseKey c users
                            (desiredPeers(publicKey \<mapsto> \<lparr>dp_Email = email, dp_PublicKey = publicKey,
                               dp_ParsedKey = parsedKey, dp_AllowedIPNets = nets\<rparr>)) seenIPs')))"

definition collectDesiredPeers ::
  "(string \<Rightarrow> Key option) \<Rightarrow> Config \<Rightarrow> User list \<Rightarrow> (string \<rightharpoonup> DesiredPeer) result" where
  "collectDesiredPeers ParseKey c users = collect_users ParseKey c users Map.empty Map.empty"

section \<open>The difference\<close>

record SyncDiff =
  sd_RemoveKeys :: "string list"
  sd_UpsertPeers :: "PeerInfo list"
  sd_PeerConfigs :: "PeerConfig list"
  sd_TargetPeers :: "string \<rightharpoonup> PeerInfo"
  sd_Changed :: bool

definition target_peer :: "DesiredPeer \<Rightarrow> PeerInfo" where
  "target_peer d = \<lparr>pi_Email = dp_Email d, pi_PublicKey = dp_ParsedKey d, pi_AllowedIPs = dp_AllowedIPNets d\<rparr>"

definition ipnets_equal :: "PeerInfo \<Rightarrow> PeerInfo \<Rightarrow> bool" where
  "ipnets_equal existing target \<longleftrightarrow>
     map IPNet_String (pi_AllowedIPs existing) = map IPNet_String (pi_AllowedIPs target)"

record diff_acc =
  da_removeSet :: "string \<rightharpoonup> PeerInfo"
  da_upsertByKey :: "string \<rightharpoonup> PeerInfo"
  da_peerConfigs :: "PeerConfig list"

text \<open>The body of the loop over the existing peers.\<close>

definition diff_existing ::
  "(string \<rightharpoonup> PeerInfo) \<Rightarrow> (string \<rightharpoonup> PeerInfo) \<Rightarrow> Key option \<Rightarrow> string \<Rightarrow> diff_acc \<Rightarrow> diff_acc" where
  "diff_existing existingPeers targetPeers psk key acc =
     (case existingPeers key of
        None \<Rightarrow> acc
      | Some existing \<Rightarrow>
          (case targetPeers key of
             None \<Rightarrow> acc\<lparr>da_removeSet := (da_removeSet acc)(key \<mapsto> existing)\<rparr>
           | Some target \<Rightarrow>
               if pi_Email existing \<noteq> pi_Email target \<or> \<not> ipnets_equal existing target
               then if \<not> ipnets_equal existing target
                    then (case buildAddConfigFromPeerInfo target psk of
                            Inl _ \<Rightarrow> acc
                          | Inr config \<Rightarrow>
                              acc\<lparr>da_peerConfigs := da_peerConfigs acc @ [config\<lparr>pc_ReplaceAllowedIPs := True\<rparr>],
                                  da_upsertByKey := (da_upsertByKey acc)(key \<mapsto> target)\<rparr>)
                    else acc\<lparr>da_upsertByKey := (da_upsertByKey acc)(key \<mapsto> target)\<rparr>
               else acc))"

text \<open>The body of the loop over the target peers.\<close>

definition diff_target ::
  "(string \<rightharpoonup> PeerInfo) \<Rightarrow> (string \<rightharpoonup> PeerInfo) \<Rightarrow> Key option \<Rightarrow> string \<Rightarrow> diff_acc \<Rightarrow> diff_acc" where
  "diff_target existingPeers targetPeers psk key acc =
     (case targetPeers key of
        None \<Rightarrow> acc
      | Some target \<Rightarrow>
          if existingPeers key = None
          then (case buildAddConfigFromPeerInfo target psk of
                  Inl _ \<Rightarrow> acc
                | Inr config \<Rightarrow>
                    acc\<lparr>da_upsertByKey := (da_upsertByKey acc)(key \<mapsto> target),
                        da_peerConfigs := da_peerConfigs acc @ [config]\<rparr>)
          else acc)"

fun remove_configs :: "(string \<Rightarrow> Key option) \<Rightarrow> string list \<Rightarrow> string list \<times> PeerConfig list" where
  "remove_configs ParseKey [] = ([], [])"
| "remove_configs ParseKey (key # keys) =
     (let (validRemoveKeys, peerConfigs) = remove_configs ParseKey keys
      in case ParseKey key of
           None \<Rightarrow> (validRemoveKeys, peerConfigs)
         | Some publicKey \<Rightarrow> (key # validRemoveKeys, buildRemoveConfig publicKey # peerConfigs))"

definition buildRemoveConfigsForPeers ::
  "go_iter \<Rightarrow> (string \<Rightarrow> Key option) \<Rightarrow> (string \<rightharpoonup> PeerInfo) \<Rightarrow> string list \<times> PeerConfig list" where
  "buildRemoveConfigsForPeers rng ParseKey removeSet =
     remove_configs ParseKey (sort (rng 2 (dom removeSet)))"

definition buildSyncDiff ::
  "go_iter \<Rightarrow> (string \<Rightarrow> Key option) \<Rightarrow> Config \<Rightarrow> (string \<rightharpoonup> PeerInfo) \<Rightarrow> (string \<rightharpoonup> DesiredPeer) \<Rightarrow>
   SyncDiff result \<times> Config" where
  "buildSyncDiff rng ParseKey c existingPeers desiredPeers =
     (let targetPeers = (\<lambda>key. map_option target_peer (desiredPeers key));
          (pskr, c') = GetPreSharedKey ParseKey c;
          psk = (case pskr of Inl _ \<Rightarrow> None | Inr k \<Rightarrow> k);
          acc0 = \<lparr>da_removeSet = Map.empty, da_upsertByKey = Map.empty, da_peerConfigs = []\<rparr>;
          acc1 = fold (diff_existing existingPeers targetPeers psk) (rng 3 (dom existingPeers)) acc0;
          acc2 = fold (diff_target existingPeers targetPeers psk) (rng 4 (dom targetPeers)) acc1;
          peerConfigs = setPeerAdvancedSecurity (da_peerConfigs acc2) (c_AmneziaWG c');
          (removeKeys, removeConfigs) = buildRemoveConfigsForPeers rng ParseKey (da_removeSet acc2);
          upsertKeys = sort (rng 5 (dom (da_upsertByKey acc2)));
          upsertPeers = List.map_filter (da_upsertByKey acc2) upsertKeys
      in (Inr \<lparr>sd_RemoveKeys = removeKeys, sd_UpsertPeers = upsertPeers,
               sd_PeerConfigs = peerConfigs @ removeConfigs, sd_TargetPeers = targetPeers,
               sd_Changed = (removeKeys \<noteq> [] \<or> upsertPeers \<noteq> [])\<rparr>, c'))"

fun target_configs ::
  "(string \<rightharpoonup> PeerInfo) \<Rightarrow> Key option \<Rightarrow> string list \<Rightarrow> PeerConfig list \<times> string set" where
  "target_configs targetPeers psk [] = ([], {})"
| "target_configs targetPeers psk (key # keys) =
     (let (configs, appliedKeys) = target_configs targetPeers psk keys
      in case targetPeers key of
           None \<Rightarrow> (configs, appliedKeys)
         | Some peer \<Rightarrow>
             (case buildAddConfigFromPeerInfo peer psk of
                Inl _ \<Rightarrow> (configs, appliedKeys)
              | Inr config \<Rightarrow> (config # configs, insert key appliedKeys)))"

definition buildTargetPeerConfigs ::
  "go_iter \<Rightarrow> (string \<rightharpoonup> PeerInfo) \<Rightarrow> Key option \<Rightarrow> PeerConfig list \<times> string set" where
  "buildTargetPeerConfigs rng targetPeers psk =
     target_configs targetPeers psk (sort (rng 6 (dom targetPeers)))"

definition filterUpsertsByAppliedKeys ::
  "(Key \<Rightarrow> string) \<Rightarrow> PeerInfo list \<Rightarrow> string set \<Rightarrow> PeerInfo list" where
  "filterUpsertsByAppliedKeys KeyString upserts appliedKeys =
     (if card appliedKeys = length upserts then upserts
      else filter (\<lambda>p. KeyString (pi_PublicKey p) \<in> appliedKeys) upserts)"

section \<open>Normalised users\<close>

lemma last_by_email_step:
  "fold (\<lambda>u m. if usable_user u then m(u_Email (the u) \<mapsto> the u) else m) users m =
     fold (\<lambda>u m. m(u_Email u \<mapsto> u)) (map the (filter usable_user users)) m"
  by (induction users arbitrary: m) (simp_all del: fun_upd_apply)

lemma last_by_email_Some:
  "last_by_email users e = Some u \<Longrightarrow> u_Email u = e \<and> Some u \<in> set users \<and> usable_user (Some u)"
  unfolding last_by_email_def last_by_email_step
  by (drule fold_upd_mem [where val = "\<lambda>u. u"]) (auto simp: usable_user_def split: option.splits)

lemma finite_last_by_email [simp]: "finite (dom (last_by_email users))"
  by (simp add: last_by_email_def last_by_email_step fold_upd_dom [where val = "\<lambda>u. u"])

lemma normalizeUsers_set:
  assumes "go_range rng"
  shows "u \<in> set (normalizeUsers rng users) \<longleftrightarrow> last_by_email users (u_Email u) = Some u"
  using assms by (auto simp: normalizeUsers_def Let_def map_filter_set dest: last_by_email_Some)

lemma map_filter_emails:
  "\<lbrakk>distinct es; \<And>e u. m e = Some u \<Longrightarrow> u_Email u = e\<rbrakk> \<Longrightarrow> distinct (map u_Email (List.map_filter m es))"
proof (induction es)
  case (Cons e es)
  then show ?case
    by (auto simp: List.map_filter_simps map_filter_set split: option.splits)
qed (simp add: List.map_filter_simps)

lemma normalizeUsers_distinct:
  "go_range rng \<Longrightarrow> distinct (map u_Email (normalizeUsers rng users))"
  unfolding normalizeUsers_def Let_def
  by (rule map_filter_emails) (auto dest: last_by_email_Some)

section \<open>The desired peers, characterised\<close>

text \<open>
  A candidate is on the interface and has a readable key; it claims the networks of its addresses
  up to the first unreadable one; it is eligible when all are readable and one is in range.
\<close>

definition candidate :: "(string \<Rightarrow> Key option) \<Rightarrow> Config \<Rightarrow> User \<Rightarrow> bool" where
  "candidate pk c u \<longleftrightarrow> shouldIncludeUserInInterface u (c_InterfaceName c) \<and> pk (GetPublicKey u) \<noteq> None"

definition in_range :: "Config \<Rightarrow> IPNet \<Rightarrow> bool" where
  "in_range c n = peerIPAllowedOnInterface (Some n) (map Some (InterfaceNetworks (Some c)))"

fun bad_ips :: "string list \<Rightarrow> bool" where
  "bad_ips [] = False"
| "bad_ips (ip # ips) = (ParseCIDR ip = None \<or> bad_ips ips)"

definition nets_of :: "Config \<Rightarrow> string list \<Rightarrow> IPNet list" where
  "nets_of c ips = filter (in_range c) (List.map_filter ParseCIDR (takeWhile (\<lambda>ip. ParseCIDR ip \<noteq> None) ips))"

definition claims :: "Config \<Rightarrow> User \<Rightarrow> string set" where
  "claims c u = IPNet_String ` set (nets_of c (GetPeerIps u))"

definition eligible :: "(string \<Rightarrow> Key option) \<Rightarrow> Config \<Rightarrow> User \<Rightarrow> bool" where
  "eligible pk c u \<longleftrightarrow> candidate pk c u \<and> \<not> bad_ips (GetPeerIps u) \<and>
     nets_of c (GetPeerIps u) \<noteq> []"

definition desired_peer :: "(string \<Rightarrow> Key option) \<Rightarrow> Config \<Rightarrow> User \<Rightarrow> DesiredPeer" where
  "desired_peer pk c u = \<lparr>dp_Email = u_Email u, dp_PublicKey = GetPublicKey u,
     dp_ParsedKey = the (pk (GetPublicKey u)), dp_AllowedIPNets = nets_of c (GetPeerIps u)\<rparr>"

text \<open>No two users claim one address, no two eligible users have one key.\<close>

definition compatible :: "(string \<Rightarrow> Key option) \<Rightarrow> Config \<Rightarrow> User \<Rightarrow> User \<Rightarrow> bool" where
  "compatible pk c u v \<longleftrightarrow>
     (candidate pk c u \<and> candidate pk c v \<longrightarrow> claims c u \<inter> claims c v = {}) \<and>
     (eligible pk c u \<and> eligible pk c v \<longrightarrow> GetPublicKey u \<noteq> GetPublicKey v)"

definition desired_of :: "(string \<Rightarrow> Key option) \<Rightarrow> Config \<Rightarrow> User list \<Rightarrow> (string \<rightharpoonup> DesiredPeer)" where
  "desired_of pk c users k =
     map_option (desired_peer pk c) (List.find (\<lambda>u. eligible pk c u \<and> GetPublicKey u = k) users)"

definition owner_of :: "(string \<Rightarrow> Key option) \<Rightarrow> Config \<Rightarrow> User list \<Rightarrow> (string \<rightharpoonup> string)" where
  "owner_of pk c users s =
     map_option u_Email (List.find (\<lambda>u. candidate pk c u \<and> s \<in> claims c u) users)"

lemma find_snoc:
  "List.find P (xs @ [x]) = (case List.find P xs of Some y \<Rightarrow> Some y | None \<Rightarrow> if P x then Some x else None)"
  by (induction xs) (auto split: option.splits)

lemma collect_ips_ok:
  "\<lbrakk>\<forall>n \<in> set (nets_of c ips). \<forall>e. seen (IPNet_String n) = Some e \<longrightarrow> e = email\<rbrakk> \<Longrightarrow>
   collect_ips (InterfaceNetworks (Some c)) email ips seen nets =
     Inr (\<lambda>s. if s \<in> IPNet_String ` set (nets_of c ips) then Some email else seen s,
          bad_ips ips, nets @ nets_of c ips)"
proof (induction ips arbitrary: seen nets)
  case Nil
  then show ?case by (simp add: nets_of_def List.map_filter_simps)
next
  case (Cons ip ips)
  show ?case
  proof (cases "ParseCIDR ip")
    case None
    then show ?thesis by (simp add: nets_of_def List.map_filter_simps)
  next
    case (Some n)
    show ?thesis
    proof (cases "in_range c n")
      case False
      with Some Cons show ?thesis by (simp add: nets_of_def List.map_filter_simps in_range_def)
    next
      case True
      let ?seen = "seen(IPNet_String n \<mapsto> email)"
      from Some True have eq: "nets_of c (ip # ips) = n # nets_of c ips"
        by (simp add: nets_of_def List.map_filter_simps)
      have "collect_ips (InterfaceNetworks (Some c)) email ips ?seen (nets @ [n]) =
        Inr (\<lambda>s. if s \<in> IPNet_String ` set (nets_of c ips) then Some email else ?seen s,
             bad_ips ips, (nets @ [n]) @ nets_of c ips)"
        using Cons.prems eq by (intro Cons.IH) auto
      moreover have "seen (IPNet_String n) = None \<or> seen (IPNet_String n) = Some email"
        using Cons.prems eq by (cases "seen (IPNet_String n)") auto
      ultimately show ?thesis
        using Some True by (auto simp: eq in_range_def Let_def fun_eq_iff)
    qed
  qed
qed

lemma collect_ips_err:
  "\<lbrakk>n \<in> set (nets_of c ips); seen (IPNet_String n) = Some e; e \<noteq> email\<rbrakk> \<Longrightarrow>
   \<exists>err. collect_ips (InterfaceNetworks (Some c)) email ips seen nets = Inl err"
proof (induction ips arbitrary: seen nets)
  case Nil
  then show ?case by (simp add: nets_of_def List.map_filter_simps)
next
  case (Cons ip ips)
  from Cons.prems(1) obtain m where m: "ParseCIDR ip = Some m"
    by (auto simp: nets_of_def List.map_filter_simps split: if_splits)
  with Cons.prems(1) have n: "n \<in> set (nets_of c ips) \<or> n = m \<and> in_range c m"
    by (auto simp: nets_of_def List.map_filter_simps split: if_splits)
  show ?case
  proof (cases "in_range c m \<and> IPNet_String m = IPNet_String n")
    case True
    with m Cons.prems show ?thesis by (simp add: in_range_def Let_def)
  next
    case False
    with n have "n \<in> set (nets_of c ips)" by auto
    note IH = Cons.IH [OF this _ Cons.prems(3)]
    from False m Cons.prems(2) show ?thesis
      by (auto simp: in_range_def Let_def split: option.split intro!: IH)
  qed
qed

text \<open>One user after those already collected.\<close>

lemma desired_of_snoc:
  "desired_of pk c (done @ [u]) =
     (if eligible pk c u \<and> desired_of pk c done (GetPublicKey u) = None
      then (desired_of pk c done)(GetPublicKey u \<mapsto> desired_peer pk c u) else desired_of pk c done)"
  by (auto simp: desired_of_def find_snoc fun_eq_iff split: option.split)

lemma owner_of_snoc:
  assumes "candidate pk c u" "\<forall>s \<in> claims c u. owner_of pk c done s = None"
  shows "owner_of pk c (done @ [u]) = (\<lambda>s. if s \<in> claims c u then Some (u_Email u) else owner_of pk c done s)"
  using assms by (auto simp: owner_of_def find_snoc fun_eq_iff split: option.split)

lemma owner_of_None:
  "owner_of pk c users s = None \<longleftrightarrow> (\<forall>v \<in> set users. candidate pk c v \<longrightarrow> s \<notin> claims c v)"
  by (auto simp: owner_of_def find_None_iff)

lemma desired_of_None:
  "desired_of pk c users k = None \<longleftrightarrow> (\<forall>v \<in> set users. eligible pk c v \<longrightarrow> GetPublicKey v \<noteq> k)"
  by (auto simp: desired_of_def find_None_iff)

lemma desired_of_Some:
  "desired_of pk c users k = Some d \<Longrightarrow>
   \<exists>u \<in> set users. eligible pk c u \<and> GetPublicKey u = k \<and> d = desired_peer pk c u"
  by (auto simp: desired_of_def find_Some_iff)

lemma owner_of_Some: "owner_of pk c users s = Some e \<Longrightarrow> e \<in> u_Email ` set users"
  by (auto simp: owner_of_def find_Some_iff)

lemma compatible_iff:
  "compatible pk c u v \<longleftrightarrow>
   \<not> (candidate pk c u \<and> (\<exists>s \<in> claims c u. candidate pk c v \<and> s \<in> claims c v)) \<and>
   \<not> (eligible pk c u \<and> eligible pk c v \<and> GetPublicKey u = GetPublicKey v)"
  by (auto simp: compatible_def)

definition fits_after :: "(string \<Rightarrow> Key option) \<Rightarrow> Config \<Rightarrow> User list \<Rightarrow> User \<Rightarrow> bool" where
  "fits_after pk c done u \<longleftrightarrow> (\<forall>v \<in> set done. compatible pk c v u)"

lemma fits_after_iff:
  "fits_after pk c done u \<longleftrightarrow>
     (candidate pk c u \<longrightarrow> (\<forall>s \<in> claims c u. owner_of pk c done s = None)) \<and>
     (eligible pk c u \<longrightarrow> desired_of pk c done (GetPublicKey u) = None)"
  unfolding fits_after_def compatible_iff owner_of_None desired_of_None by blast

lemma eligible_candidate: "eligible pk c u \<Longrightarrow> candidate pk c u"
  by (simp add: eligible_def)

text \<open>The loop takes a user that fits after those collected, and stops with an error otherwise.\<close>

lemma collect_users_step:
  assumes fits: "fits_after pk c done u"
  shows "collect_users pk c (u # us) (desired_of pk c done) (owner_of pk c done) =
    collect_users pk c us (desired_of pk c (done @ [u])) (owner_of pk c (done @ [u]))"
proof (cases "candidate pk c u")
  case False
  then have "owner_of pk c (done @ [u]) = owner_of pk c done"
    by (auto simp: owner_of_def find_snoc split: option.split)
  moreover have "desired_of pk c (done @ [u]) = desired_of pk c done"
    using False by (simp add: desired_of_snoc eligible_def)
  ultimately show ?thesis
    using False by (auto simp: candidate_def split: option.split)
next
  case True
  with fits have own: "\<forall>s \<in> claims c u. owner_of pk c done s = None"
    and key: "eligible pk c u \<Longrightarrow> desired_of pk c done (GetPublicKey u) = None"
    by (auto simp: fits_after_iff)
  have "collect_ips (InterfaceNetworks (Some c)) (u_Email u) (GetPeerIps u) (owner_of pk c done) [] =
      Inr (owner_of pk c (done @ [u]), bad_ips (GetPeerIps u), nets_of c (GetPeerIps u))"
    using own by (subst collect_ips_ok) (auto simp: claims_def owner_of_snoc [OF True own])
  with True key show ?thesis
    by (auto simp: candidate_def desired_of_snoc eligible_def desired_peer_def Let_def)
qed

lemma collect_users_stop:
  assumes "\<not> fits_after pk c done u" "u_Email u \<notin> u_Email ` set done"
  shows "\<exists>err. collect_users pk c (u # us) (desired_of pk c done) (owner_of pk c done) = Inl err"
proof -
  from assms(1) have cand: "candidate pk c u"
    by (auto simp: fits_after_iff dest: eligible_candidate)
  show ?thesis
  proof (cases "\<forall>s \<in> claims c u. owner_of pk c done s = None")
    case False
    then obtain n e where n: "n \<in> set (nets_of c (GetPeerIps u))"
      and e: "owner_of pk c done (IPNet_String n) = Some e" by (auto simp: claims_def)
    from e assms(2) have "e \<noteq> u_Email u" using owner_of_Some by metis
    from collect_ips_err [where seen = "owner_of pk c done" and nets = "[]", OF n e this] cand show ?thesis
      by (auto simp: candidate_def Let_def)
  next
    case True
    with assms(1) have el: "eligible pk c u" and "desired_of pk c done (GetPublicKey u) \<noteq> None"
      by (auto simp: fits_after_iff)
    then obtain v where v: "desired_of pk c done (GetPublicKey u) = Some (desired_peer pk c v)" "v \<in> set done"
      by (auto dest: desired_of_Some)
    have "collect_ips (InterfaceNetworks (Some c)) (u_Email u) (GetPeerIps u) (owner_of pk c done) [] =
      Inr (owner_of pk c (done @ [u]), bad_ips (GetPeerIps u), nets_of c (GetPeerIps u))"
      using True by (subst collect_ips_ok) (auto simp: claims_def owner_of_snoc [OF cand True])
    moreover have "u_Email v \<noteq> u_Email u" using v(2) assms(2) by (metis imageI)
    ultimately show ?thesis using el cand v(1)
      by (auto simp: candidate_def eligible_def desired_peer_def Let_def)
  qed
qed

fun all_fit :: "(string \<Rightarrow> Key option) \<Rightarrow> Config \<Rightarrow> User list \<Rightarrow> User list \<Rightarrow> bool" where
  "all_fit pk c done [] = True"
| "all_fit pk c done (u # us) = (fits_after pk c done u \<and> all_fit pk c (done @ [u]) us)"

lemma collect_users_all:
  "distinct (map u_Email (done @ us)) \<Longrightarrow>
   (if all_fit pk c done us
    then collect_users pk c us (desired_of pk c done) (owner_of pk c done) = Inr (desired_of pk c (done @ us))
    else \<exists>err. collect_users pk c us (desired_of pk c done) (owner_of pk c done) = Inl err)"
proof (induction us arbitrary: "done")
  case Nil
  then show ?case by simp
next
  case (Cons u us)
  show ?case
  proof (cases "fits_after pk c done u")
    case True
    from Cons.IH [of "done @ [u]"] Cons.prems True show ?thesis
      by (simp del: collect_users.simps add: collect_users_step [OF True])
  next
    case False
    from collect_users_stop [OF False, of us] Cons.prems False show ?thesis by auto
  qed
qed

text \<open>Any two users of the list agree with each other.\<close>

definition conflict_free :: "(string \<Rightarrow> Key option) \<Rightarrow> Config \<Rightarrow> User list \<Rightarrow> bool" where
  "conflict_free pk c us \<longleftrightarrow> sorted_wrt (compatible pk c) us"

lemma all_fit_iff: "sorted_wrt (compatible pk c) done \<Longrightarrow>
  all_fit pk c done us \<longleftrightarrow> sorted_wrt (compatible pk c) (done @ us)"
  by (induction us arbitrary: "done")
    (auto simp: fits_after_def sorted_wrt_append)

lemma collectDesiredPeers_spec:
  assumes "distinct (map u_Email us)"
  shows "conflict_free pk c us \<Longrightarrow> collectDesiredPeers pk c us = Inr (desired_of pk c us)"
    and "\<not> conflict_free pk c us \<Longrightarrow> \<exists>err. collectDesiredPeers pk c us = Inl err"
proof -
  have empty: "desired_of pk c [] = Map.empty" "owner_of pk c [] = Map.empty"
    by (auto simp: desired_of_def owner_of_def)
  have "all_fit pk c [] us = conflict_free pk c us"
    using all_fit_iff [of pk c "[]" us] by (simp add: conflict_free_def)
  with collect_users_all [of "[]" us pk c] assms empty
  show "conflict_free pk c us \<Longrightarrow> collectDesiredPeers pk c us = Inr (desired_of pk c us)"
    "\<not> conflict_free pk c us \<Longrightarrow> \<exists>err. collectDesiredPeers pk c us = Inl err"
    by (simp_all add: collectDesiredPeers_def split: if_splits)
qed

section \<open>The difference, characterised\<close>

text \<open>What the loops collect for one key.\<close>

definition upsert_of ::
  "(string \<rightharpoonup> PeerInfo) \<Rightarrow> (string \<rightharpoonup> PeerInfo) \<Rightarrow> (string \<rightharpoonup> PeerInfo)" where
  "upsert_of existing target k =
     (case target k of
        None \<Rightarrow> None
      | Some t \<Rightarrow>
          (case existing k of
             None \<Rightarrow> (if pi_AllowedIPs t = [] then None else Some t)
           | Some e \<Rightarrow>
               (if ipnets_equal e t then (if pi_Email e = pi_Email t then None else Some t)
                else if pi_AllowedIPs t = [] then None else Some t)))"

definition config_of ::
  "(string \<rightharpoonup> PeerInfo) \<Rightarrow> (string \<rightharpoonup> PeerInfo) \<Rightarrow> Key option \<Rightarrow> string \<Rightarrow> PeerConfig option" where
  "config_of existing target psk k =
     (case target k of
        None \<Rightarrow> None
      | Some t \<Rightarrow>
          (if pi_AllowedIPs t = [] then None
           else case existing k of
             None \<Rightarrow> Some (buildAddConfig (pi_PublicKey t) (pi_AllowedIPs t) psk)
           | Some e \<Rightarrow>
               (if ipnets_equal e t then None
                else Some ((buildAddConfig (pi_PublicKey t) (pi_AllowedIPs t) psk)\<lparr>pc_ReplaceAllowedIPs := True\<rparr>))))"

lemma fold_diff_existing:
  assumes "set ks \<subseteq> dom existing"
  shows "da_removeSet (fold (diff_existing existing target psk) ks acc) =
      (\<lambda>k. if k \<in> set ks \<and> target k = None then existing k else da_removeSet acc k)"
    and "da_upsertByKey (fold (diff_existing existing target psk) ks acc) =
      (\<lambda>k. if k \<in> set ks \<and> upsert_of existing target k \<noteq> None then upsert_of existing target k
           else da_upsertByKey acc k)"
    and "da_peerConfigs (fold (diff_existing existing target psk) ks acc) =
      da_peerConfigs acc @ List.map_filter (config_of existing target psk) ks"
  using assms
proof (induction ks arbitrary: acc)
  case (Cons k ks)
  { case 1
    with Cons(1) show ?case
      by (auto simp: fun_eq_iff diff_existing_def buildAddConfigFromPeerInfo_def split: option.split)
  next
    case 2
    with Cons(2) show ?case
      by (auto simp: fun_eq_iff diff_existing_def buildAddConfigFromPeerInfo_def upsert_of_def
          split: option.split)
  next
    case 3
    with Cons(3) show ?case
      by (auto simp: List.map_filter_simps diff_existing_def buildAddConfigFromPeerInfo_def config_of_def
          split: option.split) }
qed (simp_all add: List.map_filter_simps)

lemma fold_diff_target:
  assumes "set ks \<subseteq> dom target"
  shows "da_removeSet (fold (diff_target existing target psk) ks acc) = da_removeSet acc"
    and "da_upsertByKey (fold (diff_target existing target psk) ks acc) =
      (\<lambda>k. if k \<in> set ks \<and> existing k = None \<and> upsert_of existing target k \<noteq> None
           then upsert_of existing target k else da_upsertByKey acc k)"
    and "da_peerConfigs (fold (diff_target existing target psk) ks acc) =
      da_peerConfigs acc @ List.map_filter (config_of existing target psk) (filter (\<lambda>k. existing k = None) ks)"
  using assms
proof (induction ks arbitrary: acc)
  case (Cons k ks)
  { case 1
    with Cons(1) show ?case
      by (auto simp: diff_target_def buildAddConfigFromPeerInfo_def split: option.split)
  next
    case 2
    with Cons(2) show ?case
      by (auto simp: fun_eq_iff diff_target_def buildAddConfigFromPeerInfo_def upsert_of_def
          split: option.split)
  next
    case 3
    with Cons(3) show ?case
      by (auto simp: List.map_filter_simps diff_target_def buildAddConfigFromPeerInfo_def config_of_def
          split: option.split) }
qed (simp_all add: List.map_filter_simps)

lemma remove_configs_eq:
  "remove_configs pk keys =
     (filter (\<lambda>k. pk k \<noteq> None) keys, map buildRemoveConfig (List.map_filter pk keys))"
  by (induction keys) (auto simp: List.map_filter_simps split: option.split)

lemma target_configs_eq:
  "target_configs target psk keys =
     (List.map_filter (config_of Map.empty target psk) keys,
      {k \<in> set keys. config_of Map.empty target psk k \<noteq> None})"
  by (induction keys)
    (auto simp: List.map_filter_simps config_of_def buildAddConfigFromPeerInfo_def split: option.split)

text \<open>The difference; \<open>order\<close> is the order in which the two loops visit the keys.\<close>

definition diff_of ::
  "(string \<Rightarrow> Key option) \<Rightarrow> Key option \<Rightarrow> bool \<Rightarrow> string list \<Rightarrow> (string \<rightharpoonup> PeerInfo) \<Rightarrow>
   (string \<rightharpoonup> PeerInfo) \<Rightarrow> SyncDiff" where
  "diff_of pk psk awg order existing target =
     (let gone = sorted_list_of_set {k \<in> dom existing. target k = None};
          removes = filter (\<lambda>k. pk k \<noteq> None) gone;
          upserts = List.map_filter (upsert_of existing target)
            (sorted_list_of_set (dom (upsert_of existing target)))
      in \<lparr>sd_RemoveKeys = removes, sd_UpsertPeers = upserts,
          sd_PeerConfigs = setPeerAdvancedSecurity (List.map_filter (config_of existing target psk) order) awg @
            map buildRemoveConfig (List.map_filter pk gone),
          sd_TargetPeers = target, sd_Changed = (removes \<noteq> [] \<or> upserts \<noteq> [])\<rparr>)"

lemma buildSyncDiff_spec:
  assumes rng: "go_range rng" and fin: "finite (dom existing)" "finite (dom desired)"
    and c: "cache_ok pk c"
    and diff: "buildSyncDiff rng pk c existing desired = (r, c')"
  defines "target \<equiv> \<lambda>k. map_option target_peer (desired k)"
  defines "order \<equiv> rng 3 (dom existing) @ filter (\<lambda>k. existing k = None) (rng 4 (dom target))"
  shows "r = Inr (diff_of pk (psk_of pk c) (c_AmneziaWG c) order existing target)"
proof -
  obtain pskr where psk: "GetPreSharedKey pk c = (pskr, c')"
    using diff by (auto simp: buildSyncDiff_def Let_def split: prod.splits)
  note G = GetPreSharedKey_spec [OF c psk]
  have am: "c_AmneziaWG c' = c_AmneziaWG c" by (subst G(4)) simp
  have dt: "dom target = dom desired" by (auto simp: target_def)
  with fin have fint: "finite (dom target)" by simp
  let ?A0 = "\<lparr>da_removeSet = Map.empty, da_upsertByKey = Map.empty, da_peerConfigs = []\<rparr>"
  let ?A1 = "fold (diff_existing existing target (psk_of pk c)) (rng 3 (dom existing)) ?A0"
  let ?A2 = "fold (diff_target existing target (psk_of pk c)) (rng 4 (dom target)) ?A1"
  have s1: "set (rng 3 (dom existing)) \<subseteq> dom existing" and s2: "set (rng 4 (dom target)) \<subseteq> dom target"
    using rng fin fint by simp_all
  note F1 = fold_diff_existing [OF s1, of target "psk_of pk c" ?A0]
  note F2 = fold_diff_target [OF s2, of existing "psk_of pk c" ?A1]
  have R: "dom (da_removeSet ?A2) = {k \<in> dom existing. target k = None}"
    unfolding F2(1) F1(1) using rng fin by (auto split: if_splits)
  have U: "da_upsertByKey ?A2 = upsert_of existing target"
    unfolding F2(2) F1(2) using rng fin fint
    by (auto simp: fun_eq_iff upsert_of_def split: option.splits)
  have C: "da_peerConfigs ?A2 = List.map_filter (config_of existing target (psk_of pk c)) order"
    unfolding F2(3) F1(3) order_def by (simp add: map_filter_append)
  have finU: "finite (dom (upsert_of existing target))"
    by (rule finite_subset [OF _ fint]) (auto simp: upsert_of_def split: option.splits)
  have sorts: "sort (rng 2 (dom (da_removeSet ?A2))) = sorted_list_of_set {k \<in> dom existing. target k = None}"
    "sort (rng 5 (dom (upsert_of existing target))) = sorted_list_of_set (dom (upsert_of existing target))"
    using rng fin finU by (simp_all add: sort_range R)
  show ?thesis
    using diff
    by (simp add: buildSyncDiff_def Let_def psk G(2) am target_def [symmetric] U C sorts
        buildRemoveConfigsForPeers_def remove_configs_eq diff_of_def)
qed

end
