(* ===== verification/WGManager.thy ===== *)
theory WGManager
  imports WGSync
begin

text \<open>
  \<^verbatim>\<open>backend/wireguard/manager.go\<close>: the manager of the kernel interface. The calls it makes of the
  modules \<^verbatim>\<open>netlink\<close> and \<^verbatim>\<open>awgctrl-go\<close> are the fields of the record \<open>host\<close>, functions on a world
  of type \<open>'w\<close>; a call that can fail returns the error and the world after it. What the theorems
  rely on of these modules are the predicates \<open>link_laws\<close> and \<open>peer_laws\<close>; \<open>sim_host\<close> is a
  concrete host that satisfies both.
\<close>

section \<open>The host\<close>

record LinkInfo =
  ln_Name :: string
  ln_Type :: string
  ln_Statistics :: "(uint64 \<times> uint64) option"

record DevicePeer =
  dev_PublicKey :: Key
  dev_LastHandshakeTime :: gotime
  dev_Endpoint :: "IP option"
  dev_ReceiveBytes :: int64
  dev_TransmitBytes :: int64

type_synonym 'w call = "'w \<Rightarrow> go_error option \<times> 'w"

record 'w host =
  nl_ParseAddr :: "string \<Rightarrow> IPNet result"
  nl_LinkAdd :: "string \<Rightarrow> string \<Rightarrow> 'w call"
  nl_LinkByName :: "string \<Rightarrow> 'w \<Rightarrow> LinkInfo result"
  nl_AddrAdd :: "LinkInfo \<Rightarrow> IPNet \<Rightarrow> 'w call"
  nl_LinkSetUp :: "LinkInfo \<Rightarrow> 'w call"
  nl_LinkDel :: "LinkInfo \<Rightarrow> 'w call"
  ctl_New :: "'w call"
  ctl_ConfigureDevice :: "string \<Rightarrow> DeviceConfig \<Rightarrow> 'w call"
  ctl_Device :: "string \<Rightarrow> 'w \<Rightarrow> DevicePeer list result"
  ctl_Close :: "'w call"

section \<open>The manager\<close>

text \<open>\<open>m_client\<close> says whether the control client is open (the pointer is not nil).\<close>

record Manager =
  m_client :: bool
  m_iFaceName :: string
  m_amneziaWG :: bool
  m_awgConfig :: DeviceConfig

definition permission_text :: string where
  "permission_text = '': permission denied; WireGuard requires CAP_NET_ADMIN and kernel support on the host (if running in Docker, add NET_ADMIN and ensure the wireguard kernel module is available on the host): ''"

definition wrapPermissionDeniedError :: "string \<Rightarrow> go_error \<Rightarrow> go_error" where
  "wrapPermissionDeniedError action err =
     (if err_is EPERM err \<or> err_is EACCES err then Errorf_w (action @ permission_text) err else err)"

definition NewManager :: "'w host \<Rightarrow> string \<Rightarrow> 'w \<Rightarrow> Manager result \<times> 'w" where
  "NewManager h interfaceName w =
     (case ctl_New h w of
        (Some err, w') \<Rightarrow> (Inl (Errorf_w ''failed to create wgctrl client: '' err), w')
      | (None, w') \<Rightarrow> (Inr \<lparr>m_client = True, m_iFaceName = interfaceName, m_amneziaWG = False,
                         m_awgConfig = empty_device_config\<rparr>, w'))"

definition NewAmneziaManager ::
  "'w host \<Rightarrow> (DeviceConfig \<Rightarrow> go_error option) \<Rightarrow> string \<Rightarrow> Config option \<Rightarrow> 'w \<Rightarrow> Manager result \<times> 'w" where
  "NewAmneziaManager h Validate interfaceName config w =
     (if (case config of None \<Rightarrow> True | Some c \<Rightarrow> \<not> c_AmneziaWG c)
      then (Inl (errors_New ''AmneziaWG manager requires an AmneziaWG configuration''), w)
      else case buildAmneziaDeviceConfig Validate config of
             Inl err \<Rightarrow> (Inl err, w)
           | Inr awgConfig \<Rightarrow>
               (case ctl_New h w of
                  (Some err, w') \<Rightarrow> (Inl (Errorf_w ''failed to create AmneziaWG control client: '' err), w')
                | (None, w') \<Rightarrow> (Inr \<lparr>m_client = True, m_iFaceName = interfaceName, m_amneziaWG = True,
                                   m_awgConfig = awgConfig\<rparr>, w')))"

definition buildInitialWGConfig :: "Key \<Rightarrow> int \<Rightarrow> PeerConfig list \<Rightarrow> DeviceConfig" where
  "buildInitialWGConfig privateKey listenPort peers =
     (let config = empty_device_config\<lparr>dc_PrivateKey := Some privateKey, dc_ListenPort := Some listenPort\<rparr>
      in if peers \<noteq> [] then config\<lparr>dc_Peers := peers, dc_ReplacePeers := True\<rparr> else config)"

definition mergeAmneziaDeviceConfig :: "DeviceConfig \<Rightarrow> DeviceConfig \<Rightarrow> DeviceConfig" where
  "mergeAmneziaDeviceConfig dst src = dst\<lparr>dc_awg := dc_awg src\<rparr>"

definition cleanupExistingInterface :: "'w host \<Rightarrow> Manager \<Rightarrow> 'w call" where
  "cleanupExistingInterface h m w =
     (case nl_LinkByName h (m_iFaceName m) w of
        Inl err \<Rightarrow>
          (if err_is LinkNotFoundError err then (None, w)
           else (Some (Errorf_w ''link lookup: '' err), w))
      | Inr link \<Rightarrow>
          (case nl_LinkDel h link w of
             (Some err, w') \<Rightarrow>
               (Some (Errorf_w ''link delete: ''
                  (wrapPermissionDeniedError ''deleting wireguard interface'' err)), w')
           | (None, w') \<Rightarrow> (None, w')))"

fun parse_addrs :: "'w host \<Rightarrow> string list \<Rightarrow> IPNet list result" where
  "parse_addrs h [] = Inr []"
| "parse_addrs h (ipStr # ips) =
     (case nl_ParseAddr h ipStr of
        Inl err \<Rightarrow> Inl (Errorf_w (''failed to parse address '' @ ipStr @ '': '') err)
      | Inr addr \<Rightarrow>
          (case parse_addrs h ips of Inl err \<Rightarrow> Inl err | Inr addrs \<Rightarrow> Inr (addr # addrs)))"

fun add_addrs :: "'w host \<Rightarrow> LinkInfo \<Rightarrow> IPNet list \<Rightarrow> 'w call" where
  "add_addrs h link [] w = (None, w)"
| "add_addrs h link (addr # addrs) w =
     (case nl_AddrAdd h link addr w of
        (Some err, w') \<Rightarrow>
          (Some (Errorf_w (''failed to add address '' @ IPNet_String addr @ '': '')
             (wrapPermissionDeniedError ''assigning wireguard interface address'' err)), w')
      | (None, w') \<Rightarrow> add_addrs h link addrs w')"

text \<open>The steps after the link was added; on an error the deferred cleanup runs.\<close>

definition configure_link ::
  "'w host \<Rightarrow> Manager \<Rightarrow> Key \<Rightarrow> int \<Rightarrow> IPNet list \<Rightarrow> PeerConfig list \<Rightarrow> 'w call" where
  "configure_link h m privateKey listenPort parsedAddrs peers w =
     (let config0 = buildInitialWGConfig privateKey listenPort peers;
          config = (if m_amneziaWG m then mergeAmneziaDeviceConfig config0 (m_awgConfig m) else config0)
      in case ctl_ConfigureDevice h (m_iFaceName m) config w of
           (Some err, w1) \<Rightarrow>
             (Some (Errorf_w ''failed to configure device: ''
                (wrapPermissionDeniedError ''configuring wireguard device'' err)), w1)
         | (None, w1) \<Rightarrow>
             (case nl_LinkByName h (m_iFaceName m) w1 of
                Inl err \<Rightarrow> (Some (Errorf_w ''failed to get link: '' err), w1)
              | Inr link2 \<Rightarrow>
                  (case add_addrs h link2 parsedAddrs w1 of
                     (Some err, w2) \<Rightarrow> (Some err, w2)
                   | (None, w2) \<Rightarrow>
                       (case nl_LinkSetUp h link2 w2 of
                          (Some err, w3) \<Rightarrow>
                            (Some (Errorf_w ''failed to bring up interface: ''
                               (wrapPermissionDeniedError ''bringing wireguard interface up'' err)), w3)
                        | (None, w3) \<Rightarrow> (None, w3)))))"

definition link_type :: "Manager \<Rightarrow> string" where
  "link_type m = (if m_amneziaWG m then ''amneziawg'' else ''wireguard'')"

definition link_add_error :: "Manager \<Rightarrow> go_error \<Rightarrow> go_error" where
  "link_add_error m err =
     (if m_amneziaWG m
      then Errorf_w (''failed to create AmneziaWG interface '' @ quoted (m_iFaceName m) @ ''; ensure the host kernel has the AmneziaWG module installed and loaded (modprobe amneziawg): '') err
      else Errorf_w ''failed to add link: '' (wrapPermissionDeniedError ''creating wireguard interface'' err))"

definition InitializeWithPeers ::
  "'w host \<Rightarrow> Manager \<Rightarrow> Key \<Rightarrow> int \<Rightarrow> string list \<Rightarrow> PeerConfig list \<Rightarrow> 'w call" where
  "InitializeWithPeers h m privateKey listenPort serverIPs peers w =
     (if \<not> m_client m then (Some (errors_New ''wgctrl client is not initialized''), w)
      else case parse_addrs h serverIPs of
             Inl err \<Rightarrow> (Some err, w)
           | Inr parsedAddrs \<Rightarrow>
               (case cleanupExistingInterface h m w of
                  (Some err, w1) \<Rightarrow> (Some (Errorf_w ''failed to cleanup existing interface: '' err), w1)
                | (None, w1) \<Rightarrow>
                    (case nl_LinkAdd h (m_iFaceName m) (link_type m) w1 of
                       (Some err, w2) \<Rightarrow> (Some (link_add_error m err), w2)
                     | (None, w2) \<Rightarrow>
                         (case configure_link h m privateKey listenPort parsedAddrs peers w2 of
                            (Some err, w3) \<Rightarrow> (Some err, snd (cleanupExistingInterface h m w3))
                          | (None, w3) \<Rightarrow> (None, w3)))))"

definition ApplyPeers :: "'w host \<Rightarrow> Manager \<Rightarrow> PeerConfig list \<Rightarrow> 'w call" where
  "ApplyPeers h m peers w =
     (if peers = [] then (None, w)
      else if \<not> m_client m then (Some (errors_New ''wgctrl client is not initialized''), w)
      else ctl_ConfigureDevice h (m_iFaceName m) (empty_device_config\<lparr>dc_Peers := peers\<rparr>) w)"

definition ApplyPeersReplaceAll :: "'w host \<Rightarrow> Manager \<Rightarrow> PeerConfig list \<Rightarrow> 'w call" where
  "ApplyPeersReplaceAll h m peers w =
     (if \<not> m_client m then (Some (errors_New ''wgctrl client is not initialized''), w)
      else ctl_ConfigureDevice h (m_iFaceName m)
             (empty_device_config\<lparr>dc_Peers := peers, dc_ReplacePeers := True\<rparr>) w)"

definition ApplyConfig :: "'w host \<Rightarrow> Manager \<Rightarrow> DeviceConfig \<Rightarrow> 'w call" where
  "ApplyConfig h m config w =
     (if \<not> m_client m then (Some (errors_New ''wgctrl client is not initialized''), w)
      else ctl_ConfigureDevice h (m_iFaceName m)
             (if m_amneziaWG m then mergeAmneziaDeviceConfig config (m_awgConfig m) else config) w)"

definition GetDevice :: "'w host \<Rightarrow> Manager \<Rightarrow> 'w \<Rightarrow> DevicePeer list result" where
  "GetDevice h m w =
     (if \<not> m_client m then Inl (errors_New ''wgctrl client is not initialized'')
      else ctl_Device h (m_iFaceName m) w)"

definition errors_Join :: "go_error list \<Rightarrow> go_error" where
  "errors_Join errs = GoErr Plain (Join (map Error_text errs) nl) None"

definition Manager_Close :: "'w host \<Rightarrow> Manager \<Rightarrow> 'w \<Rightarrow> go_error option \<times> Manager \<times> 'w" where
  "Manager_Close h m w =
     (let m' = m\<lparr>m_client := False\<rparr>;
          (errs1, w1) = (if m_client m
                         then (case ctl_Close h w of
                                 (Some err, w') \<Rightarrow> ([Errorf_w ''client close: '' err], w')
                               | (None, w') \<Rightarrow> ([], w'))
                         else ([], w));
          (cerr, w2) = cleanupExistingInterface h m' w1;
          errs = errs1 @ (case cerr of None \<Rightarrow> [] | Some err \<Rightarrow> [err])
      in (if errs \<noteq> [] then Some (errors_Join errs) else None, m', w2))"

definition GetInterfaceStats :: "'w host \<Rightarrow> Manager \<Rightarrow> 'w \<Rightarrow> (int64 \<times> int64) result" where
  "GetInterfaceStats h m w =
     (case nl_LinkByName h (m_iFaceName m) w of
        Inl err \<Rightarrow> Inl (Errorf_w ''failed to get link: '' err)
      | Inr link \<Rightarrow>
          (case ln_Statistics link of
             None \<Rightarrow> Inr (0, 0)
           | Some (rx, tx) \<Rightarrow> Inr (rx, tx)))"

section \<open>What the manager relies on\<close>

text \<open>
  Netlink: a link that was looked up carries the name that was asked for; deleting it succeeds and
  then the name is not found; adding a link fails without adding it when it fails.
\<close>

definition link_gone :: "'w host \<Rightarrow> string \<Rightarrow> 'w \<Rightarrow> bool" where
  "link_gone h name w \<longleftrightarrow> (\<exists>err. nl_LinkByName h name w = Inl err \<and> err_is LinkNotFoundError err)"

definition link_laws :: "'w host \<Rightarrow> bool" where
  "link_laws h \<longleftrightarrow>
     (\<forall>name w l. nl_LinkByName h name w = Inr l \<longrightarrow>
        fst (nl_LinkDel h l w) = None \<and> link_gone h name (snd (nl_LinkDel h l w))) \<and>
     (\<forall>name w err. nl_LinkByName h name w = Inl err \<longrightarrow> err_is LinkNotFoundError err) \<and>
     (\<forall>name ty w err w'. nl_LinkAdd h name ty w = (Some err, w') \<longrightarrow> w' = w)"

text \<open>
  WireGuard: a peer configuration removes its peer, or gives it its allowed addresses (in addition
  to, or in place of, those it had), and an address it gets is taken from every other peer; a
  device configuration applies its peers in order, to an empty table when it replaces the peers.
  \<open>kp w name\<close> is the peer table of the interface \<open>name\<close>, by key, as printed prefixes.
\<close>

type_synonym peer_table = "Key \<rightharpoonup> string set"

definition net_strings :: "IPNet list \<Rightarrow> string set" where
  "net_strings nets = IPNet_String ` set nets"

definition apply_peer :: "PeerConfig \<Rightarrow> peer_table \<Rightarrow> peer_table" where
  "apply_peer p m =
     (if pc_Remove p then m(pc_PublicKey p := None)
      else (\<lambda>k. if k = pc_PublicKey p
                then Some (net_strings (pc_AllowedIPs p) \<union>
                       (if pc_ReplaceAllowedIPs p then {} else case m k of None \<Rightarrow> {} | Some s \<Rightarrow> s))
                else map_option (\<lambda>s. s - net_strings (pc_AllowedIPs p)) (m k)))"

definition device_peers :: "DeviceConfig \<Rightarrow> peer_table \<Rightarrow> peer_table" where
  "device_peers cfg m = fold apply_peer (dc_Peers cfg) (if dc_ReplacePeers cfg then Map.empty else m)"

definition peer_laws :: "'w host \<Rightarrow> ('w \<Rightarrow> string \<Rightarrow> peer_table) \<Rightarrow> bool" where
  "peer_laws h kp \<longleftrightarrow>
     (\<forall>name cfg w w'. ctl_ConfigureDevice h name cfg w = (None, w') \<longrightarrow>
        kp w' name = device_peers cfg (kp w name))"

lemma peer_lawsD:
  "peer_laws h kp \<Longrightarrow> ctl_ConfigureDevice h name cfg w = (None, w') \<Longrightarrow>
   kp w' name = device_peers cfg (kp w name)"
  by (simp add: peer_laws_def)

lemma link_lawsD:
  assumes "link_laws h"
  shows "nl_LinkByName h name w = Inr l \<Longrightarrow> \<exists>w'. nl_LinkDel h l w = (None, w') \<and> link_gone h name w'"
    and "nl_LinkByName h name w = Inl err \<Longrightarrow> err_is LinkNotFoundError err"
    and "nl_LinkAdd h name ty w = (Some err, w') \<Longrightarrow> w' = w"
  using assms unfolding link_laws_def by (metis prod.collapse, blast+)

section \<open>A concrete host\<close>

record sim_link =
  sl_type :: string
  sl_up :: bool
  sl_addrs :: "IPNet list"
  sl_peers :: peer_table

record sim =
  sim_links :: "string \<rightharpoonup> sim_link"
  sim_fail :: "string list"

definition sim_step :: "string \<Rightarrow> (sim \<Rightarrow> sim) \<Rightarrow> sim call" where
  "sim_step call f w = (if call \<in> set (sim_fail w) then (Some (GoErr EPERM call None), w) else (None, f w))"

definition sim_upd :: "string \<Rightarrow> (sim_link \<Rightarrow> sim_link) \<Rightarrow> sim \<Rightarrow> sim" where
  "sim_upd name f w = w\<lparr>sim_links := (sim_links w)(name := map_option f (sim_links w name))\<rparr>"

definition sim_host :: "sim host" where
  "sim_host = \<lparr>
     nl_ParseAddr = (\<lambda>s. case ParseCIDR s of None \<Rightarrow> Inl (errors_New s) | Some n \<Rightarrow> Inr n),
     nl_LinkAdd = (\<lambda>name ty. sim_step ''LinkAdd'' (\<lambda>w. w\<lparr>sim_links := (sim_links w)(name \<mapsto>
        \<lparr>sl_type = ty, sl_up = False, sl_addrs = [], sl_peers = Map.empty\<rparr>)\<rparr>)),
     nl_LinkByName = (\<lambda>name w. case sim_links w name of
         None \<Rightarrow> Inl (GoErr LinkNotFoundError ''Link not found'' None)
       | Some l \<Rightarrow> Inr \<lparr>ln_Name = name, ln_Type = sl_type l, ln_Statistics = None\<rparr>),
     nl_AddrAdd = (\<lambda>l a. sim_step ''AddrAdd'' (sim_upd (ln_Name l) (\<lambda>x. x\<lparr>sl_addrs := a # sl_addrs x\<rparr>))),
     nl_LinkSetUp = (\<lambda>l. sim_step ''LinkSetUp'' (sim_upd (ln_Name l) (\<lambda>x. x\<lparr>sl_up := True\<rparr>))),
     nl_LinkDel = (\<lambda>l w. (None, w\<lparr>sim_links := (sim_links w)(ln_Name l := None)\<rparr>)),
     ctl_New = sim_step ''New'' (\<lambda>w. w),
     ctl_ConfigureDevice = (\<lambda>name cfg w. if sim_links w name = None then (Some (errors_New name), w)
        else sim_step ''Configure'' (sim_upd name (\<lambda>x. x\<lparr>sl_peers := device_peers cfg (sl_peers x)\<rparr>)) w),
     ctl_Device = (\<lambda>name w. Inr []),
     ctl_Close = sim_step ''Close'' (\<lambda>w. w)\<rparr>"

definition sim_peers :: "sim \<Rightarrow> string \<Rightarrow> peer_table" where
  "sim_peers w name = (case sim_links w name of None \<Rightarrow> Map.empty | Some l \<Rightarrow> sl_peers l)"

lemma sim_link_laws [simp]: "link_laws sim_host"
  by (auto simp: link_laws_def link_gone_def sim_host_def sim_step_def split: option.splits if_splits)

lemma sim_peer_laws [simp]: "peer_laws sim_host sim_peers"
  by (auto simp: peer_laws_def sim_host_def sim_step_def sim_peers_def sim_upd_def split: if_splits option.splits)

section \<open>Applying peer configurations\<close>

lemma apply_peer_security [simp]: "apply_peer (p\<lparr>pc_AdvancedSecurity := b\<rparr>) = apply_peer p"
  by (simp add: apply_peer_def fun_eq_iff)

lemma fold_apply_security [simp]:
  "fold apply_peer (setPeerAdvancedSecurity ps b) m = fold apply_peer ps m"
  by (induction ps arbitrary: m) (simp_all add: setPeerAdvancedSecurity_def)

lemma fold_apply_removes:
  "fold apply_peer (map buildRemoveConfig ks) m = m |` (- set ks)"
  by (induction ks arbitrary: m)
    (auto simp: apply_peer_def buildRemoveConfig_def restrict_map_def fun_eq_iff)

text \<open>
  A batch that adds or replaces: no two of its configurations share a key or an address.
\<close>

definition pc_nets :: "PeerConfig \<Rightarrow> string set" where
  "pc_nets p = net_strings (pc_AllowedIPs p)"

definition clean_batch :: "PeerConfig list \<Rightarrow> bool" where
  "clean_batch ps \<longleftrightarrow> (\<forall>p \<in> set ps. \<not> pc_Remove p) \<and>
     sorted_wrt (\<lambda>p q. pc_PublicKey p \<noteq> pc_PublicKey q \<and> pc_nets p \<inter> pc_nets q = {}) ps"

lemma fold_apply_clean_all:
  "clean_batch ps \<Longrightarrow> \<forall>p \<in> set ps. \<not> pc_ReplaceAllowedIPs p \<longrightarrow> m (pc_PublicKey p) = None \<Longrightarrow>
   (\<forall>p \<in> set ps. fold apply_peer ps m (pc_PublicKey p) = Some (pc_nets p)) \<and>
   (\<forall>k. k \<notin> pc_PublicKey ` set ps \<longrightarrow>
      fold apply_peer ps m k = map_option (\<lambda>s. s - \<Union> (pc_nets ` set ps)) (m k))"
proof (induction ps arbitrary: m)
  case Nil
  then show ?case by (simp add: option.map_ident)
next
  case (Cons q ps)
  let ?m = "apply_peer q m"
  from Cons.prems have q: "\<not> pc_Remove q" and ps: "clean_batch ps"
    and dj: "\<forall>p \<in> set ps. pc_PublicKey p \<noteq> pc_PublicKey q \<and> pc_nets q \<inter> pc_nets p = {}"
    by (auto simp: clean_batch_def)
  have "\<forall>p \<in> set ps. \<not> pc_ReplaceAllowedIPs p \<longrightarrow> ?m (pc_PublicKey p) = None"
    using Cons.prems(2) q dj by (auto simp: apply_peer_def)
  note IH = Cons.IH [OF ps this]
  have own: "?m (pc_PublicKey q) = Some (pc_nets q)"
    using Cons.prems(2) q by (auto simp: apply_peer_def pc_nets_def)
  have other: "?m k = map_option (\<lambda>s. s - pc_nets q) (m k)" if "k \<noteq> pc_PublicKey q" for k
    using that q by (simp add: apply_peer_def pc_nets_def)
  have "pc_PublicKey q \<notin> pc_PublicKey ` set ps" using dj by auto
  with IH own have "fold apply_peer ps ?m (pc_PublicKey q) = Some (pc_nets q - \<Union> (pc_nets ` set ps))"
    by simp
  also have "pc_nets q - \<Union> (pc_nets ` set ps) = pc_nets q" using dj by auto
  finally have first: "fold apply_peer ps ?m (pc_PublicKey q) = Some (pc_nets q)" .
  have rest: "fold apply_peer ps ?m k = map_option (\<lambda>s. s - \<Union> (pc_nets ` set (q # ps))) (m k)"
    if "k \<notin> pc_PublicKey ` set (q # ps)" for k
    using that IH other [of k] by (cases "m k") auto
  show ?case using IH first rest by simp
qed

lemma fold_apply_clean:
  assumes "clean_batch ps" "\<forall>p \<in> set ps. \<not> pc_ReplaceAllowedIPs p \<longrightarrow> m (pc_PublicKey p) = None"
  shows "p \<in> set ps \<Longrightarrow> fold apply_peer ps m (pc_PublicKey p) = Some (pc_nets p)"
    and "k \<notin> pc_PublicKey ` set ps \<Longrightarrow>
      fold apply_peer ps m k = map_option (\<lambda>s. s - \<Union> (pc_nets ` set ps)) (m k)"
  using fold_apply_clean_all [OF assms] by blast+

section \<open>The interface the synchronisation uses\<close>

text \<open>
  A device whose peers can be updated or replaced: when a call succeeds, the table is the fold of
  the configurations over the old table, or over the empty one.
\<close>

locale peer_device =
  fixes inv :: bool
    and update :: "PeerConfig list \<Rightarrow> 's call"
    and replace_all :: "PeerConfig list \<Rightarrow> 's call"
    and table :: "'s \<Rightarrow> peer_table"
  assumes update_table: "inv \<Longrightarrow> update ps s = (None, s') \<Longrightarrow> table s' = fold apply_peer ps (table s)"
    and replace_table: "inv \<Longrightarrow> replace_all ps s = (None, s') \<Longrightarrow> table s' = fold apply_peer ps Map.empty"
begin

lemma replace_exact:
  assumes "inv" "clean_batch ps" "replace_all (setPeerAdvancedSecurity ps b) s = (None, s')"
  shows "p \<in> set ps \<Longrightarrow> table s' (pc_PublicKey p) = Some (pc_nets p)"
    and "k \<notin> pc_PublicKey ` set ps \<Longrightarrow> table s' k = None"
proof -
  have t: "table s' = fold apply_peer ps Map.empty"
    using replace_table [OF assms(1,3)] by simp
  show "p \<in> set ps \<Longrightarrow> table s' (pc_PublicKey p) = Some (pc_nets p)"
    unfolding t by (rule fold_apply_clean(1) [OF assms(2)]) simp_all
  show "table s' k = None" if "k \<notin> pc_PublicKey ` set ps"
    unfolding t using fold_apply_clean(2) [OF assms(2) _ that, of Map.empty] by simp
qed

lemma update_exact:
  assumes "inv" "clean_batch ps" "\<forall>p \<in> set ps. \<not> pc_ReplaceAllowedIPs p \<longrightarrow> table s (pc_PublicKey p) = None"
    and "update (setPeerAdvancedSecurity ps b @ map buildRemoveConfig rs) s = (None, s')"
  shows "k \<in> set rs \<Longrightarrow> table s' k = None"
    and "p \<in> set ps \<Longrightarrow> pc_PublicKey p \<notin> set rs \<Longrightarrow> table s' (pc_PublicKey p) = Some (pc_nets p)"
    and "k \<notin> set rs \<Longrightarrow> k \<notin> pc_PublicKey ` set ps \<Longrightarrow>
      table s' k = map_option (\<lambda>ns. ns - \<Union> (pc_nets ` set ps)) (table s k)"
proof -
  have t: "table s' = fold apply_peer ps (table s) |` (- set rs)"
    using update_table [OF assms(1,4)] by (simp add: fold_apply_removes)
  show "k \<in> set rs \<Longrightarrow> table s' k = None" by (simp add: t)
  show "p \<in> set ps \<Longrightarrow> pc_PublicKey p \<notin> set rs \<Longrightarrow> table s' (pc_PublicKey p) = Some (pc_nets p)"
    using fold_apply_clean(1) [OF assms(2,3)] by (simp add: t)
  show "k \<notin> set rs \<Longrightarrow> k \<notin> pc_PublicKey ` set ps \<Longrightarrow>
      table s' k = map_option (\<lambda>ns. ns - \<Union> (pc_nets ` set ps)) (table s k)"
    using fold_apply_clean(2) [OF assms(2,3)] by (simp add: t)
qed

end

interpretation mgr: peer_device "peer_laws h kp" "ApplyPeers h m" "ApplyPeersReplaceAll h m"
  "\<lambda>w. kp w (m_iFaceName m)" for h kp m
proof (unfold_locales, goal_cases)
  case (1 ps s s')
  then show ?case
    by (auto simp: ApplyPeers_def device_peers_def empty_device_config_def split: if_splits dest: peer_lawsD)
next
  case (2 ps s s')
  then show ?case
    by (auto simp: ApplyPeersReplaceAll_def device_peers_def empty_device_config_def split: if_splits
        dest: peer_lawsD)
qed

section \<open>The interface goes when the set-up fails\<close>

lemma cleanup_gone:
  assumes "link_laws h"
  shows "\<exists>w'. cleanupExistingInterface h m w = (None, w') \<and> link_gone h (m_iFaceName m) w'"
proof (cases "nl_LinkByName h (m_iFaceName m) w")
  case (Inl err)
  with link_lawsD(2) [OF assms Inl] show ?thesis
    by (auto simp: cleanupExistingInterface_def link_gone_def)
next
  case (Inr l)
  with link_lawsD(1) [OF assms Inr] show ?thesis
    by (auto simp: cleanupExistingInterface_def)
qed

end
