(* ===== verification/Ledger.thy ===== *)
theory Ledger
  imports Prelude
begin

text \<open>
  Runs of a component whose steps are functions, and the accounting contract of a traffic
  counter: a step credits an amount, drains an amount to its caller and keeps the rest pending.
  The locale proves once that over every run what was credited was drained or is pending.
\<close>

fun run :: "('op \<Rightarrow> 's \<Rightarrow> 's) \<Rightarrow> 'op list \<Rightarrow> 's \<Rightarrow> 's" where
  "run step [] s = s"
| "run step (x # xs) s = run step xs (step x s)"

text \<open>The sum over a run of an amount \<open>f\<close> that each step has in the state it starts from.\<close>

fun total :: "('op \<Rightarrow> 's \<Rightarrow> 's) \<Rightarrow> ('op \<Rightarrow> 's \<Rightarrow> nat) \<Rightarrow> 'op list \<Rightarrow> 's \<Rightarrow> nat" where
  "total step f [] s = 0"
| "total step f (x # xs) s = f x s + total step f xs (step x s)"

fun run_ok :: "('op \<Rightarrow> 's \<Rightarrow> 's) \<Rightarrow> ('op \<Rightarrow> 's \<Rightarrow> bool) \<Rightarrow> 'op list \<Rightarrow> 's \<Rightarrow> bool" where
  "run_ok step ok [] s = True"
| "run_ok step ok (x # xs) s = (ok x s \<and> run_ok step ok xs (step x s))"

locale ledger =
  fixes step :: "'op \<Rightarrow> 's \<Rightarrow> 's"
    and inv :: "'s \<Rightarrow> bool"
    and ok :: "'op \<Rightarrow> 's \<Rightarrow> bool"
    and pending :: "'s \<Rightarrow> nat"
    and drained :: "'op \<Rightarrow> 's \<Rightarrow> nat"
    and credited :: "'op \<Rightarrow> 's \<Rightarrow> nat"
  assumes step_inv: "inv s \<Longrightarrow> ok x s \<Longrightarrow> inv (step x s)"
    and balance: "inv s \<Longrightarrow> ok x s \<Longrightarrow>
      pending (step x s) + drained x s = pending s + credited x s"
begin

lemma run_inv: "inv s \<Longrightarrow> run_ok step ok xs s \<Longrightarrow> inv (run step xs s)"
  by (induction xs arbitrary: s) (simp_all add: step_inv)

lemma run_balance:
  "inv s \<Longrightarrow> run_ok step ok xs s \<Longrightarrow>
   pending (run step xs s) + total step drained xs s = pending s + total step credited xs s"
proof (induction xs arbitrary: s)
  case Nil
  then show ?case by simp
next
  case (Cons x xs)
  then have "pending (run step xs (step x s)) + total step drained xs (step x s) =
      pending (step x s) + total step credited xs (step x s)"
    by (simp add: step_inv)
  moreover have "pending (step x s) + drained x s = pending s + credited x s"
    using Cons.prems by (simp add: balance)
  ultimately show ?case by simp
qed

lemma run_drained_le:
  "inv s \<Longrightarrow> run_ok step ok xs s \<Longrightarrow>
   total step drained xs s \<le> pending s + total step credited xs s"
  using run_balance by (metis le_add2)

end

end
