(* ===== verification/StatsTracker.thy ===== *)
theory StatsTracker
  imports NodeMessages Ledger
begin

text \<open>
  \<^verbatim>\<open>pkg/stats/tracker.go\<close> and \<^verbatim>\<open>pkg/stats/interface_counters.go\<close>: the traffic counters of the
  WireGuard peers and of the interface. Counters are 64-bit words and differences wrap around
  as in Go. The locale \<open>ledger\<close> is the accounting contract (what is credited is reported or
  still pending); it is interpreted on the tracker, per key and direction, and on the
  interface counters.
\<close>

section \<open>Entries and samples\<close>

record Entry =
  e_Email :: string
  e_CurrentRx :: int64
  e_CurrentTx :: int64
  e_BaseRx :: int64
  e_BaseTx :: int64
  e_LastDeltaRx :: int64
  e_LastDeltaTx :: int64
  e_LastActiveTime :: gotime
  e_EndpointIP :: string
  e_IsDeleted :: bool

record Sample =
  s_PublicKey :: string
  s_Email :: string
  s_Rx :: int64
  s_Tx :: int64
  s_EndpointIP :: string

text \<open>A Go map of pointers to entries; no entry is shared outside the tracker.\<close>

type_synonym Tracker = "string \<rightharpoonup> Entry"

definition stats_New :: Tracker where
  "stats_New = Map.empty"

definition new_entry :: "string \<Rightarrow> Entry" where
  "new_entry email = \<lparr>e_Email = email, e_CurrentRx = 0, e_CurrentTx = 0, e_BaseRx = 0, e_BaseTx = 0,
     e_LastDeltaRx = 0, e_LastDeltaTx = 0, e_LastActiveTime = time_zero, e_EndpointIP = [],
     e_IsDeleted = False\<rparr>"

section \<open>Samples\<close>

text \<open>The steps of \<^verbatim>\<open>applySampleLocked\<close> on the entry, in the order of the source.\<close>

definition readded :: "Entry \<Rightarrow> bool" where
  "readded e \<longleftrightarrow> e_LastDeltaRx e \<noteq> 0 \<or> e_LastDeltaTx e \<noteq> 0"

definition restore_baseline :: "Sample \<Rightarrow> Entry \<Rightarrow> Entry" where
  "restore_baseline s e =
     (if readded e
      then e\<lparr>e_BaseRx := s_Rx s - e_LastDeltaRx e, e_BaseTx := s_Tx s - e_LastDeltaTx e,
             e_LastDeltaRx := 0, e_LastDeltaTx := 0\<rparr>
      else e)"

definition rolled_back :: "Sample \<Rightarrow> Entry \<Rightarrow> bool" where
  "rolled_back s e \<longleftrightarrow> i64_lt (s_Rx s) (e_CurrentRx e) \<or> i64_lt (s_Tx s) (e_CurrentTx e)"

definition clamp0 :: "int64 \<Rightarrow> int64" where
  "clamp0 d = (if i64_lt d 0 then 0 else d)"

definition rebase :: "Sample \<Rightarrow> Entry \<Rightarrow> Entry" where
  "rebase s e =
     (let pendingRx = clamp0 (e_CurrentRx e - e_BaseRx e);
          pendingTx = clamp0 (e_CurrentTx e - e_BaseTx e)
      in e\<lparr>e_BaseRx := s_Rx s - pendingRx, e_BaseTx := s_Tx s - pendingTx\<rparr>)"

definition update_entry :: "Sample \<Rightarrow> gotime \<Rightarrow> Entry \<Rightarrow> Entry" where
  "update_entry s activeAt e0 =
     (let e1 = e0\<lparr>e_Email := s_Email s, e_IsDeleted := False\<rparr>;
          e2 = restore_baseline s e1
      in if e_CurrentRx e2 = s_Rx s \<and> e_CurrentTx e2 = s_Tx s
         then e2\<lparr>e_EndpointIP := s_EndpointIP s\<rparr>
         else (let e3 = (if \<not> readded e1 \<and> rolled_back s e2 then rebase s e2 else e2);
                   e4 = (if i64_lt (e_CurrentRx e3) (s_Rx s) \<or> i64_lt (e_CurrentTx e3) (s_Tx s)
                         then e3\<lparr>e_LastActiveTime := activeAt\<rparr> else e3)
               in e4\<lparr>e_CurrentRx := s_Rx s, e_CurrentTx := s_Tx s,
                     e_EndpointIP := s_EndpointIP s\<rparr>))"

definition applySampleLocked :: "Sample \<Rightarrow> gotime \<Rightarrow> Tracker \<Rightarrow> Tracker" where
  "applySampleLocked s activeAt st =
     (let entry = (case st (s_PublicKey s) of
                     Some e \<Rightarrow> e | None \<Rightarrow> new_entry (s_Email s))
      in st(s_PublicKey s \<mapsto> update_entry s activeAt entry))"

definition UpdateStatsBatch :: "Sample list \<Rightarrow> gotime \<Rightarrow> Tracker \<Rightarrow> Tracker" where
  "UpdateStatsBatch samples now st =
     (if samples = [] then st else fold (\<lambda>s. applySampleLocked s now) samples st)"

section \<open>Reading and resetting\<close>

definition buildDeltaStats :: "string \<Rightarrow> string \<Rightarrow> int64 \<Rightarrow> int64 \<Rightarrow> Stat list" where
  "buildDeltaStats name link rx tx =
     (if rx = 0 \<and> tx = 0 then []
      else (if i64_lt 0 tx
            then [\<lparr>stat_Name = name, stat_Type = ''uplink'', stat_Link = link, stat_Value = tx\<rparr>]
            else []) @
           (if i64_lt 0 rx
            then [\<lparr>stat_Name = name, stat_Type = ''downlink'', stat_Link = link, stat_Value = rx\<rparr>]
            else []))"

text \<open>
  The body of the loops of \<^verbatim>\<open>GetStats\<close> and \<^verbatim>\<open>GetUsersStats\<close> for a key that has an entry: the
  stats it adds and the map after it.
\<close>

definition report_entry :: "bool \<Rightarrow> string \<Rightarrow> Entry \<Rightarrow> Tracker \<Rightarrow> Stat list \<times> Tracker" where
  "report_entry reset key entry st =
     (buildDeltaStats (e_Email entry) key
        (e_CurrentRx entry - e_BaseRx entry) (e_CurrentTx entry - e_BaseTx entry),
      if reset
      then (if e_IsDeleted entry then st(key := None)
            else st(key \<mapsto> entry\<lparr>e_BaseRx := e_CurrentRx entry, e_BaseTx := e_CurrentTx entry\<rparr>))
      else st)"

fun Tracker_GetStats :: "string list \<Rightarrow> bool \<Rightarrow> Tracker \<Rightarrow> Stat list \<times> Tracker" where
  "Tracker_GetStats [] reset st = ([], st)"
| "Tracker_GetStats (key # keys) reset st =
     (case st key of
        None \<Rightarrow> Tracker_GetStats keys reset st
      | Some entry \<Rightarrow>
          (let (stats, st') = report_entry reset key entry st;
               (rest, st'') = Tracker_GetStats keys reset st'
           in (stats @ rest, st'')))"

text \<open>\<^verbatim>\<open>GetUsersStats\<close> runs the same loop body over all keys of the map.\<close>

definition GetUsersStats :: "go_iter \<Rightarrow> bool \<Rightarrow> Tracker \<Rightarrow> Stat list \<times> Tracker" where
  "GetUsersStats rng reset st = Tracker_GetStats (rng 0 (dom st)) reset st"

definition GetStatsEntries :: "string list \<Rightarrow> Tracker \<Rightarrow> (string \<rightharpoonup> Entry)" where
  "GetStatsEntries keys st = st |` set keys"

fun AnyActiveSince :: "string list \<Rightarrow> gotime \<Rightarrow> Tracker \<Rightarrow> bool" where
  "AnyActiveSince [] cutoff st = False"
| "AnyActiveSince (key # keys) cutoff st =
     (case st key of
        None \<Rightarrow> AnyActiveSince keys cutoff st
      | Some entry \<Rightarrow>
          (if cutoff < e_LastActiveTime entry then True else AnyActiveSince keys cutoff st))"

fun EndpointActivity_loop ::
  "string list \<Rightarrow> Tracker \<Rightarrow> (string \<rightharpoonup> int64) \<Rightarrow> (string \<rightharpoonup> int64)" where
  "EndpointActivity_loop [] st res = res"
| "EndpointActivity_loop (key # keys) st res =
     (case st key of
        None \<Rightarrow> EndpointActivity_loop keys st res
      | Some entry \<Rightarrow>
          (if e_EndpointIP entry = [] \<or> time_IsZero (e_LastActiveTime entry)
           then EndpointActivity_loop keys st res
           else (let ts = time_Unix (e_LastActiveTime entry); ip = e_EndpointIP entry
                 in EndpointActivity_loop keys st
                      (case res ip of
                         None \<Rightarrow> res(ip \<mapsto> ts)
                       | Some prev \<Rightarrow> (if i64_lt prev ts then res(ip \<mapsto> ts) else res)))))"

definition EndpointActivity :: "string list \<Rightarrow> Tracker \<Rightarrow> (string \<rightharpoonup> int64)" where
  "EndpointActivity keys st = EndpointActivity_loop keys st Map.empty"

section \<open>Removal\<close>

definition RemoveStats :: "string \<Rightarrow> Tracker \<Rightarrow> Tracker" where
  "RemoveStats publicKey st =
     (case st publicKey of
        None \<Rightarrow> st
      | Some e \<Rightarrow> st(publicKey \<mapsto>
          e\<lparr>e_LastDeltaRx := e_CurrentRx e - e_BaseRx e,
            e_LastDeltaTx := e_CurrentTx e - e_BaseTx e,
            e_IsDeleted := True, e_LastActiveTime := time_zero\<rparr>))"

definition ClearAllStats :: "Tracker \<Rightarrow> Tracker" where
  "ClearAllStats st = Map.empty"

definition CleanupDeletedEntries :: "Tracker \<Rightarrow> Tracker" where
  "CleanupDeletedEntries st =
     (\<lambda>key. case st key of
        None \<Rightarrow> None
      | Some e \<Rightarrow>
          (if e_IsDeleted e \<and> e_CurrentRx e = e_BaseRx e \<and> e_CurrentTx e = e_BaseTx e
           then None else Some e))"

section \<open>Interface counters\<close>

record InterfaceCountersTracker =
  ic_baseRx :: int64
  ic_baseTx :: int64
  ic_baseSet :: bool

definition NewInterfaceCountersTracker :: InterfaceCountersTracker where
  "NewInterfaceCountersTracker = \<lparr>ic_baseRx = 0, ic_baseTx = 0, ic_baseSet = False\<rparr>"

definition Delta ::
  "int64 \<Rightarrow> int64 \<Rightarrow> bool \<Rightarrow> InterfaceCountersTracker \<Rightarrow>
   (int64 \<times> int64) \<times> InterfaceCountersTracker" where
  "Delta currentRx currentTx reset t =
     (let t1 = (if \<not> ic_baseSet t
                then t\<lparr>ic_baseRx := currentRx, ic_baseTx := currentTx, ic_baseSet := True\<rparr>
                else t);
          t2 = (if i64_lt currentRx (ic_baseRx t1) \<or> i64_lt currentTx (ic_baseTx t1)
                then t1\<lparr>ic_baseRx := currentRx, ic_baseTx := currentTx\<rparr> else t1);
          deltaRx = currentRx - ic_baseRx t2; deltaTx = currentTx - ic_baseTx t2;
          t3 = (if reset then t2\<lparr>ic_baseRx := currentRx, ic_baseTx := currentTx\<rparr> else t2)
      in ((deltaRx, deltaTx), t3))"

definition BuildInterfaceStats :: "string \<Rightarrow> string \<Rightarrow> int64 \<Rightarrow> int64 \<Rightarrow> Stat list" where
  "BuildInterfaceStats name link rx tx = buildDeltaStats name link rx tx"

section \<open>Accounting: directions, pending and credited traffic\<close>

text \<open>
  Received and sent bytes go through the same code; the direction picks the fields.
\<close>

datatype dir = RX | TX

fun cur :: "dir \<Rightarrow> Entry \<Rightarrow> int64" where
  "cur RX e = e_CurrentRx e"
| "cur TX e = e_CurrentTx e"

fun base :: "dir \<Rightarrow> Entry \<Rightarrow> int64" where
  "base RX e = e_BaseRx e"
| "base TX e = e_BaseTx e"

fun last_delta :: "dir \<Rightarrow> Entry \<Rightarrow> int64" where
  "last_delta RX e = e_LastDeltaRx e"
| "last_delta TX e = e_LastDeltaTx e"

fun sampled :: "dir \<Rightarrow> Sample \<Rightarrow> int64" where
  "sampled RX s = s_Rx s"
| "sampled TX s = s_Tx s"

fun dir_type :: "dir \<Rightarrow> string" where
  "dir_type RX = ''downlink''"
| "dir_type TX = ''uplink''"

definition pend :: "dir \<Rightarrow> Entry \<Rightarrow> int64" where
  "pend d e = cur d e - base d e"

text \<open>
  What one sample adds to the pending traffic of an entry: the growth of the counter, or
  nothing when the entry is added again after a removal or the kernel counters went back.
\<close>

definition credit :: "dir \<Rightarrow> Sample \<Rightarrow> Entry \<Rightarrow> int64" where
  "credit d s e = (if readded e \<or> rolled_back s e then 0 else sampled d s - cur d e)"

definition entry_inv :: "Entry \<Rightarrow> bool" where
  "entry_inv e \<longleftrightarrow>
     (\<forall>d. 0 \<le> sint (cur d e) \<and> 0 \<le> sint (pend d e) \<and>
          last_delta d e = (if e_IsDeleted e then pend d e else 0))"

lemma all_dir: "(\<forall>d. P d) \<longleftrightarrow> P RX \<and> P TX"
  by (metis dir.exhaust)

lemma entry_inv_new [simp]: "entry_inv (new_entry m)"
  by (simp add: entry_inv_def all_dir pend_def new_entry_def)

text \<open>In machine arithmetic a sample adds its credit to the pending traffic, exactly.\<close>

lemma pend_update_entry:
  assumes "entry_inv e"
  shows "pend d (update_entry s t e) = pend d e + credit d s e"
proof (cases "readded e")
  case True
  with assms have "last_delta d e = pend d e"
    by (cases d) (auto simp: entry_inv_def all_dir readded_def split: if_splits)
  with True show ?thesis
    by (cases d) (auto simp: update_entry_def restore_baseline_def readded_def pend_def credit_def Let_def)
next
  case False
  from assms have nonneg: "clamp0 (pend RX e) = pend RX e" "clamp0 (pend TX e) = pend TX e"
    by (auto simp: entry_inv_def clamp0_def all_dir)
  from False nonneg show ?thesis
    by (cases d) (auto simp: update_entry_def restore_baseline_def readded_def pend_def credit_def
        rolled_back_def rebase_def Let_def)
qed

lemma update_entry_fields:
  "cur d (update_entry s t e) = sampled d s"
  "e_IsDeleted (update_entry s t e) = False"
  "e_Email (update_entry s t e) = s_Email s"
  "e_EndpointIP (update_entry s t e) = s_EndpointIP s"
  "last_delta d (update_entry s t e) = 0"
  by (cases d; auto simp: update_entry_def restore_baseline_def readded_def rebase_def Let_def)+

text \<open>
  A sample is in range when its counters are not negative and the pending traffic stays below
  \<open>2 ^ 63\<close>, the limit of \<^verbatim>\<open>int64\<close>.
\<close>

definition sample_fits :: "Sample \<Rightarrow> Entry \<Rightarrow> bool" where
  "sample_fits s e \<longleftrightarrow>
     (\<forall>d. 0 \<le> sint (sampled d s) \<and> sint (pend d e) + sint (credit d s e) < 2 ^ 63)"

lemma sint_diff_nonneg:
  fixes a b :: int64
  assumes "0 \<le> sint b" "sint b \<le> sint a"
  shows "sint (a - b) = sint a - sint b"
proof -
  have "sint a < 2 ^ 63" using sint_lt [of a] by simp
  with assms show ?thesis
    by (simp add: sint_word_ariths signed_take_bit_int_eq_self)
qed

lemma sint_add_nonneg:
  fixes a b :: int64
  assumes "0 \<le> sint a" "0 \<le> sint b" "sint a + sint b < 2 ^ 63"
  shows "sint (a + b) = sint a + sint b"
  using assms by (simp add: sint_word_ariths signed_take_bit_int_eq_self)

lemma credit_nonneg:
  assumes "entry_inv e" "sample_fits s e"
  shows "0 \<le> sint (credit d s e)"
proof (cases "readded e \<or> rolled_back s e")
  case True
  then show ?thesis by (simp add: credit_def)
next
  case False
  then have "sint (cur d e) \<le> sint (sampled d s)"
    by (cases d) (auto simp: rolled_back_def)
  moreover have "0 \<le> sint (cur d e)" using assms(1) by (simp add: entry_inv_def)
  ultimately show ?thesis using False by (simp add: credit_def sint_diff_nonneg)
qed

lemma sint_pend_update_entry:
  assumes "entry_inv e" "sample_fits s e"
  shows "sint (pend d (update_entry s t e)) = sint (pend d e) + sint (credit d s e)"
  using assms credit_nonneg [OF assms, of d]
  by (simp add: pend_update_entry sint_add_nonneg entry_inv_def sample_fits_def)

lemma entry_inv_update:
  assumes "entry_inv e" "sample_fits s e"
  shows "entry_inv (update_entry s t e)"
  using assms credit_nonneg [OF assms]
  by (simp add: entry_inv_def update_entry_fields sint_pend_update_entry [OF assms] sample_fits_def)

section \<open>The tracker as a ledger\<close>

datatype tracker_op =
    OpSample Sample gotime
  | OpGet "string list" bool
  | OpGetAll bool
  | OpRemove string
  | OpCleanup

fun tracker_step :: "go_iter \<Rightarrow> tracker_op \<Rightarrow> Tracker \<Rightarrow> Stat list \<times> Tracker" where
  "tracker_step rng (OpSample s t) st = ([], applySampleLocked s t st)"
| "tracker_step rng (OpGet keys reset) st = Tracker_GetStats keys reset st"
| "tracker_step rng (OpGetAll reset) st = GetUsersStats rng reset st"
| "tracker_step rng (OpRemove k) st = ([], RemoveStats k st)"
| "tracker_step rng OpCleanup st = ([], CleanupDeletedEntries st)"

definition tracker_inv :: "Tracker \<Rightarrow> bool" where
  "tracker_inv st \<longleftrightarrow> finite (dom st) \<and> (\<forall>k e. st k = Some e \<longrightarrow> entry_inv e)"

definition entry_of :: "Tracker \<Rightarrow> Sample \<Rightarrow> Entry" where
  "entry_of st s = (case st (s_PublicKey s) of Some e \<Rightarrow> e | None \<Rightarrow> new_entry (s_Email s))"

text \<open>The amounts, for a direction and a key, as numbers of bytes.\<close>

definition pending_bytes :: "dir \<Rightarrow> string \<Rightarrow> Tracker \<Rightarrow> nat" where
  "pending_bytes d k st = (case st k of None \<Rightarrow> 0 | Some e \<Rightarrow> nat (sint (pend d e)))"

definition reported_bytes :: "dir \<Rightarrow> string \<Rightarrow> Stat list \<Rightarrow> nat" where
  "reported_bytes d k stats =
     (\<Sum>x \<leftarrow> filter (\<lambda>x. stat_Link x = k \<and> stat_Type x = dir_type d) stats. nat (sint (stat_Value x)))"

text \<open>A report drains the counters only when the caller asked for a reset.\<close>

fun resets :: "tracker_op \<Rightarrow> bool" where
  "resets (OpGet keys reset) = reset"
| "resets (OpGetAll reset) = reset"
| "resets _ = False"

definition drained_bytes :: "go_iter \<Rightarrow> dir \<Rightarrow> string \<Rightarrow> tracker_op \<Rightarrow> Tracker \<Rightarrow> nat" where
  "drained_bytes rng d k x st =
     (if resets x then reported_bytes d k (fst (tracker_step rng x st)) else 0)"

fun credited_bytes :: "dir \<Rightarrow> string \<Rightarrow> tracker_op \<Rightarrow> Tracker \<Rightarrow> nat" where
  "credited_bytes d k (OpSample s t) st =
     (if s_PublicKey s = k then nat (sint (credit d s (entry_of st s))) else 0)"
| "credited_bytes d k _ st = 0"

fun op_fits :: "tracker_op \<Rightarrow> Tracker \<Rightarrow> bool" where
  "op_fits (OpSample s t) st = sample_fits s (entry_of st s)"
| "op_fits _ st = True"

lemma tracker_inv_upd:
  "tracker_inv st \<Longrightarrow> entry_inv e \<Longrightarrow> tracker_inv (st(k \<mapsto> e))"
  "tracker_inv st \<Longrightarrow> tracker_inv (st(k := None))"
  by (auto simp: tracker_inv_def dom_fun_upd)

lemma entry_of_inv: "tracker_inv st \<Longrightarrow> entry_inv (entry_of st s)"
  by (auto simp: tracker_inv_def entry_of_def split: option.splits)

lemma applySampleLocked_eq:
  "applySampleLocked s t st = st(s_PublicKey s \<mapsto> update_entry s t (entry_of st s))"
  by (simp add: applySampleLocked_def entry_of_def)

lemma entry_inv_reset:
  "entry_inv e \<Longrightarrow> \<not> e_IsDeleted e \<Longrightarrow>
   entry_inv (e\<lparr>e_BaseRx := e_CurrentRx e, e_BaseTx := e_CurrentTx e\<rparr>)"
  by (simp add: entry_inv_def all_dir pend_def)

lemma report_entry_inv:
  "tracker_inv st \<Longrightarrow> st k = Some e \<Longrightarrow> tracker_inv (snd (report_entry reset k e st))"
  by (auto simp: report_entry_def tracker_inv_upd entry_inv_reset tracker_inv_def)

lemma Tracker_GetStats_inv:
  "tracker_inv st \<Longrightarrow> tracker_inv (snd (Tracker_GetStats keys reset st))"
proof (induction keys arbitrary: st)
  case (Cons k keys)
  then show ?case
    using report_entry_inv [OF Cons.prems, of k _ reset]
    by (auto split: option.splits prod.splits simp: Let_def)
      (metis snd_conv)
qed simp

lemma entry_inv_remove:
  "entry_inv e \<Longrightarrow>
   entry_inv (e\<lparr>e_LastDeltaRx := e_CurrentRx e - e_BaseRx e,
     e_LastDeltaTx := e_CurrentTx e - e_BaseTx e, e_IsDeleted := True, e_LastActiveTime := time_zero\<rparr>)"
  by (simp add: entry_inv_def all_dir pend_def)

lemma tracker_step_inv:
  assumes "tracker_inv st" "op_fits x st"
  shows "tracker_inv (snd (tracker_step rng x st))"
proof (cases x)
  case (OpSample s t)
  with assms show ?thesis
    by (simp add: applySampleLocked_eq tracker_inv_upd entry_inv_update entry_of_inv)
next
  case (OpRemove k)
  with assms show ?thesis
    by (auto simp: RemoveStats_def tracker_inv_def entry_inv_remove split: option.splits)
next
  case OpCleanup
  with assms show ?thesis
    by (auto simp: CleanupDeletedEntries_def tracker_inv_def dom_def split: option.splits if_splits
        elim!: finite_subset [rotated])
qed (use assms in \<open>simp_all add: GetUsersStats_def Tracker_GetStats_inv\<close>)

lemma buildDeltaStats_reported:
  assumes "0 \<le> sint rx" "0 \<le> sint tx"
  shows "reported_bytes d k (buildDeltaStats m link rx tx) =
    (if link = k then nat (sint (case d of RX \<Rightarrow> rx | TX \<Rightarrow> tx)) else 0)"
  using assms
  by (cases d) (auto simp: buildDeltaStats_def reported_bytes_def order.strict_iff_order)

lemma report_entry_reported:
  assumes "entry_inv e"
  shows "reported_bytes d k (fst (report_entry reset key e st)) =
    (if key = k then nat (sint (pend d e)) else 0)"
proof -
  from assms have "0 \<le> sint (pend RX e)" "0 \<le> sint (pend TX e)"
    by (simp_all add: entry_inv_def)
  then show ?thesis
    by (cases d) (simp_all add: report_entry_def buildDeltaStats_reported pend_def)
qed

lemma report_entry_pending:
  "st key = Some e \<Longrightarrow>
   pending_bytes d k (snd (report_entry True key e st)) = (if key = k then 0 else pending_bytes d k st)"
  by (cases d) (auto simp: report_entry_def pending_bytes_def pend_def)

lemma reported_bytes_append:
  "reported_bytes d k (xs @ ys) = reported_bytes d k xs + reported_bytes d k ys"
  by (simp add: reported_bytes_def)

lemma Tracker_GetStats_keep: "snd (Tracker_GetStats keys False st) = st"
  by (induction keys arbitrary: st)
    (auto simp: report_entry_def Let_def split: option.splits prod.splits, metis snd_conv)

lemma Tracker_GetStats_balance:
  "tracker_inv st \<Longrightarrow>
   pending_bytes d k (snd (Tracker_GetStats keys True st)) +
     reported_bytes d k (fst (Tracker_GetStats keys True st)) = pending_bytes d k st"
proof (induction keys arbitrary: st)
  case Nil
  then show ?case by (simp add: reported_bytes_def)
next
  case (Cons key keys)
  show ?case
  proof (cases "st key")
    case None
    with Cons show ?thesis by simp
  next
    case (Some e)
    obtain stats st' where r: "report_entry True key e st = (stats, st')" by fastforce
    have "entry_inv e" using Cons.prems Some by (simp add: tracker_inv_def)
    from report_entry_reported [OF this, of d k True key st]
      report_entry_pending [of st key e d k, OF Some] Some r
    have "pending_bytes d k st' + reported_bytes d k stats = pending_bytes d k st"
      by (cases "key = k") (auto simp: pending_bytes_def)
    moreover have "tracker_inv st'"
      using report_entry_inv [OF Cons.prems Some, of True] r by simp
    from Cons.IH [OF this] have "pending_bytes d k (snd (Tracker_GetStats keys True st')) +
        reported_bytes d k (fst (Tracker_GetStats keys True st')) = pending_bytes d k st'" .
    ultimately show ?thesis
      using Some r by (cases "Tracker_GetStats keys True st'") (simp add: reported_bytes_append)
  qed
qed

lemma applySampleLocked_pending:
  assumes "tracker_inv st" "sample_fits s (entry_of st s)"
  shows "pending_bytes d k (applySampleLocked s t st) =
    pending_bytes d k st + credited_bytes d k (OpSample s t) st"
proof (cases "s_PublicKey s = k")
  case True
  let ?e = "entry_of st s"
  have "sint (pend d (update_entry s t ?e)) = sint (pend d ?e) + sint (credit d s ?e)"
    using assms by (intro sint_pend_update_entry entry_of_inv)
  moreover have "pending_bytes d k st = nat (sint (pend d ?e))"
    using True by (cases d) (auto simp: pending_bytes_def entry_of_def pend_def new_entry_def split: option.split)
  moreover have "0 \<le> sint (pend d ?e)" "0 \<le> sint (credit d s ?e)"
    using assms entry_of_inv [OF assms(1)] by (auto simp: entry_inv_def credit_nonneg)
  ultimately show ?thesis
    using True by (simp add: applySampleLocked_eq pending_bytes_def nat_add_distrib)
next
  case False
  then show ?thesis by (simp add: applySampleLocked_eq pending_bytes_def)
qed

lemma tracker_step_balance:
  assumes inv: "tracker_inv st" and fits: "op_fits x st"
  shows "pending_bytes d k (snd (tracker_step rng x st)) + drained_bytes rng d k x st =
    pending_bytes d k st + credited_bytes d k x st"
proof (cases x)
  case (OpSample s t)
  with assms show ?thesis
    by (simp add: drained_bytes_def applySampleLocked_pending del: credited_bytes.simps(1))
next
  case (OpGet keys reset)
  with inv show ?thesis
    by (cases reset) (simp_all add: drained_bytes_def Tracker_GetStats_balance Tracker_GetStats_keep)
next
  case (OpGetAll reset)
  with inv show ?thesis
    by (cases reset)
      (simp_all add: drained_bytes_def GetUsersStats_def Tracker_GetStats_balance Tracker_GetStats_keep)
next
  case (OpRemove key)
  then show ?thesis
    by (cases d) (auto simp: drained_bytes_def RemoveStats_def pending_bytes_def pend_def split: option.splits)
next
  case OpCleanup
  then show ?thesis
    by (cases d) (auto simp: drained_bytes_def CleanupDeletedEntries_def pending_bytes_def pend_def
        split: option.splits)
qed

interpretation tracker: ledger "\<lambda>x st. snd (tracker_step rng x st)" tracker_inv op_fits
  "pending_bytes d k" "drained_bytes rng d k" "credited_bytes d k" for rng d k
  by unfold_locales (simp_all add: tracker_step_inv tracker_step_balance)

lemma stats_New_inv [simp]: "tracker_inv stats_New"
  by (simp add: stats_New_def tracker_inv_def)

lemma stats_New_pending [simp]: "pending_bytes d k stats_New = 0"
  by (simp add: stats_New_def pending_bytes_def)

text \<open>A batch of samples is the run of its samples.\<close>

lemma UpdateStatsBatch_run:
  "UpdateStatsBatch ss t st = run (\<lambda>x st. snd (tracker_step rng x st)) (map (\<lambda>s. OpSample s t) ss) st"
proof -
  have "fold (\<lambda>s. applySampleLocked s t) ss st =
      run (\<lambda>x st. snd (tracker_step rng x st)) (map (\<lambda>s. OpSample s t) ss) st"
    by (induction ss arbitrary: st) simp_all
  then show ?thesis by (simp add: UpdateStatsBatch_def)
qed

section \<open>The interface counters as a ledger\<close>

text \<open>
  The state is paired with the last reading, which the tracker itself does not keep. A reading
  is in range when it is not negative and does not fall below the base while traffic is pending:
  on such a roll-back the source gives the pending traffic up.
\<close>

type_synonym reading = "dir \<Rightarrow> int64"

fun ic_base :: "dir \<Rightarrow> InterfaceCountersTracker \<Rightarrow> int64" where
  "ic_base RX t = ic_baseRx t"
| "ic_base TX t = ic_baseTx t"

definition ic_step :: "reading \<times> bool \<Rightarrow> InterfaceCountersTracker \<times> reading \<Rightarrow>
  InterfaceCountersTracker \<times> reading" where
  "ic_step x s = (snd (Delta (fst x RX) (fst x TX) (snd x) (fst s)), fst x)"

fun ic_delta :: "dir \<Rightarrow> reading \<times> bool \<Rightarrow> InterfaceCountersTracker \<Rightarrow> int64" where
  "ic_delta RX x t = fst (fst (Delta (fst x RX) (fst x TX) (snd x) t))"
| "ic_delta TX x t = snd (fst (Delta (fst x RX) (fst x TX) (snd x) t))"

definition ic_inv :: "InterfaceCountersTracker \<times> reading \<Rightarrow> bool" where
  "ic_inv s \<longleftrightarrow> (ic_baseSet (fst s) \<longrightarrow>
     (\<forall>d. 0 \<le> sint (ic_base d (fst s)) \<and> sint (ic_base d (fst s)) \<le> sint (snd s d)))"

definition ic_back :: "reading \<Rightarrow> InterfaceCountersTracker \<Rightarrow> bool" where
  "ic_back r t \<longleftrightarrow> (\<exists>d. i64_lt (r d) (ic_base d t))"

definition ic_pending :: "dir \<Rightarrow> InterfaceCountersTracker \<times> reading \<Rightarrow> nat" where
  "ic_pending d s = (if ic_baseSet (fst s) then nat (sint (snd s d) - sint (ic_base d (fst s))) else 0)"

definition ic_fits :: "reading \<times> bool \<Rightarrow> InterfaceCountersTracker \<times> reading \<Rightarrow> bool" where
  "ic_fits x s \<longleftrightarrow>
     (\<forall>d. 0 \<le> sint (fst x d)) \<and>
     (ic_baseSet (fst s) \<longrightarrow>
       (if ic_back (fst x) (fst s) then \<forall>d. ic_pending d s = 0
        else \<forall>d. sint (snd s d) \<le> sint (fst x d)))"

definition ic_drained :: "dir \<Rightarrow> reading \<times> bool \<Rightarrow> InterfaceCountersTracker \<times> reading \<Rightarrow> nat" where
  "ic_drained d x s = (if snd x then nat (sint (ic_delta d x (fst s))) else 0)"

definition ic_credited :: "dir \<Rightarrow> reading \<times> bool \<Rightarrow> InterfaceCountersTracker \<times> reading \<Rightarrow> nat" where
  "ic_credited d x s =
     (if ic_baseSet (fst s) \<and> \<not> ic_back (fst x) (fst s)
      then nat (sint (fst x d) - sint (snd s d)) else 0)"

lemma ex_dir: "(\<exists>d. P d) \<longleftrightarrow> P RX \<or> P TX"
  by (metis dir.exhaust)

text \<open>The base the call measures against, and the base it leaves.\<close>

definition ic_from :: "dir \<Rightarrow> reading \<Rightarrow> InterfaceCountersTracker \<Rightarrow> int64" where
  "ic_from d r t = (if ic_baseSet t \<and> \<not> ic_back r t then ic_base d t else r d)"

lemma Delta_spec:
  "ic_delta d (r, reset) t = r d - ic_from d r t"
  "ic_base d (snd (Delta (r RX) (r TX) reset t)) = (if reset then r d else ic_from d r t)"
  "ic_baseSet (snd (Delta (r RX) (r TX) reset t))"
  by (cases d; simp add: Delta_def ic_from_def ic_back_def ex_dir Let_def)+

lemma ic_from_le:
  assumes "\<forall>d. 0 \<le> sint (r d)" "ic_baseSet t \<longrightarrow> (\<forall>d. 0 \<le> sint (ic_base d t))"
  shows "0 \<le> sint (ic_from d r t)" "sint (ic_from d r t) \<le> sint (r d)"
  using assms by (auto simp: ic_from_def ic_back_def not_less)

lemma ic_delta_bytes:
  assumes "\<forall>d. 0 \<le> sint (r d)" "ic_baseSet t \<longrightarrow> (\<forall>d. 0 \<le> sint (ic_base d t))"
  shows "sint (ic_delta d (r, reset) t) = sint (r d) - sint (ic_from d r t)"
  using ic_from_le [OF assms, of d] by (simp add: Delta_spec sint_diff_nonneg)

interpretation iface: ledger ic_step ic_inv ic_fits "ic_pending d" "ic_drained d" "ic_credited d" for d
proof (unfold_locales, goal_cases)
  case (1 s x)
  then have "\<forall>d. 0 \<le> sint (fst x d)" "ic_baseSet (fst s) \<longrightarrow> (\<forall>d. 0 \<le> sint (ic_base d (fst s)))"
    by (auto simp: ic_fits_def ic_inv_def)
  from ic_from_le [OF this] this(1) show ?case
    by (simp add: ic_inv_def ic_step_def Delta_spec)
next
  case (2 s x)
  obtain r reset where x: "x = (r, reset)" by fastforce
  from 2 have nn: "\<forall>d. 0 \<le> sint (r d)" "ic_baseSet (fst s) \<longrightarrow> (\<forall>d. 0 \<le> sint (ic_base d (fst s)))"
    by (auto simp: ic_fits_def ic_inv_def x)
  have after: "ic_pending d (ic_step x s) + ic_drained d x s = nat (sint (r d) - sint (ic_from d r (fst s)))"
    by (simp add: ic_pending_def ic_step_def ic_drained_def x Delta_spec(2,3) ic_delta_bytes [OF nn])
  show ?case
  proof (cases "ic_baseSet (fst s) \<and> \<not> ic_back r (fst s)")
    case True
    with 2 have "sint (ic_base d (fst s)) \<le> sint (snd s d)" "sint (snd s d) \<le> sint (r d)"
      by (auto simp: ic_inv_def ic_fits_def x)
    with True after show ?thesis
      by (simp add: ic_pending_def ic_credited_def x ic_from_def)
  next
    case False
    with 2 have "ic_pending d s = 0" by (auto simp: ic_fits_def ic_pending_def x)
    with False after show ?thesis by (auto simp: ic_credited_def x ic_from_def)
  qed
qed

section \<open>Endpoint activity\<close>

text \<open>The activity of one entry at an address, and the latest of a list of them.\<close>

definition active_at :: "Tracker \<Rightarrow> string \<Rightarrow> string \<Rightarrow> int64 option" where
  "active_at st ip key =
     (case st key of
        Some e \<Rightarrow>
          (if e_EndpointIP e = ip \<and> ip \<noteq> [] \<and> \<not> time_IsZero (e_LastActiveTime e)
           then Some (time_Unix (e_LastActiveTime e)) else None)
      | None \<Rightarrow> None)"

definition later :: "int64 option \<Rightarrow> int64 option \<Rightarrow> int64 option" where
  "later a b =
     (case (a, b) of (None, _) \<Rightarrow> b | (_, None) \<Rightarrow> a
      | (Some x, Some y) \<Rightarrow> Some (if i64_lt x y then y else x))"

lemma EndpointActivity_loop_eq:
  "EndpointActivity_loop keys st res ip = foldl later (res ip) (map (active_at st ip) keys)"
proof (induction keys arbitrary: res)
  case (Cons k keys)
  then show ?case
    by (auto simp: active_at_def later_def Let_def split: option.split)
qed simp

lemma later_None [simp]: "later a b = None \<longleftrightarrow> a = None \<and> b = None"
  by (cases a; cases b) (simp_all add: later_def)

lemma later_Some:
  "later a b = Some t \<Longrightarrow> (a = Some t \<or> b = Some t) \<and> (\<forall>t'. a = Some t' \<or> b = Some t' \<longrightarrow> sint t' \<le> sint t)"
  by (cases a; cases b) (auto simp: later_def split: if_splits)

lemma foldl_later_None: "foldl later a xs = None \<longleftrightarrow> a = None \<and> (\<forall>x \<in> set xs. x = None)"
  by (induction xs arbitrary: a) auto

lemma foldl_later_Some:
  "foldl later a xs = Some t \<Longrightarrow>
   (a = Some t \<or> Some t \<in> set xs) \<and> (\<forall>t'. a = Some t' \<or> Some t' \<in> set xs \<longrightarrow> sint t' \<le> sint t)"
proof (induction xs arbitrary: a)
  case Nil
  then show ?case by simp
next
  case (Cons x xs)
  then have IH: "later a x = Some t \<or> Some t \<in> set xs"
    "\<And>t'. later a x = Some t' \<or> Some t' \<in> set xs \<Longrightarrow> sint t' \<le> sint t"
    using Cons.IH [of "later a x"] by auto
  have "sint t' \<le> sint t" if "a = Some t' \<or> x = Some t'" for t'
  proof (cases "later a x")
    case None
    with that show ?thesis by simp
  next
    case (Some u)
    from later_Some [OF Some] that have "sint t' \<le> sint u" by blast
    also have "sint u \<le> sint t" using IH(2) [of u] Some by blast
    finally show ?thesis .
  qed
  then show ?case using IH later_Some [of a x t] by auto
qed

section \<open>Properties\<close>

text \<open>
  C3. Traffic accounting. Start from an empty tracker and apply any sequence of samples, reports, resetting
  reports, removals and cleanups whose counters stay in the range of \<^verbatim>\<open>int64\<close>: for every
  peer and direction the bytes reported by resetting calls plus the bytes still pending are
  exactly the bytes the samples added. Nothing is lost or billed twice, also over a
  removal, a re-addition or a roll-back of the kernel counters.
\<close>

theorem tracker_conserves_traffic:
  assumes "run_ok (\<lambda>x st. snd (tracker_step rng x st)) op_fits xs stats_New"
  shows "pending_bytes d k (run (\<lambda>x st. snd (tracker_step rng x st)) xs stats_New) +
      total (\<lambda>x st. snd (tracker_step rng x st)) (drained_bytes rng d k) xs stats_New =
    total (\<lambda>x st. snd (tracker_step rng x st)) (credited_bytes d k) xs stats_New"
  using tracker.run_balance [OF stats_New_inv assms, of d k] by simp

definition ex_sample :: "int64 \<Rightarrow> int64 \<Rightarrow> Sample" where
  "ex_sample rx tx = \<lparr>s_PublicKey = ''k'', s_Email = ''u'', s_Rx = rx, s_Tx = tx, s_EndpointIP = ''1.1.1.1''\<rparr>"

definition ex_ops :: "tracker_op list" where
  "ex_ops = [OpSample (ex_sample 10 5) 7, OpRemove ''k'', OpSample (ex_sample 1 0) 8, OpGet [''k''] True]"

lemmas tracker_eval =
  ex_ops_def ex_sample_def stats_New_def new_entry_def entry_of_def sample_fits_def all_dir credit_def
  readded_def rolled_back_def pend_def applySampleLocked_eq update_entry_def restore_baseline_def
  rebase_def clamp0_def RemoveStats_def report_entry_def buildDeltaStats_def drained_bytes_def
  reported_bytes_def time_zero_def Let_def

theorem tracker_conserves_traffic_witness:
  "total (\<lambda>x st. snd (tracker_step asc_iter x st)) (drained_bytes asc_iter RX ''k'') ex_ops stats_New = 10 \<and>
   pending_bytes RX ''k'' (run (\<lambda>x st. snd (tracker_step asc_iter x st)) ex_ops stats_New) +
      total (\<lambda>x st. snd (tracker_step asc_iter x st)) (drained_bytes asc_iter RX ''k'') ex_ops stats_New =
    total (\<lambda>x st. snd (tracker_step asc_iter x st)) (credited_bytes RX ''k'') ex_ops stats_New"
proof -
  have "run_ok (\<lambda>x st. snd (tracker_step asc_iter x st)) op_fits ex_ops stats_New"
    by (simp add: tracker_eval)
  from tracker_conserves_traffic [OF this, of RX "''k''"]
  show ?thesis by (rule conjI [rotated]) (simp add: tracker_eval)
qed



text \<open>
  For the listed peers, the activity of an endpoint address is the latest activity time among the
  peers seen at it; an address is missing exactly when no listed peer was active at it.
\<close>

theorem EndpointActivity_latest:
  "(EndpointActivity keys st ip = Some t \<longrightarrow>
     (\<exists>k \<in> set keys. active_at st ip k = Some t) \<and>
     (\<forall>k t'. k \<in> set keys \<and> active_at st ip k = Some t' \<longrightarrow> sint t' \<le> sint t)) \<and>
   (EndpointActivity keys st ip = None \<longleftrightarrow> (\<forall>k \<in> set keys. active_at st ip k = None))"
proof -
  have mem: "Some x \<in> set (map (active_at st ip) keys) \<longleftrightarrow> (\<exists>k \<in> set keys. active_at st ip k = Some x)" for x
    by (metis (no_types) image_iff set_map)
  have eq: "EndpointActivity keys st ip = foldl later None (map (active_at st ip) keys)"
    by (simp add: EndpointActivity_def EndpointActivity_loop_eq)
  show ?thesis
    unfolding eq foldl_later_None using foldl_later_Some [of None "map (active_at st ip) keys" t]
    unfolding mem by auto
qed

theorem EndpointActivity_latest_witness:
  "EndpointActivity [''k''] [''k'' \<mapsto> (new_entry ''u'')\<lparr>e_LastActiveTime := 5, e_EndpointIP := ''1.1.1.1''\<rparr>] ''1.1.1.1''
     = Some (time_Unix 5)"
  using EndpointActivity_latest [of "[''k'']"
      "[''k'' \<mapsto> (new_entry ''u'')\<lparr>e_LastActiveTime := 5, e_EndpointIP := ''1.1.1.1''\<rparr>]" "''1.1.1.1''"]
  by (simp add: active_at_def time_IsZero_def time_zero_def) (metis option.exhaust option.inject)

end
