(* ===== verification/NodeConfig.thy ===== *)
theory NodeConfig
  imports Prelude
begin

text \<open>
  \<^verbatim>\<open>config/config.go\<close> (the settings of the node, read from the environment) and
  \<^verbatim>\<open>pkg/netutil/port.go\<close> (the search for a free port). The environment, after \<^verbatim>\<open>godotenv.Load\<close>, is a map from names to values;
  \<open>uuid_Parse\<close> (module \<^verbatim>\<open>google/uuid\<close>) is a parameter.
\<close>

section \<open>Reading the environment\<close>

type_synonym env = "string \<rightharpoonup> string"
type_synonym UUID = "byte list"

definition uuid_Nil :: UUID where
  "uuid_Nil = replicate 16 0"

definition GetEnv :: "env \<Rightarrow> string \<Rightarrow> string \<Rightarrow> string" where
  "GetEnv env key fallback = (case env key of None \<Rightarrow> fallback | Some value \<Rightarrow> value)"

text \<open>\<^verbatim>\<open>strconv.ParseBool\<close> and \<^verbatim>\<open>strconv.Atoi\<close> (64-bit \<^verbatim>\<open>int\<close>).\<close>

definition ParseBool :: "string \<Rightarrow> bool option" where
  "ParseBool s =
     (if s \<in> {''1'', ''t'', ''T'', ''true'', ''TRUE'', ''True''} then Some True
      else if s \<in> {''0'', ''f'', ''F'', ''false'', ''FALSE'', ''False''} then Some False
      else None)"

definition digits_value :: "string \<Rightarrow> int" where
  "digits_value s = foldl (\<lambda>n c. n * 10 + int (digit_val c)) 0 s"

definition Atoi :: "string \<Rightarrow> int option" where
  "Atoi s =
     (let (neg, ds) = (case s of
                         [] \<Rightarrow> (False, [])
                       | c # cs \<Rightarrow> (if c = CHR ''-'' then (True, cs)
                                    else if c = CHR ''+'' then (False, cs) else (False, s)));
          v = (if neg then - digits_value ds else digits_value ds)
      in if ds = [] \<or> \<not> list_all is_digit ds \<or> v < - (2 ^ 63) \<or> 2 ^ 63 \<le> v then None else Some v)"

definition GetEnvAsBool :: "env \<Rightarrow> string \<Rightarrow> bool \<Rightarrow> bool" where
  "GetEnvAsBool env name defaultVal =
     (case ParseBool (GetEnv env name []) of Some val \<Rightarrow> val | None \<Rightarrow> defaultVal)"

definition GetEnvAsInt :: "env \<Rightarrow> string \<Rightarrow> int \<Rightarrow> int" where
  "GetEnvAsInt env name defaultVal =
     (case Atoi (GetEnv env name []) of Some val \<Rightarrow> val | None \<Rightarrow> defaultVal)"

definition GetEnvAsUUID :: "(string \<Rightarrow> UUID result) \<Rightarrow> env \<Rightarrow> string \<Rightarrow> UUID \<times> go_error option" where
  "GetEnvAsUUID uuid_Parse env name =
     (case uuid_Parse (GetEnv env name []) of
        Inl err \<Rightarrow> (uuid_Nil, Some err)
      | Inr val \<Rightarrow> (val, None))"

section \<open>The configuration\<close>

record NodeConfig =
  nc_ServicePort :: int
  nc_NodeHost :: string
  nc_XrayExecutablePath :: string
  nc_XrayAssetsPath :: string
  nc_SslCertFile :: string
  nc_SslKeyFile :: string
  nc_ApiKey :: UUID
  nc_ServiceProtocol :: string
  nc_Debug :: bool
  nc_GeneratedConfigPath :: string
  nc_LogBufferSize :: int
  nc_StartupLogTailSize :: int
  nc_StatsUpdateIntervalSeconds :: int
  nc_StatsCleanupIntervalSeconds :: int
  nc_WGHostRouting :: bool
  nc_WGNATOutputInterface :: string
  nc_WGNATEgressOnly :: bool
  nc_WGNATDisable :: bool
  nc_WGRouteTable :: string
  nc_WGRouteOutInterface :: string

text \<open>
  The pattern of \<^verbatim>\<open>NODE_HOST\<close>: four fields separated by dots, each of one to three digits with a
  value of at most 255 (leading zeros are allowed).
\<close>

definition octet_pattern :: "string \<Rightarrow> bool" where
  "octet_pattern s \<longleftrightarrow> s \<noteq> [] \<and> length s \<le> 3 \<and> list_all is_digit s \<and> digits_value s \<le> 255"

definition ip_pattern :: "string \<Rightarrow> bool" where
  "ip_pattern s \<longleftrightarrow> (let fs = Split s ''.'' in length fs = 4 \<and> list_all octet_pattern fs)"

definition Load :: "(string \<Rightarrow> UUID result) \<Rightarrow> env \<Rightarrow> NodeConfig \<times> go_error option" where
  "Load uuid_Parse env =
     (let cfg0 = \<lparr>
            nc_ServicePort = GetEnvAsInt env ''SERVICE_PORT'' 62050,
            nc_NodeHost = [],
            nc_XrayExecutablePath = GetEnv env ''XRAY_EXECUTABLE_PATH'' ''/usr/local/bin/xray'',
            nc_XrayAssetsPath = GetEnv env ''XRAY_ASSETS_PATH'' ''/usr/local/share/xray'',
            nc_SslCertFile = GetEnv env ''SSL_CERT_FILE'' ''/var/lib/pg-node/certs/ssl_cert.pem'',
            nc_SslKeyFile = GetEnv env ''SSL_KEY_FILE'' ''/var/lib/pg-node/certs/ssl_key.pem'',
            nc_ApiKey = uuid_Nil,
            nc_ServiceProtocol = GetEnv env ''SERVICE_PROTOCOL'' ''grpc'',
            nc_Debug = GetEnvAsBool env ''DEBUG'' False,
            nc_GeneratedConfigPath = GetEnv env ''GENERATED_CONFIG_PATH'' ''/var/lib/pg-node/generated/'',
            nc_LogBufferSize = GetEnvAsInt env ''LOG_BUFFER_SIZE'' 10000,
            nc_StartupLogTailSize = GetEnvAsInt env ''STARTUP_LOG_TAIL_SIZE'' 200,
            nc_StatsUpdateIntervalSeconds = GetEnvAsInt env ''STATS_UPDATE_INTERVAL_SECONDS'' 10,
            nc_StatsCleanupIntervalSeconds = GetEnvAsInt env ''STATS_CLEANUP_INTERVAL_SECONDS'' 300,
            nc_WGHostRouting = GetEnvAsBool env ''PG_NODE_WG_HOST_ROUTING'' True,
            nc_WGNATOutputInterface = GetEnv env ''PG_NODE_WG_NAT_OUTPUT_INTERFACE'' [],
            nc_WGNATEgressOnly = GetEnvAsBool env ''PG_NODE_WG_NAT_EGRESS_ONLY'' True,
            nc_WGNATDisable = GetEnvAsBool env ''PG_NODE_WG_NAT_DISABLE'' False,
            nc_WGRouteTable = GetEnv env ''PG_NODE_WG_ROUTE_TABLE'' [],
            nc_WGRouteOutInterface = GetEnv env ''PG_NODE_WG_ROUTE_OUT_INTERFACE'' []\<rparr>;
          cfg1 = (if nc_LogBufferSize cfg0 \<le> 0 then cfg0\<lparr>nc_LogBufferSize := 1\<rparr> else cfg0);
          (key, err) = GetEnvAsUUID uuid_Parse env ''API_KEY'';
          cfg2 = cfg1\<lparr>nc_ApiKey := key\<rparr>;
          nodeHostStr = GetEnv env ''NODE_HOST'' ''0.0.0.0''
      in (if ip_pattern nodeHostStr then cfg2\<lparr>nc_NodeHost := nodeHostStr\<rparr>
          else cfg2\<lparr>nc_NodeHost := ''127.0.0.1''\<rparr>, None))"

section \<open>A free port\<close>

text \<open>
  \<open>r\<close> is the result of \<^verbatim>\<open>rand.Intn(50000)\<close>, \<open>isPortFree\<close> asks the system. The loop counts up to
  65536 at most.
\<close>

function free_port_from :: "(nat \<Rightarrow> bool) \<Rightarrow> nat \<Rightarrow> nat" where
  "free_port_from isPortFree apiPort =
     (if apiPort < 65536
      then if isPortFree apiPort then apiPort else free_port_from isPortFree (apiPort + 1)
      else apiPort)"
  by pat_completeness auto
termination by (relation "measure (\<lambda>(_, p). 65536 - p)") auto

declare free_port_from.simps [simp del]

definition FindFreePort :: "(nat \<Rightarrow> bool) \<Rightarrow> nat \<Rightarrow> nat" where
  "FindFreePort isPortFree r = free_port_from isPortFree (r + 10000)"

section \<open>Lemmas\<close>

lemma digits_value_decimal: "digits_value (decimal n) = int n"
proof (induction n rule: decimal.induct)
  case (1 n)
  have digit: "digit_val (char_of (48 + k)) = k" if "k < 10" for k :: nat
    using that by (simp add: digit_val_def)
  have "int (n div 10) * 10 + int (n mod 10) = int n" by presburger
  then show ?case
    using 1 digit [of n] digit [of "n mod 10"]
    by (subst decimal.simps) (simp add: digits_value_def)
qed

lemma free_port_from_spec:
  assumes "p \<le> 65536"
  shows "p \<le> free_port_from free p" "free_port_from free p \<le> 65536"
    and "free_port_from free p < 65536 \<Longrightarrow> free (free_port_from free p)"
    and "p \<le> q \<Longrightarrow> q < free_port_from free p \<Longrightarrow> \<not> free q"
  using assms
proof (induction free p rule: free_port_from.induct)
  case (1 free p)
  { case 1
    with "1.IH"(1) show ?case by (subst free_port_from.simps) (auto intro: Suc_leD)
  next
    case 2
    with "1.IH"(2) show ?case by (subst free_port_from.simps) auto
  next
    case 3
    with "1.IH"(3) show ?case by (subst free_port_from.simps) (auto simp: free_port_from.simps [of free p] split: if_splits)
  next
    case 4
    with "1.IH"(4) show ?case
      by (cases "q = p") (auto simp: free_port_from.simps [of free p] split: if_splits)
  }
qed

end
