(* ===== verification/HostRouting.thy ===== *)
theory HostRouting
  imports NodeConfig
begin

text \<open>
  \<^verbatim>\<open>backend/wireguard/host_routing_linux.go\<close> and \<^verbatim>\<open>defaultroute_linux.go\<close>: forwarding, masquerade
  and policy routing for the WireGuard interface by the programs \<^verbatim>\<open>nft\<close> and \<^verbatim>\<open>ip\<close>. The operating
  system is the record \<open>sys\<close> of functions on a world; the JSON decoders of the three outputs the
  source decodes are among them. Log lines are left out.
\<close>

section \<open>The system\<close>

record nftListChain =
  nl_Family :: string
  nl_Table :: string
  nl_Name :: string
  nl_Hook :: string

text \<open>
  \<open>sys_exec\<close> is \<^verbatim>\<open>CombinedOutput\<close>: the error of the command if it failed, its output and the world
  after it. \<open>sys_ruleset\<close> decodes the items of \<^verbatim>\<open>nftables\<close>, giving the raw value under \<^verbatim>\<open>chain\<close>
  of those that have one; \<open>sys_chain\<close> decodes such a value; \<open>sys_routes\<close> decodes the devices of a
  route list.
\<close>

record 'w sys =
  sys_exec :: "string \<Rightarrow> string list \<Rightarrow> 'w \<Rightarrow> (go_error option \<times> string) \<times> 'w"
  sys_ReadFile :: "string \<Rightarrow> 'w \<Rightarrow> string result"
  sys_WriteFile :: "string \<Rightarrow> string \<Rightarrow> 'w \<Rightarrow> go_error option \<times> 'w"
  sys_ruleset :: "string \<Rightarrow> string option list result"
  sys_chain :: "string \<Rightarrow> nftListChain result"
  sys_routes :: "string \<Rightarrow> string list result"
  sys_rand :: "byte list option"
  sys_pid :: nat
  sys_nanos :: nat

section \<open>Commands\<close>

definition command_error :: "string \<Rightarrow> string list \<Rightarrow> go_error \<Rightarrow> string \<Rightarrow> go_error" where
  "command_error prog args err out =
     GoErr Plain (prog @ '' '' @ Join args '' '' @ '': '' @ Error_text err @ '': '' @ TrimSpace out) (Some err)"

definition run_command :: "'w sys \<Rightarrow> string \<Rightarrow> string list \<Rightarrow> 'w \<Rightarrow> go_error option \<times> 'w" where
  "run_command s prog args w =
     (case sys_exec s prog args w of
        ((Some err, out), w') \<Rightarrow> (Some (command_error prog args err out), w')
      | ((None, out), w') \<Rightarrow> (None, w'))"

definition runIP :: "'w sys \<Rightarrow> string list \<Rightarrow> 'w \<Rightarrow> go_error option \<times> 'w" where
  "runIP s args w = run_command s ''ip'' args w"

definition runNFT :: "'w sys \<Rightarrow> string list \<Rightarrow> 'w \<Rightarrow> go_error option \<times> 'w" where
  "runNFT s args w = run_command s ''nft'' args w"

definition ipRuleExists :: "go_error option \<Rightarrow> bool" where
  "ipRuleExists err = (case err of None \<Rightarrow> False | Some e \<Rightarrow> Contains (Error_text e) ''File exists'')"

definition ipRuleMissing :: "go_error option \<Rightarrow> bool" where
  "ipRuleMissing err =
     (case err of None \<Rightarrow> False
      | Some e \<Rightarrow> (let msg = Error_text e
                   in Contains msg ''No such'' \<or> Contains msg ''not found'' \<or> Contains msg ''does not exist''))"

definition nftAlreadyExists :: "go_error option \<Rightarrow> bool" where
  "nftAlreadyExists err = (case err of None \<Rightarrow> False | Some e \<Rightarrow> Contains (Error_text e) ''File exists'')"

section \<open>Policy routing\<close>

record policyRouteConfig =
  pr_wgIface :: string
  pr_outIface :: string
  pr_table :: string

definition parsePolicyRoute :: "NodeConfig option \<Rightarrow> string \<Rightarrow> policyRouteConfig option" where
  "parsePolicyRoute cfg0 wgIface =
     (case cfg0 of None \<Rightarrow> None
      | Some cfg \<Rightarrow>
          (let table = TrimSpace (nc_WGRouteTable cfg); outIface = TrimSpace (nc_WGRouteOutInterface cfg)
           in if table = [] \<or> outIface = [] then None
              else Some \<lparr>pr_wgIface = wgIface, pr_outIface = outIface, pr_table = table\<rparr>))"

definition policy_apply :: "'w sys \<Rightarrow> policyRouteConfig \<Rightarrow> 'w \<Rightarrow> go_error option \<times> 'w" where
  "policy_apply s p w =
     (let (err1, w1) = runIP s [''rule'', ''add'', ''iif'', pr_wgIface p, ''lookup'', pr_table p] w
      in if err1 \<noteq> None \<and> \<not> ipRuleExists err1 then (err1, w1)
         else (let (err2, w2) = runIP s [''route'', ''add'', ''default'', ''dev'', pr_outIface p, ''table'', pr_table p] w1
               in if err2 \<noteq> None \<and> \<not> ipRuleExists err2 then (err2, w2) else (None, w2)))"

definition policy_cleanup :: "'w sys \<Rightarrow> policyRouteConfig \<Rightarrow> 'w \<Rightarrow> go_error list \<times> 'w" where
  "policy_cleanup s p w =
     (let (err1, w1) = runIP s [''route'', ''del'', ''default'', ''dev'', pr_outIface p, ''table'', pr_table p] w;
          (err2, w2) = runIP s [''rule'', ''del'', ''iif'', pr_wgIface p, ''lookup'', pr_table p] w1
      in ((if err1 \<noteq> None \<and> \<not> ipRuleMissing err1 then [the err1] else []) @
          (if err2 \<noteq> None \<and> \<not> ipRuleMissing err2 then [the err2] else []), w2))"

section \<open>Rules\<close>

record nftBaseChain =
  ch_family :: string
  ch_table :: string
  ch_name :: string

definition nftString :: "string \<Rightarrow> string" where
  "nftString s = quoted s"

definition nftRuleCommentPrefix :: string where
  "nftRuleCommentPrefix = ''pg_node_wg ''"

definition nftOwnerCommentPrefix :: "string \<Rightarrow> string" where
  "nftOwnerCommentPrefix ownerID = nftRuleCommentPrefix @ ''owner='' @ ownerID @ '' ''"

definition nftForwardRuleComment :: "string \<Rightarrow> string \<Rightarrow> string \<Rightarrow> bool \<Rightarrow> string" where
  "nftForwardRuleComment ownerID wgIface outputIface outbound =
     nftRuleCommentPrefix @ ''owner='' @ ownerID @ '' type=forward iface='' @ wgIface @ '' out='' @
     outputIface @ '' direction='' @ (if outbound then ''outbound'' else ''return'')"

definition nftNATRuleComment :: "string \<Rightarrow> string \<Rightarrow> string \<Rightarrow> bool \<Rightarrow> string" where
  "nftNATRuleComment ownerID wgIface outputIface egressOnly =
     nftRuleCommentPrefix @ ''owner='' @ ownerID @ '' type=nat iface='' @ wgIface @ '' out='' @
     outputIface @ '' scope='' @ (if egressOnly then ''egress'' else ''interface'')"

fun rule_handles :: "string list \<Rightarrow> string \<Rightarrow> string list" where
  "rule_handles [] commentPrefix = []"
| "rule_handles (line # ls) commentPrefix =
     (if \<not> Contains line commentPrefix then rule_handles ls commentPrefix
      else case Cut line ''# handle '' of
             None \<Rightarrow> rule_handles ls commentPrefix
           | Some (before, handle) \<Rightarrow>
               (if TrimSpace before = [] then rule_handles ls commentPrefix
                else case Fields handle of
                       [] \<Rightarrow> rule_handles ls commentPrefix
                     | f # fs \<Rightarrow> f # rule_handles ls commentPrefix))"

definition nftRuleHandlesWithComment :: "string \<Rightarrow> string \<Rightarrow> string list" where
  "nftRuleHandlesWithComment data commentPrefix = rule_handles (Split data nl) commentPrefix"

fun delete_handles :: "'w sys \<Rightarrow> nftBaseChain \<Rightarrow> string list \<Rightarrow> 'w \<Rightarrow> go_error option \<times> 'w" where
  "delete_handles s chain [] w = (None, w)"
| "delete_handles s chain (handle # handles) w =
     (case runNFT s [''delete'', ''rule'', ch_family chain, ch_table chain, ch_name chain, ''handle'', handle] w of
        (Some err, w') \<Rightarrow> (Some err, w')
      | (None, w') \<Rightarrow> delete_handles s chain handles w')"

definition removeNFTRulesWithCommentPrefix ::
  "'w sys \<Rightarrow> nftBaseChain \<Rightarrow> string \<Rightarrow> 'w \<Rightarrow> go_error option \<times> 'w" where
  "removeNFTRulesWithCommentPrefix s chain commentPrefix w =
     (let args = [''-a'', ''list'', ''chain'', ch_family chain, ch_table chain, ch_name chain]
      in case sys_exec s ''nft'' args w of
           ((Some err, out), w') \<Rightarrow> (Some (command_error ''nft'' args err out), w')
         | ((None, out), w') \<Rightarrow>
             delete_handles s chain (nftRuleHandlesWithComment out commentPrefix) w')"

definition nftMasqueradeRuleArgs :: "string \<Rightarrow> string \<Rightarrow> bool \<Rightarrow> string list" where
  "nftMasqueradeRuleArgs wgIface outputIface egressOnly =
     (if egressOnly then [''oifname'', nftString outputIface, ''masquerade'']
      else [''iifname'', nftString wgIface, ''oifname'', nftString outputIface, ''masquerade''])"

definition nat_chain :: nftBaseChain where
  "nat_chain = \<lparr>ch_family = ''ip'', ch_table = ''pg_node_wg_nat'', ch_name = ''postrouting''\<rparr>"

definition ensureNFTMasquerade ::
  "'w sys \<Rightarrow> string \<Rightarrow> string \<Rightarrow> bool \<Rightarrow> string \<Rightarrow> 'w \<Rightarrow> go_error option \<times> 'w" where
  "ensureNFTMasquerade s wgIface outputIface egressOnly ownerID w =
     (let (err1, w1) = runNFT s [''add'', ''table'', ''ip'', ''pg_node_wg_nat''] w
      in if err1 \<noteq> None \<and> \<not> nftAlreadyExists err1 then (err1, w1)
         else
           let (err2, w2) = runNFT s ([''add'', ''chain'', ''ip'', ''pg_node_wg_nat'', ''postrouting''] @
                 [''{'', ''type'', ''nat'', ''hook'', ''postrouting'', ''priority'', ''100'', '';'',
                  ''policy'', ''accept'', '';'', ''}'']) w1
           in if err2 \<noteq> None \<and> \<not> nftAlreadyExists err2 then (err2, w2)
              else
                let (err3, w3) = removeNFTRulesWithCommentPrefix s nat_chain (nftOwnerCommentPrefix ownerID) w2
                in if err3 \<noteq> None then (err3, w3)
                   else runNFT s ([''add'', ''rule'', ''ip'', ''pg_node_wg_nat'', ''postrouting''] @
                          nftMasqueradeRuleArgs wgIface outputIface egressOnly @
                          [''comment'', nftString (nftNATRuleComment ownerID wgIface outputIface egressOnly)]) w3)"

definition nftForwardFamilySupported :: "string \<Rightarrow> bool" where
  "nftForwardFamilySupported family \<longleftrightarrow> family = ''ip'' \<or> family = ''inet''"

fun forward_chains :: "'w sys \<Rightarrow> string option list \<Rightarrow> nftBaseChain list result" where
  "forward_chains s [] = Inr []"
| "forward_chains s (None # items) = forward_chains s items"
| "forward_chains s (Some raw # items) =
     (case sys_chain s raw of
        Inl err \<Rightarrow> Inl (Errorf_w ''parse nft chain: '' err)
      | Inr chain \<Rightarrow>
          (case forward_chains s items of
             Inl err \<Rightarrow> Inl err
           | Inr chs \<Rightarrow>
               if nl_Hook chain \<noteq> ''forward'' \<or> \<not> nftForwardFamilySupported (nl_Family chain)
               then Inr chs
               else Inr (\<lparr>ch_family = nl_Family chain, ch_table = nl_Table chain,
                          ch_name = nl_Name chain\<rparr> # chs)))"

definition parseNFTForwardBaseChains :: "'w sys \<Rightarrow> string \<Rightarrow> nftBaseChain list result" where
  "parseNFTForwardBaseChains s data =
     (case sys_ruleset s data of
        Inl err \<Rightarrow> Inl (Errorf_w ''parse nft ruleset: '' err)
      | Inr items \<Rightarrow> forward_chains s items)"

definition nftForwardBaseChains :: "'w sys \<Rightarrow> 'w \<Rightarrow> nftBaseChain list result \<times> 'w" where
  "nftForwardBaseChains s w =
     (case sys_exec s ''nft'' [''-j'', ''list'', ''ruleset''] w of
        ((Some err, out), w') \<Rightarrow> (Inl (command_error ''nft'' [''-j'', ''list'', ''ruleset''] err out), w')
      | ((None, out), w') \<Rightarrow> (parseNFTForwardBaseChains s out, w'))"

definition insertNFTForwardRule ::
  "'w sys \<Rightarrow> nftBaseChain \<Rightarrow> string \<Rightarrow> string \<Rightarrow> string \<Rightarrow> bool \<Rightarrow> 'w \<Rightarrow> go_error option \<times> 'w" where
  "insertNFTForwardRule s chain wgIface outputIface ownerID outbound w =
     (let comment = nftForwardRuleComment ownerID wgIface outputIface outbound;
          args = [''insert'', ''rule'', ch_family chain, ch_table chain, ch_name chain]
      in runNFT s (args @
           (if outbound
            then [''iifname'', nftString wgIface, ''oifname'', nftString outputIface, ''accept'',
                  ''comment'', nftString comment]
            else [''iifname'', nftString outputIface, ''oifname'', nftString wgIface, ''ct'', ''state'',
                  ''established,related'', ''accept'', ''comment'', nftString comment])) w)"

fun forward_rules :: "'w sys \<Rightarrow> string \<Rightarrow> string \<Rightarrow> string \<Rightarrow> nftBaseChain list \<Rightarrow> 'w \<Rightarrow> go_error option \<times> 'w" where
  "forward_rules s wgIface outputIface ownerID [] w = (None, w)"
| "forward_rules s wgIface outputIface ownerID (chain # chs) w =
     (case removeNFTRulesWithCommentPrefix s chain (nftOwnerCommentPrefix ownerID) w of
        (Some err, w1) \<Rightarrow> (Some err, w1)
      | (None, w1) \<Rightarrow>
          (case insertNFTForwardRule s chain wgIface outputIface ownerID False w1 of
             (Some err, w2) \<Rightarrow> (Some err, w2)
           | (None, w2) \<Rightarrow>
               (case insertNFTForwardRule s chain wgIface outputIface ownerID True w2 of
                  (Some err, w3) \<Rightarrow> (Some err, w3)
                | (None, w3) \<Rightarrow> forward_rules s wgIface outputIface ownerID chs w3)))"

definition ensureNFTForwarding ::
  "'w sys \<Rightarrow> string \<Rightarrow> string \<Rightarrow> string \<Rightarrow> 'w \<Rightarrow> go_error option \<times> 'w" where
  "ensureNFTForwarding s wgIface outputIface ownerID w =
     (case nftForwardBaseChains s w of
        (Inl err, w') \<Rightarrow> (Some err, w')
      | (Inr chs, w') \<Rightarrow> forward_rules s wgIface outputIface ownerID chs w')"

definition ensureIPv4Forwarding :: "'w sys \<Rightarrow> 'w \<Rightarrow> go_error option \<times> 'w" where
  "ensureIPv4Forwarding s w =
     (let path = ''/proc/sys/net/ipv4/ip_forward''
      in case sys_ReadFile s path w of
           Inl err \<Rightarrow> (Some (Errorf_w (''read '' @ path @ '': '') err), w)
         | Inr out \<Rightarrow>
             if TrimSpace out = ''1'' then (None, w)
             else (case sys_WriteFile s path (''1'' @ nl) w of
                     (Some err, w') \<Rightarrow> (Some (Errorf_w (''write '' @ path @ '': '') err), w')
                   | (None, w') \<Rightarrow> (None, w')))"

fun remove_from_chains :: "'w sys \<Rightarrow> string \<Rightarrow> nftBaseChain list \<Rightarrow> 'w \<Rightarrow> go_error list \<times> 'w" where
  "remove_from_chains s commentPrefix [] w = ([], w)"
| "remove_from_chains s commentPrefix (chain # chs) w =
     (let (err, w1) = removeNFTRulesWithCommentPrefix s chain commentPrefix w;
          (errs, w2) = remove_from_chains s commentPrefix chs w1
      in ((case err of None \<Rightarrow> errs | Some e \<Rightarrow> e # errs), w2))"

definition cleanupLinuxHostRouting :: "'w sys \<Rightarrow> string \<Rightarrow> 'w \<Rightarrow> go_error list \<times> 'w" where
  "cleanupLinuxHostRouting s ownerID w =
     (let (err1, w1) = removeNFTRulesWithCommentPrefix s nat_chain (nftOwnerCommentPrefix ownerID) w;
          errs1 = (case err1 of None \<Rightarrow> [] | Some e \<Rightarrow> [e])
      in case nftForwardBaseChains s w1 of
           (Inl err, w2) \<Rightarrow> (errs1 @ [err], w2)
         | (Inr chs, w2) \<Rightarrow>
             (let (errs, w3) = remove_from_chains s (nftOwnerCommentPrefix ownerID) chs w2
              in (errs1 @ errs, w3)))"

section \<open>Owners\<close>

definition owner_char :: "char \<Rightarrow> bool" where
  "owner_char c \<longleftrightarrow>
     (let n = of_char c :: nat
      in 97 \<le> n \<and> n \<le> 122 \<or> 65 \<le> n \<and> n \<le> 90 \<or> 48 \<le> n \<and> n \<le> 57 \<or> c = CHR ''_'' \<or> c = CHR ''-'' \<or> c = CHR ''.'')"

definition sanitizeNFTOwnerPart :: "string \<Rightarrow> string" where
  "sanitizeNFTOwnerPart s0 =
     (let s = TrimSpace s0
      in if s = [] then ''wg''
         else (let b = map (\<lambda>r. if owner_char r then r else CHR ''_'') s
               in if b = [] then ''wg'' else b))"

definition hex_string :: "byte list \<Rightarrow> string" where
  "hex_string bs =
     concat (map (\<lambda>b. map (\<lambda>n. if n < 10 then char_of (48 + n) else char_of (87 + n)) [unat b div 16, unat b mod 16]) bs)"

definition newHostRoutingOwnerID :: "'w sys \<Rightarrow> string \<Rightarrow> string" where
  "newHostRoutingOwnerID s wgIface =
     (case sys_rand s of
        None \<Rightarrow> sanitizeNFTOwnerPart wgIface @ ''_'' @ decimal (sys_pid s) @ ''_'' @ decimal (sys_nanos s)
      | Some b \<Rightarrow> sanitizeNFTOwnerPart wgIface @ ''_'' @ decimal (sys_pid s) @ ''_'' @ hex_string b)"

section \<open>The default route\<close>

fun default_iface :: "string list \<Rightarrow> string option" where
  "default_iface [] = None"
| "default_iface (line # ls) =
     (case Fields line of
        iface # dest # fs \<Rightarrow>
          (if iface = ''Iface'' then default_iface ls
           else if dest = ''00000000'' then Some iface else default_iface ls)
      | _ \<Rightarrow> default_iface ls)"

definition parseDefaultIfaceFromProcNetRoute :: "string \<Rightarrow> string option" where
  "parseDefaultIfaceFromProcNetRoute data = default_iface (Split data nl)"

definition route_device :: "'w sys \<Rightarrow> go_error option \<times> string \<Rightarrow> string option" where
  "route_device s r =
     (case r of
        (Some err, out) \<Rightarrow> None
      | (None, out) \<Rightarrow>
          (case sys_routes s (TrimSpace out) of
             Inl err \<Rightarrow> None
           | Inr [] \<Rightarrow> None
           | Inr (d # ds) \<Rightarrow> (if TrimSpace d = [] then None else Some (TrimSpace d))))"

definition linuxDefaultRouteInterfaceIPv4 :: "'w sys \<Rightarrow> 'w \<Rightarrow> string option \<times> 'w" where
  "linuxDefaultRouteInterfaceIPv4 s w =
     (let (r, w') = sys_exec s ''ip'' [''-4'', ''-j'', ''route'', ''show'', ''default''] w
      in case route_device s r of
           Some dev \<Rightarrow> (Some dev, w')
         | None \<Rightarrow>
             (case sys_ReadFile s ''/proc/net/route'' w' of
                Inl err \<Rightarrow> (None, w')
              | Inr out \<Rightarrow> (parseDefaultIfaceFromProcNetRoute out, w')))"

section \<open>Applying it\<close>

text \<open>
  The result is the clean-up function, or \<open>None\<close> when host routing is off. Errors of the steps
  are only logged.
\<close>

definition host_routing_cleanup :: "'w sys \<Rightarrow> policyRouteConfig option \<Rightarrow> string \<Rightarrow> 'w \<Rightarrow> 'w" where
  "host_routing_cleanup s policyRoute ownerID w =
     (let w1 = (case policyRoute of None \<Rightarrow> w | Some p \<Rightarrow> snd (policy_cleanup s p w))
      in snd (cleanupLinuxHostRouting s ownerID w1))"

definition applyLinuxHostRouting ::
  "'w sys \<Rightarrow> NodeConfig option \<Rightarrow> string \<Rightarrow> 'w \<Rightarrow> ('w \<Rightarrow> 'w) option \<times> 'w" where
  "applyLinuxHostRouting s cfg wgInterfaceName w =
     (if (case cfg of None \<Rightarrow> False | Some c \<Rightarrow> \<not> nc_WGHostRouting c) then (None, w)
      else
        (let wgIf = (if TrimSpace wgInterfaceName = [] then ''wg0'' else TrimSpace wgInterfaceName);
             out0 = (case cfg of None \<Rightarrow> [] | Some c \<Rightarrow> TrimSpace (nc_WGNATOutputInterface c));
             (outIf, w1) = (if out0 = []
                            then (case linuxDefaultRouteInterfaceIPv4 s w of
                                    (Some dev, w') \<Rightarrow> (dev, w') | (None, w') \<Rightarrow> (''eth0'', w'))
                            else (out0, w));
             natDisabled = (case cfg of None \<Rightarrow> False | Some c \<Rightarrow> nc_WGNATDisable c);
             egressOnly = (case cfg of None \<Rightarrow> True | Some c \<Rightarrow> nc_WGNATEgressOnly c);
             ownerID = newHostRoutingOwnerID s wgIf;
             w2 = snd (ensureIPv4Forwarding s w1);
             w3 = (if natDisabled then w2 else snd (ensureNFTMasquerade s wgIf outIf egressOnly ownerID w2));
             w4 = snd (ensureNFTForwarding s wgIf outIf ownerID w3);
             policyRoute = parsePolicyRoute cfg wgIf;
             w5 = (case policyRoute of None \<Rightarrow> w4 | Some p \<Rightarrow> snd (policy_apply s p w4))
         in (Some (host_routing_cleanup s policyRoute ownerID), w5)))"

end
