(* ===== verification/WireGuardBackend.thy ===== *)
theory WireGuardBackend
  imports WGManager StatsTracker HostRouting
begin

text \<open>
  \<^verbatim>\<open>backend/wireguard/wireguard.go\<close>, \<^verbatim>\<open>user.go\<close>, \<^verbatim>\<open>user_full_sync.go\<close>, \<^verbatim>\<open>user_partial_sync.go\<close>,
  \<^verbatim>\<open>jobs.go\<close>, \<^verbatim>\<open>stats.go\<close>, \<^verbatim>\<open>log.go\<close> and \<^verbatim>\<open>latency.go\<close>: the WireGuard backend. Every operation takes
  the backend record and the world and returns them after it. The mutex \<^verbatim>\<open>syncMu\<close> makes the
  synchronising operations one after the other, so each is one step. A run-time panic of the source
  (nil configuration, ticker interval that is not positive) is an error of kind \<open>Panic\<close>. The record
  \<open>ctx\<close> holds the parameters: the host, the system, the key functions, the validator of AmneziaWG
  profiles, the iteration orders, the clock and the timestamp text of log lines.
\<close>

section \<open>State\<close>

datatype lifecycleState = lifecycleStopped | lifecycleStarting | lifecycleRunning

record 'w ctx =
  cx_host :: "'w host"
  cx_sys :: "'w sys"
  cx_ParseKey :: "string \<Rightarrow> Key option"
  cx_KeyString :: "Key \<Rightarrow> string"
  cx_Validate :: "DeviceConfig \<Rightarrow> go_error option"
  cx_rng :: go_iter
  cx_now :: gotime
  cx_stamp :: string

text \<open>\<open>wg_logChan\<close>: the capacity and the queued lines of the channel, or \<open>None\<close> once it is closed.\<close>

record 'w WireGuard =
  wg_config :: "Config option"
  wg_cfg :: NodeConfig
  wg_manager :: "Manager option"
  wg_statsTracker :: Tracker
  wg_peerStore :: PeerStore
  wg_logChan :: "(nat \<times> string list) option"
  wg_startTime :: gotime
  wg_version :: string
  wg_state :: lifecycleState
  wg_interfaceStats :: InterfaceCountersTracker
  wg_shutdownOnce :: bool
  wg_lastStatsErrAt :: gotime
  wg_hostRouting :: "('w \<Rightarrow> 'w) option"

type_synonym 'w wg_op = "'w WireGuard \<Rightarrow> 'w \<Rightarrow> go_error option \<times> 'w WireGuard \<times> 'w"

definition errWireGuardNotStarted :: go_error where
  "errWireGuardNotStarted = errors_New ''wireguard not started''"

definition errWireGuardManagerNotInitialized :: go_error where
  "errWireGuardManagerNotInitialized = errors_New ''wireguard manager not initialized''"

definition nil_config :: go_error where
  "nil_config = go_panic ''nil pointer dereference''"

section \<open>Logs\<close>

definition formatWireGuardLogLine :: "'w ctx \<Rightarrow> string \<Rightarrow> string \<Rightarrow> string" where
  "formatWireGuardLogLine cx severity message = cx_stamp cx @ '' ['' @ severity @ ''] '' @ message"

definition emitLogLocked :: "'w ctx \<Rightarrow> string \<Rightarrow> string \<Rightarrow> 'w WireGuard \<Rightarrow> 'w WireGuard" where
  "emitLogLocked cx severity message wg =
     (case wg_logChan wg of
        None \<Rightarrow> wg
      | Some (n, q) \<Rightarrow>
          (if length q < n
           then wg\<lparr>wg_logChan := Some (n, q @ [formatWireGuardLogLine cx severity message])\<rparr>
           else wg))"

section \<open>Readiness\<close>

definition lifecycleReadinessError :: "lifecycleState \<Rightarrow> go_error option" where
  "lifecycleReadinessError state =
     (case state of lifecycleRunning \<Rightarrow> None | _ \<Rightarrow> Some errWireGuardNotStarted)"

definition ensureRunningWithManagerLocked :: "'w WireGuard \<Rightarrow> go_error option" where
  "ensureRunningWithManagerLocked wg =
     (case lifecycleReadinessError (wg_state wg) of
        Some err \<Rightarrow> Some err
      | None \<Rightarrow> (if wg_manager wg = None then Some errWireGuardManagerNotInitialized else None))"

definition getWireGuardVersion :: "'w sys \<Rightarrow> 'w \<Rightarrow> string \<times> 'w" where
  "getWireGuardVersion s w =
     (case sys_exec s ''wg'' [''--version''] w of
        ((Some err, out), w') \<Rightarrow> (''unknown'', w')
      | ((None, out), w') \<Rightarrow>
          (case Split out nl of
             [] \<Rightarrow> (''unknown'', w')
           | firstLine # _ \<Rightarrow>
               (case Fields (TrimSpace firstLine) of
                  _ # v # _ \<Rightarrow> (v, w')
                | _ \<Rightarrow> (''unknown'', w'))))"

section \<open>Synchronisation of users\<close>

definition peers_by_key :: "(Key \<Rightarrow> string) \<Rightarrow> PeerInfo list \<Rightarrow> (string \<rightharpoonup> PeerInfo)" where
  "peers_by_key ks peers = fold (\<lambda>p m. m(ks (pi_PublicKey p) \<mapsto> p)) peers Map.empty"

definition buildExistingPeersByKeySnapshot :: "'w ctx \<Rightarrow> 'w WireGuard \<Rightarrow> (string \<rightharpoonup> PeerInfo)" where
  "buildExistingPeersByKeySnapshot cx wg =
     peers_by_key (cx_KeyString cx) (GetAll (cx_rng cx) (wg_peerStore wg))"

definition buildExistingPeersSubsetForTouched ::
  "'w ctx \<Rightarrow> string set \<Rightarrow> 'w WireGuard \<Rightarrow> (string \<rightharpoonup> PeerInfo)" where
  "buildExistingPeersSubsetForTouched cx touchedEmails wg =
     peers_by_key (cx_KeyString cx)
       (List.map_filter (GetByEmail (wg_peerStore wg)) (cx_rng cx 7 touchedEmails))"

definition remove_stats :: "string list \<Rightarrow> Tracker \<Rightarrow> Tracker" where
  "remove_stats removedKeys st = fold RemoveStats removedKeys st"

definition psk_or_nil :: "Key option result \<Rightarrow> Key option" where
  "psk_or_nil r = (case r of Inl _ \<Rightarrow> None | Inr k \<Rightarrow> k)"

definition syncUsersFull :: "'w ctx \<Rightarrow> User option list \<Rightarrow> 'w wg_op" where
  "syncUsersFull cx users wg w =
     (case wg_config wg of
        None \<Rightarrow> (Some nil_config, wg, w)
      | Some c \<Rightarrow>
          (let normalizedUsers = normalizeUsers (cx_rng cx) users;
               existingByKey = buildExistingPeersByKeySnapshot cx wg
           in case collectDesiredPeers (cx_ParseKey cx) c normalizedUsers of
                Inl err \<Rightarrow> (Some err, wg, w)
              | Inr desiredPeers \<Rightarrow>
                  (case buildSyncDiff (cx_rng cx) (cx_ParseKey cx) c existingByKey desiredPeers of
                     (Inl err, c1) \<Rightarrow> (Some err, wg\<lparr>wg_config := Some c1\<rparr>, w)
                   | (Inr diff, c1) \<Rightarrow>
                       if \<not> sd_Changed diff then (None, wg\<lparr>wg_config := Some c1\<rparr>, w)
                       else
                         (let (pskr, c2) = GetPreSharedKey (cx_ParseKey cx) c1;
                              wg1 = wg\<lparr>wg_config := Some c2\<rparr>;
                              (configs0, appliedKeys) =
                                buildTargetPeerConfigs (cx_rng cx) (sd_TargetPeers diff) (psk_or_nil pskr);
                              peerConfigs = setPeerAdvancedSecurity configs0 (c_AmneziaWG c2)
                          in case ensureRunningWithManagerLocked wg1 of
                               Some err \<Rightarrow> (Some err, wg1, w)
                             | None \<Rightarrow>
                                 (case ApplyPeersReplaceAll (cx_host cx) (the (wg_manager wg1)) peerConfigs w of
                                    (Some err, w1) \<Rightarrow>
                                      (Some (Errorf_w ''failed to apply full peer snapshot: '' err), wg1, w1)
                                  | (None, w1) \<Rightarrow>
                                      (let validTargetPeers = List.map_filter
                                             (\<lambda>key. if key \<in> appliedKeys then sd_TargetPeers diff key else None)
                                             (cx_rng cx 8 (dom (sd_TargetPeers diff)));
                                           (removedKeys, store) = ReplaceAll (cx_rng cx) (cx_KeyString cx)
                                             (wg_peerStore wg1) (map Some validTargetPeers)
                                       in (None, wg1\<lparr>wg_peerStore := store,
                                             wg_statsTracker := remove_stats removedKeys (wg_statsTracker wg1)\<rparr>, w1)))))))"

text \<open>The first desired key, in iteration order, that belongs to a user the request does not touch.\<close>

definition foreign_owner ::
  "(string \<rightharpoonup> string) \<Rightarrow> string set \<Rightarrow> (string \<rightharpoonup> DesiredPeer) \<Rightarrow> string \<Rightarrow> bool" where
  "foreign_owner currentOwners touchedEmails desiredPeers key =
     (case (currentOwners key, desiredPeers key) of
        (Some currentOwner, Some desired) \<Rightarrow>
          currentOwner \<noteq> dp_Email desired \<and> currentOwner \<notin> touchedEmails
      | _ \<Rightarrow> False)"

definition syncUsersPartialReconcile :: "'w ctx \<Rightarrow> User option list \<Rightarrow> 'w wg_op" where
  "syncUsersPartialReconcile cx users wg w =
     (case wg_config wg of
        None \<Rightarrow> (Some nil_config, wg, w)
      | Some c \<Rightarrow>
          (let normalizedUsers = normalizeUsers (cx_rng cx) users;
               touchedEmails = u_Email ` set normalizedUsers;
               existingSubset = buildExistingPeersSubsetForTouched cx touchedEmails wg
           in case collectDesiredPeers (cx_ParseKey cx) c normalizedUsers of
                Inl err \<Rightarrow> (Some err, wg, w)
              | Inr desiredPeers \<Rightarrow>
                  (let currentOwners = GetEmailMap (wg_peerStore wg)
                   in case List.find (foreign_owner currentOwners touchedEmails desiredPeers)
                             (cx_rng cx 9 (dom desiredPeers)) of
                        Some key \<Rightarrow>
                          (Some (errors_New (''wireguard public key '' @ key @
                             '' is already assigned to user '' @ the (currentOwners key))), wg, w)
                      | None \<Rightarrow>
                          (case buildSyncDiff (cx_rng cx) (cx_ParseKey cx) c existingSubset desiredPeers of
                             (Inl err, c1) \<Rightarrow> (Some err, wg\<lparr>wg_config := Some c1\<rparr>, w)
                           | (Inr diff, c1) \<Rightarrow>
                               (let wg1 = wg\<lparr>wg_config := Some c1\<rparr>;
                                    (err, w1) =
                                      (if sd_PeerConfigs diff \<noteq> []
                                       then (case ensureRunningWithManagerLocked wg1 of
                                               Some err \<Rightarrow> (Some err, w)
                                             | None \<Rightarrow>
                                                 (case ApplyPeers (cx_host cx) (the (wg_manager wg1))
                                                         (sd_PeerConfigs diff) w of
                                                    (Some err, w') \<Rightarrow>
                                                      (Some (Errorf_w ''failed to apply peer changes: '' err), w')
                                                  | (None, w') \<Rightarrow> (None, w')))
                                       else (None, w))
                                in if err \<noteq> None then (err, wg1, w1)
                                   else
                                     (let (removedKeys, store) = ApplyChanges (cx_KeyString cx) (wg_peerStore wg1)
                                            (sd_RemoveKeys diff) (map Some (sd_UpsertPeers diff))
                                      in (None, wg1\<lparr>wg_peerStore := store,
                                            wg_statsTracker := remove_stats removedKeys (wg_statsTracker wg1)\<rparr>, w1)))))))"

section \<open>Restart\<close>

fun restart_configs :: "PeerInfo list \<Rightarrow> Key option \<Rightarrow> PeerConfig list result" where
  "restart_configs [] psk = Inr []"
| "restart_configs (peer # peers) psk =
     (if pi_AllowedIPs peer = []
      then Inl (errors_New (''peer '' @ pi_Email peer @ '' has no allowed IPs''))
      else case restart_configs peers psk of
             Inl err \<Rightarrow> Inl err
           | Inr configs \<Rightarrow> Inr (buildAddConfig (pi_PublicKey peer) (pi_AllowedIPs peer) psk # configs))"

definition buildPeerConfigsForRestart ::
  "(Key \<Rightarrow> string) \<Rightarrow> PeerInfo list \<Rightarrow> Key option \<Rightarrow> PeerConfig list result" where
  "buildPeerConfigsForRestart KeyString peers psk =
     restart_configs (sort_key (\<lambda>p. KeyString (pi_PublicKey p)) peers) psk"

definition restartLocked :: "'w ctx \<Rightarrow> 'w wg_op" where
  "restartLocked cx wg w =
     (case wg_config wg of
        None \<Rightarrow> (Some (errors_New ''wireguard config not initialized''), wg, w)
      | Some c \<Rightarrow>
          (case GetPrivateKey (cx_ParseKey cx) c of
             (Inl err, c1) \<Rightarrow> (Some (Errorf_w ''failed to get private key: '' err), wg\<lparr>wg_config := Some c1\<rparr>, w)
           | (Inr privateKey, c1) \<Rightarrow>
               (let listenPort = c_ListenPort c1;
                    allPeers = GetAll (cx_rng cx) (wg_peerStore wg);
                    (pskr, c2) = GetPreSharedKey (cx_ParseKey cx) c1;
                    wg1 = wg\<lparr>wg_config := Some c2\<rparr>
                in case buildPeerConfigsForRestart (cx_KeyString cx) allPeers (psk_or_nil pskr) of
                     Inl err \<Rightarrow> (Some (Errorf_w ''failed to build restart peer configs: '' err), wg1, w)
                   | Inr configs0 \<Rightarrow>
                       (let peerConfigs = setPeerAdvancedSecurity configs0 (c_AmneziaWG c2)
                        in case ensureRunningWithManagerLocked wg1 of
                             Some err \<Rightarrow> (Some err, wg1, w)
                           | None \<Rightarrow>
                               (let wg2 = emitLogLocked cx ''Info'' ''dynamically reconfiguring wireguard interface'' wg1;
                                    config = empty_device_config\<lparr>dc_PrivateKey := Some privateKey,
                                      dc_ListenPort := Some listenPort, dc_Peers := peerConfigs, dc_ReplacePeers := True\<rparr>
                                in case ApplyConfig (cx_host cx) (the (wg_manager wg2)) config w of
                                     (Some err, w1) \<Rightarrow>
                                       (Some (Errorf_w ''failed to reconfigure interface during restart: '' err), wg2, w1)
                                   | (None, w1) \<Rightarrow>
                                       (None, emitLogLocked cx ''Info''
                                          ''wireguard interface reconfigured successfully without downtime'' wg2, w1))))))"

definition wg_Restart :: "'w ctx \<Rightarrow> 'w wg_op" where
  "wg_Restart cx = restartLocked cx"

section \<open>Operations of the users\<close>

definition wg_SyncUser :: "'w ctx \<Rightarrow> User option \<Rightarrow> 'w wg_op" where
  "wg_SyncUser cx user wg w =
     (if user = None then (Some (errors_New ''user is nil''), wg, w)
      else syncUsersPartialReconcile cx [user] wg w)"

definition wg_SyncUsers :: "'w ctx \<Rightarrow> User option list \<Rightarrow> 'w wg_op" where
  "wg_SyncUsers cx users = syncUsersFull cx users"

definition wg_UpdateUsers :: "'w ctx \<Rightarrow> User option list \<Rightarrow> 'w wg_op" where
  "wg_UpdateUsers cx users = syncUsersPartialReconcile cx users"

definition wg_UpdateUsersAndRestart :: "'w ctx \<Rightarrow> User option list \<Rightarrow> 'w wg_op" where
  "wg_UpdateUsersAndRestart cx users wg w =
     (case syncUsersPartialReconcile cx users wg w of
        (Some err, wg1, w1) \<Rightarrow> (Some err, wg1, w1)
      | (None, wg1, w1) \<Rightarrow> restartLocked cx wg1 w1)"

section \<open>Start and shutdown\<close>

text \<open>\<^verbatim>\<open>time.Duration(n) * time.Second\<close> wraps as \<^verbatim>\<open>int64\<close>; \<^verbatim>\<open>time.NewTicker\<close> panics unless positive.\<close>

definition ticker_ok :: "int \<Rightarrow> bool" where
  "ticker_ok n \<longleftrightarrow> 0 < sint (word_of_int (n * second) :: int64)"

definition initStatsTickers :: "NodeConfig \<Rightarrow> go_error option" where
  "initStatsTickers cfg =
     (if \<not> ticker_ok (nc_StatsUpdateIntervalSeconds cfg) \<or> \<not> ticker_ok (nc_StatsCleanupIntervalSeconds cfg)
      then Some (go_panic ''non-positive interval for NewTicker'') else None)"

definition wg_initial :: "'w ctx \<Rightarrow> NodeConfig \<Rightarrow> string \<Rightarrow> 'w WireGuard" where
  "wg_initial cx cfg version =
     \<lparr>wg_config = None, wg_cfg = cfg, wg_manager = None, wg_statsTracker = stats_New,
      wg_peerStore = NewPeerStore, wg_logChan = Some (nat (nc_LogBufferSize cfg), []),
      wg_startTime = cx_now cx, wg_version = version, wg_state = lifecycleStarting,
      wg_interfaceStats = NewInterfaceCountersTracker, wg_shutdownOnce = False,
      wg_lastStatsErrAt = time_zero, wg_hostRouting = None\<rparr>"

text \<open>The last part of \<^verbatim>\<open>newWithManagerFactory\<close>: the manager exists.\<close>

definition start_with_manager ::
  "'w ctx \<Rightarrow> NodeConfig \<Rightarrow> Config \<Rightarrow> Key \<Rightarrow> PeerConfig list \<Rightarrow> string set \<Rightarrow> PeerInfo list \<Rightarrow>
   'w WireGuard \<Rightarrow> Manager \<Rightarrow> 'w \<Rightarrow> 'w WireGuard result \<times> 'w" where
  "start_with_manager cx cfg c privateKey peerConfigs appliedKeys upserts wg manager w =
     (case InitializeWithPeers (cx_host cx) manager privateKey (c_ListenPort c) (c_Address c) peerConfigs w of
        (Some err, w1) \<Rightarrow>
          (let (_, _, w2) = Manager_Close (cx_host cx) manager w1
           in (Inl (Errorf_w ''failed to initialize interface: '' err), w2))
      | (None, w1) \<Rightarrow>
          (let (routing, w2) = applyLinuxHostRouting (cx_sys cx) (Some cfg) (c_InterfaceName c) w1;
               store = Init (cx_KeyString cx) (wg_peerStore wg)
                 (map Some (filterUpsertsByAppliedKeys (cx_KeyString cx) upserts appliedKeys));
               wg1 = wg\<lparr>wg_config := Some c, wg_hostRouting := routing, wg_manager := Some manager,
                        wg_peerStore := store\<rparr>
           in case initStatsTickers cfg of
                Some err \<Rightarrow> (Inl err, w2)
              | None \<Rightarrow>
                  (Inr (emitLogLocked cx ''Info''
                     (''WireGuard interface '' @ c_InterfaceName c @ '' initialized successfully'')
                     (wg1\<lparr>wg_state := lifecycleRunning\<rparr>)), w2)))"

definition newWithManagerFactory ::
  "'w ctx \<Rightarrow> NodeConfig \<Rightarrow> Config option \<Rightarrow> User option list \<Rightarrow>
   (string \<Rightarrow> 'w \<Rightarrow> Manager result \<times> 'w) \<Rightarrow> 'w \<Rightarrow> 'w WireGuard result \<times> 'w" where
  "newWithManagerFactory cx cfg wgConfig users managerFactory w0 =
     (let (version, w) = getWireGuardVersion (cx_sys cx) w0;
          wg = wg_initial cx cfg version
      in case wgConfig of
           None \<Rightarrow> (Inl (errors_New ''wireguard config string must not be empty or nil''), w)
         | Some c \<Rightarrow>
             (case GetPrivateKey (cx_ParseKey cx) c of
                (Inl err, c1) \<Rightarrow> (Inl (Errorf_w ''invalid wireguard private key: '' err), w)
              | (Inr privateKey, c1) \<Rightarrow>
                  (case collectDesiredPeers (cx_ParseKey cx) c1 (normalizeUsers (cx_rng cx) users) of
                     Inl err \<Rightarrow> (Inl (Errorf_w ''failed to collect desired peers: '' err), w)
                   | Inr desired \<Rightarrow>
                       (case buildSyncDiff (cx_rng cx) (cx_ParseKey cx) c1
                               (buildExistingPeersByKeySnapshot cx wg) desired of
                          (Inl err, c2) \<Rightarrow> (Inl (Errorf_w ''failed to build sync diff: '' err), w)
                        | (Inr diff, c2) \<Rightarrow>
                            (let (pskr, c3) = GetPreSharedKey (cx_ParseKey cx) c2;
                                 (configs0, appliedKeys) =
                                   buildTargetPeerConfigs (cx_rng cx) (sd_TargetPeers diff) (psk_or_nil pskr);
                                 peerConfigs = setPeerAdvancedSecurity configs0 (c_AmneziaWG c3)
                             in case managerFactory (c_InterfaceName c3) w of
                                  (Inl err, w1) \<Rightarrow> (Inl (Errorf_w ''failed to create manager: '' err), w1)
                                | (Inr manager, w1) \<Rightarrow>
                                    start_with_manager cx cfg c3 privateKey peerConfigs appliedKeys
                                      (sd_UpsertPeers diff) wg manager w1)))))"

definition wireguard_New ::
  "'w ctx \<Rightarrow> NodeConfig \<Rightarrow> Config option \<Rightarrow> User option list \<Rightarrow> 'w \<Rightarrow> 'w WireGuard result \<times> 'w" where
  "wireguard_New cx cfg wgConfig users w =
     newWithManagerFactory cx cfg wgConfig users
       (if (case wgConfig of None \<Rightarrow> False | Some c \<Rightarrow> c_AmneziaWG c)
        then (\<lambda>name. NewAmneziaManager (cx_host cx) (cx_Validate cx) name wgConfig)
        else NewManager (cx_host cx)) w"

definition wg_Started :: "'w WireGuard \<Rightarrow> bool" where
  "wg_Started wg \<longleftrightarrow> wg_state wg = lifecycleRunning"

definition wg_Version :: "'w WireGuard \<Rightarrow> string" where
  "wg_Version wg = wg_version wg"

definition shutdownLocked :: "'w ctx \<Rightarrow> 'w WireGuard \<Rightarrow> 'w \<Rightarrow> 'w WireGuard \<times> 'w" where
  "shutdownLocked cx wg w =
     (let (wg1, w1) = (case wg_hostRouting wg of
                         None \<Rightarrow> (wg, w)
                       | Some f \<Rightarrow> (wg\<lparr>wg_hostRouting := None\<rparr>, f w));
          (wg2, w2) = (case wg_manager wg1 of
                         None \<Rightarrow> (wg1, w1)
                       | Some m \<Rightarrow>
                           (let (err, _, w') = Manager_Close (cx_host cx) m w1;
                                wg' = (case err of
                                         None \<Rightarrow> wg1
                                       | Some e \<Rightarrow> emitLogLocked cx ''Error'' (''error closing manager: '' @ Error_text e) wg1)
                            in (wg'\<lparr>wg_manager := None\<rparr>, w')));
          wg3 = emitLogLocked cx ''Info'' ''wireguard shutdown complete''
                  (wg2\<lparr>wg_state := lifecycleStopped, wg_version := []\<rparr>)
      in (wg3\<lparr>wg_logChan := None\<rparr>, w2))"

definition wg_Shutdown :: "'w ctx \<Rightarrow> 'w WireGuard \<Rightarrow> 'w \<Rightarrow> 'w WireGuard \<times> 'w" where
  "wg_Shutdown cx wg w =
     (if wg_shutdownOnce wg then (wg, w)
      else (let (wg', w') = shutdownLocked cx wg w in (wg'\<lparr>wg_shutdownOnce := True\<rparr>, w')))"

section \<open>Statistics jobs\<close>

definition onlineActivityThreshold :: int where
  "onlineActivityThreshold = 45 * second"

definition statsDeviceErrorLogInterval :: int where
  "statsDeviceErrorLogInterval = 60 * second"

definition logStatsDeviceReadError :: "'w ctx \<Rightarrow> go_error \<Rightarrow> 'w WireGuard \<Rightarrow> 'w WireGuard" where
  "logStatsDeviceReadError cx err wg =
     (if \<not> time_IsZero (wg_lastStatsErrAt wg) \<and>
         cx_now cx - wg_lastStatsErrAt wg < statsDeviceErrorLogInterval
      then wg
      else emitLogLocked cx ''Warning''
             (''wireguard stats update skipped: failed to read device: '' @ Error_text err)
             (wg\<lparr>wg_lastStatsErrAt := cx_now cx\<rparr>))"

text \<open>The sample of one device peer: peers without a recent handshake or unknown keys have none.\<close>

definition peer_sample ::
  "'w ctx \<Rightarrow> (string \<rightharpoonup> string) \<Rightarrow> DevicePeer \<Rightarrow> Sample option" where
  "peer_sample cx emailByKey peer =
     (if time_IsZero (dev_LastHandshakeTime peer) then None
      else if dev_LastHandshakeTime peer < cx_now cx - onlineActivityThreshold then None
      else (let peerKey = cx_KeyString cx (dev_PublicKey peer)
            in case emailByKey peerKey of
                 None \<Rightarrow> None
               | Some email \<Rightarrow>
                   Some \<lparr>s_PublicKey = peerKey, s_Email = email, s_Rx = dev_ReceiveBytes peer,
                         s_Tx = dev_TransmitBytes peer,
                         s_EndpointIP = (case dev_Endpoint peer of None \<Rightarrow> [] | Some ip \<Rightarrow> IP_String ip)\<rparr>))"

text \<open>\<open>done\<close>: the context was cancelled before or during the update, which then changes nothing.\<close>

definition updateConnectedPeers :: "'w ctx \<Rightarrow> bool \<Rightarrow> 'w WireGuard \<Rightarrow> 'w \<Rightarrow> 'w WireGuard" where
  "updateConnectedPeers cx done wg w =
     (if done then wg
      else case (wg_manager wg, wg_config wg) of
             (Some mgr, Some cfg) \<Rightarrow>
               (case GetDevice (cx_host cx) mgr w of
                  Inl err \<Rightarrow> logStatsDeviceReadError cx err wg
                | Inr devicePeers \<Rightarrow>
                    (let emailByKey = GetEmailMap (wg_peerStore wg);
                         samples = List.map_filter (peer_sample cx emailByKey) devicePeers
                     in wg\<lparr>wg_statsTracker := UpdateStatsBatch samples (cx_now cx) (wg_statsTracker wg)\<rparr>))
           | _ \<Rightarrow> wg)"

definition cleanupOfflineUsers :: "bool \<Rightarrow> 'w WireGuard \<Rightarrow> 'w WireGuard" where
  "cleanupOfflineUsers done wg =
     (if done then wg else wg\<lparr>wg_statsTracker := CleanupDeletedEntries (wg_statsTracker wg)\<rparr>)"

section \<open>Statistics requests\<close>

definition getInterfaceCounters :: "'w ctx \<Rightarrow> 'w WireGuard \<Rightarrow> 'w \<Rightarrow> (int64 \<times> int64) result" where
  "getInterfaceCounters cx wg w =
     (case wg_manager wg of
        None \<Rightarrow> Inl errWireGuardManagerNotInitialized
      | Some mgr \<Rightarrow> GetInterfaceStats (cx_host cx) mgr w)"

text \<open>The keys of the user with this e-mail: one, or none if the store does not know it.\<close>

definition user_keys :: "'w ctx \<Rightarrow> 'w WireGuard \<Rightarrow> string \<Rightarrow> string list" where
  "user_keys cx wg email =
     (case GetByEmail (wg_peerStore wg) email of
        None \<Rightarrow> [] | Some peer \<Rightarrow> [cx_KeyString cx (pi_PublicKey peer)])"

definition handleUserStats ::
  "'w ctx \<Rightarrow> StatRequest \<Rightarrow> 'w WireGuard \<Rightarrow> Stat list result \<times> 'w WireGuard" where
  "handleUserStats cx request wg =
     (let keys = user_keys cx wg (sr_Name request)
      in if keys = [] then (Inr [], wg)
         else (let (stats, st) = Tracker_GetStats keys (sr_Reset request) (wg_statsTracker wg)
               in (Inr stats, wg\<lparr>wg_statsTracker := st\<rparr>)))"

definition handleUsersStats ::
  "'w ctx \<Rightarrow> StatRequest \<Rightarrow> 'w WireGuard \<Rightarrow> Stat list result \<times> 'w WireGuard" where
  "handleUsersStats cx request wg =
     (let (stats, st) = GetUsersStats (cx_rng cx) (sr_Reset request) (wg_statsTracker wg)
      in (Inr stats, wg\<lparr>wg_statsTracker := st\<rparr>))"

definition handleInterfaceOutboundStats ::
  "'w ctx \<Rightarrow> string \<Rightarrow> bool \<Rightarrow> 'w WireGuard \<Rightarrow> 'w \<Rightarrow> Stat list result \<times> 'w WireGuard" where
  "handleInterfaceOutboundStats cx name0 reset wg w =
     (case (name0, wg_config wg) of
        ([], None) \<Rightarrow> (Inl nil_config, wg)
      | _ \<Rightarrow>
          (let name = (if name0 = [] then c_InterfaceName (the (wg_config wg)) else name0)
           in case getInterfaceCounters cx wg w of
                Inl err \<Rightarrow> (Inl err, wg)
              | Inr (currentRx, currentTx) \<Rightarrow>
                  (let ((deltaRx, deltaTx), t) = Delta currentRx currentTx reset (wg_interfaceStats wg)
                   in (Inr (BuildInterfaceStats name ''interface'' deltaRx deltaTx),
                       wg\<lparr>wg_interfaceStats := t\<rparr>))))"

definition wg_GetStats ::
  "'w ctx \<Rightarrow> StatRequest \<Rightarrow> 'w WireGuard \<Rightarrow> 'w \<Rightarrow> Stat list result \<times> 'w WireGuard" where
  "wg_GetStats cx request wg w =
     (if wg_state wg \<noteq> lifecycleRunning then (Inl errWireGuardNotStarted, wg)
      else case sr_Type request of
             UserStat \<Rightarrow> handleUserStats cx request wg
           | UsersStat \<Rightarrow> handleUsersStats cx request wg
           | Outbound \<Rightarrow> handleInterfaceOutboundStats cx (sr_Name request) (sr_Reset request) wg w
           | Outbounds \<Rightarrow> handleInterfaceOutboundStats cx (sr_Name request) (sr_Reset request) wg w
           | Inbound \<Rightarrow> (Inl (errors_New ''inbound stats not applicable for wireguard''), wg)
           | Inbounds \<Rightarrow> (Inl (errors_New ''inbound stats not applicable for wireguard''), wg)
           | StatType_other _ \<Rightarrow> (Inl (errors_New ''unsupported stat type''), wg))"

definition wg_GetUserOnlineStats ::
  "'w ctx \<Rightarrow> string \<Rightarrow> 'w WireGuard \<Rightarrow> OnlineStatResponse result" where
  "wg_GetUserOnlineStats cx email wg =
     (if wg_state wg \<noteq> lifecycleRunning then Inl errWireGuardNotStarted
      else (let keys = user_keys cx wg email
            in if keys = [] then Inr \<lparr>on_Name = email, on_Value = 0\<rparr>
               else if AnyActiveSince keys (cx_now cx - onlineActivityThreshold) (wg_statsTracker wg)
               then Inr \<lparr>on_Name = email, on_Value = 1\<rparr>
               else Inr \<lparr>on_Name = email, on_Value = 0\<rparr>))"

definition wg_GetUserOnlineIpListStats ::
  "'w ctx \<Rightarrow> string \<Rightarrow> 'w WireGuard \<Rightarrow> StatsOnlineIpListResponse result" where
  "wg_GetUserOnlineIpListStats cx email wg =
     (if wg_state wg \<noteq> lifecycleRunning then Inl errWireGuardNotStarted
      else (let keys = user_keys cx wg email
            in if keys = [] then Inr \<lparr>ol_Name = email, ol_Ips = Map.empty\<rparr>
               else Inr \<lparr>ol_Name = email, ol_Ips = EndpointActivity keys (wg_statsTracker wg)\<rparr>))"

section \<open>Latency\<close>

definition latencyProbeInterface :: "'w WireGuard \<Rightarrow> string" where
  "latencyProbeInterface wg =
     (let iface = TrimSpace (nc_WGNATOutputInterface (wg_cfg wg))
      in if iface \<noteq> [] then iface
         else case wg_config wg of None \<Rightarrow> [] | Some c \<Rightarrow> TrimSpace (c_InterfaceName c))"

text \<open>
  \<open>probe iface url timeout\<close> is the HTTP request: an error when it cannot be built, else whether it
  was answered and after how many milliseconds.
\<close>

definition wg_GetOutboundsLatency ::
  "'w ctx \<Rightarrow> (string \<Rightarrow> string \<Rightarrow> int \<Rightarrow> (bool \<times> int64) result) \<Rightarrow> string \<Rightarrow> 'w WireGuard \<Rightarrow>
   Latency list result" where
  "wg_GetOutboundsLatency cx probe request_name wg =
     (let (testURL, timeoutSeconds) =
            (case Option.bind (wg_config wg) c_Latency of
               None \<Rightarrow> ([], 0) | Some l \<Rightarrow> (lc_TestURL l, lc_TimeoutSeconds l))
      in if wg_state wg \<noteq> lifecycleRunning then Inl errWireGuardNotStarted
         else (let iface = latencyProbeInterface wg;
                   name = (if iface = [] then ''wireguard'' else iface);
                   requestName = TrimSpace request_name
               in if requestName \<noteq> [] \<and> requestName \<noteq> name then Inr []
                  else case probe iface testURL timeoutSeconds of
                         Inl err \<Rightarrow> Inl err
                       | Inr (alive, delay) \<Rightarrow>
                           Inr [\<lparr>lt_Name = name, lt_Alive = alive, lt_Delay = delay, lt_Link = testURL,
                                 lt_LastTryTime = time_Unix (cx_now cx),
                                 lt_LastSeenTime = (if alive then time_Unix (cx_now cx) else 0),
                                 lt_Source = ''wireguard-probe''\<rparr>]))"

end
