(* ===== verification/WireGuardSync.thy ===== *)
theory WireGuardSync
  imports WireGuardBackend
begin

text \<open>
  What the synchronising operations of the WireGuard backend achieve: the runtime store and the peer
  table of the kernel agree, a full synchronisation makes them exactly the eligible users of the
  request, a partial one changes nothing of users it does not name, and an error leaves the store
  and the counters as they were.
\<close>

section \<open>Agreement of store and kernel\<close>

definition peer_view :: "PeerInfo \<Rightarrow> string set" where
  "peer_view p = net_strings (pi_AllowedIPs p)"

definition agrees :: "(Key \<Rightarrow> string) \<Rightarrow> PeerStore \<Rightarrow> peer_table \<Rightarrow> bool" where
  "agrees ks ps m \<longleftrightarrow>
     (\<forall>k. m k = (if length k = 32 then map_option peer_view (ps_peers ps (ks k)) else None))"

text \<open>The stored peers are as the synchronisation builds them.\<close>

definition stored_ok :: "(Key \<Rightarrow> string) \<Rightarrow> PeerStore \<Rightarrow> bool" where
  "stored_ok ks ps \<longleftrightarrow> ps_ok ks ps \<and>
     (\<forall>k p. ps_peers ps k = Some p \<longrightarrow> length (pi_PublicKey p) = 32 \<and> pi_AllowedIPs p \<noteq> [])"

definition env_ok :: "'w ctx \<Rightarrow> ('w \<Rightarrow> string \<Rightarrow> peer_table) \<Rightarrow> bool" where
  "env_ok cx kp \<longleftrightarrow> go_range (cx_rng cx) \<and> wgtypes_keys (cx_ParseKey cx) (cx_KeyString cx) \<and>
     peer_laws (cx_host cx) kp"

definition kernel_table :: "('w \<Rightarrow> string \<Rightarrow> peer_table) \<Rightarrow> 'w WireGuard \<Rightarrow> 'w \<Rightarrow> peer_table" where
  "kernel_table kp wg w = (case wg_manager wg of None \<Rightarrow> Map.empty | Some m \<Rightarrow> kp w (m_iFaceName m))"

definition wg_inv :: "'w ctx \<Rightarrow> ('w \<Rightarrow> string \<Rightarrow> peer_table) \<Rightarrow> 'w WireGuard \<Rightarrow> 'w \<Rightarrow> bool" where
  "wg_inv cx kp wg w \<longleftrightarrow>
     stored_ok (cx_KeyString cx) (wg_peerStore wg) \<and>
     agrees (cx_KeyString cx) (wg_peerStore wg) (kernel_table kp wg w) \<and>
     (\<exists>c. wg_config wg = Some c \<and> cache_ok (cx_ParseKey cx) c)"

text \<open>The users write their public keys the way the key type prints them.\<close>

definition canonical_keys :: "'w ctx \<Rightarrow> User option list \<Rightarrow> bool" where
  "canonical_keys cx users \<longleftrightarrow>
     (\<forall>u k. Some u \<in> set users \<and> cx_ParseKey cx (GetPublicKey u) = Some k \<longrightarrow>
        cx_KeyString cx k = GetPublicKey u)"

lemma ks_inj:
  "wgtypes_keys pk ks \<Longrightarrow> length k = 32 \<Longrightarrow> length k' = 32 \<Longrightarrow> ks k = ks k' \<longleftrightarrow> k = k'"
  unfolding wgtypes_keys_def by (metis option.inject)

lemma sorted_wrt_map_filter:
  assumes "distinct xs"
    and "\<And>x y a b. x \<in> set xs \<Longrightarrow> y \<in> set xs \<Longrightarrow> x \<noteq> y \<Longrightarrow> f x = Some a \<Longrightarrow> f y = Some b \<Longrightarrow> R a b"
  shows "sorted_wrt R (List.map_filter f xs)"
  using assms
proof (induction xs)
  case (Cons x xs)
  from Cons.prems have IH: "sorted_wrt R (List.map_filter f xs)" by (intro Cons.IH) auto
  have "R a b" if "f x = Some a" "b \<in> set (List.map_filter f xs)" for a b
    using that Cons.prems by (auto simp: map_filter_set)
  with IH show ?case by (auto simp: List.map_filter_simps split: option.split)
qed (simp add: List.map_filter_simps)

section \<open>The target of a request\<close>

definition target_of :: "'w ctx \<Rightarrow> Config \<Rightarrow> User option list \<Rightarrow> (string \<rightharpoonup> PeerInfo)" where
  "target_of cx c users k =
     map_option target_peer (desired_of (cx_ParseKey cx) c (normalizeUsers (cx_rng cx) users) k)"

definition good_target :: "(Key \<Rightarrow> string) \<Rightarrow> (string \<rightharpoonup> PeerInfo) \<Rightarrow> bool" where
  "good_target ks target \<longleftrightarrow> finite (dom target) \<and>
     (\<forall>k t. target k = Some t \<longrightarrow>
        ks (pi_PublicKey t) = k \<and> length (pi_PublicKey t) = 32 \<and> pi_AllowedIPs t \<noteq> []) \<and>
     (\<forall>k k' t t'. target k = Some t \<and> target k' = Some t' \<and> k \<noteq> k' \<longrightarrow>
        peer_view t \<inter> peer_view t' = {} \<and> pi_Email t \<noteq> pi_Email t')"

lemma good_targetD:
  assumes "good_target ks target" "target k = Some t"
  shows "ks (pi_PublicKey t) = k" "length (pi_PublicKey t) = 32" "pi_AllowedIPs t \<noteq> []"
    and "target k' = Some t' \<Longrightarrow> k \<noteq> k' \<Longrightarrow> peer_view t \<inter> peer_view t' = {}"
    and "target k' = Some t' \<Longrightarrow> k \<noteq> k' \<Longrightarrow> pi_Email t \<noteq> pi_Email t'"
  using assms unfolding good_target_def by blast+

lemma finite_desired_of: "finite (dom (desired_of pk c us))"
  by (rule finite_subset [of _ "GetPublicKey ` set us"]) (auto dest: desired_of_Some)

lemma target_of_email:
  assumes "target_of cx c users k = Some t"
  shows "pi_Email t \<in> u_Email ` set (normalizeUsers (cx_rng cx) users)"
  using assms by (auto simp: target_of_def target_peer_def desired_peer_def dest!: desired_of_Some)

lemma conflict_free_pair:
  assumes "conflict_free pk c us" "u \<in> set us" "v \<in> set us" "u \<noteq> v"
  shows "compatible pk c u v"
proof -
  obtain i j where ij: "us ! i = u" "us ! j = v" "i < length us" "j < length us"
    using assms(2,3) by (auto simp: in_set_conv_nth)
  with assms(4) have "i \<noteq> j" by auto
  with ij assms(1) have "compatible pk c u v \<or> compatible pk c v u"
    by (auto simp: conflict_free_def sorted_wrt_iff_nth_less dest: linorder_neqE_nat)
  then show ?thesis by (auto simp: compatible_def)
qed

lemma good_target_of:
  assumes rng: "go_range (cx_rng cx)" and keys: "wgtypes_keys (cx_ParseKey cx) (cx_KeyString cx)"
    and can: "canonical_keys cx users"
    and cf: "conflict_free (cx_ParseKey cx) c (normalizeUsers (cx_rng cx) users)"
  shows "good_target (cx_KeyString cx) (target_of cx c users)"
proof -
  let ?us = "normalizeUsers (cx_rng cx) users" and ?pk = "cx_ParseKey cx"
  have src: "\<exists>u \<in> set ?us. eligible ?pk c u \<and> GetPublicKey u = k \<and> t = target_peer (desired_peer ?pk c u)"
    if "target_of cx c users k = Some t" for k t
    using that by (auto simp: target_of_def dest: desired_of_Some)
  have one: "cx_KeyString cx (pi_PublicKey t) = k \<and> length (pi_PublicKey t) = 32 \<and> pi_AllowedIPs t \<noteq> []"
    if "target_of cx c users k = Some t" for k t
  proof -
    from src [OF that] obtain u where u: "u \<in> set ?us" "eligible ?pk c u" "GetPublicKey u = k"
      "t = target_peer (desired_peer ?pk c u)" by blast
    from u(1) have "Some u \<in> set users"
      by (auto simp: normalizeUsers_set [OF rng] dest: last_by_email_Some)
    moreover from u(2) obtain key where "?pk (GetPublicKey u) = Some key"
      by (auto simp: eligible_def candidate_def)
    ultimately show ?thesis using u can keys
      by (auto simp: canonical_keys_def wgtypes_keys_def eligible_def target_peer_def desired_peer_def)
  qed
  have two: "peer_view t \<inter> peer_view t' = {} \<and> pi_Email t \<noteq> pi_Email t'"
    if "target_of cx c users k = Some t" "target_of cx c users k' = Some t'" "k \<noteq> k'" for k k' t t'
  proof -
    from src [OF that(1)] src [OF that(2)] obtain u v where
      u: "u \<in> set ?us" "eligible ?pk c u" "GetPublicKey u = k" "t = target_peer (desired_peer ?pk c u)"
      and v: "v \<in> set ?us" "eligible ?pk c v" "GetPublicKey v = k'" "t' = target_peer (desired_peer ?pk c v)"
      by blast
    with that have "u \<noteq> v" by auto
    from conflict_free_pair [OF cf u(1) v(1) this] u v have "claims c u \<inter> claims c v = {}"
      by (simp add: compatible_def eligible_candidate)
    moreover have "u_Email u \<noteq> u_Email v"
      using normalizeUsers_distinct [OF rng, of users] u(1) v(1) \<open>u \<noteq> v\<close>
      by (auto simp: distinct_map dest: inj_onD)
    ultimately show ?thesis
      using u v by (simp add: target_peer_def desired_peer_def peer_view_def net_strings_def claims_def)
  qed
  have "finite (dom (target_of cx c users))"
    by (rule finite_subset [OF _ finite_desired_of [of ?pk c ?us]]) (auto simp: target_of_def)
  with one two show ?thesis unfolding good_target_def by blast
qed

section \<open>Snapshots of the store\<close>

lemma peers_by_key_iff:
  assumes ok: "ps_ok ks ps" and sub: "\<And>p. p \<in> set qs \<Longrightarrow> ps_peers ps (ks (pi_PublicKey p)) = Some p"
  shows "peers_by_key ks qs k = Some p \<longleftrightarrow> p \<in> set qs \<and> ks (pi_PublicKey p) = k"
proof
  assume "peers_by_key ks qs k = Some p"
  then show "p \<in> set qs \<and> ks (pi_PublicKey p) = k"
    unfolding peers_by_key_def by (auto dest: fold_upd_mem [where val = "\<lambda>p. p"])
next
  assume p: "p \<in> set qs \<and> ks (pi_PublicKey p) = k"
  then have "k \<in> dom (peers_by_key ks qs)"
    unfolding peers_by_key_def fold_upd_dom [where val = "\<lambda>p. p"] by auto
  then obtain q where q: "peers_by_key ks qs k = Some q" by auto
  then have "q \<in> set qs \<and> ks (pi_PublicKey q) = k"
    unfolding peers_by_key_def by (auto dest: fold_upd_mem [where val = "\<lambda>p. p"])
  with sub [of p] sub [of q] p q show "peers_by_key ks qs k = Some p" by simp
qed

lemma snapshot_all:
  assumes "go_range (cx_rng cx)" "ps_ok (cx_KeyString cx) (wg_peerStore wg)"
  shows "buildExistingPeersByKeySnapshot cx wg = ps_peers (wg_peerStore wg)"
proof
  fix k
  have all: "set (GetAll (cx_rng cx) (wg_peerStore wg)) = {p. \<exists>k. ps_peers (wg_peerStore wg) k = Some p}"
    using assms by (intro GetAll_set) (auto dest: ps_ok_finite)
  have "buildExistingPeersByKeySnapshot cx wg k = Some p \<longleftrightarrow> ps_peers (wg_peerStore wg) k = Some p" for p
    unfolding buildExistingPeersByKeySnapshot_def
    using assms(2) all by (subst peers_by_key_iff [OF assms(2)]) (auto dest: ps_ok_peer)
  then show "buildExistingPeersByKeySnapshot cx wg k = ps_peers (wg_peerStore wg) k"
    by (metis not_Some_eq)
qed

lemma snapshot_touched:
  assumes "go_range (cx_rng cx)" "ps_ok (cx_KeyString cx) (wg_peerStore wg)" "finite E"
  shows "buildExistingPeersSubsetForTouched cx E wg k = Some p \<longleftrightarrow>
    ps_peers (wg_peerStore wg) k = Some p \<and> pi_Email p \<in> E"
proof -
  let ?ps = "wg_peerStore wg" and ?ks = "cx_KeyString cx"
  let ?qs = "List.map_filter (GetByEmail ?ps) (cx_rng cx 7 E)"
  have mem: "q \<in> set ?qs \<longleftrightarrow> ps_peers ?ps (?ks (pi_PublicKey q)) = Some q \<and> pi_Email q \<in> E" for q
    using assms(1,3) by (auto simp: map_filter_set GetByEmail_iff [OF assms(2)])
  show ?thesis
    unfolding buildExistingPeersSubsetForTouched_def
    using assms(2) mem by (subst peers_by_key_iff [OF assms(2)]) (auto dest: ps_ok_peer)
qed

section \<open>Full synchronisation\<close>

lemma map_filter_total:
  "\<lbrakk>\<And>x. x \<in> set xs \<Longrightarrow> f x = Some (g x)\<rbrakk> \<Longrightarrow> List.map_filter f xs = map g xs"
  by (induction xs) (simp_all add: List.map_filter_simps)

lemma distinct_iff_sorted_wrt: "distinct xs \<longleftrightarrow> sorted_wrt (\<noteq>) xs"
  by (induction xs) auto

lemma upsert_of_dom: "dom (upsert_of existing target) \<subseteq> dom target"
  by (auto simp: upsert_of_def split: option.splits)

lemma good_target_finite: "good_target ks target \<Longrightarrow> finite (dom target)"
  by (simp add: good_target_def)

text \<open>The peers of a good target, listed in any order of its keys, are distinct.\<close>

lemma good_target_distinct:
  assumes "good_target ks target" "distinct xs" and sub: "\<And>k t. f k = Some t \<Longrightarrow> target k = Some t"
  shows "distinct (map pi_Email (List.map_filter f xs))"
    and "distinct (map (\<lambda>p. ks (pi_PublicKey p)) (List.map_filter f xs))"
proof -
  have "sorted_wrt (\<lambda>a b. pi_Email a \<noteq> pi_Email b) (List.map_filter f xs)"
    using assms by (intro sorted_wrt_map_filter) (auto dest!: sub dest: good_targetD(5))
  then show "distinct (map pi_Email (List.map_filter f xs))"
    by (simp add: distinct_iff_sorted_wrt sorted_wrt_map)
  have "sorted_wrt (\<lambda>a b. ks (pi_PublicKey a) \<noteq> ks (pi_PublicKey b)) (List.map_filter f xs)"
    using assms by (intro sorted_wrt_map_filter) (auto dest!: sub dest: good_targetD(1))
  then show "distinct (map (\<lambda>p. ks (pi_PublicKey p)) (List.map_filter f xs))"
    by (simp add: distinct_iff_sorted_wrt sorted_wrt_map)
qed

lemma config_of_fields:
  "config_of existing target psk k = Some p \<Longrightarrow>
   \<exists>t. target k = Some t \<and> pc_PublicKey p = pi_PublicKey t \<and> pc_nets p = peer_view t \<and> \<not> pc_Remove p \<and>
     (pc_ReplaceAllowedIPs p \<longleftrightarrow> existing k \<noteq> None)"
  by (auto simp: config_of_def buildAddConfig_def pc_nets_def peer_view_def split: option.splits if_splits)

lemma clean_configs:
  assumes good: "good_target ks target" and "distinct xs"
  shows "clean_batch (List.map_filter (config_of existing target psk) xs)"
  unfolding clean_batch_def
proof
  show "\<forall>p \<in> set (List.map_filter (config_of existing target psk) xs). \<not> pc_Remove p"
    by (auto simp: map_filter_set dest: config_of_fields)
  show "sorted_wrt (\<lambda>p q. pc_PublicKey p \<noteq> pc_PublicKey q \<and> pc_nets p \<inter> pc_nets q = {})
      (List.map_filter (config_of existing target psk) xs)"
  proof (rule sorted_wrt_map_filter [OF assms(2)])
    fix x y a b
    assume "x \<noteq> y" "config_of existing target psk x = Some a" "config_of existing target psk y = Some b"
    then obtain t t' where "target x = Some t" "pc_PublicKey a = pi_PublicKey t" "pc_nets a = peer_view t"
      "target y = Some t'" "pc_PublicKey b = pi_PublicKey t'" "pc_nets b = peer_view t'"
      using config_of_fields by metis
    with good \<open>x \<noteq> y\<close> show "pc_PublicKey a \<noteq> pc_PublicKey b \<and> pc_nets a \<inter> pc_nets b = {}"
      using good_targetD(1,4) [OF good] by metis
  qed
qed

lemma full_config_iff:
  assumes "good_target ks target"
  shows "config_of Map.empty target psk k \<noteq> None \<longleftrightarrow> target k \<noteq> None"
  using assms by (auto simp: config_of_def good_target_def split: option.split)

text \<open>What a peer shows of its user: the e-mail and the printed allowed networks.\<close>

definition user_view :: "PeerInfo \<Rightarrow> string \<times> string list" where
  "user_view p = (pi_Email p, map IPNet_String (pi_AllowedIPs p))"

definition store_is :: "PeerStore \<Rightarrow> (string \<rightharpoonup> PeerInfo) \<Rightarrow> bool" where
  "store_is ps target \<longleftrightarrow> (\<forall>k. map_option user_view (ps_peers ps k) = map_option user_view (target k))"

text \<open>No difference: the store already shows the target.\<close>

lemma unchanged_store:
  assumes keys: "wgtypes_keys pk ks" and stored: "stored_ok ks ps" and good: "good_target ks target"
    and rem: "filter (\<lambda>k. pk k \<noteq> None) (sorted_list_of_set {k \<in> dom (ps_peers ps). target k = None}) = []"
    and ups: "List.map_filter (upsert_of (ps_peers ps) target)
        (sorted_list_of_set (dom (upsert_of (ps_peers ps) target))) = []"
  shows "store_is ps target"
proof -
  have fin: "finite (dom (ps_peers ps))" using stored by (auto simp: stored_ok_def)
  have finU: "finite (dom (upsert_of (ps_peers ps) target))"
    by (rule finite_subset [OF upsert_of_dom good_target_finite [OF good]])
  have no_ups: "upsert_of (ps_peers ps) target k = None" for k
  proof (rule ccontr)
    assume *: "upsert_of (ps_peers ps) target k \<noteq> None"
    then obtain t where "upsert_of (ps_peers ps) target k = Some t" by auto
    with finU have "t \<in> set (List.map_filter (upsert_of (ps_peers ps) target)
        (sorted_list_of_set (dom (upsert_of (ps_peers ps) target))))"
      by (auto simp: map_filter_set)
    with ups show False by simp
  qed
  have no_rem: "target k \<noteq> None" if "ps_peers ps k = Some p" for k p
  proof
    assume "target k = None"
    with that fin have "k \<in> set (sorted_list_of_set {k \<in> dom (ps_peers ps). target k = None})" by auto
    moreover have "pk k \<noteq> None"
      using that stored keys by (auto simp: stored_ok_def wgtypes_keys_def dest: ps_ok_peer)
    ultimately show False using rem by (metis (mono_tags, lifting) filter_empty_conv)
  qed
  show ?thesis unfolding store_is_def
  proof
    fix k
    show "map_option user_view (ps_peers ps k) = map_option user_view (target k)"
    proof (cases "ps_peers ps k")
      case None
      with no_ups [of k] good show ?thesis
        by (auto simp: upsert_of_def good_target_def split: option.splits if_splits)
    next
      case (Some p)
      with no_rem [OF Some] no_ups [of k] good show ?thesis
        by (auto simp: upsert_of_def good_target_def user_view_def ipnets_equal_def
            split: option.splits if_splits)
    qed
  qed
qed

lemma buildSyncDiff_config:
  "buildSyncDiff rng pk c existing desired = (r, c') \<Longrightarrow> cache_ok pk c \<Longrightarrow> cache_ok pk c'"
  by (auto simp: buildSyncDiff_def Let_def split: prod.splits dest: GetPreSharedKey_spec(1))

lemma ensureRunning_None:
  "ensureRunningWithManagerLocked wg = None \<Longrightarrow> wg_state wg = lifecycleRunning \<and> (\<exists>m. wg_manager wg = Some m)"
  by (auto simp: ensureRunningWithManagerLocked_def lifecycleReadinessError_def
      split: option.splits lifecycleState.splits if_splits)

text \<open>The snapshot in the kernel and the new store agree, and both are the target.\<close>

lemma full_apply:
  assumes rng: "go_range rng" and keys: "wgtypes_keys pk ks" and laws: "peer_laws h kp"
    and stored: "stored_ok ks ps" and good: "good_target ks target"
    and cfg: "buildTargetPeerConfigs rng target psk = (configs, applied)"
    and app: "ApplyPeersReplaceAll h m (setPeerAdvancedSecurity configs b) w = (None, w')"
    and store: "ReplaceAll rng ks ps (map Some (List.map_filter
          (\<lambda>key. if key \<in> applied then target key else None) (rng 8 (dom target)))) = (removed, ps')"
  shows "stored_ok ks ps'" "agrees ks ps' (kp w' (m_iFaceName m))" "ps_peers ps' = target"
proof -
  note fin = good_target_finite [OF good]
  let ?xs = "sorted_list_of_set (dom target)"
  have configs: "configs = List.map_filter (config_of Map.empty target psk) ?xs"
    and applied: "applied = dom target"
    using cfg fin full_config_iff [OF good, of psk]
    by (auto simp: buildTargetPeerConfigs_def target_configs_eq sort_range [OF rng])
  have tl: "List.map_filter (\<lambda>key. if key \<in> applied then target key else None) (rng 8 (dom target)) =
      List.map_filter target (rng 8 (dom target))"
    by (rule arg_cong [where f = "\<lambda>f. List.map_filter f (rng 8 (dom target))"]) (auto simp: applied fun_eq_iff domIff)
  let ?us = "List.map_filter target (rng 8 (dom target))"
  have us: "set ?us = {t. \<exists>k. target k = Some t}" using rng fin by (auto simp: map_filter_set)
  have d: "distinct (map pi_Email ?us)" "distinct (map (\<lambda>p. ks (pi_PublicKey p)) ?us)"
    using good_target_distinct [OF good, of "rng 8 (dom target)" target] rng fin by simp_all
  have ok: "ps_ok ks ps" using stored by (simp add: stored_ok_def)
  have "ps_peers ps' k = Some t \<longleftrightarrow> target k = Some t" for k t
    using store.replace_lookup [of rng ks ps ?us k t] rng ok d store us good_targetD(1) [OF good]
    unfolding tl by auto
  then show eq: "ps_peers ps' = target" by (auto simp: fun_eq_iff) (metis not_Some_eq)
  have "ps_ok ks ps'"
    using store.replace_inv [of rng ks ps ?us] rng ok d store unfolding tl by auto
  then show "stored_ok ks ps'" using good by (auto simp: stored_ok_def eq good_target_def)
  have clean: "clean_batch configs" unfolding configs by (rule clean_configs [OF good]) simp
  have mem: "p \<in> set configs \<longleftrightarrow> (\<exists>k. config_of Map.empty target psk k = Some p)" for p
    using fin full_config_iff [OF good, of psk] by (auto simp: configs map_filter_set) blast
  show "agrees ks ps' (kp w' (m_iFaceName m))" unfolding agrees_def eq
  proof
    fix k
    show "kp w' (m_iFaceName m) k = (if length k = 32 then map_option peer_view (target (ks k)) else None)"
    proof (cases "length k = 32 \<and> target (ks k) \<noteq> None")
      case True
      then obtain p where p: "config_of Map.empty target psk (ks k) = Some p"
        using full_config_iff [OF good, of psk "ks k"] by blast
      from config_of_fields [OF p] obtain t where t: "target (ks k) = Some t"
        "pc_PublicKey p = pi_PublicKey t" "pc_nets p = peer_view t" by blast
      with True good_targetD(1,2) [OF good t(1)] have "pc_PublicKey p = k"
        using ks_inj [OF keys, of "pi_PublicKey t" k] by simp
      moreover have "p \<in> set configs" using p mem by blast
      ultimately show ?thesis
        using mgr.replace_exact(1) [OF laws clean app, of p] t True by auto
    next
      case False
      have "k \<notin> pc_PublicKey ` set configs"
      proof
        assume "k \<in> pc_PublicKey ` set configs"
        then obtain p k' where "config_of Map.empty target psk k' = Some p" "pc_PublicKey p = k"
          using mem by auto
        with config_of_fields [OF this(1)] good_targetD(1,2) [OF good] False show False by fastforce
      qed
      from mgr.replace_exact(2) [OF laws clean app this] False show ?thesis by auto
    qed
  qed
qed

lemma syncUsersFull_ok:
  assumes env: "env_ok cx kp" and inv: "wg_inv cx kp wg w" and can: "canonical_keys cx users"
    and c: "wg_config wg = Some c"
    and res: "syncUsersFull cx users wg w = (None, wg', w')"
  shows "wg_inv cx kp wg' w'" "store_is (wg_peerStore wg') (target_of cx c users)"
    "conflict_free (cx_ParseKey cx) c (normalizeUsers (cx_rng cx) users)"
proof -
  let ?us = "normalizeUsers (cx_rng cx) users" and ?pk = "cx_ParseKey cx" and ?ks = "cx_KeyString cx"
  from env have rng: "go_range (cx_rng cx)" and keys: "wgtypes_keys ?pk ?ks"
    and laws: "peer_laws (cx_host cx) kp" by (auto simp: env_ok_def)
  from inv c have stored: "stored_ok ?ks (wg_peerStore wg)" and cache: "cache_ok ?pk c"
    and agr: "agrees ?ks (wg_peerStore wg) (kernel_table kp wg w)" by (auto simp: wg_inv_def)
  have ok: "ps_ok ?ks (wg_peerStore wg)" using stored by (simp add: stored_ok_def)
  note dist = normalizeUsers_distinct [OF rng, of users]
  show cf: "conflict_free ?pk c ?us"
    using collectDesiredPeers_spec(2) [OF dist, of ?pk c] res c
    by (rule_tac ccontr) (auto simp: syncUsersFull_def)
  note coll = collectDesiredPeers_spec(1) [OF dist cf]
  note good = good_target_of [OF rng keys can cf]
  obtain r c1 where diff: "buildSyncDiff (cx_rng cx) ?pk c (ps_peers (wg_peerStore wg)) (desired_of ?pk c ?us) = (r, c1)"
    by fastforce
  note cache1 = buildSyncDiff_config [OF diff cache]
  have tgt: "(\<lambda>k. map_option target_peer (desired_of ?pk c ?us k)) = target_of cx c users"
    by (simp add: target_of_def fun_eq_iff)
  define d where "d = diff_of ?pk (psk_of ?pk c) (c_AmneziaWG c)
      (cx_rng cx 3 (dom (ps_peers (wg_peerStore wg))) @ filter (\<lambda>k. ps_peers (wg_peerStore wg) k = None)
         (cx_rng cx 4 (dom (target_of cx c users)))) (ps_peers (wg_peerStore wg)) (target_of cx c users)"
  have r: "r = Inr d"
    using buildSyncDiff_spec [OF rng ps_ok_finite [OF ok] finite_desired_of cache diff, unfolded tgt]
    by (simp add: d_def)
  have d2: "sd_TargetPeers d = target_of cx c users" by (simp add: d_def diff_of_def Let_def)
  note res' = res [unfolded syncUsersFull_def c Let_def snapshot_all [OF rng ok], simplified coll sum.case
      diff r prod.case option.case, unfolded d2]
  show "wg_inv cx kp wg' w'" "store_is (wg_peerStore wg') (target_of cx c users)"
  proof -
    have "wg_inv cx kp wg' w' \<and> store_is (wg_peerStore wg') (target_of cx c users)"
    proof (cases "sd_Changed d")
      case False
      with res' have w: "wg' = wg\<lparr>wg_config := Some c1\<rparr>" "w' = w" by auto
      from False have "store_is (wg_peerStore wg) (target_of cx c users)"
        by (intro unchanged_store [OF keys stored good]) (simp_all add: d_def diff_of_def Let_def)
      with w stored agr cache1 show ?thesis by (auto simp: wg_inv_def kernel_table_def)
    next
      case True
      obtain pskr c2 where psk: "GetPreSharedKey ?pk c1 = (pskr, c2)" by fastforce
      obtain configs applied where cfg: "buildTargetPeerConfigs (cx_rng cx) (target_of cx c users) (psk_or_nil pskr) =
          (configs, applied)" by fastforce
      let ?wg1 = "wg\<lparr>wg_config := Some c2\<rparr>"
      from res' True psk cfg d2 have run: "ensureRunningWithManagerLocked ?wg1 = None"
        by (auto split: option.splits)
      from ensureRunning_None [OF this] obtain m where m: "wg_manager wg = Some m" by auto
      from res' True psk cfg d2 run m obtain removed ps' where
        app: "ApplyPeersReplaceAll (cx_host cx) m (setPeerAdvancedSecurity configs (c_AmneziaWG c2)) w = (None, w')"
        and st: "ReplaceAll (cx_rng cx) ?ks (wg_peerStore wg) (map Some (List.map_filter
          (\<lambda>key. if key \<in> applied then target_of cx c users key else None)
          (cx_rng cx 8 (dom (target_of cx c users))))) = (removed, ps')"
        and wg': "wg' = ?wg1\<lparr>wg_peerStore := ps', wg_statsTracker := remove_stats removed (wg_statsTracker wg)\<rparr>"
        by (auto split: prod.splits option.splits)
      from full_apply [OF rng keys laws stored good cfg app st] GetPreSharedKey_spec(1) [OF cache1 psk] m
      show ?thesis by (simp add: wg' wg_inv_def kernel_table_def store_is_def)
    qed
    then show "wg_inv cx kp wg' w'" "store_is (wg_peerStore wg') (target_of cx c users)" by auto
  qed
qed

section \<open>Partial synchronisation\<close>

text \<open>
  The situation of a partial synchronisation: \<open>E\<close> are the e-mails of the request, \<open>existing\<close> their
  stored peers, and no key of the target belongs to another user. \<open>ip_safe\<close> says that no address of
  the target belongs to a stored peer of another user.
\<close>

definition partial_case ::
  "PeerStore \<Rightarrow> string set \<Rightarrow> (string \<rightharpoonup> PeerInfo) \<Rightarrow> (string \<rightharpoonup> PeerInfo) \<Rightarrow> bool" where
  "partial_case ps E existing target \<longleftrightarrow>
     (\<forall>k p. existing k = Some p \<longleftrightarrow> ps_peers ps k = Some p \<and> pi_Email p \<in> E) \<and>
     (\<forall>k t. target k = Some t \<longrightarrow> pi_Email t \<in> E) \<and>
     (\<forall>k t q. target k = Some t \<and> ps_peers ps k = Some q \<longrightarrow> pi_Email q \<in> E)"

definition ip_safe :: "PeerStore \<Rightarrow> string set \<Rightarrow> (string \<rightharpoonup> PeerInfo) \<Rightarrow> bool" where
  "ip_safe ps E target \<longleftrightarrow>
     (\<forall>k q k' t. ps_peers ps k = Some q \<and> pi_Email q \<notin> E \<and> target k' = Some t \<longrightarrow>
        peer_view q \<inter> peer_view t = {})"

text \<open>The users of the request as requested, the others as they were.\<close>

definition partial_spec ::
  "PeerStore \<Rightarrow> string set \<Rightarrow> (string \<rightharpoonup> PeerInfo) \<Rightarrow> PeerStore \<Rightarrow> bool" where
  "partial_spec ps E target ps' \<longleftrightarrow>
     (\<forall>k. (\<forall>t. target k = Some t \<longrightarrow> map_option user_view (ps_peers ps' k) = Some (user_view t)) \<and>
          (target k = None \<longrightarrow> ps_peers ps' k =
             (case ps_peers ps k of None \<Rightarrow> None | Some q \<Rightarrow> if pi_Email q \<in> E then None else Some q)))"

lemma upsert_of_target: "upsert_of existing target k = Some t \<Longrightarrow> target k = Some t"
  by (auto simp: upsert_of_def split: option.splits if_splits)

lemma upsert_of_None:
  assumes "upsert_of existing target k = None" "target k = Some t" "pi_AllowedIPs t \<noteq> []"
  shows "\<exists>e. existing k = Some e \<and> user_view e = user_view t"
  using assms by (auto simp: upsert_of_def user_view_def ipnets_equal_def split: option.splits if_splits)

lemma config_of_None:
  assumes "config_of existing target psk k = None" "target k = Some t" "pi_AllowedIPs t \<noteq> []"
  shows "\<exists>e. existing k = Some e \<and> peer_view e = peer_view t"
proof -
  from assms obtain e where "existing k = Some e" "ipnets_equal e t"
    by (auto simp: config_of_def split: option.splits if_splits)
  then have "set (map IPNet_String (pi_AllowedIPs e)) = set (map IPNet_String (pi_AllowedIPs t))"
    unfolding ipnets_equal_def by simp
  with \<open>existing k = Some e\<close> show ?thesis by (simp add: peer_view_def net_strings_def)
qed

lemma user_view_peer_view: "user_view p = user_view q \<Longrightarrow> peer_view p = peer_view q"
  unfolding user_view_def peer_view_def net_strings_def by (metis list.set_map prod.inject)

lemma gone_keys:
  fixes target :: "string \<rightharpoonup> PeerInfo"
  assumes keys: "wgtypes_keys pk ks" and stored: "stored_ok ks ps"
    and ex: "\<And>k p. existing k = Some p \<Longrightarrow> ps_peers ps k = Some p"
  defines "gone \<equiv> sorted_list_of_set {k \<in> dom existing. target k = None}"
  shows "set (filter (\<lambda>k. pk k \<noteq> None) gone) = {k \<in> dom existing. target k = None}"
    and "K \<in> set (List.map_filter pk gone) \<longleftrightarrow> length K = 32 \<and> ks K \<in> dom existing \<and> target (ks K) = None"
proof -
  have "dom existing \<subseteq> dom (ps_peers ps)" using ex by auto
  then have "{k \<in> dom existing. target k = None} \<subseteq> dom (ps_peers ps)" by blast
  moreover have "finite (dom (ps_peers ps))" using stored unfolding stored_ok_def by (blast intro: ps_ok_finite)
  ultimately have "finite {k \<in> dom existing. target k = None}" by (rule finite_subset)
  then have set: "set gone = {k \<in> dom existing. target k = None}" by (simp add: gone_def)
  have parse: "\<exists>K. pk k = Some K \<and> ks K = k" if "k \<in> dom existing" for k
  proof -
    from that obtain p where "ps_peers ps k = Some p" using ex by blast
    with stored keys show ?thesis
      by (auto simp: stored_ok_def wgtypes_keys_def dest: ps_ok_peer)
  qed
  show "set (filter (\<lambda>k. pk k \<noteq> None) gone) = {k \<in> dom existing. target k = None}"
    using parse by (fastforce simp: set)
  have len: "length K = 32" if "pk k = Some K" for k K
    using keys that by (auto simp: wgtypes_keys_def)
  have printed: "pk (ks K) = Some K" if "length K = 32"
    using keys that by (auto simp: wgtypes_keys_def)
  show "K \<in> set (List.map_filter pk gone) \<longleftrightarrow> length K = 32 \<and> ks K \<in> dom existing \<and> target (ks K) = None"
  proof
    assume "K \<in> set (List.map_filter pk gone)"
    then obtain k where k: "k \<in> dom existing" "target k = None" "pk k = Some K"
      by (auto simp: map_filter_set set)
    from parse [OF k(1)] k(3) have "ks K = k" by auto
    with k len show "length K = 32 \<and> ks K \<in> dom existing \<and> target (ks K) = None" by auto
  next
    assume "length K = 32 \<and> ks K \<in> dom existing \<and> target (ks K) = None"
    with printed show "K \<in> set (List.map_filter pk gone)"
      by (auto simp: map_filter_set set intro!: bexI [of _ "ks K"])
  qed
qed

lemma partial_store:
  assumes keys: "wgtypes_keys pk ks" and stored: "stored_ok ks ps" and good: "good_target ks target"
    and pc: "partial_case ps E existing target"
    and d: "d = diff_of pk psk awg order existing target"
    and st: "ApplyChanges ks ps (sd_RemoveKeys d) (map Some (sd_UpsertPeers d)) = (removed, ps')"
  shows "stored_ok ks ps'" "partial_spec ps E target ps'"
    and "set removed = {k. \<exists>q. ps_peers ps k = Some q \<and> pi_Email q \<in> E \<and> target k = None}"
proof -
  let ?U = "upsert_of existing target"
  let ?us = "List.map_filter ?U (sorted_list_of_set (dom ?U))"
  let ?rs = "filter (\<lambda>k. pk k \<noteq> None) (sorted_list_of_set {k \<in> dom existing. target k = None})"
  have ok: "ps_ok ks ps" using stored by (simp add: stored_ok_def)
  from pc have ex: "\<And>k p. existing k = Some p \<longleftrightarrow> ps_peers ps k = Some p \<and> pi_Email p \<in> E"
    and tE: "\<And>k t. target k = Some t \<Longrightarrow> pi_Email t \<in> E"
    and own: "\<And>k t q. target k = Some t \<Longrightarrow> ps_peers ps k = Some q \<Longrightarrow> pi_Email q \<in> E"
    unfolding partial_case_def by blast+
  have rs: "set ?rs = {k \<in> dom existing. target k = None}"
    using ex by (intro gone_keys(1) [OF keys stored]) auto
  have finU: "finite (dom ?U)" by (rule finite_subset [OF upsert_of_dom good_target_finite [OF good]])
  have us: "q \<in> set ?us \<longleftrightarrow> ?U (ks (pi_PublicKey q)) = Some q" for q
    using finU good_targetD(1) [OF good] by (auto simp: map_filter_set dest: upsert_of_target)
  have dist: "distinct (map pi_Email ?us)" "distinct (map (\<lambda>p. ks (pi_PublicKey p)) ?us)"
    by (rule good_target_distinct [OF good], simp, erule upsert_of_target)+
  have st': "ApplyChanges ks ps ?rs (map Some ?us) = (removed, ps')"
    using st by (simp add: d diff_of_def Let_def)
  have P: "ps_peers ps' k = Some q \<longleftrightarrow> ?U k = Some q \<or>
      (ps_peers ps k = Some q \<and> \<not> (existing k \<noteq> None \<and> target k = None) \<and> ?U k = None \<and> pi_Email q \<notin> pi_Email ` set ?us)" for k q
  proof -
    have "k \<in> (\<lambda>p. ks (pi_PublicKey p)) ` set ?us \<longleftrightarrow> ?U k \<noteq> None"
      using us good_targetD(1) [OF good] upsert_of_target by (auto simp: image_iff) metis
    moreover have "q \<in> set ?us \<and> ks (pi_PublicKey q) = k \<longleftrightarrow> ?U k = Some q"
      using us good_targetD(1) [OF good] upsert_of_target by metis
    ultimately show ?thesis
      using ApplyChanges_peers [OF ok dist, of ?rs k q] st' unfolding rs by auto
  qed
  have emails: "pi_Email q \<in> pi_Email ` set ?us \<Longrightarrow> \<exists>k t. target k = Some t \<and> ?U k = Some t \<and> pi_Email t = pi_Email q" for q
    using us upsert_of_target by (auto simp: image_iff) metis
  show spec: "partial_spec ps E target ps'" unfolding partial_spec_def
  proof (intro allI conjI impI)
    fix k t assume t: "target k = Some t"
    show "map_option user_view (ps_peers ps' k) = Some (user_view t)"
    proof (cases "?U k")
      case None
      from upsert_of_None [OF this t good_targetD(3) [OF good t]] obtain e where
        e: "existing k = Some e" "user_view e = user_view t" by blast
      have "pi_Email e \<notin> pi_Email ` set ?us"
      proof
        assume "pi_Email e \<in> pi_Email ` set ?us"
        from emails [OF this] obtain k' t' where k': "target k' = Some t'" "?U k' = Some t'" "pi_Email t' = pi_Email e"
          by blast
        with None have "k' \<noteq> k" by auto
        from good_targetD(5) [OF good k'(1) t this] k'(3) e(2) show False by (simp add: user_view_def)
      qed
      with P [of k e] e None ex t show ?thesis by auto
    next
      case (Some t')
      with upsert_of_target [OF Some] t P [of k t'] show ?thesis by auto
    qed
  next
    fix k assume t: "target k = None"
    then have U: "?U k = None" by (simp add: upsert_of_def)
    show "ps_peers ps' k = (case ps_peers ps k of None \<Rightarrow> None | Some q \<Rightarrow> if pi_Email q \<in> E then None else Some q)"
    proof (cases "ps_peers ps k")
      case None
      with U P [of k] have "ps_peers ps' k \<noteq> Some q" for q by simp
      then have "ps_peers ps' k = None" by (metis option.exhaust)
      with None show ?thesis by simp
    next
      case (Some q)
      show ?thesis
      proof (cases "pi_Email q \<in> E")
        case True
        with Some ex t U P [of k] have "ps_peers ps' k \<noteq> Some q" for q by auto
        then have "ps_peers ps' k = None" by (metis option.exhaust)
        with Some True show ?thesis by simp
      next
        case False
        have "pi_Email q \<notin> pi_Email ` set ?us" using emails [of q] tE False by metis
        with Some False ex U P [of k q] show ?thesis by auto
      qed
    qed
  qed
  show "set removed = {k. \<exists>q. ps_peers ps k = Some q \<and> pi_Email q \<in> E \<and> target k = None}"
  proof -
    have "set removed = {k \<in> dom existing. target k = None} \<inter> dom (ps_peers ps)"
      using ApplyChanges_removed [OF ok, of ?rs "map Some ?us"] st' unfolding rs by simp
    then show ?thesis using ex by auto
  qed
  have "ps_ok ks ps'" using ApplyChanges_ok [OF ok, of ?rs "map Some ?us"] st' by simp
  moreover have "length (pi_PublicKey p) = 32 \<and> pi_AllowedIPs p \<noteq> []" if "ps_peers ps' k = Some p" for k p
    using that P [of k p] stored good_targetD(2,3) [OF good] upsert_of_target
    unfolding stored_ok_def by blast
  ultimately show "stored_ok ks ps'" by (simp add: stored_ok_def)
qed

text \<open>The configurations of the difference: one per target key that is new or has other addresses.\<close>

lemma partial_configs:
  assumes good: "good_target ks target" and order: "set order = dom existing \<union> dom target"
  shows "p \<in> set (List.map_filter (config_of existing target psk) order) \<longleftrightarrow>
      (\<exists>k. config_of existing target psk k = Some p)"
    and "p \<in> set (List.map_filter (config_of existing target psk) order) \<Longrightarrow>
      length (pc_PublicKey p) = 32 \<and> (\<exists>t. target (ks (pc_PublicKey p)) = Some t \<and> pc_nets p = peer_view t)"
proof -
  show mem: "p \<in> set (List.map_filter (config_of existing target psk) order) \<longleftrightarrow>
      (\<exists>k. config_of existing target psk k = Some p)"
    using order by (auto simp: map_filter_set) (metis UnI2 domI config_of_fields)
  show "length (pc_PublicKey p) = 32 \<and> (\<exists>t. target (ks (pc_PublicKey p)) = Some t \<and> pc_nets p = peer_view t)"
    if "p \<in> set (List.map_filter (config_of existing target psk) order)"
  proof -
    from that mem obtain k where "config_of existing target psk k = Some p" by blast
    from config_of_fields [OF this] obtain t where "target k = Some t" "pc_PublicKey p = pi_PublicKey t"
      "pc_nets p = peer_view t" by blast
    with good_targetD(1,2) [OF good, of k t] show ?thesis by auto
  qed
qed

lemma config_of_key:
  assumes "wgtypes_keys pk ks" "good_target ks target" "length K = 32"
    and "config_of existing target psk (ks K) = Some p"
  shows "pc_PublicKey p = K"
  using config_of_fields [OF assms(4)] good_targetD(1,2) [OF assms(2)] ks_inj [OF assms(1), of "pc_PublicKey p" K] assms(3)
  by auto

lemma partial_fresh:
  assumes agr: "agrees ks ps m" and good: "good_target ks target" and pc: "partial_case ps E existing target"
    and order: "set order = dom existing \<union> dom target"
  shows "\<forall>p \<in> set (List.map_filter (config_of existing target psk) order).
    \<not> pc_ReplaceAllowedIPs p \<longrightarrow> m (pc_PublicKey p) = None"
proof (intro ballI impI)
  fix p assume "p \<in> set (List.map_filter (config_of existing target psk) order)" "\<not> pc_ReplaceAllowedIPs p"
  then obtain k where k: "config_of existing target psk k = Some p"
    using partial_configs(1) [OF good order] by blast
  from config_of_fields [OF k] \<open>\<not> pc_ReplaceAllowedIPs p\<close> obtain t where
    t: "target k = Some t" "pc_PublicKey p = pi_PublicKey t" "existing k = None" by auto
  with pc have "ps_peers ps k = None" unfolding partial_case_def by (metis option.exhaust option.distinct(1))
  with t good_targetD(1) [OF good t(1)] agr show "m (pc_PublicKey p) = None" by (simp add: agrees_def)
qed

text \<open>A stored peer that gets no configuration and is not removed: no new address is its own.\<close>

lemma partial_kept:
  assumes keys: "wgtypes_keys pk ks" and good: "good_target ks target"
    and pc: "partial_case ps E existing target" and safe: "ip_safe ps E target"
    and order: "set order = dom existing \<union> dom target" and spec: "partial_spec ps E target ps'"
    and K: "length K = 32" "ps_peers ps (ks K) = Some q"
    and stay: "\<not> (ks K \<in> dom existing \<and> target (ks K) = None)"
    and cs: "cs = List.map_filter (config_of existing target psk) order" "K \<notin> pc_PublicKey ` set cs"
  shows "peer_view q \<inter> \<Union> (pc_nets ` set cs) = {}"
    and "map_option peer_view (ps_peers ps' (ks K)) = Some (peer_view q)"
proof -
  have "(\<forall>p \<in> set cs. peer_view q \<inter> pc_nets p = {}) \<and>
      map_option peer_view (ps_peers ps' (ks K)) = Some (peer_view q)"
  proof (cases "target (ks K)")
    case (Some t)
    have "config_of existing target psk (ks K) = None"
    proof (rule ccontr)
      assume "config_of existing target psk (ks K) \<noteq> None"
      then obtain p where p: "config_of existing target psk (ks K) = Some p" by blast
      then have "p \<in> set cs" unfolding cs(1) partial_configs(1) [OF good order] by blast
      with config_of_key [OF keys good K(1) p] cs(2) show False by blast
    qed
    from config_of_None [OF this Some good_targetD(3) [OF good Some]] pc K
    have view: "peer_view q = peer_view t" by (auto simp: partial_case_def)
    have "peer_view t \<inter> pc_nets p = {}" if p: "p \<in> set cs" for p
    proof -
      from partial_configs(2) [OF good order] p cs(1) obtain t' where
        t': "length (pc_PublicKey p) = 32" "target (ks (pc_PublicKey p)) = Some t'" "pc_nets p = peer_view t'" by blast
      have "ks K \<noteq> ks (pc_PublicKey p)" using ks_inj [OF keys K(1) t'(1)] cs(2) p by auto
      from good_targetD(4) [OF good Some t'(2) this] t'(3) show ?thesis by simp
    qed
    moreover obtain q' where q': "ps_peers ps' (ks K) = Some q'" "user_view q' = user_view t"
      using spec Some unfolding partial_spec_def by (metis map_option_eq_Some)
    ultimately show ?thesis using view user_view_peer_view [OF q'(2)] by auto
  next
    case None
    with stay K pc have "pi_Email q \<notin> E" by (auto simp: partial_case_def)
    moreover from this spec None K have "ps_peers ps' (ks K) = Some q" by (auto simp: partial_spec_def)
    moreover have "peer_view q \<inter> pc_nets p = {}" if "p \<in> set cs" for p
      using partial_configs(2) [OF good order] that cs(1) safe K \<open>pi_Email q \<notin> E\<close> unfolding ip_safe_def by metis
    ultimately show ?thesis by auto
  qed
  then show "peer_view q \<inter> \<Union> (pc_nets ` set cs) = {}"
    "map_option peer_view (ps_peers ps' (ks K)) = Some (peer_view q)" by auto
qed

lemma partial_absent:
  assumes keys: "wgtypes_keys pk ks" and good: "good_target ks target"
    and pc: "partial_case ps E existing target"
    and order: "set order = dom existing \<union> dom target" and spec: "partial_spec ps E target ps'"
    and K: "length K = 32" "ps_peers ps (ks K) = None"
    and cs: "K \<notin> pc_PublicKey ` set (List.map_filter (config_of existing target psk) order)"
  shows "ps_peers ps' (ks K) = None"
proof (cases "target (ks K)")
  case None
  with spec K show ?thesis unfolding partial_spec_def by auto
next
  case (Some t)
  from K pc have "existing (ks K) = None" unfolding partial_case_def by (metis option.exhaust)
  with Some good_targetD(3) [OF good Some] obtain p where p: "config_of existing target psk (ks K) = Some p"
    by (auto simp: config_of_def)
  with config_of_key [OF keys good K(1) p] partial_configs(1) [OF good order] cs show ?thesis by blast
qed

lemma partial_kernel:
  assumes keys: "wgtypes_keys pk ks" and laws: "peer_laws h kp" and stored: "stored_ok ks ps"
    and agr: "agrees ks ps (kp w (m_iFaceName m))"
    and good: "good_target ks target" and pc: "partial_case ps E existing target"
    and safe: "ip_safe ps E target"
    and order: "distinct order" "set order = dom existing \<union> dom target"
    and d: "d = diff_of pk psk awg order existing target"
    and app: "ApplyPeers h m (sd_PeerConfigs d) w = (None, w')"
    and spec: "partial_spec ps E target ps'"
  shows "agrees ks ps' (kp w' (m_iFaceName m))"
proof -
  let ?cs = "List.map_filter (config_of existing target psk) order"
  let ?rs = "List.map_filter pk (sorted_list_of_set {k \<in> dom existing. target k = None})"
  have rs: "K \<in> set ?rs \<longleftrightarrow> length K = 32 \<and> ks K \<in> dom existing \<and> target (ks K) = None" for K
    using pc by (intro gone_keys(2) [OF keys stored]) (auto simp: partial_case_def)
  have "ApplyPeers h m (setPeerAdvancedSecurity ?cs awg @ map buildRemoveConfig ?rs) w = (None, w')"
    using app by (simp add: d diff_of_def Let_def)
  note upd = mgr.update_exact [OF laws clean_configs [OF good order(1)] partial_fresh [OF agr good pc order(2)] this]
  have T: "kp w (m_iFaceName m) K = (if length K = 32 then map_option peer_view (ps_peers ps (ks K)) else None)" for K
    using agr by (simp add: agrees_def)
  have "kp w' (m_iFaceName m) K = (if length K = 32 then map_option peer_view (ps_peers ps' (ks K)) else None)" for K
  proof (cases "K \<in> set ?rs")
    case True
    then have "length K = 32" "ks K \<in> dom existing" "target (ks K) = None" by (auto simp: rs)
    with spec pc have "ps_peers ps' (ks K) = None" by (auto simp: partial_spec_def partial_case_def)
    with upd(1) [OF True] show ?thesis by simp
  next
    case notr: False
    show ?thesis
    proof (cases "K \<in> pc_PublicKey ` set ?cs")
      case True
      then obtain p where p: "p \<in> set ?cs" "K = pc_PublicKey p" by blast
      from partial_configs(2) [OF good order(2) p(1)] obtain t where
        t: "length K = 32" "target (ks K) = Some t" "pc_nets p = peer_view t" by (auto simp: p(2))
      with spec obtain q where q: "ps_peers ps' (ks K) = Some q" "user_view q = user_view t"
        unfolding partial_spec_def by (metis map_option_eq_Some)
      with upd(2) [OF p(1)] p notr t user_view_peer_view [OF q(2)] show ?thesis by simp
    next
      case False
      note U = upd(3) [OF notr False] and absent = partial_absent [OF keys good pc order(2) spec _ _ False]
        and kept = partial_kept [OF keys good pc safe order(2) spec _ _ _ refl False]
      show ?thesis
      proof (cases "length K = 32")
        case len: True
        show ?thesis
        proof (cases "ps_peers ps (ks K)")
          case None
          with U T [of K] absent [OF len None] show ?thesis by simp
        next
          case (Some q)
          have "\<not> (ks K \<in> dom existing \<and> target (ks K) = None)" using notr len by (simp add: rs)
          with kept [OF len Some] have "peer_view q - \<Union> (pc_nets ` set ?cs) = peer_view q"
            "map_option peer_view (ps_peers ps' (ks K)) = Some (peer_view q)" by blast+
          with U T [of K] Some len show ?thesis by auto
        qed
      qed (use U T [of K] in simp)
    qed
  qed
  then show ?thesis by (simp add: agrees_def)
qed

text \<open>No foreign owner was found: a target key that is stored belongs to a user of the request.\<close>

lemma no_foreign_owner:
  assumes rng: "go_range rng" and fin: "finite (dom desired)"
    and none: "List.find (foreign_owner (GetEmailMap ps) E desired) (rng 9 (dom desired)) = None"
    and k: "desired k = Some d" "ps_peers ps k = Some q" "dp_Email d \<in> E"
  shows "pi_Email q \<in> E"
proof -
  have "k \<in> set (rng 9 (dom desired))" using rng fin k by auto
  with none have "\<not> foreign_owner (GetEmailMap ps) E desired k" by (simp add: find_None_iff)
  with k show ?thesis by (auto simp: foreign_owner_def GetEmailMap_def)
qed

lemma partial_case_holds:
  assumes rng: "go_range (cx_rng cx)" and ok: "ps_ok (cx_KeyString cx) (wg_peerStore wg)"
    and E: "E = u_Email ` set (normalizeUsers (cx_rng cx) users)"
    and none: "List.find (foreign_owner (GetEmailMap (wg_peerStore wg)) E
          (desired_of (cx_ParseKey cx) c (normalizeUsers (cx_rng cx) users)))
        (cx_rng cx 9 (dom (desired_of (cx_ParseKey cx) c (normalizeUsers (cx_rng cx) users)))) = None"
  shows "partial_case (wg_peerStore wg) E (buildExistingPeersSubsetForTouched cx E wg) (target_of cx c users)"
proof -
  let ?D = "desired_of (cx_ParseKey cx) c (normalizeUsers (cx_rng cx) users)"
  have own: "pi_Email q \<in> E" if "target_of cx c users k = Some t" "ps_peers (wg_peerStore wg) k = Some q" for k t q
  proof -
    from that(1) obtain d where d: "?D k = Some d" by (auto simp: target_of_def)
    then have "dp_Email d \<in> E" by (auto simp: E desired_peer_def dest!: desired_of_Some)
    from no_foreign_owner [OF rng finite_desired_of none d that(2) this] show ?thesis .
  qed
  have "finite E" by (simp add: E)
  from snapshot_touched [OF rng ok this] own target_of_email [of cx c users] E show ?thesis
    unfolding partial_case_def by blast
qed

lemma RemoveStats_other: "k \<noteq> k' \<Longrightarrow> RemoveStats k st k' = st k'"
  by (simp add: RemoveStats_def split: option.split)

lemma RemoveStats_cong: "st k = st' k \<Longrightarrow> RemoveStats k st k = RemoveStats k st' k"
  by (simp add: RemoveStats_def split: option.split)

lemma RemoveStats_idem: "RemoveStats k (RemoveStats k st) k = RemoveStats k st k"
  by (simp add: RemoveStats_def split: option.split)

lemma remove_stats_lookup:
  "remove_stats ks st k = (if k \<in> set ks then RemoveStats k st k else st k)"
proof (induction ks arbitrary: st)
  case (Cons a ks)
  have "remove_stats (a # ks) st k = remove_stats ks (RemoveStats a st) k" by (simp add: remove_stats_def)
  with Cons.IH [of "RemoveStats a st"] show ?case
    using RemoveStats_other [of a k st] RemoveStats_idem [of k st] RemoveStats_cong [of "RemoveStats a st" k st]
    by (cases "a = k") auto
qed (simp add: remove_stats_def)

lemma ApplyPeers_Nil: "ApplyPeers h m [] w = (None, w)"
  by (simp add: ApplyPeers_def)

lemma loop_order:
  assumes "go_range rng" "finite (dom existing)" "finite (dom target)"
  shows "distinct (rng 3 (dom existing) @ filter (\<lambda>k. existing k = None) (rng 4 (dom target)))"
    and "set (rng 3 (dom existing) @ filter (\<lambda>k. existing k = None) (rng 4 (dom target))) = dom existing \<union> dom target"
  using assms by auto

text \<open>
  A partial synchronisation that succeeds went through these steps; the call of the manager is
  also the one with an empty list, which does nothing.
\<close>

lemma partial_steps:
  assumes env: "env_ok cx kp" and inv: "wg_inv cx kp wg w"
    and c: "wg_config wg = Some c"
    and res: "syncUsersPartialReconcile cx users wg w = (None, wg', w')"
  defines "E \<equiv> u_Email ` set (normalizeUsers (cx_rng cx) users)"
  defines "existing \<equiv> buildExistingPeersSubsetForTouched cx E wg"
  defines "target \<equiv> target_of cx c users"
  defines "order \<equiv> cx_rng cx 3 (dom existing) @ filter (\<lambda>k. existing k = None) (cx_rng cx 4 (dom target))"
  defines "d \<equiv> diff_of (cx_ParseKey cx) (psk_of (cx_ParseKey cx) c) (c_AmneziaWG c) order existing target"
  shows "\<exists>c1 removed ps'. cache_ok (cx_ParseKey cx) c1 \<and>
    conflict_free (cx_ParseKey cx) c (normalizeUsers (cx_rng cx) users) \<and>
    partial_case (wg_peerStore wg) E existing target \<and>
    ApplyChanges (cx_KeyString cx) (wg_peerStore wg) (sd_RemoveKeys d) (map Some (sd_UpsertPeers d)) = (removed, ps') \<and>
    wg' = wg\<lparr>wg_config := Some c1, wg_peerStore := ps',
             wg_statsTracker := remove_stats removed (wg_statsTracker wg)\<rparr> \<and>
    (w' = w \<and> sd_PeerConfigs d = [] \<or>
     (\<exists>m. wg_manager wg = Some m \<and> ApplyPeers (cx_host cx) m (sd_PeerConfigs d) w = (None, w')))"
proof -
  let ?us = "normalizeUsers (cx_rng cx) users" and ?pk = "cx_ParseKey cx" and ?ks = "cx_KeyString cx"
  from env have rng: "go_range (cx_rng cx)" by (simp add: env_ok_def)
  from inv c have ok: "ps_ok ?ks (wg_peerStore wg)" and cache: "cache_ok ?pk c"
    by (auto simp: wg_inv_def stored_ok_def)
  note dist = normalizeUsers_distinct [OF rng, of users]
  have cf: "conflict_free ?pk c ?us"
  proof (rule ccontr)
    assume "\<not> conflict_free ?pk c ?us"
    from collectDesiredPeers_spec(2) [OF dist this] res c show False
      by (auto simp: syncUsersPartialReconcile_def)
  qed
  note coll = collectDesiredPeers_spec(1) [OF dist cf]
  have none: "List.find (foreign_owner (GetEmailMap (wg_peerStore wg)) E (desired_of ?pk c ?us))
      (cx_rng cx 9 (dom (desired_of ?pk c ?us))) = None"
  proof (rule ccontr)
    assume "List.find (foreign_owner (GetEmailMap (wg_peerStore wg)) E (desired_of ?pk c ?us))
      (cx_rng cx 9 (dom (desired_of ?pk c ?us))) \<noteq> None"
    with res c show False by (auto simp: syncUsersPartialReconcile_def coll E_def Let_def)
  qed
  have E: "E = u_Email ` set (normalizeUsers (cx_rng cx) users)" by (simp add: E_def)
  have pc: "partial_case (wg_peerStore wg) E existing target"
    unfolding existing_def target_def by (rule partial_case_holds [OF rng ok E none])
  have "dom existing \<subseteq> dom (ps_peers (wg_peerStore wg))" using pc by (auto simp: partial_case_def)
  then have fin: "finite (dom existing)" using ps_ok_finite [OF ok] by (rule finite_subset)
  obtain r c1 where diff: "buildSyncDiff (cx_rng cx) ?pk c existing (desired_of ?pk c ?us) = (r, c1)" by fastforce
  have tgt: "(\<lambda>k. map_option target_peer (desired_of ?pk c ?us k)) = target"
    by (simp add: target_def target_of_def fun_eq_iff)
  have r: "r = Inr d"
    using buildSyncDiff_spec [OF rng fin finite_desired_of cache diff, unfolded tgt]
    by (simp add: d_def order_def)
  note res' = res [unfolded syncUsersPartialReconcile_def c Let_def,
      simplified coll sum.case option.case E_def [symmetric] existing_def [symmetric] none diff r prod.case]
  obtain removed ps' where st: "ApplyChanges ?ks (wg_peerStore wg) (sd_RemoveKeys d) (map Some (sd_UpsertPeers d)) =
      (removed, ps')" by fastforce
  let ?wg1 = "wg\<lparr>wg_config := Some c1\<rparr>"
  have "wg' = ?wg1\<lparr>wg_peerStore := ps', wg_statsTracker := remove_stats removed (wg_statsTracker wg)\<rparr> \<and>
    (w' = w \<and> sd_PeerConfigs d = [] \<or>
     (\<exists>m. wg_manager wg = Some m \<and> ApplyPeers (cx_host cx) m (sd_PeerConfigs d) w = (None, w')))"
  proof (cases "sd_PeerConfigs d = []")
    case True
    with res' st show ?thesis by simp
  next
    case False
    have run: "ensureRunningWithManagerLocked ?wg1 = None"
      using res' False by (auto split: option.splits prod.splits)
    from ensureRunning_None [OF this] obtain m where m: "wg_manager wg = Some m" by auto
    with res' False run st show ?thesis by (auto split: option.splits prod.splits)
  qed
  with buildSyncDiff_config [OF diff cache] cf pc st show ?thesis by auto
qed

lemma syncUsersPartial_ok:
  assumes env: "env_ok cx kp" and inv: "wg_inv cx kp wg w" and can: "canonical_keys cx users"
    and c: "wg_config wg = Some c"
    and res: "syncUsersPartialReconcile cx users wg w = (None, wg', w')"
  defines "E \<equiv> u_Email ` set (normalizeUsers (cx_rng cx) users)"
  shows "partial_spec (wg_peerStore wg) E (target_of cx c users) (wg_peerStore wg')"
    and "ip_safe (wg_peerStore wg) E (target_of cx c users) \<Longrightarrow> wg_inv cx kp wg' w'"
    and "wg_statsTracker wg' k =
      (if \<exists>q. ps_peers (wg_peerStore wg) k = Some q \<and> pi_Email q \<in> E \<and> target_of cx c users k = None
       then RemoveStats k (wg_statsTracker wg) k else wg_statsTracker wg k)"
proof -
  let ?pk = "cx_ParseKey cx" and ?ks = "cx_KeyString cx" and ?ps = "wg_peerStore wg"
  let ?ex = "buildExistingPeersSubsetForTouched cx E wg" and ?t = "target_of cx c users"
  let ?order = "cx_rng cx 3 (dom ?ex) @ filter (\<lambda>k. ?ex k = None) (cx_rng cx 4 (dom ?t))"
  let ?d = "diff_of ?pk (psk_of ?pk c) (c_AmneziaWG c) ?order ?ex ?t"
  from env have rng: "go_range (cx_rng cx)" and keys: "wgtypes_keys ?pk ?ks" and laws: "peer_laws (cx_host cx) kp"
    by (auto simp: env_ok_def)
  from inv c have stored: "stored_ok ?ks ?ps" and agr: "agrees ?ks ?ps (kernel_table kp wg w)"
    by (auto simp: wg_inv_def)
  from partial_steps [OF env inv c res, folded E_def] obtain c1 removed ps' where
    cache1: "cache_ok ?pk c1" and cf: "conflict_free ?pk c (normalizeUsers (cx_rng cx) users)"
    and pc: "partial_case ?ps E ?ex ?t"
    and st: "ApplyChanges ?ks ?ps (sd_RemoveKeys ?d) (map Some (sd_UpsertPeers ?d)) = (removed, ps')"
    and wg': "wg' = wg\<lparr>wg_config := Some c1, wg_peerStore := ps',
        wg_statsTracker := remove_stats removed (wg_statsTracker wg)\<rparr>"
    and app: "w' = w \<and> sd_PeerConfigs ?d = [] \<or>
      (\<exists>m. wg_manager wg = Some m \<and> ApplyPeers (cx_host cx) m (sd_PeerConfigs ?d) w = (None, w'))"
    by (elim exE conjE)
  note good = good_target_of [OF rng keys can cf]
  note PS = partial_store [OF keys stored good pc refl st]
  show "partial_spec ?ps E ?t (wg_peerStore wg')" using PS(2) by (simp add: wg')
  show "wg_statsTracker wg' k =
      (if \<exists>q. ps_peers ?ps k = Some q \<and> pi_Email q \<in> E \<and> ?t k = None
       then RemoveStats k (wg_statsTracker wg) k else wg_statsTracker wg k)"
    using PS(3) by (simp add: wg' remove_stats_lookup)
  have "dom ?ex \<subseteq> dom (ps_peers ?ps)" using pc by (auto simp: partial_case_def)
  then have fin: "finite (dom ?ex)"
    by (rule finite_subset) (use stored in \<open>auto simp: stored_ok_def intro: ps_ok_finite\<close>)
  note order = loop_order [OF rng fin good_target_finite [OF good]]
  show "wg_inv cx kp wg' w'" if safe: "ip_safe ?ps E ?t"
  proof -
    note K = partial_kernel [OF keys laws stored _ good pc safe order refl _ PS(2)]
    have "agrees ?ks ps' (kernel_table kp wg w')"
    proof (cases "wg_manager wg")
      case (Some m)
      with agr app have "agrees ?ks ?ps (kp w (m_iFaceName m))"
        "ApplyPeers (cx_host cx) m (sd_PeerConfigs ?d) w = (None, w')"
        by (auto simp: kernel_table_def ApplyPeers_Nil)
      from K [OF this] Some show ?thesis by (simp add: kernel_table_def)
    next
      case None
      let ?m = "\<lparr>m_client = False, m_iFaceName = [], m_amneziaWG = False, m_awgConfig = empty_device_config\<rparr>"
      from None app have "sd_PeerConfigs ?d = []" "w' = w" by auto
      then show ?thesis
        using agr None partial_kernel [where h = "(cx_host cx)\<lparr>ctl_ConfigureDevice := \<lambda>_ _ w. (Some nil_config, w)\<rparr>"
            and kp = "\<lambda>_ _. Map.empty" and m = ?m and psk = "psk_of ?pk c" and awg = "c_AmneziaWG c"
            and w = w and w' = w, OF keys _ stored _ good pc safe order refl _ PS(2)]
        by (simp add: kernel_table_def ApplyPeers_Nil peer_laws_def)
    qed
    with PS(1) cache1 show ?thesis by (simp add: wg_inv_def wg' kernel_table_def)
  qed
qed

section \<open>Errors change nothing but the key cache\<close>

text \<open>Two backends that differ at most in their configuration.\<close>

definition same_but_config :: "'w WireGuard \<Rightarrow> 'w WireGuard \<Rightarrow> bool" where
  "same_but_config wg wg' \<longleftrightarrow> wg' = wg\<lparr>wg_config := wg_config wg'\<rparr>"

lemma same_but_config_simps [simp]:
  "same_but_config wg wg" "same_but_config wg (wg\<lparr>wg_config := c\<rparr>)"
  by (simp_all add: same_but_config_def)

lemma syncUsersFull_error:
  "syncUsersFull cx users wg w = (Some err, wg', w') \<Longrightarrow> same_but_config wg wg'"
  by (auto simp: syncUsersFull_def Let_def split: option.splits sum.splits prod.splits if_splits)

lemma syncUsersPartial_error:
  "syncUsersPartialReconcile cx users wg w = (Some err, wg', w') \<Longrightarrow> same_but_config wg wg'"
  by (auto simp: syncUsersPartialReconcile_def Let_def split: option.splits sum.splits prod.splits if_splits)

section \<open>Restart\<close>

definition disjoint_store :: "PeerStore \<Rightarrow> bool" where
  "disjoint_store ps \<longleftrightarrow>
     (\<forall>k p k' p'. ps_peers ps k = Some p \<and> ps_peers ps k' = Some p' \<and> k \<noteq> k' \<longrightarrow>
        peer_view p \<inter> peer_view p' = {})"

lemma restart_configs_ok:
  "\<forall>p \<in> set ps. pi_AllowedIPs p \<noteq> [] \<Longrightarrow>
   restart_configs ps psk = Inr (map (\<lambda>p. buildAddConfig (pi_PublicKey p) (pi_AllowedIPs p) psk) ps)"
  by (induction ps) simp_all

lemma emitLogLocked_keeps [simp]:
  "wg_peerStore (emitLogLocked cx sev msg wg) = wg_peerStore wg"
  "wg_config (emitLogLocked cx sev msg wg) = wg_config wg"
  "wg_manager (emitLogLocked cx sev msg wg) = wg_manager wg"
  "wg_state (emitLogLocked cx sev msg wg) = wg_state wg"
  "wg_statsTracker (emitLogLocked cx sev msg wg) = wg_statsTracker wg"
  "wg_shutdownOnce (emitLogLocked cx sev msg wg) = wg_shutdownOnce wg"
  "wg_hostRouting (emitLogLocked cx sev msg wg) = wg_hostRouting wg"
  "wg_version (emitLogLocked cx sev msg wg) = wg_version wg"
  by (auto simp: emitLogLocked_def split: option.split prod.split)

lemma GetAll_distinct:
  assumes "go_range rng" "ps_ok ks ps"
  shows "distinct (map (\<lambda>p. ks (pi_PublicKey p)) (GetAll rng ps))"
proof -
  have "distinct (rng 0 (dom (ps_peers ps)))" using assms by (simp add: ps_ok_finite)
  then have "sorted_wrt (\<lambda>a b. ks (pi_PublicKey a) \<noteq> ks (pi_PublicKey b)) (GetAll rng ps)"
    unfolding GetAll_def using ps_ok_peer [OF assms(2)] by (intro sorted_wrt_map_filter) auto
  then show ?thesis by (simp add: distinct_iff_sorted_wrt sorted_wrt_map)
qed

lemma add_config_fields [simp]:
  "pc_PublicKey (buildAddConfig k ips psk) = k" "\<not> pc_Remove (buildAddConfig k ips psk)"
  "pc_nets (buildAddConfig k ips psk) = net_strings ips"
  by (simp_all add: buildAddConfig_def pc_nets_def)

lemma restart_table:
  assumes rng: "go_range rng" and keys: "wgtypes_keys pk ks" and stored: "stored_ok ks ps"
    and dis: "disjoint_store ps"
    and cs: "cs = map (\<lambda>p. buildAddConfig (pi_PublicKey p) (pi_AllowedIPs p) psk)
      (sort_key (\<lambda>p. ks (pi_PublicKey p)) (GetAll rng ps))"
  shows "agrees ks ps (fold apply_peer cs Map.empty)"
proof -
  let ?ps = "sort_key (\<lambda>p. ks (pi_PublicKey p)) (GetAll rng ps)"
  have ok: "ps_ok ks ps" using stored by (simp add: stored_ok_def)
  have mem: "p \<in> set ?ps \<longleftrightarrow> ps_peers ps (ks (pi_PublicKey p)) = Some p" for p
    using GetAll_set [OF rng ps_ok_finite [OF ok]] ps_ok_peer [OF ok] by auto
  have "distinct (map (\<lambda>p. ks (pi_PublicKey p)) ?ps)"
    using GetAll_distinct [OF rng ok] by (simp add: distinct_map)
  then have "sorted_wrt (\<lambda>a b. ks (pi_PublicKey a) \<noteq> ks (pi_PublicKey b)) ?ps"
    by (simp only: distinct_iff_sorted_wrt sorted_wrt_map)
  moreover have "pi_PublicKey a \<noteq> pi_PublicKey b \<and> peer_view a \<inter> peer_view b = {}"
    if "a \<in> set ?ps" "b \<in> set ?ps" "ks (pi_PublicKey a) \<noteq> ks (pi_PublicKey b)" for a b
    using that(3) dis that(1,2) [unfolded mem] unfolding disjoint_store_def by metis
  ultimately have "sorted_wrt (\<lambda>a b. pi_PublicKey a \<noteq> pi_PublicKey b \<and> peer_view a \<inter> peer_view b = {}) ?ps"
    by (rule sorted_wrt_mono_rel [rotated])
  then have clean: "clean_batch cs"
    by (auto simp: clean_batch_def cs sorted_wrt_map peer_view_def)
  have own: "fold apply_peer cs Map.empty (pi_PublicKey p) = Some (peer_view p)" if "p \<in> set ?ps" for p
    using fold_apply_clean(1) [OF clean, of Map.empty "buildAddConfig (pi_PublicKey p) (pi_AllowedIPs p) psk"] that
    by (auto simp: cs peer_view_def)
  have other: "fold apply_peer cs Map.empty k = None" if "k \<notin> pi_PublicKey ` set ?ps" for k
    using fold_apply_clean(2) [OF clean, of Map.empty k] that by (auto simp: cs image_iff)
  show ?thesis unfolding agrees_def
  proof
    fix K
    show "fold apply_peer cs Map.empty K = (if length K = 32 then map_option peer_view (ps_peers ps (ks K)) else None)"
    proof (cases "length K = 32 \<and> ps_peers ps (ks K) \<noteq> None")
      case True
      then obtain p where p: "ps_peers ps (ks K) = Some p" by auto
      with ps_ok_peer [OF ok p] stored True have "pi_PublicKey p = K"
        using ks_inj [OF keys, of "pi_PublicKey p" K] by (auto simp: stored_ok_def)
      with own [of p] mem [of p] p True show ?thesis by auto
    next
      case False
      have "K \<notin> pi_PublicKey ` set ?ps" using mem False stored by (auto simp: stored_ok_def)
      with other False show ?thesis by auto
    qed
  qed
qed

lemma ApplyConfig_table:
  assumes "peer_laws h kp" "ApplyConfig h m config w = (None, w')" "dc_ReplacePeers config"
  shows "kp w' (m_iFaceName m) = fold apply_peer (dc_Peers config) Map.empty"
  using assms
  by (auto simp: ApplyConfig_def device_peers_def mergeAmneziaDeviceConfig_def split: if_splits dest!: peer_lawsD)

lemma restartLocked_ok:
  assumes env: "env_ok cx kp" and stored: "stored_ok (cx_KeyString cx) (wg_peerStore wg)"
    and c: "wg_config wg = Some c" "cache_ok (cx_ParseKey cx) c" and dis: "disjoint_store (wg_peerStore wg)"
    and res: "restartLocked cx wg w = (None, wg', w')"
  shows "wg_inv cx kp wg' w'" "wg_peerStore wg' = wg_peerStore wg" "wg_statsTracker wg' = wg_statsTracker wg"
proof -
  let ?pk = "cx_ParseKey cx" and ?ks = "cx_KeyString cx" and ?ps = "wg_peerStore wg"
  from env have rng: "go_range (cx_rng cx)" and keys: "wgtypes_keys ?pk ?ks" and laws: "peer_laws (cx_host cx) kp"
    by (auto simp: env_ok_def)
  obtain privateKey c1 where priv: "GetPrivateKey ?pk c = (Inr privateKey, c1)"
    using res c by (auto simp: restartLocked_def split: prod.splits sum.splits)
  obtain pskr c2 where psk: "GetPreSharedKey ?pk c1 = (pskr, c2)" by fastforce
  let ?wg1 = "wg\<lparr>wg_config := Some c2\<rparr>"
  let ?qs = "sort_key (\<lambda>p. ?ks (pi_PublicKey p)) (GetAll (cx_rng cx) ?ps)"
  let ?cs = "map (\<lambda>p. buildAddConfig (pi_PublicKey p) (pi_AllowedIPs p) (psk_or_nil pskr)) ?qs"
  have "\<forall>p \<in> set ?qs. pi_AllowedIPs p \<noteq> []"
    using stored rng by (auto simp: stored_ok_def GetAll_set ps_ok_finite)
  then have cs: "buildPeerConfigsForRestart ?ks (GetAll (cx_rng cx) ?ps) (psk_or_nil pskr) = Inr ?cs"
    unfolding buildPeerConfigsForRestart_def by (rule restart_configs_ok)
  have run: "ensureRunningWithManagerLocked ?wg1 = None"
    using res c priv psk cs by (auto simp: restartLocked_def Let_def split: option.splits)
  from ensureRunning_None [OF this] obtain m where m: "wg_manager wg = Some m" by auto
  let ?config = "empty_device_config\<lparr>dc_PrivateKey := Some privateKey, dc_ListenPort := Some (c_ListenPort c1),
      dc_Peers := setPeerAdvancedSecurity ?cs (c_AmneziaWG c2), dc_ReplacePeers := True\<rparr>"
  have app: "ApplyConfig (cx_host cx) m ?config w = (None, w')"
    and wg': "wg_peerStore wg' = ?ps" "wg_statsTracker wg' = wg_statsTracker wg" "wg_config wg' = Some c2"
      "wg_manager wg' = Some m"
    using res c priv psk cs run m by (auto simp: restartLocked_def Let_def split: option.splits prod.splits)
  have "kp w' (m_iFaceName m) = fold apply_peer ?cs Map.empty"
    using ApplyConfig_table [OF laws app] by simp
  with restart_table [OF rng keys stored dis refl]
  have "agrees ?ks ?ps (kernel_table kp wg' w')" by (simp add: kernel_table_def wg')
  moreover have "cache_ok ?pk c2"
    using GetPreSharedKey_spec(1) [OF GetPrivateKey_spec(1) [OF c(2) priv] psk] .
  ultimately show "wg_inv cx kp wg' w'" using stored by (simp add: wg_inv_def wg')
  show "wg_peerStore wg' = wg_peerStore wg" "wg_statsTracker wg' = wg_statsTracker wg" by (simp_all add: wg')
qed

section \<open>Shutdown\<close>

lemma shutdownLocked_spec:
  assumes "shutdownLocked cx wg w = (wg', w')"
  shows "wg_state wg' = lifecycleStopped" "wg_manager wg' = None" "wg_logChan wg' = None"
    "wg_hostRouting wg' = None" "wg_version wg' = []" "wg_peerStore wg' = wg_peerStore wg"
    "wg_statsTracker wg' = wg_statsTracker wg"
  using assms by (auto simp: shutdownLocked_def Let_def split: option.splits prod.splits)

lemma Manager_Close_gone:
  assumes "link_laws h" "Manager_Close h m w = (err, m', w')"
  shows "link_gone h (m_iFaceName m) w'" "\<not> m_client m'"
proof -
  obtain w1 e where "cleanupExistingInterface h (m\<lparr>m_client := False\<rparr>) w1 = (e, w')"
    using assms(2) by (auto simp: Manager_Close_def Let_def split: prod.splits if_splits option.splits)
  with cleanup_gone [OF assms(1), of "m\<lparr>m_client := False\<rparr>" w1] show "link_gone h (m_iFaceName m) w'" by auto
  show "\<not> m_client m'" using assms(2) by (auto simp: Manager_Close_def Let_def split: prod.splits)
qed

lemma shutdown_gone:
  assumes laws: "link_laws (cx_host cx)" and m: "wg_manager wg = Some m"
    and res: "shutdownLocked cx wg w = (wg', w')"
  shows "link_gone (cx_host cx) (m_iFaceName m) w'"
proof -
  obtain err m' w1 where close: "Manager_Close (cx_host cx) m w1 = (err, m', w')"
    using res m by (auto simp: shutdownLocked_def Let_def split: prod.splits option.splits)
  from Manager_Close_gone(1) [OF laws close] show ?thesis .
qed

text \<open>A stopped backend answers every request with the same error and stays as it is.\<close>

lemma stopped_not_ready: "wg_state wg \<noteq> lifecycleRunning \<Longrightarrow> ensureRunningWithManagerLocked wg = Some errWireGuardNotStarted"
  by (cases "wg_state wg") (simp_all add: ensureRunningWithManagerLocked_def lifecycleReadinessError_def)

lemma Initialize_failure:
  assumes laws: "link_laws h" and gone: "m_client m" "parse_addrs h addrs = Inr nets"
    and res: "InitializeWithPeers h m key port addrs peers w = (Some err, w')"
  shows "link_gone h (m_iFaceName m) w'"
proof -
  obtain w1 where w1: "cleanupExistingInterface h m w = (None, w1)" "link_gone h (m_iFaceName m) w1"
    using cleanup_gone [OF laws] by blast
  show ?thesis
  proof (cases "nl_LinkAdd h (m_iFaceName m) (link_type m) w1")
    case (Pair e w2)
    show ?thesis
    proof (cases e)
      case (Some err')
      with Pair link_lawsD(3) [OF laws] have "w2 = w1" by blast
      with res gone w1 Pair Some show ?thesis by (simp add: InitializeWithPeers_def)
    next
      case None
      with res gone w1 Pair obtain w3 where "w' = snd (cleanupExistingInterface h m w3)"
        by (auto simp: InitializeWithPeers_def split: prod.splits option.splits)
      with cleanup_gone [OF laws, of m w3] show ?thesis by auto
    qed
  qed
qed

end
