(* ===== verification/WireGuardProps.thy ===== *)
theory WireGuardProps
  imports WireGuardSync
begin

text \<open>
  A concrete WireGuard backend on the simulated host, and the properties of the backend with their
  instances on it.
\<close>

section \<open>A concrete backend\<close>

definition sim_sys :: "sim sys" where
  "sim_sys = \<lparr>sys_exec = (\<lambda>prog args w. ((None, []), w)), sys_ReadFile = (\<lambda>p w. Inr ''1''),
     sys_WriteFile = (\<lambda>p c w. (None, w)), sys_ruleset = (\<lambda>s. Inr []), sys_chain = (\<lambda>s. Inl (errors_New s)),
     sys_routes = (\<lambda>s. Inr []), sys_rand = None, sys_pid = 1, sys_nanos = 1\<rparr>"

definition ex_cx :: "sim ctx" where
  "ex_cx = \<lparr>cx_host = sim_host, cx_sys = sim_sys, cx_ParseKey = raw_ParseKey, cx_KeyString = raw_KeyString,
     cx_Validate = (\<lambda>_. None), cx_rng = asc_iter, cx_now = 1, cx_stamp = []\<rparr>"

definition ex_key :: Key where
  "ex_key = replicate 32 1"

definition ex_config :: Config where
  "ex_config = \<lparr>c_InterfaceName = ''wg0'', c_PrivateKey = raw_KeyString ex_key, c_PreSharedKey = [],
     c_ListenPort = 51820, c_Address = [], c_Latency = None, c_AmneziaWG = False, c_Jc = None,
     c_Jmin = None, c_Jmax = None, c_S1 = None, c_S2 = None, c_S3 = None, c_S4 = None, c_H1 = [],
     c_H2 = [], c_H3 = [], c_H4 = [], c_I1 = [], c_I2 = [], c_I3 = [], c_I4 = [], c_I5 = [],
     c_privateKeyValue = [], c_privateKeySet = False, c_presharedKeyValue = None, c_presharedKeySet = False\<rparr>"

definition ex_net :: IPNet where
  "ex_net = \<lparr>net_IP = [10, 0, 0, 2], net_Mask = [255, 255, 255, 255]\<rparr>"

definition ex_info :: PeerInfo where
  "ex_info = \<lparr>pi_Email = ''a'', pi_PublicKey = ex_key, pi_AllowedIPs = [ex_net]\<rparr>"

definition ex_manager :: Manager where
  "ex_manager = \<lparr>m_client = True, m_iFaceName = ''wg0'', m_amneziaWG = False, m_awgConfig = empty_device_config\<rparr>"

definition ex_store :: PeerStore where
  "ex_store = \<lparr>ps_peers = [raw_KeyString ex_key \<mapsto> ex_info], ps_emailToKey = [''a'' \<mapsto> raw_KeyString ex_key]\<rparr>"

definition ex_world :: sim where
  "ex_world = \<lparr>sim_links = [''wg0'' \<mapsto> \<lparr>sl_type = ''wireguard'', sl_up = True, sl_addrs = [],
     sl_peers = [ex_key \<mapsto> net_strings [ex_net]]\<rparr>], sim_fail = []\<rparr>"

definition ex_node :: NodeConfig where
  "ex_node = fst (Load (\<lambda>_. Inl (errors_New [])) Map.empty)"

definition ex_wg :: "sim WireGuard" where
  "ex_wg = (wg_initial ex_cx ex_node [])\<lparr>wg_config := Some ex_config, wg_manager := Some ex_manager,
     wg_peerStore := ex_store, wg_state := lifecycleRunning\<rparr>"

lemma ex_env [simp]: "env_ok ex_cx sim_peers"
  by (simp add: env_ok_def ex_cx_def)

lemma ex_key_len [simp]: "length ex_key = 32"
  by (simp add: ex_key_def)

lemma ex_stored: "stored_ok raw_KeyString ex_store"
  by (auto simp: stored_ok_def ps_ok_def ex_store_def ex_info_def split: if_splits)

lemma ex_inv: "wg_inv ex_cx sim_peers ex_wg ex_world"
  using ex_stored
  by (auto simp: wg_inv_def agrees_def kernel_table_def ex_wg_def ex_cx_def ex_world_def ex_manager_def
      sim_peers_def ex_store_def ex_info_def peer_view_def cache_ok_def ex_config_def)

lemma ex_cfg: "wg_config ex_wg = Some ex_config"
  by (simp add: ex_wg_def)

lemmas sync_eval = ex_cx_def Let_def asc_iter_def GetPreSharedKey_def buildSyncDiff_def ex_config_def
  diff_existing_def buildRemoveConfigsForPeers_def buildTargetPeerConfigs_def
  ensureRunningWithManagerLocked_def lifecycleReadinessError_def ex_wg_def ApplyPeersReplaceAll_def ApplyPeers_def
  ex_manager_def sim_host_def sim_step_def ex_world_def setPeerAdvancedSecurity_def collectDesiredPeers_def

lemma ex_snapshot: "buildExistingPeersByKeySnapshot ex_cx ex_wg = [raw_KeyString ex_key \<mapsto> ex_info]"
    by (subst snapshot_all) (use ex_stored in \<open>simp_all add: ex_cx_def ex_wg_def stored_ok_def, simp add: ex_store_def\<close>)

lemma ex_parse [simp]: "raw_ParseKey (raw_KeyString ex_key) = Some ex_key" using raw_wgtypes_keys by (simp add: wgtypes_keys_def)

lemma ex_full: "fst (syncUsersFull ex_cx [] ex_wg ex_world) = None"
proof -
  have A: "normalizeUsers asc_iter [] = []" by (simp add: normalizeUsers_def last_by_email_def asc_iter_def)
  show ?thesis
    unfolding syncUsersFull_def ex_cfg ex_snapshot
    by (simp add: sync_eval A split: prod.split)
qed

definition ex_gone :: User where
  "ex_gone = \<lparr>u_Email = ''a'', u_Proxies = Some \<lparr>px_Vmess = None, px_Vless = None, px_Trojan = None, px_Shadowsocks = None,
     px_Wireguard = Some \<lparr>wg_PublicKey = raw_KeyString ex_key, wg_PeerIps = [''10.0.0.2/32'']\<rparr>, px_Hysteria = None\<rparr>, u_Inbounds = []\<rparr>"

lemma ex_normal: "normalizeUsers asc_iter [Some ex_gone] = [ex_gone]"
  by (simp add: normalizeUsers_def last_by_email_def asc_iter_def usable_user_def ex_gone_def GetWireguard_def GetPublicKey_def GetPeerIps_def raw_KeyString_def ex_key_def)

lemma ex_touched: "buildExistingPeersSubsetForTouched ex_cx {''a''} ex_wg = [raw_KeyString ex_key \<mapsto> ex_info]"
  by (simp add: buildExistingPeersSubsetForTouched_def ex_cx_def asc_iter_def ex_wg_def GetByEmail_def ex_store_def peers_by_key_def ex_info_def)

lemma ex_partial: "fst (syncUsersPartialReconcile ex_cx [Some ex_gone] ex_wg ex_world) = None"
proof -
  have A: "cx_rng ex_cx = asc_iter" by (simp add: ex_cx_def)
  have B: "u_Email ` set (normalizeUsers asc_iter [Some ex_gone]) = {''a''}" unfolding ex_normal by (simp add: ex_gone_def)
  show ?thesis
    unfolding syncUsersPartialReconcile_def ex_cfg A Let_def B ex_touched ex_normal
    by (simp add: sync_eval shouldIncludeUserInInterface_def ex_gone_def split: prod.split)
qed

section \<open>Properties\<close>



text \<open>
  C6. A partial synchronisation that succeeds makes the users of the request as requested and leaves every
  other stored peer as it was; counters are marked as removed for exactly the keys that went. If
  no address of the request belongs to a stored peer of another user, the peer table of the
  kernel still agrees with the store.
\<close>

theorem partial_sync_exact:
  assumes "env_ok cx kp" "wg_inv cx kp wg w" "canonical_keys cx users" "wg_config wg = Some c"
    and "wg_UpdateUsers cx users wg w = (None, wg', w')"
    and "E = u_Email ` set (normalizeUsers (cx_rng cx) users)"
  shows "partial_spec (wg_peerStore wg) E (target_of cx c users) (wg_peerStore wg') \<and>
    (ip_safe (wg_peerStore wg) E (target_of cx c users) \<longrightarrow> wg_inv cx kp wg' w') \<and>
    wg_statsTracker wg' k =
      (if \<exists>q. ps_peers (wg_peerStore wg) k = Some q \<and> pi_Email q \<in> E \<and> target_of cx c users k = None
       then RemoveStats k (wg_statsTracker wg) k else wg_statsTracker wg k)"
  using syncUsersPartial_ok [OF assms(1-4)] assms(5) by (simp add: wg_UpdateUsers_def assms(6))

theorem partial_sync_exact_witness:
  "\<exists>wg' w'. wg_UpdateUsers ex_cx [Some ex_gone] ex_wg ex_world = (None, wg', w') \<and>
     partial_spec ex_store {''a''} (target_of ex_cx ex_config [Some ex_gone]) (wg_peerStore wg')"
proof -
  obtain wg' w' where r: "wg_UpdateUsers ex_cx [Some ex_gone] ex_wg ex_world = (None, wg', w')"
    using ex_partial by (cases "syncUsersPartialReconcile ex_cx [Some ex_gone] ex_wg ex_world")
      (auto simp: wg_UpdateUsers_def)
  have can: "canonical_keys ex_cx [Some ex_gone]"
    by (auto simp: canonical_keys_def ex_cx_def ex_gone_def GetPublicKey_def GetWireguard_def)
  have E: "{''a''} = u_Email ` set (normalizeUsers (cx_rng ex_cx) [Some ex_gone])"
    by (simp add: ex_cx_def ex_normal) (simp add: ex_gone_def)
  have "wg_peerStore ex_wg = ex_store" by (simp add: ex_wg_def)
  with partial_sync_exact [OF ex_env ex_inv can ex_cfg r E] r show ?thesis by auto
qed




lemma ex_restart:
  "fst (wg_Restart ex_cx ex_wg (ex_world\<lparr>sim_links := [''wg0'' \<mapsto> \<lparr>sl_type = [], sl_up = True,
     sl_addrs = [], sl_peers = Map.empty\<rparr>]\<rparr>)) = None"
proof -
  have "GetAll asc_iter ex_store = [ex_info]"
    by (simp add: GetAll_def asc_iter_def ex_store_def)
  moreover have "raw_KeyString ex_key \<noteq> []" by (simp add: raw_KeyString_def ex_key_def)
  ultimately show ?thesis
    unfolding wg_Restart_def restartLocked_def ex_cfg
    by (simp add: GetPrivateKey_def sync_eval buildPeerConfigsForRestart_def ex_info_def ApplyConfig_def
        split: prod.split)
qed






text \<open>
  C11. The desired peers of users with distinct e-mails: if no two candidates claim a common network and no
  two eligible users a common key, each eligible user gets one peer under its key, with its
  e-mail and exactly its networks in range; otherwise the whole request is refused.
\<close>

theorem desired_peers_exact:
  assumes "distinct (map u_Email us)"
  shows "(conflict_free pk c us \<longrightarrow>
      (\<exists>d. collectDesiredPeers pk c us = Inr d \<and>
        (\<forall>k p. d k = Some p \<longleftrightarrow> (\<exists>u \<in> set us. eligible pk c u \<and> GetPublicKey u = k \<and> p = desired_peer pk c u)))) \<and>
    (\<not> conflict_free pk c us \<longrightarrow> (\<exists>err. collectDesiredPeers pk c us = Inl err))"
proof -
  have "desired_of pk c us k = Some p \<longleftrightarrow>
      (\<exists>u \<in> set us. eligible pk c u \<and> GetPublicKey u = k \<and> p = desired_peer pk c u)"
    if cf: "conflict_free pk c us" for k p
  proof
    assume "\<exists>u \<in> set us. eligible pk c u \<and> GetPublicKey u = k \<and> p = desired_peer pk c u"
    then obtain u where u: "u \<in> set us" "eligible pk c u" "GetPublicKey u = k" "p = desired_peer pk c u" by blast
    then obtain q where q: "desired_of pk c us k = Some q" using desired_of_None by (metis not_None_eq)
    from desired_of_Some [OF this] obtain v where v: "v \<in> set us" "eligible pk c v" "GetPublicKey v = k"
      "q = desired_peer pk c v" by blast
    with u conflict_free_pair [OF cf u(1) v(1)] have "u = v" by (auto simp: compatible_def)
    with q v u show "desired_of pk c us k = Some p" by simp
  qed (rule desired_of_Some)
  with collectDesiredPeers_spec [OF assms] show ?thesis by auto
qed

theorem desired_peers_exact_witness:
  "\<exists>d. collectDesiredPeers raw_ParseKey ex_config [ex_gone] = Inr d"
proof -
  have "distinct (map u_Email [ex_gone])" "conflict_free raw_ParseKey ex_config [ex_gone]"
    by (simp_all add: conflict_free_def)
  with desired_peers_exact [of "[ex_gone]" raw_ParseKey ex_config] show ?thesis by blast
qed

end
