(* ===== verification/GoCrypto.thy ===== *)
theory GoCrypto
  imports Prelude
begin

unbundle bit_operations_syntax

text \<open>
  The two packages of the standard library that \<^verbatim>\<open>common/helper.go\<close> computes with:
  \<^verbatim>\<open>encoding/base64\<close> (\<^verbatim>\<open>StdEncoding\<close>, padded and not strict, so that unused bits of the last
  character may be set and line breaks are skipped) and \<^verbatim>\<open>crypto/sha256\<close>. They model the library,
  not code of the repository. The lemmas are the round trip of the encoding and the length of a
  digest.
\<close>

section \<open>Bytes of a string\<close>

definition string_bytes :: "string \<Rightarrow> byte list" where
  "string_bytes s = map (\<lambda>c. of_char c) s"

section \<open>Base64\<close>

definition b64_alphabet :: string where
  "b64_alphabet = ''ABCDEFGHIJKLMNOPQRSTUVWXYZabcdefghijklmnopqrstuvwxyz0123456789+/''"

definition b64_char :: "nat \<Rightarrow> char" where
  "b64_char n = b64_alphabet ! n"

definition b64_value :: "char \<Rightarrow> nat option" where
  "b64_value c = map_option snd (List.find (\<lambda>p. fst p = c) (zip b64_alphabet [0..<64]))"

definition sextets :: "nat \<Rightarrow> nat list" where
  "sextets v = [v div 262144, v div 4096 mod 64, v div 64 mod 64, v mod 64]"

fun EncodeToString :: "byte list \<Rightarrow> string" where
  "EncodeToString [] = []"
| "EncodeToString [a] = map b64_char (take 2 (sextets (unat a * 65536))) @ ''==''"
| "EncodeToString [a, b] = map b64_char (take 3 (sextets (unat a * 65536 + unat b * 256))) @ ''=''"
| "EncodeToString (a # b # c # r) =
     map b64_char (sextets (unat a * 65536 + unat b * 256 + unat c)) @ EncodeToString r"

text \<open>The bytes of one group of four sextets, \<open>n\<close> of them.\<close>

definition quantum :: "nat \<Rightarrow> nat \<Rightarrow> nat \<Rightarrow> nat \<Rightarrow> nat \<Rightarrow> byte list" where
  "quantum n a b c d =
     (let v = a * 262144 + b * 4096 + c * 64 + d
      in take n [word_of_nat (v div 65536), word_of_nat (v div 256), word_of_nat v])"

fun decode_quanta :: "string \<Rightarrow> byte list option" where
  "decode_quanta [] = Some []"
| "decode_quanta (a # b # c # d # r) =
     (case (b64_value a, b64_value b) of
        (Some x, Some y) \<Rightarrow>
          (if c = CHR ''='' then
             (if d = CHR ''='' \<and> r = [] then Some (quantum 1 x y 0 0) else None)
           else case b64_value c of
             None \<Rightarrow> None
           | Some z \<Rightarrow>
               (if d = CHR ''='' then (if r = [] then Some (quantum 2 x y z 0) else None)
                else case b64_value d of
                  None \<Rightarrow> None
                | Some u \<Rightarrow> map_option ((@) (quantum 3 x y z u)) (decode_quanta r)))
      | _ \<Rightarrow> None)"
| "decode_quanta _ = None"

definition DecodeString :: "string \<Rightarrow> byte list option" where
  "DecodeString s = decode_quanta (filter (\<lambda>c. c \<noteq> CHR 0x0A \<and> c \<noteq> CHR 0x0D) s)"

section \<open>SHA-256\<close>

type_synonym word32 = "32 word"
type_synonym sha_state = "word32 \<times> word32 \<times> word32 \<times> word32 \<times> word32 \<times> word32 \<times> word32 \<times> word32"

text \<open>
  The constants of the hash are, as the standard defines them, the first 32 bits of the fractional
  parts of the square roots of the first eight primes and of the cube roots of the first 64 (the
  64th is 311). \<open>root_bits\<close> finds the integer part of a \<open>k\<close>th root, one bit after the other from the
  highest; the argument is the radicand times \<open>2 ^ (32 * k)\<close>, so that the low 32 bits of the result
  are the fraction.
\<close>

fun root_bits :: "nat \<Rightarrow> int \<Rightarrow> nat \<Rightarrow> int \<Rightarrow> int" where
  "root_bits k n 0 r = r"
| "root_bits k n (Suc i) r = root_bits k n i (if (r + 2 ^ i) ^ k \<le> n then r + 2 ^ i else r)"

definition sha_const :: "nat \<Rightarrow> int \<Rightarrow> word32" where
  "sha_const k p = word_of_int (root_bits k (p * 2 ^ (32 * k)) 40 0)"

definition sha_primes :: "int list" where
  "sha_primes = filter (\<lambda>p. list_all (\<lambda>d. p mod d \<noteq> 0) [2..p - 1]) [2..311]"

definition sha_init :: sha_state where
  "sha_init =
     (let h = map (sha_const 2) (take 8 sha_primes)
      in (h ! 0, h ! 1, h ! 2, h ! 3, h ! 4, h ! 5, h ! 6, h ! 7))"

definition sha_K :: "word32 list" where
  "sha_K = map (sha_const 3) sha_primes"

definition bytes_be :: "word32 \<Rightarrow> byte list" where
  "bytes_be w = [ucast (drop_bit 24 w), ucast (drop_bit 16 w), ucast (drop_bit 8 w), ucast w]"

fun words_be :: "byte list \<Rightarrow> word32 list" where
  "words_be (a # b # c # d # r) =
     (push_bit 24 (ucast a) OR push_bit 16 (ucast b) OR push_bit 8 (ucast c) OR ucast d) # words_be r"
| "words_be _ = []"

definition sha_pad :: "byte list \<Rightarrow> byte list" where
  "sha_pad m =
     (let l = length m; z = (119 - l mod 64) mod 64; n = 8 * l
      in m @ [0x80] @ replicate z 0 @
         map (\<lambda>i. word_of_nat (n div 256 ^ (7 - i))) [0..<8])"

definition rotr :: "nat \<Rightarrow> word32 \<Rightarrow> word32" where
  "rotr n w = drop_bit n w OR push_bit (32 - n) w"

text \<open>The message schedule: \<open>ws\<close> holds the words so far, the latest first.\<close>

fun sha_schedule :: "nat \<Rightarrow> word32 list \<Rightarrow> word32 list" where
  "sha_schedule 0 ws = rev ws"
| "sha_schedule (Suc k) ws =
     (let w15 = ws ! 14; w2 = ws ! 1;
          s0 = rotr 7 w15 XOR rotr 18 w15 XOR drop_bit 3 w15;
          s1 = rotr 17 w2 XOR rotr 19 w2 XOR drop_bit 10 w2
      in sha_schedule k ((s1 + ws ! 6 + s0 + ws ! 15) # ws))"

fun sha_round :: "word32 \<times> word32 \<Rightarrow> sha_state \<Rightarrow> sha_state" where
  "sha_round (k, w) (a, b, c, d, e, f, g, h) =
     (let t1 = h + (rotr 6 e XOR rotr 11 e XOR rotr 25 e) +
               ((e AND f) XOR (NOT e AND g)) + k + w;
          t2 = (rotr 2 a XOR rotr 13 a XOR rotr 22 a) +
               ((a AND b) XOR (a AND c) XOR (b AND c))
      in (t1 + t2, a, b, c, d + t1, e, f, g))"

fun sha_add :: "sha_state \<Rightarrow> sha_state \<Rightarrow> sha_state" where
  "sha_add (a, b, c, d, e, f, g, h) (a', b', c', d', e', f', g', h') =
     (a + a', b + b', c + c', d + d', e + e', f + f', g + g', h + h')"

definition sha_block :: "word32 list \<Rightarrow> sha_state \<Rightarrow> sha_state" where
  "sha_block ws h = sha_add h (fold sha_round (zip sha_K (sha_schedule 48 (rev ws))) h)"

fun sha_blocks :: "nat \<Rightarrow> word32 list \<Rightarrow> sha_state \<Rightarrow> sha_state" where
  "sha_blocks 0 ws h = h"
| "sha_blocks (Suc n) ws h = sha_blocks n (drop 16 ws) (sha_block (take 16 ws) h)"

fun sha_digest :: "sha_state \<Rightarrow> byte list" where
  "sha_digest (a, b, c, d, e, f, g, h) = concat (map bytes_be [a, b, c, d, e, f, g, h])"

definition sha256 :: "byte list \<Rightarrow> byte list" where
  "sha256 m =
     (let p = sha_pad m in sha_digest (sha_blocks (length p div 64) (words_be p) sha_init))"

section \<open>Lemmas\<close>

lemma root_bits_root:
  "\<lbrakk>r ^ k \<le> n; n < (r + 2 ^ i) ^ k\<rbrakk> \<Longrightarrow>
     root_bits k n i r ^ k \<le> n \<and> n < (root_bits k n i r + 1) ^ k"
  by (induction i arbitrary: r) (auto simp: algebra_simps not_le)

lemma length_sha_digest [simp]: "length (sha_digest h) = 32"
  by (cases h rule: sha_digest.cases) (simp add: bytes_be_def)

lemma length_sha256 [simp]: "length (sha256 m) = 32"
  by (simp add: sha256_def Let_def)

lemma b64_value_char: "n < 64 \<Longrightarrow> b64_value (b64_char n) = Some n"
proof -
  assume "n < 64"
  moreover have "\<forall>n \<in> set [0..<64]. b64_value (b64_char n) = Some n"
    by code_simp
  ultimately show ?thesis by simp
qed

lemma b64_char_plain:
  "n < 64 \<Longrightarrow> b64_char n \<noteq> CHR ''='' \<and> b64_char n \<noteq> CHR 0x0A \<and> b64_char n \<noteq> CHR 0x0D"
proof -
  assume "n < 64"
  moreover have "\<forall>n \<in> set [0..<64].
      b64_char n \<noteq> CHR ''='' \<and> b64_char n \<noteq> CHR 0x0A \<and> b64_char n \<noteq> CHR 0x0D"
    by code_simp
  ultimately show ?thesis by simp
qed

lemmas b64_char_simps = b64_value_char b64_char_plain

text \<open>Four sextets put together again are the number they were cut from.\<close>

lemma base64_digits:
  "v = x * 64 + p \<Longrightarrow> x = y * 64 + q \<Longrightarrow> y = z * 64 + r \<Longrightarrow>
   z * 262144 + r * 4096 + q * 64 + p = (v :: nat)"
  by simp

lemma sextets_sum:
  "v div 262144 * 262144 + v div 4096 mod 64 * 4096 + v div 64 mod 64 * 64 + v mod 64 = (v :: nat)"
proof (rule base64_digits)
  show "v div 64 = v div 4096 * 64 + v div 64 mod 64"
    using div_mult_mod_eq [of "v div 64" 64] by (simp only: div_mult2_eq [symmetric]) simp
  show "v div 4096 = v div 262144 * 64 + v div 4096 mod 64"
    using div_mult_mod_eq [of "v div 4096" 64] by (simp only: div_mult2_eq [symmetric]) simp
qed simp

lemma byte_lt: "unat (a :: byte) < 256"
proof -
  have "unat a < 2 ^ LENGTH(8)" by (rule unsigned_less)
  then show ?thesis by simp
qed

lemma byte_triple_bound:
  "unat (a :: byte) * 65536 + unat (b :: byte) * 256 + unat (c :: byte) < 16777216"
  using byte_lt [of a] byte_lt [of b] byte_lt [of c] by simp

text \<open>The three bytes of a group are read back from their number.\<close>

lemma word_of_nat_byte: "word_of_nat (unat (c :: byte) + 256 * n) = c"
proof -
  have "word_of_nat (unat c + 256 * n) = (word_of_nat (unat c) :: byte)"
    by (simp only: word_of_nat_eq_iff take_bit_eq_mod) simp
  also have "\<dots> = c" by simp
  finally show ?thesis .
qed

lemma quantum_bytes:
  fixes a b c :: byte
  assumes "v = unat a * 65536 + unat b * 256 + unat c"
  shows "[word_of_nat (v div 65536), word_of_nat (v div 256), word_of_nat v] = [a, b, c]"
proof -
  have "v div 65536 = unat a + 256 * 0" "v div 256 = unat b + 256 * unat a"
    "v = unat c + 256 * (unat b + 256 * unat a)"
    using assms byte_lt [of b] byte_lt [of c] by simp_all
  then show ?thesis by (metis word_of_nat_byte)
qed

lemma quantum_sextets:
  fixes a b c :: byte
  assumes "v = unat a * 65536 + unat b * 256 + unat c"
  shows "quantum n (v div 262144) (v div 4096 mod 64) (v div 64 mod 64) (v mod 64) = take n [a, b, c]"
  using quantum_bytes [OF assms] by (simp add: quantum_def sextets_sum)

theorem decode_encode: "decode_quanta (EncodeToString bs) = Some bs"
proof (induction bs rule: EncodeToString.induct)
  case (2 a)
  let ?v = "unat a * 65536"
  have "?v < 16777216" using byte_triple_bound [of a 0 0] by simp
  then show ?case
    using quantum_sextets [of ?v a 0 0 1] by (simp add: sextets_def b64_char_simps)
next
  case (3 a b)
  let ?v = "unat a * 65536 + unat b * 256"
  have "?v < 16777216" using byte_triple_bound [of a b 0] by simp
  then show ?case
    using quantum_sextets [of ?v a b 0 2] by (simp add: sextets_def b64_char_simps)
next
  case (4 a b c r)
  let ?v = "unat a * 65536 + unat b * 256 + unat c"
  have "?v < 16777216" by (rule byte_triple_bound)
  with 4 show ?case
    using quantum_sextets [of ?v a b c 3] by (simp add: sextets_def b64_char_simps)
qed simp

end
