(* ===== verification/Helper.thy ===== *)
theory Helper
  imports GoCrypto
begin

text \<open>
  \<^verbatim>\<open>common/helper.go\<close>: the keys of the 2022 edition of Shadowsocks and the translation of gRPC
  status codes to HTTP. The lemmas say that \<^verbatim>\<open>EnsureBase64Password\<close> always yields a key of the size
  the cipher asks for and that applying it twice is applying it once. Reading and writing of HTTP
  bodies is modelled with the handlers that do it.
\<close>

section \<open>Keys\<close>

definition key_fits :: "string \<Rightarrow> byte list \<Rightarrow> bool" where
  "key_fits method decodedBytes \<longleftrightarrow>
     Contains method ''aes-128-gcm'' \<and> length decodedBytes = 16 \<or>
     (Contains method ''aes-256-gcm'' \<or> Contains method ''chacha20-poly1305'') \<and>
       length decodedBytes = 32"

definition hashed_key :: "string \<Rightarrow> string \<Rightarrow> string" where
  "hashed_key password method =
     (let hashBytes = sha256 (string_bytes password);
          keyBytes = (if Contains method ''aes-128-gcm'' then take 16 hashBytes
                      else take 32 hashBytes)
      in EncodeToString keyBytes)"

definition EnsureBase64Password :: "string \<Rightarrow> string \<Rightarrow> string" where
  "EnsureBase64Password password method =
     (case DecodeString password of
        Some decodedBytes \<Rightarrow>
          (if key_fits method decodedBytes then password else hashed_key password method)
      | None \<Rightarrow> hashed_key password method)"

section \<open>Status codes\<close>

definition GrpcCodeToHTTP :: "grpc_code \<Rightarrow> nat" where
  "GrpcCodeToHTTP code =
     (case code of
        OK \<Rightarrow> 200
      | Canceled \<Rightarrow> 499
      | InvalidArgument \<Rightarrow> 400
      | Unauthenticated \<Rightarrow> 401
      | PermissionDenied \<Rightarrow> 403
      | NotFound \<Rightarrow> 404
      | AlreadyExists \<Rightarrow> 409
      | ResourceExhausted \<Rightarrow> 429
      | FailedPrecondition \<Rightarrow> 412
      | Aborted \<Rightarrow> 409
      | OutOfRange \<Rightarrow> 400
      | Unimplemented \<Rightarrow> 501
      | Internal \<Rightarrow> 500
      | Unavailable \<Rightarrow> 503
      | DeadlineExceeded \<Rightarrow> 504
      | _ \<Rightarrow> 500)"

definition InterceptNotFound :: "go_error \<Rightarrow> go_error" where
  "InterceptNotFound err =
     (if HasSuffix (Error_text err) ''not found.''
      then status_Error NotFound (Error_text err) else err)"

section \<open>Lemmas\<close>

lemma EncodeToString_plain:
  "c \<in> set (EncodeToString bs) \<Longrightarrow> c \<noteq> CHR 0x0A \<and> c \<noteq> CHR 0x0D"
proof (induction bs rule: EncodeToString.induct)
  case (2 a)
  then show ?case using byte_triple_bound [of a 0 0] by (auto simp: sextets_def b64_char_plain)
next
  case (3 a b)
  then show ?case using byte_triple_bound [of a b 0] by (auto simp: sextets_def b64_char_plain)
next
  case (4 a b c r)
  then show ?case using byte_triple_bound [of a b c] by (auto simp: sextets_def b64_char_plain)
qed simp

lemma DecodeString_EncodeToString [simp]: "DecodeString (EncodeToString bs) = Some bs"
proof -
  have "filter (\<lambda>c. c \<noteq> CHR 0x0A \<and> c \<noteq> CHR 0x0D) (EncodeToString bs) = EncodeToString bs"
    using EncodeToString_plain by (auto simp: filter_id_conv)
  then show ?thesis by (simp add: DecodeString_def decode_encode)
qed

text \<open>The size in bytes of the key a method asks for.\<close>

definition key_size :: "string \<Rightarrow> nat" where
  "key_size method = (if Contains method ''aes-128-gcm'' then 16 else 32)"

lemma decode_hashed_key:
  "DecodeString (hashed_key password method) =
     Some (take (key_size method) (sha256 (string_bytes password)))"
  by (simp add: hashed_key_def key_size_def Let_def)

definition one_cipher :: "string \<Rightarrow> bool" where
  "one_cipher method \<longleftrightarrow>
     \<not> (Contains method ''aes-128-gcm'' \<and>
        (Contains method ''aes-256-gcm'' \<or> Contains method ''chacha20-poly1305''))"

definition known_cipher :: "string \<Rightarrow> bool" where
  "known_cipher method \<longleftrightarrow>
     Contains method ''aes-128-gcm'' \<or> Contains method ''aes-256-gcm'' \<or>
     Contains method ''chacha20-poly1305''"

lemma key_fits_size:
  "known_cipher method \<Longrightarrow> length bs = key_size method \<Longrightarrow> key_fits method bs"
  "one_cipher method \<Longrightarrow> key_fits method bs \<Longrightarrow> length bs = key_size method"
  by (auto simp: key_fits_def key_size_def one_cipher_def known_cipher_def)

lemma hashed_key_fits:
  "known_cipher method \<Longrightarrow> EnsureBase64Password (hashed_key p method) method = hashed_key p method"
  by (simp add: EnsureBase64Password_def decode_hashed_key key_fits_size key_size_def)

lemma EnsureBase64Password_cases:
  obtains "EnsureBase64Password p m = p" "\<exists>bs. DecodeString p = Some bs \<and> key_fits m bs"
  | "EnsureBase64Password p m = hashed_key p m"
  by (cases "\<exists>bs. DecodeString p = Some bs \<and> key_fits m bs")
     (auto simp: EnsureBase64Password_def split: option.splits)

lemma EnsureBase64Password_idem:
  assumes "known_cipher m"
  shows "EnsureBase64Password (EnsureBase64Password p m) m = EnsureBase64Password p m"
proof (cases p m rule: EnsureBase64Password_cases)
  case 1
  then show ?thesis by simp
next
  case 2
  then show ?thesis using hashed_key_fits [OF assms] by simp
qed

text \<open>
  C21. For a method that names one cipher, the password that \<^verbatim>\<open>EnsureBase64Password\<close> returns is
  base64 text of a key with exactly the number of bytes the cipher asks for (16 for
  \<^verbatim>\<open>aes-128-gcm\<close>, 32 otherwise); a password that already is such a text is kept as it is, and if
  the cipher is one of the known ones a second application changes nothing.
\<close>

theorem EnsureBase64Password_key:
  assumes "one_cipher method"
  shows "(\<exists>bs. DecodeString (EnsureBase64Password password method) = Some bs \<and>
             length bs = (if Contains method ''aes-128-gcm'' then 16 else 32)) \<and>
    (known_cipher method \<longrightarrow>
       (\<forall>bs. DecodeString password = Some bs \<and>
             length bs = (if Contains method ''aes-128-gcm'' then 16 else 32) \<longrightarrow>
             EnsureBase64Password password method = password) \<and>
       EnsureBase64Password (EnsureBase64Password password method) method =
       EnsureBase64Password password method)"
  unfolding key_size_def [symmetric]
proof (intro conjI impI allI)
  show "\<exists>bs. DecodeString (EnsureBase64Password password method) = Some bs \<and>
          length bs = key_size method"
  proof (cases password "method" rule: EnsureBase64Password_cases)
    case 1
    with key_fits_size(2) [OF assms] show ?thesis by auto
  next
    case 2
    then show ?thesis by (simp add: decode_hashed_key) (simp add: key_size_def)
  qed
next
  fix bs
  assume "known_cipher method" "DecodeString password = Some bs \<and> length bs = key_size method"
  then show "EnsureBase64Password password method = password"
    by (simp add: EnsureBase64Password_def key_fits_size)
next
  assume "known_cipher method"
  then show "EnsureBase64Password (EnsureBase64Password password method) method =
      EnsureBase64Password password method"
    by (rule EnsureBase64Password_idem)
qed

theorem EnsureBase64Password_key_witness:
  "one_cipher ''2022-blake3-aes-128-gcm'' \<and> known_cipher ''2022-blake3-aes-128-gcm'' \<and>
   EnsureBase64Password (EncodeToString (replicate 16 1)) ''2022-blake3-aes-128-gcm'' =
     EncodeToString (replicate 16 1) \<and>
   (\<exists>bs. DecodeString (EnsureBase64Password ''secret'' ''2022-blake3-aes-128-gcm'') = Some bs \<and>
         length bs = 16)"
proof -
  have m: "one_cipher ''2022-blake3-aes-128-gcm''" "known_cipher ''2022-blake3-aes-128-gcm''"
    "Contains ''2022-blake3-aes-128-gcm'' ''aes-128-gcm''"
    by code_simp+
  show ?thesis
    using m EnsureBase64Password_key [OF m(1), of "EncodeToString (replicate 16 1)"]
      EnsureBase64Password_key [OF m(1), of "''secret''"] by simp
qed

end
