(* ===== verification/XrayAccount.thy ===== *)
theory XrayAccount
  imports NodeMessages NodeConfig Helper
begin

text \<open>
  \<^verbatim>\<open>backend/xray/api/account.go\<close>, \<^verbatim>\<open>message.go\<close> and \<^verbatim>\<open>proxyman.go\<close>: the accounts of users in the form
  the Xray core takes them, and the calls that add them to a running core or remove them. An account
  of Go embeds \<^verbatim>\<open>BaseAccount\<close>; here its record extends that record. The interface \<^verbatim>\<open>Account\<close> is the
  datatype of the pointers that implement it. Parameters: \<open>uuid_Parse\<close> and \<open>uuid_String\<close> (module
  \<^verbatim>\<open>google/uuid\<close>), the encoding of protocol buffers, and the remote calls of the core.
\<close>

section \<open>Accounts\<close>

record BaseAccount =
  ba_Email :: string
  ba_Level :: nat

record VmessAccount = BaseAccount +
  vm_ID :: UUID

record VlessAccount = BaseAccount +
  vl_ID :: UUID
  vl_Flow :: string

record TrojanAccount = BaseAccount +
  tr_Password :: string

record ShadowsocksAccount = BaseAccount +
  sa_Password :: string

record ShadowsocksTcpAccount = ShadowsocksAccount +
  st_Method :: string

record HysteriaAccount = BaseAccount +
  ha_Auth :: string

datatype Account =
    AVmess VmessAccount
  | AVless VlessAccount
  | ATrojan TrojanAccount
  | AShadowsocks2022 ShadowsocksAccount
  | AShadowsocksTcp ShadowsocksTcpAccount
  | AHysteria HysteriaAccount

fun GetEmail :: "Account \<Rightarrow> string" where
  "GetEmail (AVmess a) = ba_Email a"
| "GetEmail (AVless a) = ba_Email a"
| "GetEmail (ATrojan a) = ba_Email a"
| "GetEmail (AShadowsocks2022 a) = ba_Email a"
| "GetEmail (AShadowsocksTcp a) = ba_Email a"
| "GetEmail (AHysteria a) = ba_Email a"

fun GetLevel :: "Account \<Rightarrow> nat" where
  "GetLevel (AVmess a) = ba_Level a"
| "GetLevel (AVless a) = ba_Level a"
| "GetLevel (ATrojan a) = ba_Level a"
| "GetLevel (AShadowsocks2022 a) = ba_Level a"
| "GetLevel (AShadowsocksTcp a) = ba_Level a"
| "GetLevel (AHysteria a) = ba_Level a"

type_synonym uuid_parser = "string \<Rightarrow> UUID result"

definition NewVmessAccount :: "uuid_parser \<Rightarrow> User \<Rightarrow> VmessAccount result" where
  "NewVmessAccount uuid_Parse user =
     (case uuid_Parse (case GetVmess user of None \<Rightarrow> [] | Some v \<Rightarrow> vmess_Id v) of
        Inl err \<Rightarrow> Inl err
      | Inr id' \<Rightarrow> Inr \<lparr>ba_Email = u_Email user, ba_Level = 0, vm_ID = id'\<rparr>)"

definition NewVlessAccount :: "uuid_parser \<Rightarrow> User \<Rightarrow> VlessAccount result" where
  "NewVlessAccount uuid_Parse user =
     (case uuid_Parse (case GetVless user of None \<Rightarrow> [] | Some v \<Rightarrow> vless_Id v) of
        Inl err \<Rightarrow> Inl err
      | Inr id' \<Rightarrow>
          Inr \<lparr>ba_Email = u_Email user, ba_Level = 0, vl_ID = id',
               vl_Flow = (case GetVless user of None \<Rightarrow> [] | Some v \<Rightarrow> vless_Flow v)\<rparr>)"

definition NewTrojanAccount :: "User \<Rightarrow> TrojanAccount" where
  "NewTrojanAccount user =
     \<lparr>ba_Email = u_Email user, ba_Level = 0,
      tr_Password = (case GetTrojan user of None \<Rightarrow> [] | Some t \<Rightarrow> trojan_Password t)\<rparr>"

definition user_ss_password :: "User \<Rightarrow> string" where
  "user_ss_password user = (case GetShadowsocks user of None \<Rightarrow> [] | Some s \<Rightarrow> ss_Password s)"

definition NewShadowsocksAccount :: "User \<Rightarrow> ShadowsocksAccount" where
  "NewShadowsocksAccount user =
     \<lparr>ba_Email = u_Email user, ba_Level = 0, sa_Password = user_ss_password user\<rparr>"

text \<open>The table \<^verbatim>\<open>CipherType_value\<close>; the name of value 9 in \<^verbatim>\<open>CipherType_name\<close> is \<^verbatim>\<open>none\<close>.\<close>

definition CipherType_value :: "string \<rightharpoonup> nat" where
  "CipherType_value =
     map_of [(''aes-128-gcm'', 5), (''aes-256-gcm'', 6), (''chacha20-poly1305'', 7),
             (''chacha20-ietf-poly1305'', 7), (''xchacha20-poly1305'', 8),
             (''xchacha20-ietf-poly1305'', 8), (''none'', 9)]"

definition CipherType_name :: "nat \<rightharpoonup> string" where
  "CipherType_name =
     map_of [(5, ''aes-128-gcm''), (6, ''aes-256-gcm''), (7, ''chacha20-poly1305''),
             (8, ''xchacha20-poly1305''), (9, ''none'')]"

definition NewShadowsocksTcpAccount :: "User \<Rightarrow> ShadowsocksTcpAccount" where
  "NewShadowsocksTcpAccount user =
     (let m0 = (case GetShadowsocks user of None \<Rightarrow> [] | Some s \<Rightarrow> ss_Method s);
          m = (if CipherType_value m0 = None
               then (case CipherType_name 9 of None \<Rightarrow> [] | Some n \<Rightarrow> n) else m0)
      in \<lparr>ba_Email = u_Email user, ba_Level = 0, sa_Password = user_ss_password user, st_Method = m\<rparr>)"

definition NewHysteriaAccount :: "User \<Rightarrow> HysteriaAccount" where
  "NewHysteriaAccount user =
     \<lparr>ba_Email = u_Email user, ba_Level = 0,
      ha_Auth = (case GetHysteria user of None \<Rightarrow> [] | Some h \<Rightarrow> hy_Auth h)\<rparr>"

record ProxySettings =
  ps_Vmess :: "VmessAccount option"
  ps_Vless :: "VlessAccount option"
  ps_Trojan :: "TrojanAccount option"
  ps_Shadowsocks :: "ShadowsocksTcpAccount option"
  ps_Shadowsocks2022 :: "ShadowsocksAccount option"
  ps_Hysteria :: "HysteriaAccount option"

section \<open>Messages to the core\<close>

record TypedMessage =
  tm_Type :: string
  tm_Value :: "byte list"

text \<open>The messages of the core that the node builds, with the fields it sets.\<close>

datatype pb =
    PbVmess string
  | PbVless string string
  | PbTrojan string
  | PbShadowsocks2022 string
  | PbShadowsocks string nat
  | PbHysteria string
  | PbAddUser nat string TypedMessage
  | PbRemoveUser string

text \<open>\<open>pb_Marshal\<close> encodes a message, \<open>pb_Name\<close> is the full name of its type.\<close>

record 'w xapi =
  pb_Marshal :: "pb \<Rightarrow> byte list result"
  pb_Name :: "pb \<Rightarrow> string"
  uuid_String :: "UUID \<Rightarrow> string"
  AlterInbound :: "string \<Rightarrow> TypedMessage \<Rightarrow> 'w \<Rightarrow> go_error option \<times> 'w"
  AlterOutbound :: "string \<Rightarrow> TypedMessage \<Rightarrow> 'w \<Rightarrow> go_error option \<times> 'w"

definition ToTypedMessage :: "'w xapi \<Rightarrow> pb \<Rightarrow> TypedMessage result" where
  "ToTypedMessage x account =
     (case pb_Marshal x account of
        Inl err \<Rightarrow> Inl err
      | Inr data \<Rightarrow> Inr \<lparr>tm_Type = pb_Name x account, tm_Value = data\<rparr>)"

fun account_pb :: "'w xapi \<Rightarrow> Account \<Rightarrow> pb" where
  "account_pb x (AVmess a) = PbVmess (uuid_String x (vm_ID a))"
| "account_pb x (AVless a) = PbVless (uuid_String x (vl_ID a)) (vl_Flow a)"
| "account_pb x (ATrojan a) = PbTrojan (tr_Password a)"
| "account_pb x (AShadowsocks2022 a) = PbShadowsocks2022 (sa_Password a)"
| "account_pb x (AShadowsocksTcp a) =
     PbShadowsocks (sa_Password a) (case CipherType_value (st_Method a) of None \<Rightarrow> 0 | Some v \<Rightarrow> v)"
| "account_pb x (AHysteria a) = PbHysteria (ha_Auth a)"

definition Message :: "'w xapi \<Rightarrow> Account \<Rightarrow> TypedMessage result" where
  "Message x a = ToTypedMessage x (account_pb x a)"

definition AlertInbound :: "'w xapi \<Rightarrow> string \<Rightarrow> TypedMessage \<Rightarrow> 'w \<Rightarrow> go_error option \<times> 'w" where
  "AlertInbound x tag operation w = AlterInbound x tag operation w"

definition AlertOutbound :: "'w xapi \<Rightarrow> string \<Rightarrow> TypedMessage \<Rightarrow> 'w \<Rightarrow> go_error option \<times> 'w" where
  "AlertOutbound x tag operation w = AlterOutbound x tag operation w"

definition add_operation :: "'w xapi \<Rightarrow> Account \<Rightarrow> TypedMessage result" where
  "add_operation x user =
     (case Message x user of
        Inl err \<Rightarrow> Inl err
      | Inr account \<Rightarrow> ToTypedMessage x (PbAddUser (GetLevel user) (GetEmail user) account))"

definition AddInboundUser :: "'w xapi \<Rightarrow> string \<Rightarrow> Account \<Rightarrow> 'w \<Rightarrow> go_error option \<times> 'w" where
  "AddInboundUser x tag user w =
     (case add_operation x user of
        Inl err \<Rightarrow> (Some err, w)
      | Inr operation \<Rightarrow> AlertInbound x tag operation w)"

definition RemoveInboundUser :: "'w xapi \<Rightarrow> string \<Rightarrow> string \<Rightarrow> 'w \<Rightarrow> go_error option \<times> 'w" where
  "RemoveInboundUser x tag email w =
     (case ToTypedMessage x (PbRemoveUser email) of
        Inl err \<Rightarrow> (Some err, w)
      | Inr operation \<Rightarrow> AlertInbound x tag operation w)"

definition AddOutboundUser :: "'w xapi \<Rightarrow> string \<Rightarrow> Account \<Rightarrow> 'w \<Rightarrow> go_error option \<times> 'w" where
  "AddOutboundUser x tag user w =
     (case add_operation x user of
        Inl err \<Rightarrow> (Some err, w)
      | Inr operation \<Rightarrow> AlertOutbound x tag operation w)"

definition RemoveOutboundUser :: "'w xapi \<Rightarrow> string \<Rightarrow> string \<Rightarrow> 'w \<Rightarrow> go_error option \<times> 'w" where
  "RemoveOutboundUser x tag email w =
     (case ToTypedMessage x (PbRemoveUser email) of
        Inl err \<Rightarrow> (Some err, w)
      | Inr operation \<Rightarrow> AlertOutbound x tag operation w)"

section \<open>Lemmas\<close>

lemma account_email [simp]:
  "NewVmessAccount up u = Inr vm \<Longrightarrow> ba_Email vm = u_Email u"
  "NewVlessAccount up u = Inr vl \<Longrightarrow> ba_Email vl = u_Email u"
  "ba_Email (NewTrojanAccount u) = u_Email u"
  "ba_Email (NewShadowsocksAccount u) = u_Email u"
  "ba_Email (NewShadowsocksTcpAccount u) = u_Email u"
  "ba_Email (NewHysteriaAccount u) = u_Email u"
  by (auto simp: NewVmessAccount_def NewVlessAccount_def NewTrojanAccount_def NewShadowsocksAccount_def
      NewShadowsocksTcpAccount_def NewHysteriaAccount_def Let_def split: sum.splits)

text \<open>
  The cipher of a Shadowsocks account is always one that the table of ciphers knows: an unknown
  method of the user is replaced by \<^verbatim>\<open>none\<close> and a known one is kept.
\<close>

theorem NewShadowsocksTcpAccount_cipher:
  "\<exists>v. CipherType_value (st_Method (NewShadowsocksTcpAccount user)) = Some v \<and>
       CipherType_name v \<noteq> None \<and>
       (case GetShadowsocks user of
          Some s \<Rightarrow> (if CipherType_value (ss_Method s) = None
                     then v = 9 else st_Method (NewShadowsocksTcpAccount user) = ss_Method s)
        | None \<Rightarrow> v = 9)"
  by (auto simp: NewShadowsocksTcpAccount_def CipherType_value_def CipherType_name_def Let_def
      split: option.split if_splits)

end
