(* ===== verification/XrayConfig.thy ===== *)
theory XrayConfig
  imports XrayAccount GoNet
begin

text \<open>
  \<^verbatim>\<open>backend/xray/config.go\<close>, \<^verbatim>\<open>config_clone.go\<close> and the first half of \<^verbatim>\<open>user.go\<close>: the configuration
  of the Xray core and the accounts of its inbounds. A value of type \<^verbatim>\<open>any\<close> is a \<open>go_any\<close>, one
  constructor for each dynamic type the source stores or tests. A pointer to an inbound is its
  position in \<^verbatim>\<open>InboundConfigs\<close>. The structs of \<^verbatim>\<open>xray-core/infra/conf\<close> have the fields the source
  uses, the others are opaque. The map \<^verbatim>\<open>clients\<close> of an inbound is a map whether or not it is nil: the
  source makes it before every write. The JSON encoder and decoder of whole configurations and of
  routing rules are parameters, as is what the operating system says of the network interfaces.
\<close>

section \<open>Data\<close>

datatype go_any =
    ANil
  | ABool bool
  | ANum string
  | AStr string
  | AList "go_any list"
  | AMap "string \<rightharpoonup> go_any"
  | AInt int
  | AStrs "string list"
  | AAccounts "Account list"

type_synonym go_obj = "string \<rightharpoonup> go_any"

text \<open>The type assertions \<^verbatim>\<open>v.(string)\<close>, \<^verbatim>\<open>v.([]any)\<close> and \<^verbatim>\<open>v.(map[string]any)\<close>.\<close>

definition as_string :: "go_any \<Rightarrow> string option" where
  "as_string v = (case v of AStr s \<Rightarrow> Some s | _ \<Rightarrow> None)"

definition as_list :: "go_any \<Rightarrow> go_any list option" where
  "as_list v = (case v of AList l \<Rightarrow> Some l | _ \<Rightarrow> None)"

definition as_obj :: "go_any \<Rightarrow> go_obj option" where
  "as_obj v = (case v of AMap m \<Rightarrow> Some m | _ \<Rightarrow> None)"

definition str_field :: "go_obj \<Rightarrow> string \<Rightarrow> string option" where
  "str_field m k = Option.bind (m k) as_string"

definition Vmess_p :: string where "Vmess_p = ''vmess''"
definition Vless_p :: string where "Vless_p = ''vless''"
definition Trojan_p :: string where "Trojan_p = ''trojan''"
definition Shadowsocks_p :: string where "Shadowsocks_p = ''shadowsocks''"
definition Hysteria_p :: string where "Hysteria_p = ''hysteria''"

lemmas protocol_defs = Vmess_p_def Vless_p_def Trojan_p_def Shadowsocks_p_def Hysteria_p_def

record Inbound =
  in_Tag :: string
  in_Listen :: string
  in_Port :: go_any
  in_Protocol :: string
  in_Settings :: "go_obj option"
  in_StreamSettings :: "go_obj option"
  in_Sniffing :: go_any
  in_Allocation :: "go_obj option"
  in_exclude :: bool
  in_clients :: "string \<rightharpoonup> Account"

record LogConfig =
  lc_AccessLog :: string
  lc_ErrorLog :: string
  lc_LogLevel :: string
  lc_other :: string

record RouterConfig =
  rt_RuleList :: "string list"
  rt_other :: string

record conf_Policy =
  cp_StatsUserUplink :: bool
  cp_StatsUserDownlink :: bool
  cp_other :: string

record SystemPolicy =
  sp_StatsInboundDownlink :: bool
  sp_StatsInboundUplink :: bool
  sp_StatsOutboundDownlink :: bool
  sp_StatsOutboundUplink :: bool

record PolicyConfig =
  pc_Levels :: "(nat \<rightharpoonup> conf_Policy option) option"
  pc_System :: "SystemPolicy option"

record APIConfig =
  api_Tag :: string
  api_Listen :: string
  api_Services :: "string list"

record XConfig =
  xc_LogConfig :: "LogConfig option"
  xc_RouterConfig :: "RouterConfig option"
  xc_DNSConfig :: "go_obj option"
  xc_InboundConfigs :: "Inbound list"
  xc_OutboundConfigs :: go_any
  xc_Policy :: "PolicyConfig option"
  xc_API :: "APIConfig option"
  xc_Metrics :: "go_obj option"
  xc_Reverse :: "go_obj option"
  xc_FakeDNS :: "go_obj option"
  xc_Observatory :: "go_obj option"
  xc_BurstObservatory :: "go_obj option"

text \<open>
  \<open>js_rule\<close> decodes a routing rule to an object and \<open>js_marshal\<close> encodes one; \<open>js_config\<close> encodes a
  configuration and \<open>js_unconfig\<close> decodes one, its inbounds apart since an element of that array may
  be \<^verbatim>\<open>null\<close>. Fields that are not exported (\<^verbatim>\<open>exclude\<close>, \<^verbatim>\<open>clients\<close>) take no part.
\<close>

record js =
  js_rule :: "string \<Rightarrow> go_obj result"
  js_marshal :: "go_obj \<Rightarrow> string result"
  js_config :: "XConfig \<Rightarrow> string result"
  js_unconfig :: "string \<Rightarrow> (XConfig \<times> Inbound option list) result"

section \<open>Accounts of a user\<close>

definition setupUserAccount :: "uuid_parser \<Rightarrow> User \<Rightarrow> ProxySettings" where
  "setupUserAccount up user =
     \<lparr>ps_Vmess = (if GetVmess user = None then None
                  else (case NewVmessAccount up user of Inl _ \<Rightarrow> None | Inr a \<Rightarrow> Some a)),
      ps_Vless = (if GetVless user = None then None
                  else (case NewVlessAccount up user of Inl _ \<Rightarrow> None | Inr a \<Rightarrow> Some a)),
      ps_Trojan = (if GetTrojan user = None then None else Some (NewTrojanAccount user)),
      ps_Shadowsocks = (if GetShadowsocks user = None then None
                        else Some (NewShadowsocksTcpAccount user)),
      ps_Shadowsocks2022 = (if GetShadowsocks user = None then None
                            else Some (NewShadowsocksAccount user)),
      ps_Hysteria = (if GetHysteria user = None then None else Some (NewHysteriaAccount user))\<rparr>"

text \<open>\<^verbatim>\<open>i.Settings[k].(string)\<close>, where the map may be nil.\<close>

definition setting_string :: "Inbound \<Rightarrow> string \<Rightarrow> string option" where
  "setting_string i k = Option.bind (in_Settings i) (\<lambda>m. str_field m k)"

definition ss2022_method :: "Inbound \<Rightarrow> string option" where
  "ss2022_method i =
     (case setting_string i ''method'' of
        Some m \<Rightarrow> (if HasPrefix m ''2022-blake3'' then Some m else None)
      | None \<Rightarrow> None)"

definition inboundFlow :: "Inbound option \<Rightarrow> string" where
  "inboundFlow inbound =
     (case inbound of
        None \<Rightarrow> []
      | Some i \<Rightarrow> (case setting_string i ''flow'' of None \<Rightarrow> [] | Some f \<Rightarrow> f))"

definition accountForAPI :: "Inbound option \<Rightarrow> Account \<Rightarrow> Account" where
  "accountForAPI inbound account =
     (case account of
        AVless v \<Rightarrow>
          (let overrideFlow = inboundFlow inbound
           in if overrideFlow = [] then account else AVless (v\<lparr>vl_Flow := overrideFlow\<rparr>))
      | _ \<Rightarrow> account)"

definition checkShadowsocks2022 :: "string \<Rightarrow> ShadowsocksAccount \<Rightarrow> ShadowsocksAccount" where
  "checkShadowsocks2022 method account =
     account\<lparr>sa_Password := EnsureBase64Password (sa_Password account) method\<rparr>"

definition isActiveInbound :: "Inbound \<Rightarrow> string list \<Rightarrow> ProxySettings \<Rightarrow> Account option" where
  "isActiveInbound inbound inbounds settings =
     (if in_Tag inbound \<in> set inbounds then
        (if in_Protocol inbound = Vless_p then map_option AVless (ps_Vless settings)
         else if in_Protocol inbound = Vmess_p then map_option AVmess (ps_Vmess settings)
         else if in_Protocol inbound = Trojan_p then map_option ATrojan (ps_Trojan settings)
         else if in_Protocol inbound = Shadowsocks_p then
           (case ss2022_method inbound of
              Some method \<Rightarrow>
                map_option (\<lambda>a. AShadowsocks2022 (checkShadowsocks2022 method a))
                  (ps_Shadowsocks2022 settings)
            | None \<Rightarrow> map_option AShadowsocksTcp (ps_Shadowsocks settings))
         else if in_Protocol inbound = Hysteria_p then map_option AHysteria (ps_Hysteria settings)
         else None)
      else None)"

section \<open>Accounts of an inbound\<close>

text \<open>The body of the loops of \<^verbatim>\<open>(*Inbound).syncUsers\<close>, for each protocol.\<close>

definition sync_client :: "uuid_parser \<Rightarrow> Inbound \<Rightarrow> User \<Rightarrow> (string \<rightharpoonup> Account) \<Rightarrow> (string \<rightharpoonup> Account)" where
  "sync_client up i user clients =
     (let listed = in_Tag i \<in> set (u_Inbounds user); email = u_Email user
      in if in_Protocol i = Vmess_p then
           (if GetVmess user = None then clients
            else if listed then
              (case NewVmessAccount up user of
                 Inl err \<Rightarrow> clients | Inr account \<Rightarrow> clients(email \<mapsto> AVmess account))
            else clients)
         else if in_Protocol i = Vless_p then
           (if GetVless user = None then clients
            else if listed then
              (case NewVlessAccount up user of
                 Inl err \<Rightarrow> clients | Inr account \<Rightarrow> clients(email \<mapsto> AVless account))
            else clients)
         else if in_Protocol i = Trojan_p then
           (if GetTrojan user = None then clients
            else if listed then clients(email \<mapsto> ATrojan (NewTrojanAccount user)) else clients)
         else if in_Protocol i = Shadowsocks_p then
           (if GetShadowsocks user = None then clients
            else if listed then
              (case ss2022_method i of
                 Some method \<Rightarrow>
                   clients(email \<mapsto>
                     AShadowsocks2022 (checkShadowsocks2022 method (NewShadowsocksAccount user)))
               | None \<Rightarrow> clients(email \<mapsto> AShadowsocksTcp (NewShadowsocksTcpAccount user)))
            else clients)
         else if in_Protocol i = Hysteria_p then
           (if GetHysteria user = None then clients
            else if listed then clients(email \<mapsto> AHysteria (NewHysteriaAccount user)) else clients)
         else clients)"

definition inbound_syncUsers :: "uuid_parser \<Rightarrow> User list \<Rightarrow> Inbound \<Rightarrow> Inbound" where
  "inbound_syncUsers up users i = i\<lparr>in_clients := fold (sync_client up i) users Map.empty\<rparr>"

definition inbound_updateUser :: "Account \<Rightarrow> Inbound \<Rightarrow> Inbound" where
  "inbound_updateUser account i =
     (let email = GetEmail account;
          a = (case account of
                 AShadowsocks2022 s \<Rightarrow>
                   (case setting_string i ''method'' of
                      Some method \<Rightarrow> AShadowsocks2022 (checkShadowsocks2022 method s)
                    | None \<Rightarrow> account)
               | _ \<Rightarrow> account)
      in i\<lparr>in_clients := (in_clients i)(email \<mapsto> a)\<rparr>)"

text \<open>The body of the loops of \<^verbatim>\<open>(*Inbound).updateUsers\<close>.\<close>

definition update_client :: "Inbound \<Rightarrow> Account \<Rightarrow> (string \<rightharpoonup> Account) \<Rightarrow> (string \<rightharpoonup> Account)" where
  "update_client i account clients =
     (let email = GetEmail account
      in if in_Protocol i = Vmess_p then
           (case account of AVmess a \<Rightarrow> clients(email \<mapsto> account) | _ \<Rightarrow> clients)
         else if in_Protocol i = Vless_p then
           (case account of AVless a \<Rightarrow> clients(email \<mapsto> account) | _ \<Rightarrow> clients)
         else if in_Protocol i = Trojan_p then
           (case account of ATrojan a \<Rightarrow> clients(email \<mapsto> account) | _ \<Rightarrow> clients)
         else if in_Protocol i = Shadowsocks_p then
           (case ss2022_method i of
              Some method \<Rightarrow>
                (case account of
                   AShadowsocks2022 a \<Rightarrow>
                     clients(email \<mapsto> AShadowsocks2022 (checkShadowsocks2022 method a))
                 | _ \<Rightarrow> clients)
            | None \<Rightarrow>
                (case account of AShadowsocksTcp a \<Rightarrow> clients(email \<mapsto> account) | _ \<Rightarrow> clients))
         else if in_Protocol i = Hysteria_p then
           (case account of AHysteria a \<Rightarrow> clients(email \<mapsto> account) | _ \<Rightarrow> clients)
         else clients)"

definition inbound_updateUsers :: "Account list \<Rightarrow> string list \<Rightarrow> Inbound \<Rightarrow> Inbound" where
  "inbound_updateUsers accounts removeEmails i =
     i\<lparr>in_clients :=
        fold (\<lambda>email m. m(email := None)) removeEmails
          (fold (update_client i) accounts (in_clients i))\<rparr>"

definition inbound_removeUser :: "string \<Rightarrow> Inbound \<Rightarrow> Inbound" where
  "inbound_removeUser email i = i\<lparr>in_clients := (in_clients i)(email := None)\<rparr>"

section \<open>Users of a configuration\<close>

definition config_syncUsers :: "uuid_parser \<Rightarrow> User list \<Rightarrow> XConfig \<Rightarrow> XConfig" where
  "config_syncUsers up users c =
     c\<lparr>xc_InboundConfigs :=
        map (\<lambda>i. if in_exclude i then i else inbound_syncUsers up users i) (xc_InboundConfigs c)\<rparr>"

record inboundUpdate =
  iu_accounts :: "Account list"
  iu_removeEmailSet :: "string set"

text \<open>\<^verbatim>\<open>inboundByTag\<close>: the position of the last inbound with a tag that is not excluded.\<close>

fun inbound_index :: "nat \<Rightarrow> Inbound list \<Rightarrow> (string \<rightharpoonup> nat) \<Rightarrow> (string \<rightharpoonup> nat)" where
  "inbound_index k [] m = m"
| "inbound_index k (i # is) m =
     inbound_index (Suc k) is (if in_exclude i then m else m(in_Tag i \<mapsto> k))"

definition inboundByTag :: "XConfig \<Rightarrow> (string \<rightharpoonup> nat)" where
  "inboundByTag c = inbound_index 0 (xc_InboundConfigs c) Map.empty"

text \<open>
  One user in the updates of one inbound. The inner loop ranges over the map of inbounds and changes
  only the update of the tag it visits, so its order does not matter.
\<close>

definition user_update :: "uuid_parser \<Rightarrow> Inbound \<Rightarrow> User \<Rightarrow> inboundUpdate \<Rightarrow> inboundUpdate" where
  "user_update up inbound user u =
     (case isActiveInbound inbound (u_Inbounds user) (setupUserAccount up user) of
        Some account \<Rightarrow> u\<lparr>iu_accounts := iu_accounts u @ [account]\<rparr>
      | None \<Rightarrow> u\<lparr>iu_removeEmailSet := insert (u_Email user) (iu_removeEmailSet u)\<rparr>)"

definition buildInboundUpdates ::
  "uuid_parser \<Rightarrow> User list \<Rightarrow> XConfig \<Rightarrow> (string \<rightharpoonup> nat) \<times> (string \<rightharpoonup> inboundUpdate)" where
  "buildInboundUpdates up users c =
     (let byTag = inboundByTag c;
          start = (\<lambda>tag. map_option (\<lambda>_. \<lparr>iu_accounts = [], iu_removeEmailSet = {}\<rparr>) (byTag tag));
          updates = fold (\<lambda>user upd tag.
                            case byTag tag of
                              None \<Rightarrow> upd tag
                            | Some k \<Rightarrow> map_option (user_update up (xc_InboundConfigs c ! k) user) (upd tag))
                      users start
      in (byTag, updates))"

definition apply_update :: "go_iter \<Rightarrow> inboundUpdate \<Rightarrow> Inbound \<Rightarrow> Inbound" where
  "apply_update rng u i =
     inbound_updateUsers (iu_accounts u) (rng 1 (iu_removeEmailSet u)) i"

definition update_inbound_at ::
  "go_iter \<Rightarrow> (string \<rightharpoonup> nat) \<Rightarrow> (string \<rightharpoonup> inboundUpdate) \<Rightarrow> string \<Rightarrow> XConfig \<Rightarrow> XConfig" where
  "update_inbound_at rng byTag updates tag c =
     (case (byTag tag, updates tag) of
        (Some k, Some u) \<Rightarrow>
          c\<lparr>xc_InboundConfigs := (xc_InboundConfigs c)
             [k := apply_update rng u (xc_InboundConfigs c ! k)]\<rparr>
      | _ \<Rightarrow> c)"

definition config_updateUsers :: "go_iter \<Rightarrow> uuid_parser \<Rightarrow> User list \<Rightarrow> XConfig \<Rightarrow> XConfig" where
  "config_updateUsers rng up users c =
     (let (byTag, updates) = buildInboundUpdates up users c
      in fold (update_inbound_at rng byTag updates) (rng 0 (dom byTag)) c)"

text \<open>The part of \<^verbatim>\<open>(*Xray).SyncUser\<close> that changes one inbound.\<close>

definition sync_inbound :: "uuid_parser \<Rightarrow> User \<Rightarrow> Inbound \<Rightarrow> Inbound" where
  "sync_inbound up user i =
     (case isActiveInbound i (u_Inbounds user) (setupUserAccount up user) of
        Some account \<Rightarrow> inbound_updateUser account i
      | None \<Rightarrow> inbound_removeUser (u_Email user) i)"

definition config_syncUser :: "uuid_parser \<Rightarrow> User \<Rightarrow> XConfig \<Rightarrow> XConfig" where
  "config_syncUser up user c =
     c\<lparr>xc_InboundConfigs :=
        map (\<lambda>i. if in_exclude i then i else sync_inbound up user i) (xc_InboundConfigs c)\<rparr>"

end
