(* ===== verification/XrayApply.thy ===== *)
theory XrayApply
  imports XrayConfig
begin

text \<open>
  The rest of \<^verbatim>\<open>backend/xray/config.go\<close> and \<^verbatim>\<open>config_clone.go\<close>: the encoding of a configuration, its
  adaptation to the node (\<^verbatim>\<open>ApplyAPI\<close>: the inbound of the API, routing rules, services, policy,
  observatory), its decoding and its copy. The loop of \<^verbatim>\<open>ApplyAPI\<close> that removes an old API inbound
  changes the slice it ranges over; the model keeps the backing array and the length of the slice, so
  that the result, and the panic it can end in, are those of the source.
\<close>

section \<open>Encoding\<close>

text \<open>The accounts of a map of clients, in the order of the \<open>n\<close>-th loop, that pass the test \<open>P\<close>.\<close>

definition clients_list :: "go_iter \<Rightarrow> nat \<Rightarrow> (Account \<Rightarrow> bool) \<Rightarrow> (string \<rightharpoonup> Account) \<Rightarrow> Account list" where
  "clients_list rng n P clients = filter P (map (\<lambda>e. the (clients e)) (rng n (dom clients)))"

fun is_AVmess :: "Account \<Rightarrow> bool" where "is_AVmess (AVmess a) = True" | "is_AVmess _ = False"
fun is_AVless :: "Account \<Rightarrow> bool" where "is_AVless (AVless a) = True" | "is_AVless _ = False"
fun is_ATrojan :: "Account \<Rightarrow> bool" where "is_ATrojan (ATrojan a) = True" | "is_ATrojan _ = False"
fun is_ASS2022 :: "Account \<Rightarrow> bool" where
  "is_ASS2022 (AShadowsocks2022 a) = True" | "is_ASS2022 _ = False"
fun is_ASSTcp :: "Account \<Rightarrow> bool" where
  "is_ASSTcp (AShadowsocksTcp a) = True" | "is_ASSTcp _ = False"
fun is_AHysteria :: "Account \<Rightarrow> bool" where
  "is_AHysteria (AHysteria a) = True" | "is_AHysteria _ = False"

text \<open>The type of account the loops of \<^verbatim>\<open>ToBytes\<close> let through, \<open>None\<close> for another protocol.\<close>

definition client_type :: "Inbound \<Rightarrow> (Account \<Rightarrow> bool) option" where
  "client_type i =
     (if in_Protocol i = Vmess_p then Some is_AVmess
      else if in_Protocol i = Vless_p then Some is_AVless
      else if in_Protocol i = Trojan_p then Some is_ATrojan
      else if in_Protocol i = Shadowsocks_p then
        (if ss2022_method i \<noteq> None then Some is_ASS2022 else Some is_ASSTcp)
      else if in_Protocol i = Hysteria_p then Some is_AHysteria
      else None)"

definition set_clients :: "go_iter \<Rightarrow> nat \<Rightarrow> Inbound \<Rightarrow> Inbound" where
  "set_clients rng n i =
     (if in_exclude i then i
      else (let s = (case in_Settings i of None \<Rightarrow> Map.empty | Some m \<Rightarrow> m);
                i' = i\<lparr>in_Settings := Some s\<rparr>
            in if dom (in_clients i) = {} then i\<lparr>in_Settings := Some (s(''clients'' \<mapsto> AList []))\<rparr>
               else (case client_type i' of
                       None \<Rightarrow> i'
                     | Some P \<Rightarrow>
                         i\<lparr>in_Settings :=
                            Some (s(''clients'' \<mapsto> AAccounts (clients_list rng n P (in_clients i))))\<rparr>)))"

definition with_log :: "string \<Rightarrow> string \<Rightarrow> XConfig \<Rightarrow> XConfig" where
  "with_log a e c =
     c\<lparr>xc_LogConfig := map_option (\<lambda>l. l\<lparr>lc_AccessLog := a, lc_ErrorLog := e\<rparr>) (xc_LogConfig c)\<rparr>"

definition ToBytes :: "js \<Rightarrow> go_iter \<Rightarrow> XConfig \<Rightarrow> string result \<times> XConfig" where
  "ToBytes j rng c =
     (let c1 = c\<lparr>xc_InboundConfigs :=
                  map (\<lambda>(n, i). set_clients rng n i) (enumerate 0 (xc_InboundConfigs c))\<rparr>
      in case xc_LogConfig c1 of
           None \<Rightarrow> (Inl (go_panic ''nil pointer dereference''), c1)
         | Some l \<Rightarrow> (js_config j (with_log [] [] c1), with_log (lc_AccessLog l) (lc_ErrorLog l) c1))"

definition GetLogFiles :: "XConfig \<Rightarrow> (string \<times> string) \<times> XConfig" where
  "GetLogFiles c =
     (let c1 = (case xc_LogConfig c of
                  None \<Rightarrow> c\<lparr>xc_LogConfig := Some \<lparr>lc_AccessLog = [], lc_ErrorLog = [], lc_LogLevel = ''info'',
                                                  lc_other = []\<rparr>\<rparr>
                | Some _ \<Rightarrow> c);
          l = the (xc_LogConfig c1)
      in ((lc_AccessLog l, lc_ErrorLog l), c1))"

section \<open>Routing rules\<close>

definition malformedDomainGuardRuleTag :: string where
  "malformedDomainGuardRuleTag = ''PG_NODE_MALFORMED_DOMAIN_GUARD''"

definition invalid_rule :: "go_error \<Rightarrow> go_error" where
  "invalid_rule err = Errorf_w ''invalid JSON in rule: '' err"

fun filterRules :: "js \<Rightarrow> string list \<Rightarrow> string \<Rightarrow> string list result" where
  "filterRules j [] apiTag = Inr []"
| "filterRules j (raw # rules) apiTag =
     (case js_rule j raw of
        Inl err \<Rightarrow> Inl (invalid_rule err)
      | Inr obj \<Rightarrow>
          (case filterRules j rules apiTag of
             Inl err \<Rightarrow> Inl err
           | Inr filtered \<Rightarrow>
               (if str_field obj ''outboundTag'' = Some apiTag then Inr filtered
                else if str_field obj ''ruleTag'' = Some malformedDomainGuardRuleTag then Inr filtered
                else Inr (raw # filtered))))"

definition privateCIDRs :: "string list" where
  "privateCIDRs =
     [''0.0.0.0/8'', ''10.0.0.0/8'', ''100.64.0.0/10'', ''127.0.0.0/8'', ''169.254.0.0/16'',
      ''172.16.0.0/12'', ''192.0.0.0/24'', ''192.168.0.0/16'', ''198.18.0.0/15'', ''224.0.0.0/4'',
      ''240.0.0.0/4'', ''::/128'', ''::1/128'', ''fc00::/7'', ''fe80::/10'']"

definition is_geoip_private :: "go_any \<Rightarrow> bool" where
  "is_geoip_private entry =
     (case as_string entry of Some s \<Rightarrow> EqualFold s ''geoip:private'' | None \<Rightarrow> False)"

definition replaceGeoIPPrivate :: "go_any \<Rightarrow> go_any \<times> bool" where
  "replaceGeoIPPrivate values =
     (case as_list values of
        None \<Rightarrow> (values, False)
      | Some l \<Rightarrow>
          (if list_ex is_geoip_private l
           then (AList (concat (map (\<lambda>e. if is_geoip_private e then map AStr privateCIDRs else [e]) l)), True)
           else (values, False)))"

definition normalize_field :: "string \<Rightarrow> go_obj \<times> bool \<Rightarrow> go_obj \<times> bool" where
  "normalize_field k s =
     (case s of (obj, ruleChanged) \<Rightarrow>
        (case obj k of
           None \<Rightarrow> (obj, ruleChanged)
         | Some v \<Rightarrow>
             (case replaceGeoIPPrivate v of
                (v', changed) \<Rightarrow> (if changed then (obj(k \<mapsto> v'), True) else (obj, ruleChanged)))))"

definition normalize_rule :: "js \<Rightarrow> string \<Rightarrow> string result" where
  "normalize_rule j raw =
     (case js_rule j raw of
        Inl err \<Rightarrow> Inl (invalid_rule err)
      | Inr obj \<Rightarrow>
          (case normalize_field ''source'' (normalize_field ''ip'' (obj, False)) of
             (obj', ruleChanged) \<Rightarrow>
               (if \<not> ruleChanged then Inr raw
                else (case js_marshal j obj' of
                        Inl err \<Rightarrow> Inl (Errorf_w ''failed to marshal normalized rule: '' err)
                      | Inr rawBytes \<Rightarrow> Inr rawBytes))))"

fun normalizeGeoIPPrivateRules :: "js \<Rightarrow> string list \<Rightarrow> string list result" where
  "normalizeGeoIPPrivateRules j [] = Inr []"
| "normalizeGeoIPPrivateRules j (raw # rules) =
     (case normalize_rule j raw of
        Inl err \<Rightarrow> Inl err
      | Inr raw' \<Rightarrow>
          (case normalizeGeoIPPrivateRules j rules of
             Inl err \<Rightarrow> Inl err
           | Inr normalized \<Rightarrow> Inr (raw' # normalized)))"

section \<open>Services of the API\<close>

definition service_table :: "(string \<times> string) list" where
  "service_table =
    [(''reflectionservice'', ''ReflectionService''), (''handlerservice'', ''HandlerService''),
     (''loggerservice'', ''LoggerService''), (''statsservice'', ''StatsService''),
     (''observatoryservice'', ''ObservatoryService''), (''routingservice'', ''RoutingService'')]"

definition canonicalAPIServices :: "string \<rightharpoonup> string" where
  "canonicalAPIServices = map_of service_table"

definition requiredAPIServices :: "string list" where
  "requiredAPIServices = [''HandlerService'', ''LoggerService'', ''StatsService'']"

fun required_services :: "string list \<Rightarrow> string set \<Rightarrow> string list \<Rightarrow> string set \<times> string list" where
  "required_services [] seen res = (seen, res)"
| "required_services (s # ss) seen res =
     (let key = ToLower s
      in if key \<in> seen then required_services ss seen res
         else required_services ss (insert key seen) (res @ [s]))"

fun extra_services :: "string list \<Rightarrow> string set \<Rightarrow> string list \<Rightarrow> string list" where
  "extra_services [] seen extras = extras"
| "extra_services (s # ss) seen extras =
     (let key = ToLower (TrimSpace s)
      in if key = [] then extra_services ss seen extras
         else (case canonicalAPIServices key of
                 None \<Rightarrow> extra_services ss seen extras
               | Some canonical \<Rightarrow>
                   (if key \<in> seen then extra_services ss seen extras
                    else extra_services ss (insert key seen) (extras @ [canonical]))))"

definition sanitizeAPIServices :: "string list \<Rightarrow> string list" where
  "sanitizeAPIServices userProvided =
     (let (seen, res) = required_services requiredAPIServices {} []
      in res @ sort (extra_services userProvided seen []))"

section \<open>Outbounds and the observatory\<close>

definition outbound_entry :: "go_any \<Rightarrow> (string \<times> string) option" where
  "outbound_entry outbound =
     (case as_obj outbound of
        None \<Rightarrow> None
      | Some obj \<Rightarrow>
          (let tag = TrimSpace (case str_field obj ''tag'' of None \<Rightarrow> [] | Some t \<Rightarrow> t);
               protocol = TrimSpace (case str_field obj ''protocol'' of None \<Rightarrow> [] | Some p \<Rightarrow> p)
           in if tag = [] \<or> protocol = [] then None else Some (tag, protocol)))"

definition outboundProtocolByTag :: "XConfig \<Rightarrow> (string \<rightharpoonup> string)" where
  "outboundProtocolByTag c =
     (case as_list (xc_OutboundConfigs c) of
        None \<Rightarrow> Map.empty
      | Some rawOutbounds \<Rightarrow>
          fold (\<lambda>(tag, protocol) out. out(tag \<mapsto> protocol))
            (List.map_filter outbound_entry rawOutbounds) Map.empty)"

definition observatoryExcludedProtocols :: "string set" where
  "observatoryExcludedProtocols = {''blackhole'', ''dns'', ''loopback''}"

definition defaultObservatory :: "go_iter \<Rightarrow> XConfig \<Rightarrow> go_obj" where
  "defaultObservatory rng c =
     (let protocolByTag = outboundProtocolByTag c;
          tags = filter (\<lambda>tag. the (protocolByTag tag) \<notin> observatoryExcludedProtocols)
                   (rng 0 (dom protocolByTag))
      in [''subjectSelector'' \<mapsto> AStrs (sort tags),
          ''probeURL'' \<mapsto> AStr ''https://www.google.com/generate_204'',
          ''probeInterval'' \<mapsto> AStr ''10s''])"

definition blackholeOutboundTag :: "go_iter \<Rightarrow> XConfig \<Rightarrow> string" where
  "blackholeOutboundTag rng c =
     (let protocolByTag = outboundProtocolByTag c
      in if dom protocolByTag = {} then []
         else (case List.find (\<lambda>tag. EqualFold (the (protocolByTag tag)) ''blackhole'')
                      (sort (rng 1 (dom protocolByTag))) of
                 None \<Rightarrow> [] | Some tag \<Rightarrow> tag))"

definition keep_subject :: "(string \<rightharpoonup> string) \<Rightarrow> go_any \<Rightarrow> bool" where
  "keep_subject protocolByTag v =
     (case as_string v of
        None \<Rightarrow> False
      | Some tag \<Rightarrow>
          (case protocolByTag (TrimSpace tag) of
             Some protocol \<Rightarrow> protocol \<notin> observatoryExcludedProtocols
           | None \<Rightarrow> True))"

definition sanitize_section :: "(string \<rightharpoonup> string) \<Rightarrow> go_obj option \<Rightarrow> go_obj option" where
  "sanitize_section protocolByTag section' =
     (case section' of
        None \<Rightarrow> None
      | Some m \<Rightarrow>
          (case Option.bind (m ''subjectSelector'') as_list of
             None \<Rightarrow> Some m
           | Some values \<Rightarrow>
               Some (m(''subjectSelector'' \<mapsto> AList (filter (keep_subject protocolByTag) values)))))"

definition sanitizeObservatorySelectors :: "XConfig \<Rightarrow> XConfig" where
  "sanitizeObservatorySelectors c =
     (let protocolByTag = outboundProtocolByTag c
      in if dom protocolByTag = {} then c
         else c\<lparr>xc_Observatory := sanitize_section protocolByTag (xc_Observatory c),
                xc_BurstObservatory := sanitize_section protocolByTag (xc_BurstObservatory c)\<rparr>)"

section \<open>Policy\<close>

definition default_policy :: conf_Policy where
  "default_policy = \<lparr>cp_StatsUserUplink = True, cp_StatsUserDownlink = True, cp_other = []\<rparr>"

definition check_levels :: "PolicyConfig option \<Rightarrow> PolicyConfig result" where
  "check_levels p =
     (case p of
        None \<Rightarrow> Inr \<lparr>pc_Levels = Some [0 \<mapsto> Some default_policy], pc_System = None\<rparr>
      | Some q \<Rightarrow>
          (let levels = (case pc_Levels q of None \<Rightarrow> Map.empty | Some m \<Rightarrow> m)
           in case levels 0 of
                None \<Rightarrow> Inr (q\<lparr>pc_Levels := Some (levels(0 \<mapsto> Some default_policy))\<rparr>)
              | Some None \<Rightarrow> Inl (go_panic ''nil pointer dereference'')
              | Some (Some zero) \<Rightarrow>
                  Inr (q\<lparr>pc_Levels := Some (levels(0 \<mapsto>
                    Some (zero\<lparr>cp_StatsUserDownlink := True, cp_StatsUserUplink := True\<rparr>)))\<rparr>)))"

definition checkPolicy :: "XConfig \<Rightarrow> XConfig result" where
  "checkPolicy c =
     (case check_levels (xc_Policy c) of
        Inl err \<Rightarrow> Inl err
      | Inr q \<Rightarrow>
          Inr (c\<lparr>xc_Policy := Some (q\<lparr>pc_System := Some
            (case pc_System q of
               None \<Rightarrow> \<lparr>sp_StatsInboundDownlink = False, sp_StatsInboundUplink = False,
                        sp_StatsOutboundDownlink = True, sp_StatsOutboundUplink = True\<rparr>
             | Some s \<Rightarrow> s\<lparr>sp_StatsOutboundDownlink := True, sp_StatsOutboundUplink := True\<rparr>)\<rparr>)\<rparr>))"

section \<open>The inbound and the rule of the API\<close>

text \<open>
  An interface of the host: whether it is up and its addresses, \<open>None\<close> when they cannot be read; an
  address without an IP is \<open>None\<close>. \<open>None\<close> for the whole list means that \<^verbatim>\<open>net.Interfaces\<close> failed.
\<close>

record net_Interface =
  ni_Up :: bool
  ni_Addrs :: "IP option list option"

definition ip_unspecified :: "IP \<Rightarrow> bool" where
  "ip_unspecified ip \<longleftrightarrow>
     ip = replicate 4 0 \<or> ip = replicate 16 0 \<or> ip = v4InV6Prefix @ replicate 4 0"

definition interface_sources :: "net_Interface \<Rightarrow> string set" where
  "interface_sources iface =
     (if \<not> ni_Up iface then {}
      else (case ni_Addrs iface of
              None \<Rightarrow> {}
            | Some addrs \<Rightarrow> {IP_String ip | ip. Some ip \<in> set addrs \<and> ip \<noteq> [] \<and> \<not> ip_unspecified ip}))"

definition apiRuleSources :: "net_Interface list option \<Rightarrow> string list" where
  "apiRuleSources ifaces =
     (case ifaces of
        None \<Rightarrow> [''127.0.0.1'', ''::1'']
      | Some l \<Rightarrow>
          sorted_list_of_set ({''127.0.0.1'', ''::1''} \<union> (\<Union>i \<in> set l. interface_sources i)))"

definition loopbackListenAddress :: "int \<Rightarrow> string" where
  "loopbackListenAddress port = ''127.0.0.1:'' @ decimal (unat (word_of_int port :: 16 word))"

text \<open>
  The removal loop of \<^verbatim>\<open>ApplyAPI\<close>: \<open>arr\<close> is the backing array that the range statement reads, \<open>len\<close>
  the length of \<^verbatim>\<open>c.InboundConfigs\<close>, a prefix of it. The expression \<^verbatim>\<open>c.InboundConfigs[i+1:]\<close> panics
  when \<open>i + 1\<close> is larger than that length.
\<close>

fun remove_api_loop :: "nat \<Rightarrow> nat \<Rightarrow> Inbound list \<Rightarrow> nat \<Rightarrow> (Inbound list \<times> nat) result" where
  "remove_api_loop i 0 arr len = Inr (arr, len)"
| "remove_api_loop i (Suc k) arr len =
     (if in_Tag (arr ! i) = ''API_INBOUND''
      then (if i + 1 > len then Inl (go_panic ''slice bounds out of range'')
            else (let moved = drop (i + 1) (take len arr);
                      arr' = take i arr @ moved @ drop (i + length moved) arr
                  in remove_api_loop (Suc i) k arr' (i + length moved)))
      else remove_api_loop (Suc i) k arr len)"

definition remove_api_inbound :: "Inbound list \<Rightarrow> Inbound list result" where
  "remove_api_inbound is =
     (case remove_api_loop 0 (length is) is (length is) of
        Inl err \<Rightarrow> Inl err
      | Inr (arr, len) \<Rightarrow> Inr (take len arr))"

definition api_inbound :: "int \<Rightarrow> Inbound" where
  "api_inbound apiPort =
     \<lparr>in_Tag = ''API_INBOUND'', in_Listen = ''127.0.0.1'', in_Port = AInt apiPort,
      in_Protocol = ''dokodemo-door'', in_Settings = Some [''address'' \<mapsto> AStr ''127.0.0.1''],
      in_StreamSettings = None, in_Sniffing = ANil, in_Allocation = None, in_exclude = False,
      in_clients = Map.empty\<rparr>"

definition api_rule :: "net_Interface list option \<Rightarrow> go_obj" where
  "api_rule ifaces =
     [''inboundTag'' \<mapsto> AStrs [''API_INBOUND''], ''source'' \<mapsto> AStrs (apiRuleSources ifaces),
      ''outboundTag'' \<mapsto> AStr ''API'', ''type'' \<mapsto> AStr ''field'']"

definition malformedDomainGuardRule :: "js \<Rightarrow> string \<Rightarrow> string result" where
  "malformedDomainGuardRule j outboundTag =
     js_marshal j
       [''domain'' \<mapsto> AStrs [''regexp:^.{254,}$'', ''regexp:(^|'' @ [CHR 0x5C] @ ''.)[^.]{64,}('' @ [CHR 0x5C] @ ''.|$)''],
        ''outboundTag'' \<mapsto> AStr outboundTag,
        ''ruleTag'' \<mapsto> AStr malformedDomainGuardRuleTag,
        ''type'' \<mapsto> AStr ''field'']"

definition ApplyAPI ::
  "js \<Rightarrow> go_iter \<Rightarrow> net_Interface list option \<Rightarrow> int \<Rightarrow> int \<Rightarrow> XConfig \<Rightarrow> XConfig result" where
  "ApplyAPI j rng ifaces apiPort metricPort c =
     (case remove_api_inbound (xc_InboundConfigs c) of
        Inl err \<Rightarrow> Inl err
      | Inr inbounds \<Rightarrow>
          (let userServices = (case xc_API c of None \<Rightarrow> [] | Some a \<Rightarrow> api_Services a);
               services = sanitizeAPIServices userServices;
               c1 = c\<lparr>xc_InboundConfigs := inbounds,
                      xc_API := Some \<lparr>api_Tag = ''API'', api_Listen = [], api_Services = services\<rparr>\<rparr>;
               c2 = (if ''ObservatoryService'' \<in> set services \<and> xc_Observatory c1 = None \<and>
                        xc_BurstObservatory c1 = None
                     then c1\<lparr>xc_Observatory := Some (defaultObservatory rng c1)\<rparr> else c1);
               c3 = c2\<lparr>xc_Metrics := Some [''tag'' \<mapsto> AStr ''metric'',
                                           ''listen'' \<mapsto> AStr (loopbackListenAddress metricPort)]\<rparr>;
               c4 = sanitizeObservatorySelectors c3;
               router = (case xc_RouterConfig c4 of
                           None \<Rightarrow> \<lparr>rt_RuleList = [], rt_other = []\<rparr> | Some r \<Rightarrow> r)
           in case normalizeGeoIPPrivateRules j (rt_RuleList router) of
                Inl err \<Rightarrow> Inl err
              | Inr normalized \<Rightarrow>
                  (case filterRules j normalized ''API'' of
                     Inl err \<Rightarrow> Inl err
                   | Inr filtered \<Rightarrow>
                       (case checkPolicy c4 of
                          Inl err \<Rightarrow> Inl err
                        | Inr c5 \<Rightarrow>
                            (let c6 = c5\<lparr>xc_InboundConfigs := api_inbound apiPort # xc_InboundConfigs c5\<rparr>
                             in case js_marshal j (api_rule ifaces) of
                                  Inl err \<Rightarrow> Inl err
                                | Inr newRaw \<Rightarrow>
                                    (let blockTag = blackholeOutboundTag rng c6
                                     in case (if blockTag = [] then Inr [newRaw]
                                              else map_sum id (\<lambda>g. [newRaw, g])
                                                     (malformedDomainGuardRule j blockTag)) of
                                          Inl err \<Rightarrow> Inl err
                                        | Inr prependRules \<Rightarrow>
                                            Inr (c6\<lparr>xc_RouterConfig :=
                                              Some (router\<lparr>rt_RuleList := prependRules @ filtered\<rparr>)\<rparr>)))))))"

section \<open>Decoding and copying\<close>

definition xray_NewConfig :: "js \<Rightarrow> string \<Rightarrow> string list \<Rightarrow> XConfig result" where
  "xray_NewConfig j config exclude =
     (case js_unconfig j config of
        Inl err \<Rightarrow> Inl err
      | Inr (c, inbounds) \<Rightarrow>
          (if None \<in> set inbounds then Inl (go_panic ''nil pointer dereference'')
           else Inr (c\<lparr>xc_InboundConfigs :=
                  map (\<lambda>i. (the i)\<lparr>in_clients := Map.empty, in_exclude := in_Tag (the i) \<in> set exclude\<rparr>)
                    inbounds\<rparr>)))"

text \<open>Accounts are values here, so the copy of an account is the account.\<close>

definition cloneAccount :: "Account \<Rightarrow> Account" where
  "cloneAccount account = account"

definition cloneClients :: "(string \<rightharpoonup> Account) \<Rightarrow> (string \<rightharpoonup> Account)" where
  "cloneClients clients = (\<lambda>email. map_option cloneAccount (clients email))"

definition originalByTag :: "XConfig \<Rightarrow> (string \<rightharpoonup> Inbound)" where
  "originalByTag c = fold (\<lambda>i m. m(in_Tag i \<mapsto> i)) (xc_InboundConfigs c) Map.empty"

definition Clone :: "js \<Rightarrow> XConfig option \<Rightarrow> XConfig result" where
  "Clone j c0 =
     (case c0 of
        None \<Rightarrow> Inl (errors_New ''xray config is nil'')
      | Some c \<Rightarrow>
          (case js_config j c of
             Inl err \<Rightarrow> Inl (Errorf_w ''marshal xray config clone: '' err)
           | Inr data \<Rightarrow>
               (case js_unconfig j data of
                  Inl err \<Rightarrow> Inl (Errorf_w ''unmarshal xray config clone: '' err)
                | Inr (cloned, inbounds) \<Rightarrow>
                    Inr (cloned\<lparr>xc_InboundConfigs :=
                      map (\<lambda>i. case originalByTag c (in_Tag (the i)) of
                                 None \<Rightarrow> (the i)\<lparr>in_clients := Map.empty\<rparr>
                               | Some original \<Rightarrow>
                                   (the i)\<lparr>in_exclude := in_exclude original,
                                          in_clients := cloneClients (in_clients original)\<rparr>)
                        inbounds\<rparr>))))"

section \<open>Lemmas: the removal of the API inbound\<close>

lemma remove_api_loop_none:
  "\<forall>j < k. in_Tag (arr ! (i + j)) \<noteq> ''API_INBOUND'' \<Longrightarrow> remove_api_loop i k arr len = Inr (arr, len)"
proof (induction k arbitrary: i)
  case (Suc k)
  then have "in_Tag (arr ! i) \<noteq> ''API_INBOUND''" by (metis add_0_right zero_less_Suc)
  moreover have "\<forall>j < k. in_Tag (arr ! (Suc i + j)) \<noteq> ''API_INBOUND''"
    using Suc.prems by (metis Suc_less_eq add_Suc_shift)
  ultimately show ?case using Suc.IH by simp
qed simp

lemma remove_api_loop_skip:
  "i \<le> m \<Longrightarrow> \<forall>j. i \<le> j \<and> j < m \<longrightarrow> in_Tag (arr ! j) \<noteq> ''API_INBOUND'' \<Longrightarrow>
   remove_api_loop i (m - i + k) arr len = remove_api_loop m k arr len"
proof (induction "m - i" arbitrary: i)
  case (Suc n)
  then have "i < m" by simp
  then have "m - i + k = Suc (m - Suc i + k)" "in_Tag (arr ! i) \<noteq> ''API_INBOUND''"
    using Suc.prems(2) by auto
  then show ?case using Suc.hyps(1) [of "Suc i"] Suc.hyps(2) Suc.prems \<open>i < m\<close> by simp
qed simp

lemma remove_api_inbound_none:
  "\<forall>i \<in> set is. in_Tag i \<noteq> ''API_INBOUND'' \<Longrightarrow> remove_api_inbound is = Inr is"
  by (simp add: remove_api_inbound_def remove_api_loop_none)

lemma remove_api_inbound_one:
  assumes "is = xs @ a # ys" "in_Tag a = ''API_INBOUND''"
    "\<forall>i \<in> set (xs @ ys). in_Tag i \<noteq> ''API_INBOUND''"
  shows "remove_api_inbound is = Inr (xs @ ys)"
proof -
  let ?m = "length xs"
  have "remove_api_loop 0 (?m - 0 + Suc (length ys)) is (length is) =
      remove_api_loop ?m (Suc (length ys)) is (length is)"
    using assms by (intro remove_api_loop_skip) (simp_all add: nth_append)
  also have "\<dots> = remove_api_loop (Suc ?m) (length ys) (xs @ ys @ drop (length ys) (a # ys)) (?m + length ys)"
    using assms(1,2) by (simp add: nth_append)
  also have "\<dots> = Inr (xs @ ys @ drop (length ys) (a # ys), ?m + length ys)"
  proof (rule remove_api_loop_none, intro allI impI)
    fix j assume "j < length ys"
    let ?arr = "xs @ ys @ drop (length ys) (a # ys)"
    have "?arr ! (Suc ?m + j) \<in> set ys"
    proof (cases "Suc j < length ys")
      case True
      then show ?thesis by (simp add: nth_append)
    next
      case False
      with \<open>j < length ys\<close> have "j = length ys - 1" "ys \<noteq> []" by auto
      then show ?thesis by (cases ys rule: rev_cases) (simp_all add: nth_append)
    qed
    with assms(3) show "in_Tag (?arr ! (Suc ?m + j)) \<noteq> ''API_INBOUND''" by simp
  qed
  finally show ?thesis using assms(1) by (simp add: remove_api_inbound_def)
qed

section \<open>Lemmas: the services of the API\<close>

definition service_key :: "string \<Rightarrow> string" where
  "service_key s = ToLower (TrimSpace s)"

lemma service_table_rows:
  "\<forall>(k, c) \<in> set service_table.
     ToLower (TrimSpace c) = k \<and> ToLower c = k \<and> k \<noteq> [] \<and>
     (k \<in> {''statsservice'', ''loggerservice'', ''handlerservice''} \<longleftrightarrow> c \<in> set requiredAPIServices)"
  by code_simp

lemma canonicalAPIServices_key:
  assumes "canonicalAPIServices k = Some c"
  shows "service_key c = k" "ToLower c = k" "k \<noteq> []"
    "k \<in> {''statsservice'', ''loggerservice'', ''handlerservice''} \<longleftrightarrow> c \<in> set requiredAPIServices"
proof -
  have "(k, c) \<in> set service_table"
    using assms unfolding canonicalAPIServices_def by (rule map_of_SomeD)
  note row = bspec [OF service_table_rows this, unfolded prod.case]
  show "service_key c = k"
    unfolding service_key_def by (rule conjunct1 [OF row])
  show "ToLower c = k" by (rule conjunct1 [OF conjunct2 [OF row]])
  show "k \<noteq> []" by (rule conjunct1 [OF conjunct2 [OF conjunct2 [OF row]]])
  show "k \<in> {''statsservice'', ''loggerservice'', ''handlerservice''} \<longleftrightarrow> c \<in> set requiredAPIServices"
    by (rule conjunct2 [OF conjunct2 [OF conjunct2 [OF row]]])
qed

lemma extra_services_spec:
  assumes "distinct ex" "ToLower ` set ex \<subseteq> seen"
  shows "distinct (extra_services ss seen ex) \<and>
    set (extra_services ss seen ex) =
      set ex \<union> {c. \<exists>s \<in> set ss. canonicalAPIServices (service_key s) = Some c \<and> service_key s \<notin> seen}"
  using assms
proof (induction ss arbitrary: seen ex)
  case (Cons s ss)
  let ?k = "service_key s"
  show ?case
  proof (cases "canonicalAPIServices ?k")
    case None
    with Cons show ?thesis by (simp add: service_key_def Let_def)
  next
    case (Some c)
    note key = canonicalAPIServices_key [OF Some]
    show ?thesis
    proof (cases "?k \<in> seen")
      case True
      with Cons Some key show ?thesis by (auto simp: service_key_def Let_def)
    next
      case False
      then have "c \<notin> set ex" using Cons.prems(2) key(2) by auto
      then have "distinct (ex @ [c])" "ToLower ` set (ex @ [c]) \<subseteq> insert ?k seen"
        using Cons.prems key(2) by auto
      note IH = Cons.IH [OF this]
      moreover have "extra_services (s # ss) seen ex = extra_services ss (insert ?k seen) (ex @ [c])"
        using Some False key(3) by (simp add: service_key_def Let_def)
      moreover have "{x. \<exists>t \<in> set (s # ss). canonicalAPIServices (service_key t) = Some x \<and> service_key t \<notin> seen} =
          insert c {x. \<exists>t \<in> set ss. canonicalAPIServices (service_key t) = Some x \<and>
                                service_key t \<notin> insert ?k seen}"
        using Some False by (fastforce simp del: split_paired_Ex)
      ultimately show ?thesis by simp
    qed
  qed
qed simp

lemma required_services_eval:
  "required_services requiredAPIServices {} [] =
     ({''statsservice'', ''loggerservice'', ''handlerservice''}, requiredAPIServices)"
  by code_simp

text \<open>The services a user asks for beyond the required ones, under their canonical names.\<close>

definition asked_services :: "string list \<Rightarrow> string set" where
  "asked_services us =
     {c. \<exists>s \<in> set us. canonicalAPIServices (ToLower (TrimSpace s)) = Some c} - set requiredAPIServices"

lemma sanitizeAPIServices_eq:
  "sanitizeAPIServices us = requiredAPIServices @ sorted_list_of_set (asked_services us)"
proof -
  let ?seen = "{''statsservice'', ''loggerservice'', ''handlerservice''}"
  have ext: "distinct (extra_services us ?seen [])"
    "set (extra_services us ?seen []) = asked_services us"
    using extra_services_spec [of "[]" ?seen us] canonicalAPIServices_key(4)
    by (auto simp: asked_services_def service_key_def)
  have "sort (extra_services us ?seen []) = sorted_list_of_set (set (extra_services us ?seen []))"
    using ext(1) sorted_list_of_set_sort_remdups [of "extra_services us ?seen []"]
    by (simp add: distinct_remdups_id)
  then show ?thesis
    by (simp add: sanitizeAPIServices_def required_services_eval ext(2))
qed

lemma finite_asked_services [simp]: "finite (asked_services us)"
proof -
  have "asked_services us \<subseteq> ran canonicalAPIServices"
    by (auto simp: asked_services_def ran_def)
  then show ?thesis
    by (rule finite_subset) (simp add: canonicalAPIServices_def finite_ran finite_dom_map_of)
qed

lemma fixed_image: "(\<And>s. s \<in> A \<Longrightarrow> f s = Some s) \<Longrightarrow> {c. \<exists>s \<in> A. f s = Some c} = A"
  by auto

lemma canonical_fixed:
  "c \<in> asked_services us \<union> set requiredAPIServices \<Longrightarrow>
   canonicalAPIServices (ToLower (TrimSpace c)) = Some c"
proof (elim UnE)
  assume "c \<in> asked_services us"
  then show ?thesis
    using canonicalAPIServices_key(1) by (auto simp: asked_services_def service_key_def)
next
  assume "c \<in> set requiredAPIServices"
  moreover have "map (canonicalAPIServices \<circ> ToLower \<circ> TrimSpace) requiredAPIServices = map Some requiredAPIServices"
    by code_simp
  ultimately show ?thesis by (auto simp: requiredAPIServices_def)
qed

text \<open>
  C22. The services of the API are the required ones followed, in ascending order and without
  duplicates, by those of the known services that the user names in any spelling of case and
  surrounding space; unknown names are dropped, the order and repetitions of what the user writes do
  not matter, and sanitizing the result again changes nothing.
\<close>

theorem sanitizeAPIServices_canonical:
  "sanitizeAPIServices us =
     requiredAPIServices @ sorted_list_of_set
       ({c. \<exists>s \<in> set us. canonicalAPIServices (ToLower (TrimSpace s)) = Some c} - set requiredAPIServices) \<and>
   distinct (sanitizeAPIServices us) \<and>
   sanitizeAPIServices (sanitizeAPIServices us) = sanitizeAPIServices us"
proof -
  have "distinct (sanitizeAPIServices us)"
  proof -
    have "distinct requiredAPIServices" by code_simp
    moreover have "set requiredAPIServices \<inter> asked_services us = {}"
      by (auto simp: asked_services_def)
    ultimately show ?thesis by (simp add: sanitizeAPIServices_eq)
  qed
  moreover have "asked_services (sanitizeAPIServices us) = asked_services us"
  proof -
    have "set (sanitizeAPIServices us) = asked_services us \<union> set requiredAPIServices"
      by (auto simp: sanitizeAPIServices_eq)
    moreover have "asked_services us \<inter> set requiredAPIServices = {}"
      by (auto simp: asked_services_def)
    ultimately show ?thesis
      using fixed_image [of "set (sanitizeAPIServices us)"] canonical_fixed [of _ us]
      unfolding asked_services_def [of "sanitizeAPIServices us"] by (simp add: Un_Diff Diff_triv)
  qed
  ultimately show ?thesis
    using sanitizeAPIServices_eq by (simp add: asked_services_def)
qed

end
