(* ===== verification/XrayUsers.thy ===== *)
theory XrayUsers
  imports XrayApply
begin

text \<open>
  The accounts of the inbounds under the operations that change them: every inbound holds accounts of
  its own protocol under their own e-mail, a full synchronisation leaves exactly the accounts of the
  eligible users, and the incremental update is the full synchronisation with the merged list of
  users.
\<close>

section \<open>One user and one inbound\<close>

definition user_account :: "uuid_parser \<Rightarrow> Inbound \<Rightarrow> User \<Rightarrow> Account option" where
  "user_account up i user = isActiveInbound i (u_Inbounds user) (setupUserAccount up user)"

text \<open>The loops of \<^verbatim>\<open>syncUsers\<close> and the test of \<^verbatim>\<open>isActiveInbound\<close> agree on the account of a user.\<close>

lemma protocols_distinct:
  "Vmess_p \<noteq> Vless_p" "Vmess_p \<noteq> Trojan_p" "Vmess_p \<noteq> Shadowsocks_p" "Vmess_p \<noteq> Hysteria_p"
  "Vless_p \<noteq> Trojan_p" "Vless_p \<noteq> Shadowsocks_p" "Vless_p \<noteq> Hysteria_p"
  "Trojan_p \<noteq> Shadowsocks_p" "Trojan_p \<noteq> Hysteria_p" "Shadowsocks_p \<noteq> Hysteria_p"
  by (simp_all add: protocol_defs)

lemma protocol_cases:
  obtains "in_Protocol i = Vmess_p" | "in_Protocol i = Vless_p" | "in_Protocol i = Trojan_p"
  | "in_Protocol i = Shadowsocks_p" | "in_Protocol i = Hysteria_p"
  | "in_Protocol i \<notin> {Vmess_p, Vless_p, Trojan_p, Shadowsocks_p, Hysteria_p}"
  by auto

lemma setupUserAccount_sel:
  "ps_Vmess (setupUserAccount up u) = (if GetVmess u = None then None
     else (case NewVmessAccount up u of Inl _ \<Rightarrow> None | Inr a \<Rightarrow> Some a))"
  "ps_Vless (setupUserAccount up u) = (if GetVless u = None then None
     else (case NewVlessAccount up u of Inl _ \<Rightarrow> None | Inr a \<Rightarrow> Some a))"
  "ps_Trojan (setupUserAccount up u) =
     (if GetTrojan u = None then None else Some (NewTrojanAccount u))"
  "ps_Shadowsocks (setupUserAccount up u) =
     (if GetShadowsocks u = None then None else Some (NewShadowsocksTcpAccount u))"
  "ps_Shadowsocks2022 (setupUserAccount up u) =
     (if GetShadowsocks u = None then None else Some (NewShadowsocksAccount u))"
  "ps_Hysteria (setupUserAccount up u) =
     (if GetHysteria u = None then None else Some (NewHysteriaAccount u))"
  by (simp_all add: setupUserAccount_def)

lemmas user_account_defs = user_account_def isActiveInbound_def setupUserAccount_sel

lemma sync_client_account:
  "sync_client up i u m =
     (case user_account up i u of None \<Rightarrow> m | Some a \<Rightarrow> m(u_Email u \<mapsto> a))"
proof (cases "in_Tag i \<in> set (u_Inbounds u)")
  case False
  then show ?thesis
    by (cases i rule: protocol_cases)
       (simp_all add: sync_client_def user_account_defs Let_def protocols_distinct protocols_distinct [symmetric])
next
  case True
  then show ?thesis
    by (cases i rule: protocol_cases)
       (auto simp: sync_client_def user_account_defs Let_def protocols_distinct
         protocols_distinct [symmetric] split: sum.split option.split)
qed

definition account_typed :: "Inbound \<Rightarrow> Account \<Rightarrow> bool" where
  "account_typed i a = (case client_type i of None \<Rightarrow> False | Some P \<Rightarrow> P a)"

lemma user_account_typed:
  assumes "user_account up i u = Some a"
  shows "account_typed i a" "GetEmail a = u_Email u"
  using assms
  by (cases i rule: protocol_cases,
      auto simp: user_account_defs account_typed_def client_type_def protocols_distinct
        protocols_distinct [symmetric] checkShadowsocks2022_def account_email
        split: if_splits option.splits sum.splits)+

section \<open>Synchronisation\<close>

text \<open>The account that the last user with an account among \<open>users\<close> gives the e-mail \<open>e\<close>.\<close>

definition last_account :: "uuid_parser \<Rightarrow> Inbound \<Rightarrow> User list \<Rightarrow> string \<Rightarrow> Account option" where
  "last_account up i users e =
     (let us = filter (\<lambda>u. u_Email u = e \<and> user_account up i u \<noteq> None) users
      in if us = [] then None else user_account up i (last us))"

lemma last_account_snoc:
  "last_account up i (us @ [u]) e =
     (if u_Email u = e \<and> user_account up i u \<noteq> None then user_account up i u
      else last_account up i us e)"
  by (simp add: last_account_def Let_def)

lemma last_account_append:
  "last_account up i (us @ vs) e =
     (case last_account up i vs e of None \<Rightarrow> last_account up i us e | Some a \<Rightarrow> Some a)"
  by (induction vs rule: rev_induct)
     (auto simp: last_account_snoc append_assoc [symmetric] simp del: append_assoc split: option.split,
      simp_all add: last_account_def)

lemma fold_sync_client:
  "fold (sync_client up i) users m e =
     (case last_account up i users e of None \<Rightarrow> m e | Some a \<Rightarrow> Some a)"
  by (induction users rule: rev_induct)
     (auto simp: sync_client_account last_account_snoc last_account_def [of up i "[]"] Let_def
       split: option.splits)

lemma in_clients_syncUsers:
  "in_clients (inbound_syncUsers up users i) = last_account up i users"
  by (rule ext) (simp add: inbound_syncUsers_def fold_sync_client split: option.split)

lemma last_account_distinct:
  assumes "distinct (map u_Email users)" "u \<in> set users"
  shows "last_account up i users (u_Email u) = user_account up i u"
proof -
  have "filter (\<lambda>v. u_Email v = u_Email u \<and> user_account up i v \<noteq> None) users =
      (if user_account up i u = None then [] else [u])"
    using assms
  proof (induction users)
    case (Cons v vs)
    show ?case
    proof (cases "v = u")
      case True
      then have "u_Email u \<notin> u_Email ` set vs" using Cons.prems by auto
      then have "filter (\<lambda>v. u_Email v = u_Email u \<and> user_account up i v \<noteq> None) vs = []"
        by (auto simp: filter_empty_conv image_iff)
      with True show ?thesis by simp
    next
      case False
      with Cons show ?thesis by force
    qed
  qed simp
  then show ?thesis by (simp add: last_account_def)
qed

lemma last_account_notin: "e \<notin> u_Email ` set users \<Longrightarrow> last_account up i users e = None"
  by (auto simp: last_account_def filter_empty_conv)

section \<open>Updates\<close>

lemma fold_user_update:
  "fold (user_update up i) users u =
     \<lparr>iu_accounts = iu_accounts u @ List.map_filter (user_account up i) users,
      iu_removeEmailSet = iu_removeEmailSet u \<union> {u_Email v | v. v \<in> set users \<and> user_account up i v = None}\<rparr>"
  by (induction users arbitrary: u)
     (auto simp: user_update_def user_account_def [symmetric] List.map_filter_simps split: option.splits)

lemma buildInboundUpdates_eq:
  "buildInboundUpdates up users c =
     (inboundByTag c, \<lambda>tag. map_option
        (\<lambda>k. \<lparr>iu_accounts = List.map_filter (user_account up (xc_InboundConfigs c ! k)) users,
              iu_removeEmailSet = {u_Email v | v. v \<in> set users \<and>
                                     user_account up (xc_InboundConfigs c ! k) v = None}\<rparr>)
        (inboundByTag c tag))"
proof -
  have "fold (\<lambda>user upd tag. case byTag tag of None \<Rightarrow> upd tag
          | Some k \<Rightarrow> map_option (user_update up (is ! k) user) (upd tag)) users start tag =
      (case byTag tag of None \<Rightarrow> start tag
       | Some k \<Rightarrow> map_option (fold (user_update up (is ! k)) users) (start tag))"
    for byTag :: "string \<rightharpoonup> nat" and "is" start tag
    by (induction users arbitrary: start)
       (auto split: option.split simp: option.map_comp comp_def option.map_id)
  then show ?thesis
    by (auto simp: buildInboundUpdates_def Let_def fold_user_update split: option.split)
qed

text \<open>What \<^verbatim>\<open>updateUsers\<close> does to an account it is given: the key of 2022 ciphers is checked again.\<close>

definition recheck :: "Inbound \<Rightarrow> Account \<Rightarrow> Account" where
  "recheck i a =
     (case a of
        AShadowsocks2022 s \<Rightarrow>
          (case ss2022_method i of
             Some m \<Rightarrow> AShadowsocks2022 (checkShadowsocks2022 m s) | None \<Rightarrow> a)
      | _ \<Rightarrow> a)"

lemma update_client_typed:
  "account_typed i a \<Longrightarrow> update_client i a m = m(GetEmail a \<mapsto> recheck i a)"
  by (cases i rule: protocol_cases; cases a)
     (auto simp: account_typed_def client_type_def update_client_def Let_def recheck_def protocols_distinct
       protocols_distinct [symmetric] split: if_splits option.splits)

text \<open>The 2022 ciphers of the inbound are among those whose key size the code knows.\<close>

definition cipher_known :: "Inbound \<Rightarrow> bool" where
  "cipher_known i = (case ss2022_method i of None \<Rightarrow> True | Some m \<Rightarrow> known_cipher m)"

lemma recheck_user_account:
  assumes "cipher_known i" "user_account up i u = Some a"
  shows "recheck i a = a"
  using assms
  by (cases i rule: protocol_cases)
     (auto simp: recheck_def user_account_defs cipher_known_def checkShadowsocks2022_def
       EnsureBase64Password_idem protocols_distinct protocols_distinct [symmetric]
       split: if_splits option.splits sum.splits)

lemma fold_update_clients:
  assumes "cipher_known i"
  shows "fold (update_client i) (List.map_filter (user_account up i) users) m =
    fold (sync_client up i) users m"
  by (induction users arbitrary: m)
     (auto simp: List.map_filter_simps sync_client_account update_client_typed user_account_typed
       recheck_user_account [OF assms] split: option.split)

lemma fold_remove: "fold (\<lambda>e m. m(e := None)) es m e = (if e \<in> set es then None else m e)"
  by (induction es arbitrary: m) auto

lemma in_clients_updateUsers:
  assumes "cipher_known i" "distinct (map u_Email users)" "go_range rng"
    and "upd = \<lparr>iu_accounts = List.map_filter (user_account up i) users,
                iu_removeEmailSet = {u_Email v | v. v \<in> set users \<and> user_account up i v = None}\<rparr>"
  shows "in_clients (apply_update rng upd i) e =
    (if e \<in> u_Email ` set users then last_account up i users e else in_clients i e)"
proof -
  let ?R = "{u_Email v | v. v \<in> set users \<and> user_account up i v = None}"
  have "finite ?R" by simp
  then have R: "set (rng (Suc 0) ?R) = ?R" using assms(3) by simp
  show ?thesis
  proof (cases "e \<in> u_Email ` set users")
    case True
    then obtain u where u: "u \<in> set users" "e = u_Email u" by blast
    have "last_account up i users e = user_account up i u"
      using last_account_distinct [OF assms(2) u(1)] u(2) by simp
    moreover have "e \<in> ?R \<longleftrightarrow> user_account up i u = None"
      using u assms(2) by (auto simp: distinct_map dest: inj_onD)
    ultimately show ?thesis
      using True by (simp add: apply_update_def inbound_updateUsers_def assms(4) fold_remove R
          fold_update_clients [OF assms(1)] fold_sync_client split: option.split)
  next
    case False
    then have "\<not> (\<exists>v. e = u_Email v \<and> v \<in> set users \<and> user_account up i v = None)" by blast
    with False show ?thesis
      by (auto simp: apply_update_def inbound_updateUsers_def assms(4) fold_remove R fold_update_clients [OF assms(1)]
          fold_sync_client last_account_notin)
  qed
qed

section \<open>All inbounds\<close>

text \<open>The tags of the inbounds that are not excluded are different, as the Xray core demands.\<close>

definition tags_ok :: "XConfig \<Rightarrow> bool" where
  "tags_ok c \<longleftrightarrow> distinct (map in_Tag (filter (\<lambda>i. \<not> in_exclude i) (xc_InboundConfigs c)))"

lemma inbound_index_notin:
  "t \<notin> in_Tag ` set (filter (\<lambda>i. \<not> in_exclude i) is) \<Longrightarrow> inbound_index k is m t = m t"
  by (induction k "is" m rule: inbound_index.induct) auto

lemma inbound_index_distinct:
  "distinct (map in_Tag (filter (\<lambda>i. \<not> in_exclude i) is)) \<Longrightarrow>
   j < length is \<Longrightarrow> \<not> in_exclude (is ! j) \<Longrightarrow> inbound_index k is m (in_Tag (is ! j)) = Some (k + j)"
proof (induction k "is" m arbitrary: j rule: inbound_index.induct)
  case (2 k i "is" m)
  show ?case
  proof (cases j)
    case 0
    with 2 show ?thesis by (simp add: inbound_index_notin)
  next
    case (Suc j')
    with 2 show ?thesis by (auto simp del: fun_upd_apply split: if_splits)
  qed
qed simp

lemma inbound_index_mem:
  "inbound_index k is m t = Some n \<Longrightarrow>
   m t = Some n \<or> (\<exists>j < length is. n = k + j \<and> \<not> in_exclude (is ! j) \<and> in_Tag (is ! j) = t)"
proof (induction k "is" m rule: inbound_index.induct)
  case (2 k i "is" m)
  then consider "(if in_exclude i then m else m(in_Tag i \<mapsto> k)) t = Some n"
    | j where "j < length is" "n = Suc k + j" "\<not> in_exclude (is ! j)" "in_Tag (is ! j) = t"
    by auto
  then show ?case
  proof cases
    case 1
    then show ?thesis by (auto split: if_splits)
  next
    case 2
    then show ?thesis by (intro disjI2 exI [of _ "Suc j"]) simp
  qed
qed simp

lemma inboundByTag_iff:
  assumes "tags_ok c"
  shows "inboundByTag c t = Some k \<longleftrightarrow>
    k < length (xc_InboundConfigs c) \<and> \<not> in_exclude (xc_InboundConfigs c ! k) \<and>
    in_Tag (xc_InboundConfigs c ! k) = t"
  using inbound_index_mem [of 0 "xc_InboundConfigs c" Map.empty t k]
    inbound_index_distinct [of "xc_InboundConfigs c" k 0 Map.empty] assms
  by (auto simp: inboundByTag_def tags_ok_def)

lemma finite_dom_inboundByTag [simp]: "finite (dom (inboundByTag c))"
proof -
  have "dom (inbound_index k is m) \<subseteq> in_Tag ` set is \<union> dom m" for k "is" m
    by (induction k "is" m rule: inbound_index.induct) (auto split: if_splits)
  from this [of 0 "xc_InboundConfigs c" Map.empty] show ?thesis
    unfolding inboundByTag_def by (rule finite_subset) simp
qed

text \<open>A loop that changes the inbound of each tag once changes each of them as it was.\<close>

lemma fold_update_at:
  assumes "distinct ts" "\<And>t k. byTag t = Some k \<Longrightarrow> updates t = Some (upd k)"
    and "inj_on byTag (dom byTag)" "set ts \<subseteq> dom byTag"
  shows "fold (update_inbound_at rng byTag updates) ts c =
    c\<lparr>xc_InboundConfigs :=
      map (\<lambda>(k, i). if \<exists>t \<in> set ts. byTag t = Some k then apply_update rng (upd k) i else i)
        (enumerate 0 (xc_InboundConfigs c))\<rparr>"
  using assms(1,4)
proof (induction ts arbitrary: c)
  case Nil
  have "map (\<lambda>(k, i). i) (enumerate 0 is) = is" for "is" :: "Inbound list"
    by (rule nth_equalityI) (simp_all add: nth_enumerate_eq)
  then show ?case by (simp add: case_prod_beta')
next
  case (Cons t ts)
  then obtain k where k: "byTag t = Some k" by auto
  let ?f = "\<lambda>k. apply_update rng (upd k)"
  let ?c = "update_inbound_at rng byTag updates t c"
  have c: "?c = c\<lparr>xc_InboundConfigs := (xc_InboundConfigs c)[k := ?f k (xc_InboundConfigs c ! k)]\<rparr>"
    by (simp add: update_inbound_at_def k assms(2) [OF k])
  have other: "byTag t' \<noteq> Some k" if "t' \<in> set ts" for t'
  proof
    assume "byTag t' = Some k"
    moreover have "t' \<in> dom byTag" "t \<in> dom byTag" "t' \<noteq> t" using that Cons.prems by auto
    ultimately show False using k inj_onD [OF assms(3), of t' t] by simp
  qed
  note IH = Cons.IH [of ?c]
  have "map (\<lambda>(j, i). if \<exists>t \<in> set ts. byTag t = Some j then ?f j i else i)
          (enumerate 0 ((xc_InboundConfigs c)[k := ?f k (xc_InboundConfigs c ! k)])) =
        map (\<lambda>(j, i). if \<exists>t' \<in> set (t # ts). byTag t' = Some j then ?f j i else i)
          (enumerate 0 (xc_InboundConfigs c))"
    (is "map ?g ?l = map ?h ?r")
  proof (rule nth_equalityI)
    fix j assume "j < length (map ?g ?l)"
    then have j: "j < length (xc_InboundConfigs c)" by simp
    show "map ?g ?l ! j = map ?h ?r ! j"
    proof (cases "j = k")
      case True
      then have "\<not> (\<exists>t' \<in> set ts. byTag t' = Some j)" using other by blast
      with True j k show ?thesis by (simp add: nth_enumerate_eq)
    next
      case False
      then have "byTag t \<noteq> Some j" using k by simp
      with False j show ?thesis by (simp add: nth_enumerate_eq)
    qed
  qed simp
  with IH Cons.prems c show ?case by simp
qed

text \<open>The update of a configuration, inbound by inbound.\<close>

lemma config_updateUsers_eq:
  assumes "go_range rng" "tags_ok c" "distinct (map u_Email users)"
    "\<forall>i \<in> set (xc_InboundConfigs c). cipher_known i"
  shows "config_updateUsers rng up users c =
    c\<lparr>xc_InboundConfigs :=
       map (\<lambda>i. if in_exclude i then i
                else i\<lparr>in_clients := \<lambda>e. if e \<in> u_Email ` set users then last_account up i users e
                                         else in_clients i e\<rparr>) (xc_InboundConfigs c)\<rparr>"
proof -
  let ?is = "xc_InboundConfigs c"
  let ?upd = "\<lambda>k. \<lparr>iu_accounts = List.map_filter (user_account up (?is ! k)) users,
     iu_removeEmailSet = {u_Email v | v. v \<in> set users \<and> user_account up (?is ! k) v = None}\<rparr>"
  let ?ts = "rng 0 (dom (inboundByTag c))"
  note tag = inboundByTag_iff [OF assms(2)]
  have ts: "distinct ?ts" "set ?ts = dom (inboundByTag c)" using assms(1) by simp_all
  have inj: "inj_on (inboundByTag c) (dom (inboundByTag c))"
    by (intro inj_onI) (metis domD tag)
  have "config_updateUsers rng up users c = c\<lparr>xc_InboundConfigs :=
      map (\<lambda>(k, i). if \<exists>t \<in> set ?ts. inboundByTag c t = Some k
                    then apply_update rng (?upd k) i
                    else i) (enumerate 0 ?is)\<rparr>"
    unfolding config_updateUsers_def buildInboundUpdates_eq prod.case Let_def
    by (rule fold_update_at [OF ts(1) _ inj]) (simp_all add: ts(2))
  moreover have "map (\<lambda>(k, i). if \<exists>t \<in> set ?ts. inboundByTag c t = Some k
                    then apply_update rng (?upd k) i
                    else i) (enumerate 0 ?is) =
      map (\<lambda>i. if in_exclude i then i
               else i\<lparr>in_clients := \<lambda>e. if e \<in> u_Email ` set users then last_account up i users e
                                        else in_clients i e\<rparr>) ?is" (is "map ?g ?l = map ?h ?is")
  proof (rule nth_equalityI)
    fix k assume "k < length (map ?g ?l)"
    then have k: "k < length ?is" by simp
    let ?i = "?is ! k"
    have "(\<exists>t \<in> set ?ts. inboundByTag c t = Some k) \<longleftrightarrow> \<not> in_exclude ?i"
      using k unfolding ts(2) by (auto simp: tag)
    moreover have "apply_update rng (?upd k) ?i =
        ?i\<lparr>in_clients := \<lambda>e. if e \<in> u_Email ` set users then last_account up ?i users e
                              else in_clients ?i e\<rparr>" (is "?u = ?v")
    proof -
      have "cipher_known ?i" using assms(4) k by simp
      then have "in_clients ?u = in_clients ?v"
        by (intro ext) (simp only: in_clients_updateUsers [OF _ assms(3,1) refl], simp)
      then show ?thesis by (simp add: apply_update_def inbound_updateUsers_def)
    qed
    ultimately show "map ?g ?l ! k = map ?h ?is ! k" using k by (simp add: nth_enumerate_eq)
  qed simp
  ultimately show ?thesis by simp
qed

lemma client_independent [simp]:
  "user_account up (i\<lparr>in_clients := m\<rparr>) u = user_account up i u"
  "last_account up (i\<lparr>in_clients := m\<rparr>) us e = last_account up i us e"
proof -
  have "user_account up (i\<lparr>in_clients := m\<rparr>) = user_account up i"
    by (rule ext) (simp add: user_account_def isActiveInbound_def ss2022_method_def setting_string_def)
  then show "user_account up (i\<lparr>in_clients := m\<rparr>) u = user_account up i u"
    "last_account up (i\<lparr>in_clients := m\<rparr>) us e = last_account up i us e"
    by (simp_all add: last_account_def Let_def)
qed

lemma cipher_known_independent [simp]: "cipher_known (i\<lparr>in_clients := m\<rparr>) = cipher_known i"
  by (simp add: cipher_known_def ss2022_method_def setting_string_def)

lemma last_account_filter:
  "last_account up i (filter (\<lambda>u. u_Email u \<notin> E) us) e = (if e \<in> E then None else last_account up i us e)"
  by (induction us rule: rev_induct)
     (auto simp: last_account_snoc, simp_all add: last_account_def)

text \<open>
  C12. The incremental update is the full synchronisation: updating a configuration that was
  synchronised with one list of users by a second list (of different e-mails) gives exactly the
  configuration synchronised with the first list, less the users named in the second, followed by the
  second list. The tags of the inbounds must differ and the 2022 ciphers be known ones.
\<close>

theorem update_equals_sync:
  assumes "go_range rng" "tags_ok c" "distinct (map u_Email users2)"
    "\<forall>i \<in> set (xc_InboundConfigs c). cipher_known i"
  shows "config_updateUsers rng up users2 (config_syncUsers up users1 c) =
    config_syncUsers up (filter (\<lambda>u. u_Email u \<notin> u_Email ` set users2) users1 @ users2) c"
proof -
  let ?c = "config_syncUsers up users1 c"
  have filt: "filter (\<lambda>i. \<not> in_exclude i) (map (\<lambda>i. if in_exclude i then i else inbound_syncUsers up users1 i) is) =
      map (inbound_syncUsers up users1) (filter (\<lambda>i. \<not> in_exclude i) is)" for "is"
    by (induction "is") (simp_all add: inbound_syncUsers_def)
  have "map in_Tag (filter (\<lambda>i. \<not> in_exclude i) (xc_InboundConfigs ?c)) =
      map in_Tag (filter (\<lambda>i. \<not> in_exclude i) (xc_InboundConfigs c))"
    by (simp add: config_syncUsers_def filt) (simp add: inbound_syncUsers_def)
  then have tags: "tags_ok ?c" using assms(2) by (simp add: tags_ok_def)
  have known: "\<forall>i \<in> set (xc_InboundConfigs ?c). cipher_known i"
    using assms(4) by (auto simp: config_syncUsers_def inbound_syncUsers_def)
  have merged: "(if e \<in> u_Email ` set users2 then last_account up i users2 e else last_account up i users1 e) =
      last_account up i (filter (\<lambda>u. u_Email u \<notin> u_Email ` set users2) users1 @ users2) e" for i e
    using last_account_notin [of e users2 up i]
    by (auto simp: last_account_append last_account_filter split: option.split)
  have merged': "(\<lambda>e. if e \<in> u_Email ` set users2 then last_account up i users2 e else last_account up i users1 e) =
      last_account up i (filter (\<lambda>u. u_Email u \<notin> u_Email ` set users2) users1 @ users2)" for i
    by (rule ext) (rule merged)
  have "(if in_exclude i then i else i\<lparr>in_clients := \<lambda>e. if e \<in> u_Email ` set users2
            then last_account up i users2 e else in_clients i e\<rparr>) =
        (if in_exclude j then j
         else inbound_syncUsers up (filter (\<lambda>u. u_Email u \<notin> u_Email ` set users2) users1 @ users2) j)"
    if "i = (if in_exclude j then j else inbound_syncUsers up users1 j)" for i j
  proof (cases "in_exclude j")
    case True
    with that show ?thesis by simp
  next
    case False
    have "in_clients (inbound_syncUsers up us j) = last_account up j us" for us
      by (rule in_clients_syncUsers)
    then have sync: "inbound_syncUsers up us j = j\<lparr>in_clients := last_account up j us\<rparr>" for us
      by (simp add: inbound_syncUsers_def)
    show ?thesis unfolding that using False by (simp add: sync merged' cong: if_cong)
  qed
  then show ?thesis
    unfolding config_updateUsers_eq [OF assms(1) tags assms(3) known]
    by (simp add: config_syncUsers_def)
qed

section \<open>The types of the accounts\<close>

definition clients_ok :: "Inbound \<Rightarrow> bool" where
  "clients_ok i \<longleftrightarrow> finite (dom (in_clients i)) \<and>
     (\<forall>e a. in_clients i e = Some a \<longrightarrow> GetEmail a = e \<and> account_typed i a)"

text \<open>Two inbounds that differ at most in their accounts, and in what the accounts do not depend on.\<close>

definition same_kind :: "Inbound \<Rightarrow> Inbound \<Rightarrow> bool" where
  "same_kind i i' \<longleftrightarrow> in_Tag i' = in_Tag i \<and> in_Protocol i' = in_Protocol i \<and>
     (\<forall>k. setting_string i' k = setting_string i k)"

lemma same_kind_client [simp]: "same_kind i (i\<lparr>in_clients := m\<rparr>)"
  by (simp add: same_kind_def setting_string_def)

lemma same_kind_typed: "same_kind i i' \<Longrightarrow> account_typed i' a = account_typed i a"
  by (simp add: same_kind_def account_typed_def client_type_def ss2022_method_def)

lemma same_kind_active:
  "same_kind i i' \<Longrightarrow> user_account up i' u = user_account up i u"
  by (simp add: same_kind_def user_account_def isActiveInbound_def ss2022_method_def)

lemma account_typed_client [simp]: "account_typed (i\<lparr>in_clients := m\<rparr>) a = account_typed i a"
  by (rule same_kind_typed) simp

lemma recheck_typed:
  "account_typed i a \<Longrightarrow> account_typed i (recheck i a) \<and> GetEmail (recheck i a) = GetEmail a"
  by (cases i rule: protocol_cases; cases a)
     (auto simp: account_typed_def client_type_def recheck_def checkShadowsocks2022_def protocols_distinct
       protocols_distinct [symmetric] split: if_splits option.splits)

lemma clients_ok_upd:
  "clients_ok i \<Longrightarrow> account_typed i a \<Longrightarrow> GetEmail a = e \<Longrightarrow>
   clients_ok (i\<lparr>in_clients := (in_clients i)(e \<mapsto> a)\<rparr>)"
  by (auto simp: clients_ok_def)

lemma clients_ok_del: "clients_ok i \<Longrightarrow> clients_ok (i\<lparr>in_clients := (in_clients i)(e := None)\<rparr>)"
  by (auto simp: clients_ok_def)

lemma clients_ok_syncUsers: "clients_ok (inbound_syncUsers up users i)"
proof -
  have "clients_ok (i\<lparr>in_clients := m\<rparr>) \<Longrightarrow> clients_ok (i\<lparr>in_clients := fold (sync_client up i) users m\<rparr>)" for m
  proof (induction users arbitrary: m)
    case (Cons u us)
    have "clients_ok (i\<lparr>in_clients := sync_client up i u m\<rparr>)"
    proof (cases "user_account up i u")
      case None
      then show ?thesis using Cons.prems by (simp add: sync_client_account)
    next
      case (Some a)
      then show ?thesis
        using clients_ok_upd [OF Cons.prems, of a "u_Email u"] user_account_typed [OF Some]
        by (simp add: sync_client_account)
    qed
    then show ?case using Cons.IH by simp
  qed simp
  from this [of Map.empty] show ?thesis
    by (simp add: inbound_syncUsers_def) (simp add: clients_ok_def)
qed

lemma clients_ok_updateUsers:
  assumes "clients_ok i" "\<forall>a \<in> set accounts. account_typed i a"
  shows "clients_ok (inbound_updateUsers accounts removed i)"
proof -
  have "clients_ok (i\<lparr>in_clients := m\<rparr>) \<Longrightarrow>
      clients_ok (i\<lparr>in_clients := fold (update_client i) accounts m\<rparr>)" for m
    using assms(2)
  proof (induction accounts arbitrary: m)
    case (Cons a as)
    then have "clients_ok (i\<lparr>in_clients := update_client i a m\<rparr>)"
      using clients_ok_upd [OF Cons.prems(1), of "recheck i a" "GetEmail a"] recheck_typed [of i a]
      by (simp add: update_client_typed)
    then show ?case using Cons by simp
  qed simp
  from this [of "in_clients i"] assms(1)
  have added: "clients_ok (i\<lparr>in_clients := fold (update_client i) accounts (in_clients i)\<rparr>)" by simp
  have "clients_ok (i\<lparr>in_clients := m\<rparr>) \<Longrightarrow>
      clients_ok (i\<lparr>in_clients := fold (\<lambda>e m. m(e := None)) removed m\<rparr>)" for m
  proof (induction removed arbitrary: m)
    case (Cons e es)
    have "clients_ok (i\<lparr>in_clients := m(e := None)\<rparr>)"
      using clients_ok_del [OF Cons.prems, of e] by simp
    then show ?case unfolding fold_Cons comp_apply by (rule Cons.IH)
  qed simp
  with added show ?thesis by (simp add: inbound_updateUsers_def)
qed

lemma updateUser_recheck:
  assumes "account_typed i a"
  shows "inbound_updateUser a i = i\<lparr>in_clients := (in_clients i)(GetEmail a \<mapsto> recheck i a)\<rparr>"
proof (cases a)
  case (AShadowsocks2022 s)
  with assms have "ss2022_method i \<noteq> None"
    by (cases "ss2022_method i") (auto simp: account_typed_def client_type_def split: if_splits)
  then obtain m where "setting_string i ''method'' = Some m" "ss2022_method i = Some m"
    by (auto simp: ss2022_method_def split: option.splits if_splits)
  with AShadowsocks2022 show ?thesis
    by (simp add: inbound_updateUser_def recheck_def)
qed (simp_all add: inbound_updateUser_def recheck_def)

lemma clients_ok_sync_inbound: "clients_ok i \<Longrightarrow> clients_ok (sync_inbound up u i)"
proof (cases "user_account up i u")
  case None
  then show "clients_ok i \<Longrightarrow> ?thesis"
    by (simp add: sync_inbound_def user_account_def inbound_removeUser_def clients_ok_del)
next
  case (Some a)
  note typed = user_account_typed [OF Some]
  show "clients_ok i \<Longrightarrow> ?thesis"
    using Some clients_ok_upd [of i "recheck i a" "GetEmail a"] recheck_typed [OF typed(1)]
    by (simp add: sync_inbound_def user_account_def [symmetric] updateUser_recheck [OF typed(1)])
qed

section \<open>Reachable configurations\<close>

text \<open>What encoding a configuration and decoding it again keeps.\<close>

definition clone_laws :: "js \<Rightarrow> bool" where
  "clone_laws j \<longleftrightarrow>
     (\<forall>c data. js_config j c = Inr data \<longrightarrow>
        (\<exists>c' is. js_unconfig j data = Inr (c', map Some is) \<and>
           list_all2 same_kind (xc_InboundConfigs c) is))"

inductive xc_reach :: "uuid_parser \<Rightarrow> XConfig \<Rightarrow> bool" for up where
  init: "distinct (map in_Tag (xc_InboundConfigs c)) \<Longrightarrow>
    \<forall>i \<in> set (xc_InboundConfigs c). in_clients i = Map.empty \<Longrightarrow> xc_reach up c"
| full: "xc_reach up c \<Longrightarrow> xc_reach up (config_syncUsers up users c)"
| partly: "xc_reach up c \<Longrightarrow> go_range rng \<Longrightarrow> xc_reach up (config_updateUsers rng up users c)"
| single: "xc_reach up c \<Longrightarrow> xc_reach up (config_syncUser up user c)"
| clone: "xc_reach up c \<Longrightarrow> clone_laws j \<Longrightarrow> Clone j (Some c) = Inr c' \<Longrightarrow> xc_reach up c'"

definition config_ok :: "XConfig \<Rightarrow> bool" where
  "config_ok c \<longleftrightarrow> distinct (map in_Tag (xc_InboundConfigs c)) \<and>
     (\<forall>i \<in> set (xc_InboundConfigs c). clients_ok i)"

lemma in_Tag_simps [simp]:
  "in_Tag (inbound_syncUsers up users i) = in_Tag i"
  "in_Tag (sync_inbound up u i) = in_Tag i"
  "in_Tag (apply_update rng upd i) = in_Tag i"
  by (simp_all add: inbound_syncUsers_def sync_inbound_def inbound_updateUser_def inbound_removeUser_def
      apply_update_def inbound_updateUsers_def Let_def split: option.split)

lemma config_ok_map:
  assumes "config_ok c" "\<And>i. in_Tag (f i) = in_Tag i" "\<And>i. clients_ok i \<Longrightarrow> clients_ok (f i)"
  shows "config_ok (c\<lparr>xc_InboundConfigs := map f (xc_InboundConfigs c)\<rparr>)"
  using assms by (auto simp: config_ok_def comp_def)

lemma config_ok_update_at:
  assumes "config_ok c" "updates t = Some upd" "byTag t = Some k"
    "k < length (xc_InboundConfigs c)" "\<forall>a \<in> set (iu_accounts upd). account_typed (xc_InboundConfigs c ! k) a"
  shows "config_ok (update_inbound_at rng byTag updates t c)"
proof -
  let ?is = "xc_InboundConfigs c"
  have "map in_Tag (?is[k := apply_update rng upd (?is ! k)]) = map in_Tag ?is"
    using assms(4) by (simp add: map_update) (metis list_update_id nth_map)
  moreover have "clients_ok (apply_update rng upd (?is ! k))"
    using assms by (auto simp: config_ok_def apply_update_def intro: clients_ok_updateUsers)
  ultimately show ?thesis
    using assms(1-4) by (auto simp: config_ok_def update_inbound_at_def dest!: subsetD [OF set_update_subset_insert])
qed

lemma config_ok_updateUsers:
  assumes "config_ok c"
  shows "config_ok (config_updateUsers rng up users c)"
proof -
  let ?is = "xc_InboundConfigs c"
  have mem: "inboundByTag c t = Some k \<Longrightarrow> k < length ?is" for t k
    using inbound_index_mem [of 0 ?is Map.empty t k] by (auto simp: inboundByTag_def)
  let ?upd = "\<lambda>k. \<lparr>iu_accounts = List.map_filter (user_account up (?is ! k)) users,
     iu_removeEmailSet = {u_Email v | v. v \<in> set users \<and> user_account up (?is ! k) v = None}\<rparr>"
  let ?updates = "\<lambda>tag. map_option ?upd (inboundByTag c tag)"
  have "config_ok (fold (update_inbound_at rng (inboundByTag c) ?updates) ts d) "
    if "config_ok d" "list_all2 same_kind ?is (xc_InboundConfigs d)" for ts d
    using that
  proof (induction ts arbitrary: d)
    case (Cons t ts)
    show ?case
    proof (cases "inboundByTag c t")
      case None
      then show ?thesis using Cons by (simp add: update_inbound_at_def)
    next
      case (Some k)
      note k = mem [OF Some]
      have kd: "k < length (xc_InboundConfigs d)" "same_kind (?is ! k) (xc_InboundConfigs d ! k)"
        using Cons.prems(2) k by (auto simp: list_all2_conv_all_nth)
      have "\<forall>a \<in> set (iu_accounts (?upd k)). account_typed (xc_InboundConfigs d ! k) a"
        using user_account_typed(1) same_kind_typed [OF kd(2)] by (auto simp: map_filter_set)
      then have ok: "config_ok (update_inbound_at rng (inboundByTag c) ?updates t d)"
        using Cons.prems(1) Some kd(1) by (intro config_ok_update_at) auto
      have "list_all2 same_kind ?is (xc_InboundConfigs (update_inbound_at rng (inboundByTag c) ?updates t d))"
        using Cons.prems(2) Some k kd
        by (auto simp: update_inbound_at_def list_all2_conv_all_nth nth_list_update apply_update_def
            inbound_updateUsers_def same_kind_def setting_string_def)
      with ok show ?thesis using Cons.IH by simp
    qed
  qed simp
  moreover have "list_all2 same_kind ?is ?is" by (simp add: list_all2_same same_kind_def)
  ultimately show ?thesis
    using assms by (simp add: config_updateUsers_def buildInboundUpdates_eq)
qed

lemma originalByTag_distinct:
  assumes "distinct (map in_Tag (xc_InboundConfigs c))" "i \<in> set (xc_InboundConfigs c)"
  shows "originalByTag c (in_Tag i) = Some i"
  unfolding originalByTag_def
  using fold_upd_distinct [OF assms, of "\<lambda>i. i" Map.empty] by simp

lemma Clone_inbounds:
  assumes "clone_laws j" "Clone j (Some c) = Inr c'" "distinct (map in_Tag (xc_InboundConfigs c))"
  shows "list_all2 (\<lambda>i i'. same_kind i i' \<and> in_exclude i' = in_exclude i \<and> in_clients i' = in_clients i)
    (xc_InboundConfigs c) (xc_InboundConfigs c')"
proof -
  obtain data where d: "js_config j c = Inr data"
    using assms(2) by (auto simp: Clone_def split: sum.splits)
  with assms(1) obtain cl "is" where "is": "js_unconfig j data = Inr (cl, map Some is)"
    "list_all2 same_kind (xc_InboundConfigs c) is" unfolding clone_laws_def by blast
  have c': "xc_InboundConfigs c' = map (\<lambda>i. case originalByTag c (in_Tag i) of
        None \<Rightarrow> i\<lparr>in_clients := Map.empty\<rparr>
      | Some original \<Rightarrow> i\<lparr>in_exclude := in_exclude original, in_clients := cloneClients (in_clients original)\<rparr>) is"
    using assms(2) d "is"(1) by (auto simp: Clone_def comp_def split: option.split)
  show ?thesis
    unfolding list_all2_conv_all_nth
  proof (intro conjI allI impI)
    show "length (xc_InboundConfigs c) = length (xc_InboundConfigs c')"
      using "is"(2) c' by (simp add: list_all2_lengthD)
    fix n assume n: "n < length (xc_InboundConfigs c)"
    let ?i = "xc_InboundConfigs c ! n"
    have kind: "same_kind ?i (is ! n)" and len: "n < length is"
      using "is"(2) n by (simp_all add: list_all2_conv_all_nth)
    have "originalByTag c (in_Tag (is ! n)) = Some ?i"
      using originalByTag_distinct [OF assms(3), of ?i] n kind by (simp add: same_kind_def)
    then have new: "xc_InboundConfigs c' ! n =
        (is ! n)\<lparr>in_exclude := in_exclude ?i, in_clients := cloneClients (in_clients ?i)\<rparr>"
      using c' len by simp
    have "cloneClients m = m" for m
      by (rule ext) (simp add: cloneClients_def cloneAccount_def [abs_def] option.map_ident)
    with new kind show "same_kind ?i (xc_InboundConfigs c' ! n)"
      "in_exclude (xc_InboundConfigs c' ! n) = in_exclude ?i"
      "in_clients (xc_InboundConfigs c' ! n) = in_clients ?i"
      by (simp_all add: same_kind_def setting_string_def)
  qed
qed

lemma config_ok_Clone:
  assumes "clone_laws j" "Clone j (Some c) = Inr c'" "config_ok c"
  shows "config_ok c'"
proof -
  have "distinct (map in_Tag (xc_InboundConfigs c))" using assms(3) by (simp add: config_ok_def)
  note all = Clone_inbounds [OF assms(1,2) this]
  have "map in_Tag (xc_InboundConfigs c') = map in_Tag (xc_InboundConfigs c)"
    using all by (intro nth_equalityI) (auto simp: list_all2_conv_all_nth same_kind_def)
  moreover have "clients_ok i'" if "i' \<in> set (xc_InboundConfigs c')" for i'
  proof -
    from that obtain n where n: "n < length (xc_InboundConfigs c')" "i' = xc_InboundConfigs c' ! n"
      by (auto simp: in_set_conv_nth)
    define i where "i = xc_InboundConfigs c ! n"
    have "i \<in> set (xc_InboundConfigs c)"
      using n list_all2_lengthD [OF all] by (simp add: i_def)
    moreover have "same_kind i i'" "in_clients i' = in_clients i"
      using list_all2_nthD2 [OF all n(1)] n(2) by (simp_all add: i_def)
    ultimately have i: "i \<in> set (xc_InboundConfigs c)" "same_kind i i'" "in_clients i' = in_clients i" .
    then have "clients_ok i" using assms(3) by (simp add: config_ok_def)
    then show ?thesis using i(2,3) same_kind_typed by (auto simp: clients_ok_def)
  qed
  ultimately show ?thesis using assms(3) by (simp add: config_ok_def)
qed

lemma xc_reach_ok: "xc_reach up c \<Longrightarrow> config_ok c"
proof (induction rule: xc_reach.induct)
  case (init c)
  then show ?case by (simp add: config_ok_def clients_ok_def)
next
  case (full c users)
  show ?case
    unfolding config_syncUsers_def by (rule config_ok_map [OF full.IH]) (simp_all add: clients_ok_syncUsers)
next
  case (partly c rng users)
  then show ?case by (simp add: config_ok_updateUsers)
next
  case (single c user)
  show ?case
    unfolding config_syncUser_def by (rule config_ok_map [OF single.IH]) (simp_all add: clients_ok_sync_inbound)
next
  case (clone c j c')
  then show ?case by (blast intro: config_ok_Clone)
qed

section \<open>Properties\<close>

text \<open>
  C14. A full synchronisation leaves in every inbound that is not excluded exactly the accounts of the
  eligible users, and nothing else changes: under each e-mail stands the account that the
  independent test \<^verbatim>\<open>isActiveInbound\<close> gives the last listed user of that e-mail who has one.
\<close>

theorem config_syncUsers_exact:
  "config_syncUsers up users c =
     c\<lparr>xc_InboundConfigs :=
        map (\<lambda>i. if in_exclude i then i
                 else i\<lparr>in_clients := \<lambda>e.
                   (let us = filter (\<lambda>u. u_Email u = e \<and>
                              isActiveInbound i (u_Inbounds u) (setupUserAccount up u) \<noteq> None) users
                    in if us = [] then None
                       else isActiveInbound i (u_Inbounds (last us)) (setupUserAccount up (last us)))\<rparr>)
          (xc_InboundConfigs c)\<rparr>"
proof -
  have "inbound_syncUsers up users i = i\<lparr>in_clients := last_account up i users\<rparr>" for i
    using in_clients_syncUsers [of up users i] by (simp add: inbound_syncUsers_def)
  moreover have "last_account up i users = (\<lambda>e.
      (let us = filter (\<lambda>u. u_Email u = e \<and>
                 isActiveInbound i (u_Inbounds u) (setupUserAccount up u) \<noteq> None) users
       in if us = [] then None
          else isActiveInbound i (u_Inbounds (last us)) (setupUserAccount up (last us))))" for i
    by (rule ext) (simp only: last_account_def user_account_def)
  ultimately show ?thesis by (simp add: config_syncUsers_def)
qed


section \<open>Witnesses\<close>

definition ex_uuid_Parse :: uuid_parser where
  "ex_uuid_Parse s = Inl (errors_New ''invalid UUID length'')"

definition trojan_user :: "string \<Rightarrow> string list \<Rightarrow> User" where
  "trojan_user e inbounds =
     \<lparr>u_Email = e,
      u_Proxies = Some \<lparr>px_Vmess = None, px_Vless = None, px_Trojan = Some \<lparr>trojan_Password = ''p'' @ e\<rparr>,
                        px_Shadowsocks = None, px_Wireguard = None, px_Hysteria = None\<rparr>,
      u_Inbounds = inbounds\<rparr>"

definition ex_trojan :: Inbound where
  "ex_trojan =
     \<lparr>in_Tag = ''t'', in_Listen = [], in_Port = AInt 443, in_Protocol = ''trojan'', in_Settings = None,
      in_StreamSettings = None, in_Sniffing = ANil, in_Allocation = None, in_exclude = False,
      in_clients = Map.empty\<rparr>"

definition ex_tconfig :: XConfig where
  "ex_tconfig =
     \<lparr>xc_LogConfig = None, xc_RouterConfig = None, xc_DNSConfig = None,
      xc_InboundConfigs = [ex_trojan], xc_OutboundConfigs = ANil, xc_Policy = None, xc_API = None,
      xc_Metrics = None, xc_Reverse = None, xc_FakeDNS = None, xc_Observatory = None,
      xc_BurstObservatory = None\<rparr>"

theorem update_equals_sync_witness:
  "config_updateUsers asc_iter ex_uuid_Parse [trojan_user ''b'' []]
     (config_syncUsers ex_uuid_Parse [trojan_user ''a'' [''t''], trojan_user ''b'' [''t'']] ex_tconfig) =
   config_syncUsers ex_uuid_Parse [trojan_user ''a'' [''t''], trojan_user ''b'' []] ex_tconfig"
proof -
  have "tags_ok ex_tconfig" "\<forall>i \<in> set (xc_InboundConfigs ex_tconfig). cipher_known i"
    "distinct (map u_Email [trojan_user ''b'' []])"
    by (simp_all add: tags_ok_def ex_tconfig_def ex_trojan_def cipher_known_def ss2022_method_def
        setting_string_def)
  from update_equals_sync [OF go_range_asc this(1,3,2), of ex_uuid_Parse
      "[trojan_user ''a'' [''t''], trojan_user ''b'' [''t'']]"]
  show ?thesis by (simp add: trojan_user_def)
qed


end
