(* ===== verification/XrayApplyProps.thy ===== *)
theory XrayApplyProps
  imports XrayApply
begin

text \<open>
  What \<^verbatim>\<open>ApplyAPI\<close> guarantees of a configuration it accepts, and the case in which its loop over the
  inbounds panics.
\<close>

section \<open>The JSON library\<close>

text \<open>The values that decoding JSON into \<^verbatim>\<open>any\<close> gives.\<close>

inductive json_value :: "go_any \<Rightarrow> bool" where
  "json_value ANil"
| "json_value (ABool b)"
| "json_value (ANum n)"
| "json_value (AStr s)"
| "\<forall>v \<in> set l. json_value v \<Longrightarrow> json_value (AList l)"
| "\<forall>v \<in> ran m. json_value v \<Longrightarrow> json_value (AMap m)"

inductive_cases json_value_listE: "json_value (AList l)"

definition json_laws :: "js \<Rightarrow> bool" where
  "json_laws j \<longleftrightarrow>
     (\<forall>raw obj. js_rule j raw = Inr obj \<longrightarrow> (\<forall>v \<in> ran obj. json_value v)) \<and>
     (\<forall>raw obj. (\<forall>v \<in> ran obj. json_value v) \<and> js_marshal j obj = Inr raw \<longrightarrow> js_rule j raw = Inr obj)"

section \<open>Rules\<close>

definition rule_kept :: "js \<Rightarrow> string \<Rightarrow> string \<Rightarrow> bool" where
  "rule_kept j apiTag raw \<longleftrightarrow>
     (\<exists>obj. js_rule j raw = Inr obj \<and> str_field obj ''outboundTag'' \<noteq> Some apiTag \<and>
        str_field obj ''ruleTag'' \<noteq> Some malformedDomainGuardRuleTag)"

lemma filterRules_kept:
  "filterRules j rules apiTag = Inr fs \<Longrightarrow>
   fs = filter (rule_kept j apiTag) rules \<and> (\<forall>raw \<in> set rules. \<exists>obj. js_rule j raw = Inr obj)"
proof (induction rules arbitrary: fs)
  case (Cons raw rules)
  then obtain obj gs where "js_rule j raw = Inr obj" "filterRules j rules apiTag = Inr gs"
    by (auto split: sum.splits)
  with Cons show ?case by (auto simp: rule_kept_def split: if_splits)
qed simp

lemma normalizeGeoIPPrivateRules_all:
  "normalizeGeoIPPrivateRules j rules = Inr ns \<Longrightarrow>
   list_all2 (\<lambda>raw raw'. normalize_rule j raw = Inr raw') rules ns"
  by (induction rules arbitrary: ns) (auto split: sum.splits)

definition no_geoip_private :: "go_obj \<Rightarrow> bool" where
  "no_geoip_private obj \<longleftrightarrow>
     (\<forall>k \<in> {''ip'', ''source''}. \<forall>l. obj k = Some (AList l) \<longrightarrow> \<not> list_ex is_geoip_private l)"

lemma cidr_not_private: "c \<in> set privateCIDRs \<Longrightarrow> \<not> is_geoip_private (AStr c)"
proof -
  have "list_all (\<lambda>c. \<not> is_geoip_private (AStr c)) privateCIDRs" by code_simp
  then show "c \<in> set privateCIDRs \<Longrightarrow> \<not> is_geoip_private (AStr c)" by (simp add: list_all_iff)
qed

lemma replaceGeoIPPrivate_clean:
  assumes "replaceGeoIPPrivate v = (v', changed)"
  shows "(\<forall>l. v' = AList l \<longrightarrow> \<not> list_ex is_geoip_private l) \<and>
    (\<not> changed \<longrightarrow> v' = v) \<and> (json_value v \<longrightarrow> json_value v')"
proof (cases "\<exists>l. v = AList l \<and> list_ex is_geoip_private l")
  case False
  with assms show ?thesis
    by (cases v) (auto simp: replaceGeoIPPrivate_def as_list_def)
next
  case True
  then obtain l where l: "v = AList l" "list_ex is_geoip_private l" by blast
  then have v': "v' = AList (concat (map (\<lambda>e. if is_geoip_private e then map AStr privateCIDRs else [e]) l))"
    "changed" using assms by (auto simp: replaceGeoIPPrivate_def as_list_def)
  then show ?thesis
    using l cidr_not_private
    by (auto simp: list_ex_iff split: if_splits elim!: json_value_listE intro!: json_value.intros)
qed

lemma normalize_field_spec:
  assumes "normalize_field k (obj, ch) = (obj', ch')"
  shows "(\<forall>l. obj' k = Some (AList l) \<longrightarrow> \<not> list_ex is_geoip_private l) \<and>
    (\<forall>k'. k' \<noteq> k \<longrightarrow> obj' k' = obj k') \<and> (ch \<longrightarrow> ch') \<and> (\<not> ch' \<longrightarrow> obj' = obj) \<and>
    ((\<forall>v \<in> ran obj. json_value v) \<longrightarrow> (\<forall>v \<in> ran obj'. json_value v))"
proof (cases "obj k")
  case None
  with assms show ?thesis by (auto simp: normalize_field_def)
next
  case (Some v)
  obtain v' b where v': "replaceGeoIPPrivate v = (v', b)" by fastforce
  with assms Some have *: "obj' = (if b then obj(k \<mapsto> v') else obj)" "ch' = (b \<or> ch)"
    by (auto simp: normalize_field_def split: if_splits)
  note clean = replaceGeoIPPrivate_clean [OF v']
  show ?thesis
  proof (cases b)
    case True
    then show ?thesis using * clean Some by (auto simp: ran_def)
  next
    case False
    then show ?thesis using * clean Some by auto
  qed
qed

lemmas normalize_field_json =
  normalize_field_spec [THEN conjunct2, THEN conjunct2, THEN conjunct2, THEN conjunct2, rule_format]

lemmas normalize_field_unchanged =
  normalize_field_spec [THEN conjunct2, THEN conjunct2, THEN conjunct2, THEN conjunct1, rule_format]

lemma normalize_rule_clean:
  assumes "json_laws j" "normalize_rule j raw = Inr raw'"
  shows "\<exists>obj obj'. js_rule j raw = Inr obj \<and> js_rule j raw' = Inr obj' \<and> no_geoip_private obj' \<and>
    (\<forall>k. k \<notin> {''ip'', ''source''} \<longrightarrow> obj' k = obj k) \<and> (no_geoip_private obj \<longrightarrow> obj' = obj)"
proof -
  obtain obj where obj: "js_rule j raw = Inr obj"
    using assms(2) by (auto simp: normalize_rule_def split: sum.splits)
  obtain o1 c1 where n1: "normalize_field ''ip'' (obj, False) = (o1, c1)" by fastforce
  obtain o2 c2 where n2: "normalize_field ''source'' (o1, c1) = (o2, c2)" by fastforce
  note s1 = normalize_field_spec [OF n1] and s2 = normalize_field_spec [OF n2]
  have "\<forall>v \<in> ran obj. json_value v" using assms(1) obj unfolding json_laws_def by blast
  then have json: "\<forall>v \<in> ran o2. json_value v"
    using normalize_field_json [OF n1] normalize_field_json [OF n2] by blast
  have "js_rule j raw' = Inr o2"
  proof (cases c2)
    case True
    with assms(2) obj n1 n2 have "js_marshal j o2 = Inr raw'"
      by (auto simp: normalize_rule_def split: sum.splits)
    with json assms(1) show ?thesis by (simp add: json_laws_def)
  next
    case False
    have "\<not> c1" using False s2 by blast
    then have "o2 = obj"
      using normalize_field_unchanged [OF n1] normalize_field_unchanged [OF n2 False] by simp
    moreover from False assms(2) obj n1 n2 have "raw' = raw" by (auto simp: normalize_rule_def)
    ultimately show ?thesis using obj by simp
  qed
  moreover have "no_geoip_private o2"
    using s1 s2 by (auto simp: no_geoip_private_def)
  moreover have "o2 = obj" if "no_geoip_private obj"
  proof -
    have same: "normalize_field k (m, b) = (m, b)" if "k \<in> {''ip'', ''source''}" "no_geoip_private m" for k m b
    proof (cases "m k")
      case (Some v)
      then have "\<not> (\<exists>l. v = AList l \<and> list_ex is_geoip_private l)"
        using that by (auto simp: no_geoip_private_def)
      then have "replaceGeoIPPrivate v = (v, False)"
        by (cases v) (auto simp: replaceGeoIPPrivate_def as_list_def)
      with Some show ?thesis by (simp add: normalize_field_def)
    qed (simp add: normalize_field_def)
    show ?thesis using same [OF _ that] n1 n2 by auto
  qed
  moreover have "o2 k = obj k" if "k \<notin> {''ip'', ''source''}" for k
    using s1 s2 that by (metis insertCI)
  ultimately show ?thesis using obj by (intro exI [of _ obj] exI [of _ o2]) simp
qed

section \<open>ApplyAPI\<close>

lemma remove_api_inbound_filter:
  assumes "length (filter (\<lambda>i. in_Tag i = ''API_INBOUND'') is) \<le> 1"
  shows "remove_api_inbound is = Inr (filter (\<lambda>i. in_Tag i \<noteq> ''API_INBOUND'') is)"
proof (cases "\<exists>a \<in> set is. in_Tag a = ''API_INBOUND''")
  case False
  then show ?thesis by (simp add: remove_api_inbound_none filter_id_conv)
next
  case True
  then obtain xs a ys where "is": "is = xs @ a # ys" "in_Tag a = ''API_INBOUND''"
    by (meson in_set_conv_decomp)
  with assms have "\<forall>i \<in> set (xs @ ys). in_Tag i \<noteq> ''API_INBOUND''"
    by (auto simp: filter_empty_conv)
  with "is" remove_api_inbound_one [OF "is" this] show ?thesis by (simp add: filter_id_conv)
qed

text \<open>The parts of a successful run of \<^verbatim>\<open>ApplyAPI\<close>.\<close>

lemma checkPolicy_inbounds:
  "checkPolicy c = Inr c' \<Longrightarrow> xc_InboundConfigs c' = xc_InboundConfigs c \<and> xc_API c' = xc_API c"
  by (auto simp: checkPolicy_def split: sum.splits)

lemma sanitizeObservatorySelectors_keeps [simp]:
  "xc_InboundConfigs (sanitizeObservatorySelectors c) = xc_InboundConfigs c"
  "xc_API (sanitizeObservatorySelectors c) = xc_API c"
  "xc_RouterConfig (sanitizeObservatorySelectors c) = xc_RouterConfig c"
  by (simp_all add: sanitizeObservatorySelectors_def Let_def)

definition user_services :: "XConfig \<Rightarrow> string list" where
  "user_services c = (case xc_API c of None \<Rightarrow> [] | Some a \<Rightarrow> api_Services a)"

definition user_rules :: "XConfig \<Rightarrow> string list" where
  "user_rules c = (case xc_RouterConfig c of None \<Rightarrow> [] | Some r \<Rightarrow> rt_RuleList r)"

lemma ApplyAPI_parts:
  assumes "ApplyAPI j rng ifaces apiPort metricPort c = Inr c'"
  shows "\<exists>inbounds normalized filtered raw guards rt.
    remove_api_inbound (xc_InboundConfigs c) = Inr inbounds \<and>
    xc_InboundConfigs c' = api_inbound apiPort # inbounds \<and>
    xc_API c' = Some \<lparr>api_Tag = ''API'', api_Listen = [], api_Services = sanitizeAPIServices (user_services c)\<rparr> \<and>
    normalizeGeoIPPrivateRules j (user_rules c) = Inr normalized \<and>
    filterRules j normalized ''API'' = Inr filtered \<and>
    js_marshal j (api_rule ifaces) = Inr raw \<and>
    (guards = [] \<or> (\<exists>t g. t \<noteq> [] \<and> malformedDomainGuardRule j t = Inr g \<and> guards = [g])) \<and>
    xc_RouterConfig c' = Some rt \<and> rt_RuleList rt = raw # guards @ filtered"
proof -
  obtain inbounds where i: "remove_api_inbound (xc_InboundConfigs c) = Inr inbounds"
    using assms by (cases "remove_api_inbound (xc_InboundConfigs c)") (simp_all add: ApplyAPI_def)
  let ?services = "sanitizeAPIServices (user_services c)"
  let ?c1 = "c\<lparr>xc_InboundConfigs := inbounds,
     xc_API := Some \<lparr>api_Tag = ''API'', api_Listen = [], api_Services = ?services\<rparr>\<rparr>"
  define c2 where "c2 = (if ''ObservatoryService'' \<in> set ?services \<and> xc_Observatory ?c1 = None \<and>
       xc_BurstObservatory ?c1 = None
     then ?c1\<lparr>xc_Observatory := Some (defaultObservatory rng ?c1)\<rparr> else ?c1)"
  have c2: "xc_InboundConfigs c2 = inbounds" "xc_API c2 = xc_API ?c1" "xc_RouterConfig c2 = xc_RouterConfig c"
    by (simp_all add: c2_def)
  define c4 where "c4 = sanitizeObservatorySelectors
    (c2\<lparr>xc_Metrics := Some [''tag'' \<mapsto> AStr ''metric'', ''listen'' \<mapsto> AStr (loopbackListenAddress metricPort)]\<rparr>)"
  have c4: "xc_InboundConfigs c4 = inbounds" "xc_API c4 = xc_API ?c1" "xc_RouterConfig c4 = xc_RouterConfig c"
    using c2 by (simp_all add: c4_def)
  define router where "router = (case xc_RouterConfig c4 of None \<Rightarrow> \<lparr>rt_RuleList = [], rt_other = []\<rparr> | Some r \<Rightarrow> r)"
  have rules: "rt_RuleList router = user_rules c"
    by (simp add: router_def c4 user_rules_def split: option.split)
  note run = assms [unfolded ApplyAPI_def i sum.case, folded user_services_def,
      unfolded Let_def, folded c2_def, folded c4_def, folded router_def, unfolded rules]
  obtain normalized where n: "normalizeGeoIPPrivateRules j (user_rules c) = Inr normalized"
    using run by (cases "normalizeGeoIPPrivateRules j (user_rules c)") simp_all
  obtain filtered where f: "filterRules j normalized ''API'' = Inr filtered"
    using run n by (cases "filterRules j normalized ''API''") simp_all
  obtain c5 where c5: "checkPolicy c4 = Inr c5"
    using run n f by (cases "checkPolicy c4") simp_all
  obtain raw where raw: "js_marshal j (api_rule ifaces) = Inr raw"
    using run n f c5 by (cases "js_marshal j (api_rule ifaces)") simp_all
  define c6 where "c6 = c5\<lparr>xc_InboundConfigs := api_inbound apiPort # xc_InboundConfigs c5\<rparr>"
  let ?t = "blackholeOutboundTag rng c6"
  obtain guards where g: "(if ?t = [] then Inr [raw]
      else map_sum id (\<lambda>g. [raw, g]) (malformedDomainGuardRule j ?t)) = Inr (raw # guards)"
    and g': "guards = [] \<or> (\<exists>t g. t \<noteq> [] \<and> malformedDomainGuardRule j t = Inr g \<and> guards = [g])"
    using run n f c5 raw
    by (cases "malformedDomainGuardRule j ?t") (auto simp: c6_def split: if_splits)
  have "c' = c6\<lparr>xc_RouterConfig := Some (router\<lparr>rt_RuleList := (raw # guards) @ filtered\<rparr>)\<rparr>"
    using run [unfolded n f c5 raw sum.case, folded c6_def, unfolded g sum.case] by simp
  with i n f raw g' checkPolicy_inbounds [OF c5] c4 show ?thesis
    by (rule_tac x = inbounds in exI, rule_tac x = normalized in exI, rule_tac x = filtered in exI,
        rule_tac x = raw in exI, rule_tac x = guards in exI,
        rule_tac x = "router\<lparr>rt_RuleList := (raw # guards) @ filtered\<rparr>" in exI) (simp add: c6_def)
qed


text \<open>
  C23. A configuration whose last two inbounds both carry the tag \<^verbatim>\<open>API_INBOUND\<close> makes \<^verbatim>\<open>ApplyAPI\<close>
  panic, whatever else it holds: the removal loop shortens the slice while the range statement goes
  on over the old length.
\<close>

theorem ApplyAPI_duplicate_panics:
  assumes "xc_InboundConfigs c = xs @ [a, b]" "in_Tag a = ''API_INBOUND''" "in_Tag b = ''API_INBOUND''"
    and "\<forall>i \<in> set xs. in_Tag i \<noteq> ''API_INBOUND''"
  shows "ApplyAPI j rng ifaces apiPort metricPort c = Inl (go_panic ''slice bounds out of range'')"
proof -
  let ?m = "length xs"
  have "remove_api_loop 0 (?m - 0 + 2) (xs @ [a, b]) (?m + 2) =
      remove_api_loop ?m 2 (xs @ [a, b]) (?m + 2)"
    using assms(4) by (intro remove_api_loop_skip) (simp_all add: nth_append)
  also have "\<dots> = Inl (go_panic ''slice bounds out of range'')"
    using assms(2,3) by (simp add: numeral_2_eq_2 nth_append)
  finally show ?thesis
    using assms(1) by (simp add: ApplyAPI_def remove_api_inbound_def)
qed

section \<open>Witnesses\<close>

text \<open>A JSON library on the few texts of the witnesses.\<close>

definition ex_rule :: go_obj where
  "ex_rule = [''ip'' \<mapsto> AList [AStr ''geoip:private''], ''outboundTag'' \<mapsto> AStr ''direct'']"

definition ex_rule' :: go_obj where
  "ex_rule' = [''ip'' \<mapsto> AList (map AStr privateCIDRs), ''outboundTag'' \<mapsto> AStr ''direct'']"

definition ex_js :: js where
  "ex_js =
     \<lparr>js_rule = (\<lambda>raw. if raw = ''R'' then Inr ex_rule else if raw = ''N'' then Inr ex_rule'
                      else if raw = ''X'' then Inr [''outboundTag'' \<mapsto> AStr ''API'']
                      else Inl (errors_New ''invalid character'')),
      js_marshal = (\<lambda>obj. if obj ''ip'' = ex_rule' ''ip'' then (if obj = ex_rule' then Inr ''N'' else Inl (errors_New ''unsupported''))
                         else (case obj ''inboundTag'' of Some (AStrs _) \<Rightarrow> Inr ''A''
                               | _ \<Rightarrow> Inl (errors_New ''unsupported''))),
      js_config = (\<lambda>_. Inr ''C''),
      js_unconfig = (\<lambda>_. Inl (errors_New ''unexpected end of JSON input''))\<rparr>"

lemma json_value_strs: "\<not> json_value (AStrs ss)"
  by (auto elim: json_value.cases)

definition ex_objs :: "go_obj set" where
  "ex_objs = {ex_rule, ex_rule', [''outboundTag'' \<mapsto> AStr ''API'']}"

lemma ex_js_laws: "json_laws ex_js"
  unfolding json_laws_def
proof (intro conjI allI impI)
  fix raw obj
  assume "js_rule ex_js raw = Inr obj"
  then have "obj \<in> ex_objs" by (auto simp: ex_js_def ex_objs_def split: if_splits)
  then show "\<forall>v \<in> ran obj. json_value v"
    by (auto simp: ex_objs_def ex_rule_def ex_rule'_def intro!: json_value.intros)
next
  fix raw obj
  assume *: "(\<forall>v \<in> ran obj. json_value v) \<and> js_marshal ex_js obj = Inr raw"
  then have "\<not> (\<exists>ss. obj ''inboundTag'' = Some (AStrs ss))"
    using json_value_strs by (auto simp: ran_def)
  with conjunct2 [OF *] have "obj = ex_rule'" "raw = ''N''"
    by (auto simp: ex_js_def split: if_splits option.splits go_any.splits)
  then show "js_rule ex_js raw = Inr obj" by (simp add: ex_js_def)
qed

definition ex_inbound :: "string \<Rightarrow> string \<Rightarrow> Inbound" where
  "ex_inbound tag protocol =
     \<lparr>in_Tag = tag, in_Listen = [], in_Port = AInt 443, in_Protocol = protocol, in_Settings = None,
      in_StreamSettings = None, in_Sniffing = ANil, in_Allocation = None, in_exclude = False,
      in_clients = Map.empty\<rparr>"

definition ex_xconfig :: XConfig where
  "ex_xconfig =
     \<lparr>xc_LogConfig = None, xc_RouterConfig = Some \<lparr>rt_RuleList = [''R'', ''X''], rt_other = []\<rparr>,
      xc_DNSConfig = None,
      xc_InboundConfigs = [ex_inbound ''in'' ''vless'', ex_inbound ''API_INBOUND'' ''dokodemo-door'',
                           ex_inbound ''in2'' ''trojan''],
      xc_OutboundConfigs = ANil, xc_Policy = None, xc_API = None, xc_Metrics = None,
      xc_Reverse = None, xc_FakeDNS = None, xc_Observatory = None, xc_BurstObservatory = None\<rparr>"

lemma ex_ApplyAPI: "\<exists>c'. ApplyAPI ex_js asc_iter None 8080 9090 ex_xconfig = Inr c'"
proof -
  have r: "remove_api_inbound (xc_InboundConfigs ex_xconfig) =
      Inr [ex_inbound ''in'' ''vless'', ex_inbound ''in2'' ''trojan'']"
    by (simp add: remove_api_inbound_filter ex_xconfig_def ex_inbound_def)
  have o: "outboundProtocolByTag c = Map.empty" if "xc_OutboundConfigs c = ANil" for c
    using that by (simp add: outboundProtocolByTag_def as_list_def)
  have s: "''ObservatoryService'' \<notin> set (sanitizeAPIServices [])"
    by (simp add: sanitizeAPIServices_eq asked_services_def) (simp add: requiredAPIServices_def)
  have priv: "is_geoip_private (AStr ''geoip:private'')" by code_simp
  have n1: "normalize_rule ex_js ''R'' = Inr ''N''"
    by (simp add: normalize_rule_def normalize_field_def replaceGeoIPPrivate_def as_list_def priv
        ex_js_def ex_rule_def ex_rule'_def fun_upd_twist)
  have n2: "normalize_rule ex_js ''X'' = Inr ''X''"
    by (simp add: normalize_rule_def normalize_field_def ex_js_def)
  have f: "filterRules ex_js [''N'', ''X''] ''API'' = Inr [''N'']"
    by (simp add: ex_js_def ex_rule'_def str_field_def as_string_def)
  have m: "js_marshal ex_js (api_rule None) = Inr ''A''"
    by (simp add: ex_js_def api_rule_def ex_rule'_def)
  have p: "checkPolicy c = Inr (c\<lparr>xc_Policy := Some \<lparr>pc_Levels = Some [0 \<mapsto> Some default_policy],
      pc_System = Some \<lparr>sp_StatsInboundDownlink = False, sp_StatsInboundUplink = False,
        sp_StatsOutboundDownlink = True, sp_StatsOutboundUplink = True\<rparr>\<rparr>\<rparr>)" if "xc_Policy c = None" for c
    using that by (simp add: checkPolicy_def check_levels_def)
  have n: "normalizeGeoIPPrivateRules ex_js [''R'', ''X''] = Inr [''N'', ''X'']"
    by (simp add: n1 n2)
  show ?thesis
    unfolding ApplyAPI_def r sum.case
    by (simp add: ex_xconfig_def o s n f m p sanitizeObservatorySelectors_def
        blackholeOutboundTag_def Let_def del: filterRules.simps normalizeGeoIPPrivateRules.simps)
qed


theorem ApplyAPI_duplicate_panics_witness:
  "ApplyAPI ex_js asc_iter None 8080 9090
     (ex_xconfig\<lparr>xc_InboundConfigs := [ex_inbound ''in'' ''vless'',
        ex_inbound ''API_INBOUND'' ''dokodemo-door'', ex_inbound ''API_INBOUND'' ''dokodemo-door'']\<rparr>) =
   Inl (go_panic ''slice bounds out of range'')"
  by (rule ApplyAPI_duplicate_panics [where xs = "[ex_inbound ''in'' ''vless'']"
      and a = "ex_inbound ''API_INBOUND'' ''dokodemo-door''" and b = "ex_inbound ''API_INBOUND'' ''dokodemo-door''"])
     (simp_all add: ex_inbound_def)

end
