(* ===== verification/XrayProcess.thy ===== *)
theory XrayProcess
  imports NodeConfig
begin

text \<open>
  \<^verbatim>\<open>backend/xray/process_unix.go\<close>: finding and killing the Xray processes of the host. What the
  operating system answers is the record \<open>psys\<close> of functions on a world. The lemmas say which
  processes a kill can send a signal to.
\<close>

section \<open>The operating system\<close>

datatype go_signal = SIG0 | SIGTERM | SIGKILL

text \<open>
  \<open>po_ReadDirProc\<close> lists the entries of \<^verbatim>\<open>/proc\<close> with whether each is a directory; \<open>po_ps\<close> runs \<^verbatim>\<open>ps\<close>
  with the arguments and returns its output; \<open>po_Signal\<close> is \<^verbatim>\<open>(*os.Process).Signal\<close> and \<open>po_KillGroup\<close>
  is \<^verbatim>\<open>syscall.Kill\<close> on the negated number of a group. \<^verbatim>\<open>os.FindProcess\<close> is \<open>po_FindProcess\<close>.
\<close>

record 'w psys =
  po_linux :: bool
  po_Getpid :: int
  po_Abs :: "string \<Rightarrow> string result"
  po_EvalSymlinks :: "string \<Rightarrow> 'w \<Rightarrow> string result"
  po_ReadDirProc :: "'w \<Rightarrow> (string \<times> bool) list result"
  po_Readlink :: "string \<Rightarrow> 'w \<Rightarrow> string result"
  po_ReadFile :: "string \<Rightarrow> 'w \<Rightarrow> string result"
  po_ps :: "string list \<Rightarrow> 'w \<Rightarrow> string result"
  po_FindProcess :: "int \<Rightarrow> 'w \<Rightarrow> go_error option"
  po_Signal :: "int \<Rightarrow> go_signal \<Rightarrow> 'w \<Rightarrow> go_error option \<times> 'w"
  po_KillGroup :: "int \<Rightarrow> go_signal \<Rightarrow> 'w \<Rightarrow> 'w"
  po_Sleep :: "'w \<Rightarrow> 'w"

definition int_text :: "int \<Rightarrow> string" where
  "int_text n = (if n < 0 then ''-'' @ decimal (nat (- n)) else decimal (nat n))"

definition proc_path :: "int \<Rightarrow> string \<Rightarrow> string" where
  "proc_path pid file = ''/proc/'' @ int_text pid @ ''/'' @ file"

text \<open>\<^verbatim>\<open>filepath.Base\<close>\<close>

definition path_Base :: "string \<Rightarrow> string" where
  "path_Base p =
     (if p = [] then ''.''
      else (let s = rev (dropWhile (\<lambda>c. c = CHR ''/'') (rev p))
            in if s = [] then ''/'' else rev (takeWhile (\<lambda>c. c \<noteq> CHR ''/'') (rev s))))"

section \<open>Finding processes\<close>

record ProcessInfo =
  pi_PID :: int
  pi_PPID :: int
  pi_IsZombie :: bool

definition pathsMatch :: "'w psys \<Rightarrow> string \<Rightarrow> string \<Rightarrow> 'w \<Rightarrow> bool" where
  "pathsMatch s candidate target w =
     (if candidate = [] \<or> target = [] then False
      else (case (po_Abs s candidate, po_Abs s target) of
              (Inr candidateAbs, Inr targetAbs) \<Rightarrow>
                candidateAbs = targetAbs \<or>
                (case (po_EvalSymlinks s candidateAbs w, po_EvalSymlinks s targetAbs w) of
                   (Inr candidateReal, Inr targetReal) \<Rightarrow> candidateReal = targetReal
                 | _ \<Rightarrow> False)
            | _ \<Rightarrow> False))"

definition zombie_state :: "string \<Rightarrow> bool" where
  "zombie_state state \<longleftrightarrow> state = ''Z'' \<or> state = ''z''"

text \<open>One entry of \<^verbatim>\<open>/proc\<close>; \<open>None\<close> where the loop goes on.\<close>

definition proc_entry :: "'w psys \<Rightarrow> string \<Rightarrow> 'w \<Rightarrow> string \<times> bool \<Rightarrow> ProcessInfo option" where
  "proc_entry s absPath w entry =
     (if \<not> snd entry then None
      else (case Atoi (fst entry) of
              None \<Rightarrow> None
            | Some pid \<Rightarrow>
                (if pid \<le> 0 then None
                 else (case po_Readlink s (proc_path pid ''exe'') w of
                         Inl _ \<Rightarrow> None
                       | Inr exePath \<Rightarrow>
                           (if \<not> pathsMatch s exePath absPath w then None
                            else (case po_ReadFile s (proc_path pid ''stat'') w of
                                    Inl _ \<Rightarrow> None
                                  | Inr data \<Rightarrow>
                                      (let fields = Fields data
                                       in if length fields < 4 then None
                                          else (case Atoi (fields ! 3) of
                                                  None \<Rightarrow> None
                                                | Some ppid \<Rightarrow>
                                                    Some \<lparr>pi_PID = pid, pi_PPID = ppid,
                                                          pi_IsZombie = zombie_state (fields ! 2)\<rparr>))))))))"

definition findXrayProcessesFromProc :: "'w psys \<Rightarrow> string \<Rightarrow> 'w \<Rightarrow> ProcessInfo list result" where
  "findXrayProcessesFromProc s absPath w =
     (case po_ReadDirProc s w of
        Inl err \<Rightarrow> Inl err
      | Inr entries \<Rightarrow> Inr (List.map_filter (proc_entry s absPath w) entries))"

definition getProcessPath :: "'w psys \<Rightarrow> int \<Rightarrow> 'w \<Rightarrow> string result" where
  "getProcessPath s pid w =
     (case po_Readlink s (proc_path pid ''exe'') w of
        Inr path \<Rightarrow> Inr path
      | Inl err \<Rightarrow>
          (case po_ps s [''-p'', int_text pid, ''-o'', ''command=''] w of
             Inl psErr \<Rightarrow>
               Inl (GoErr Plain (''failed to read process path: '' @ Error_text err @
                 '' (ps fallback error: '' @ Error_text psErr @ '')'') (Some err))
           | Inr psOutput \<Rightarrow>
               (let cmdline = TrimSpace psOutput
                in case Fields cmdline of
                     [] \<Rightarrow> Inl (errors_New (''failed to read process path: empty command for pid '' @ int_text pid))
                   | f # _ \<Rightarrow> Inr f)))"

text \<open>One line of the output of \<^verbatim>\<open>ps\<close>.\<close>

definition ps_line :: "'w psys \<Rightarrow> string \<Rightarrow> 'w \<Rightarrow> string \<Rightarrow> ProcessInfo option" where
  "ps_line s absPath w line0 =
     (let line = TrimSpace line0
      in if line = [] \<or> HasPrefix line ''PID'' then None
         else (case Fields line of
                 pidStr # ppidStr # state # cmdPath # _ \<Rightarrow>
                   (case (Atoi pidStr, Atoi ppidStr) of
                      (Some pid, Some ppid) \<Rightarrow>
                        (let m1 = (case getProcessPath s pid w of
                                     Inr procPath \<Rightarrow> pathsMatch s procPath absPath w | Inl _ \<Rightarrow> False)
                         in if m1 \<or> pathsMatch s cmdPath absPath w \<or> path_Base cmdPath = path_Base absPath
                            then Some \<lparr>pi_PID = pid, pi_PPID = ppid, pi_IsZombie = zombie_state state\<rparr>
                            else None)
                    | _ \<Rightarrow> None)
               | _ \<Rightarrow> None))"

definition findXrayProcesses :: "'w psys \<Rightarrow> string \<Rightarrow> 'w \<Rightarrow> ProcessInfo list result" where
  "findXrayProcesses s executablePath w =
     (case po_Abs s executablePath of
        Inl err \<Rightarrow> Inl err
      | Inr absPath \<Rightarrow>
          (case (if po_linux s then findXrayProcessesFromProc s absPath w
                 else Inl (errors_New ''no /proc'')) of
             Inr procs \<Rightarrow> Inr procs
           | Inl _ \<Rightarrow>
               (case po_ps s [''-eo'', ''pid,ppid,state,command''] w of
                  Inl err \<Rightarrow> Inl (Errorf_w ''failed to list processes: '' err)
                | Inr output \<Rightarrow> Inr (List.map_filter (ps_line s absPath w) (Split output nl)))))"

section \<open>Killing processes\<close>

definition getProcessGroupID :: "'w psys \<Rightarrow> int \<Rightarrow> 'w \<Rightarrow> int result" where
  "getProcessGroupID s pid w =
     (case po_ReadFile s (proc_path pid ''stat'') w of
        Inl err \<Rightarrow> Inl err
      | Inr data \<Rightarrow>
          (let fields = Fields data
           in if length fields < 5 then Inl (errors_New ''invalid stat format'')
              else (case Atoi (fields ! 4) of
                      None \<Rightarrow> Inl (errors_New (''strconv.Atoi: parsing '' @ quoted (fields ! 4) @ '': invalid syntax''))
                    | Some pgid \<Rightarrow> Inr pgid)))"

definition isProcessRunning :: "'w psys \<Rightarrow> int \<Rightarrow> 'w \<Rightarrow> bool \<times> 'w" where
  "isProcessRunning s pid w =
     (case po_FindProcess s pid w of
        Some err \<Rightarrow> (False, w)
      | None \<Rightarrow> (case po_Signal s pid SIG0 w of (err, w') \<Rightarrow> (err = None, w')))"

definition verifyProcessDead :: "'w psys \<Rightarrow> int \<Rightarrow> 'w \<Rightarrow> go_error option \<times> 'w" where
  "verifyProcessDead s pid w =
     (case isProcessRunning s pid w of
        (False, w') \<Rightarrow> (None, w')
      | (True, w') \<Rightarrow> (Some (errors_New (''process '' @ int_text pid @ '' is still running'')), w'))"

text \<open>The loop that waits for the process to exit, \<open>k\<close> rounds of it.\<close>

fun wait_dead :: "'w psys \<Rightarrow> int \<Rightarrow> nat \<Rightarrow> 'w \<Rightarrow> bool \<times> 'w" where
  "wait_dead s pid 0 w = (False, w)"
| "wait_dead s pid (Suc k) w =
     (case isProcessRunning s pid w of
        (False, w') \<Rightarrow> (True, w')
      | (True, w') \<Rightarrow> wait_dead s pid k (po_Sleep s w'))"

definition killProcessTree :: "'w psys \<Rightarrow> int \<Rightarrow> 'w \<Rightarrow> go_error option \<times> 'w" where
  "killProcessTree s pid w =
     (case po_FindProcess s pid w of
        Some err \<Rightarrow>
          (Some (Errorf_w (''failed to find process '' @ int_text pid @ '': '') err), w)
      | None \<Rightarrow>
          (let w1 = snd (po_Signal s pid SIGTERM w);
               w2 = (case getProcessGroupID s pid w1 of
                       Inr pgid \<Rightarrow>
                         (if pgid \<noteq> 0
                          then po_KillGroup s pgid SIGKILL (po_KillGroup s pgid SIGTERM w1) else w1)
                     | Inl _ \<Rightarrow> w1);
               w3 = snd (po_Signal s pid SIGKILL w2)
           in case wait_dead s pid 10 w3 of
                (True, w4) \<Rightarrow> (None, w4)
              | (False, w4) \<Rightarrow>
                  (Some (errors_New (''process '' @ int_text pid @ '' is still running after kill attempt'')), w4)))"

definition isProcessZombie :: "'w psys \<Rightarrow> int \<Rightarrow> 'w \<Rightarrow> bool" where
  "isProcessZombie s pid w =
     (case po_ReadFile s (proc_path pid ''stat'') w of
        Inl err \<Rightarrow>
          (case po_ps s [''-p'', int_text pid, ''-o'', ''state=''] w of
             Inl psErr \<Rightarrow> False
           | Inr out \<Rightarrow>
               (let state = TrimSpace out
                in if state = [] then False else HasPrefix state ''Z'' \<or> HasPrefix state ''z''))
      | Inr data \<Rightarrow>
          (let fields = Fields data
           in if length fields < 3 then False else zombie_state (fields ! 2)))"

section \<open>Who is sent a signal\<close>

text \<open>
  What the system promises of signals: \<open>sent w\<close> is the set of processes that were sent one, \<open>pgrp p\<close>
  the process group that \<^verbatim>\<open>/proc/p/stat\<close> shows. A signal goes to the one process, or to the members of
  the group.
\<close>

definition signal_laws :: "'w psys \<Rightarrow> ('w \<Rightarrow> int set) \<Rightarrow> (int \<Rightarrow> int) \<Rightarrow> bool" where
  "signal_laws s sent pgrp \<longleftrightarrow>
     (\<forall>p sg w. sent (snd (po_Signal s p sg w)) \<subseteq> insert p (sent w)) \<and>
     (\<forall>g sg w. sent (po_KillGroup s g sg w) \<subseteq> {p. pgrp p = g} \<union> sent w) \<and>
     (\<forall>w. sent (po_Sleep s w) = sent w) \<and>
     (\<forall>p w g. getProcessGroupID s p w = Inr g \<longrightarrow> g = pgrp p)"

lemma isProcessRunning_sent:
  "signal_laws s sent pgrp \<Longrightarrow> sent (snd (isProcessRunning s p w)) \<subseteq> insert p (sent w)"
  by (auto simp: isProcessRunning_def signal_laws_def split: option.split prod.split) (metis snd_conv subsetD insertE)

lemma verifyProcessDead_sent:
  "signal_laws s sent pgrp \<Longrightarrow> sent (snd (verifyProcessDead s p w)) \<subseteq> insert p (sent w)"
  using isProcessRunning_sent [of s sent pgrp p w]
  by (auto simp: verifyProcessDead_def split: prod.splits bool.splits)

lemma wait_dead_sent:
  assumes "signal_laws s sent pgrp"
  shows "sent (snd (wait_dead s p k w)) \<subseteq> insert p (sent w)"
proof (induction k arbitrary: w)
  case (Suc k)
  obtain b w' where r: "isProcessRunning s p w = (b, w')" by fastforce
  have "sent w' \<subseteq> insert p (sent w)" using isProcessRunning_sent [OF assms, of p w] r by simp
  moreover have "sent (po_Sleep s w') = sent w'" using assms by (simp add: signal_laws_def)
  ultimately show ?case using Suc [of "po_Sleep s w'"] r by (cases b) auto
qed auto

lemma killProcessTree_sent:
  assumes "signal_laws s sent pgrp"
  shows "sent (snd (killProcessTree s p w)) \<subseteq> insert p {q. pgrp q = pgrp p} \<union> sent w"
proof (cases "po_FindProcess s p w")
  case (Some err)
  then show ?thesis by (auto simp: killProcessTree_def)
next
  case None
  let ?w1 = "snd (po_Signal s p SIGTERM w)"
  let ?w2 = "case getProcessGroupID s p ?w1 of
      Inr pgid \<Rightarrow> (if pgid \<noteq> 0 then po_KillGroup s pgid SIGKILL (po_KillGroup s pgid SIGTERM ?w1) else ?w1)
    | Inl _ \<Rightarrow> ?w1"
  let ?w3 = "snd (po_Signal s p SIGKILL ?w2)"
  have sig: "sent (snd (po_Signal s q sg v)) \<subseteq> insert q (sent v)" for q sg v
    using assms by (simp add: signal_laws_def)
  have grp: "sent (po_KillGroup s g sg v) \<subseteq> {q. pgrp q = g} \<union> sent v" for g sg v
    using assms by (simp add: signal_laws_def)
  have "sent ?w2 \<subseteq> {q. pgrp q = pgrp p} \<union> sent ?w1"
  proof (cases "getProcessGroupID s p ?w1")
    case (Inr g)
    then have "g = pgrp p" using assms unfolding signal_laws_def by blast
    with Inr show ?thesis
      using grp [of g SIGTERM ?w1] grp [of g SIGKILL "po_KillGroup s g SIGTERM ?w1"] by auto
  qed simp
  then have "sent ?w3 \<subseteq> insert p {q. pgrp q = pgrp p} \<union> sent w"
    using sig [of p SIGTERM w] sig [of p SIGKILL ?w2] by blast
  moreover have "sent (snd (wait_dead s p 10 ?w3)) \<subseteq> insert p (sent ?w3)"
    by (rule wait_dead_sent [OF assms])
  moreover have "snd (killProcessTree s p w) = snd (wait_dead s p 10 ?w3)"
    using None by (simp add: killProcessTree_def Let_def split: prod.split bool.split)
  ultimately show ?thesis by auto
qed

end
