(* ===== verification/LogRing.thy ===== *)
theory LogRing
  imports Prelude
begin

text \<open>
  The ring of log lines of \<^verbatim>\<open>backend/xray/startup_diagnostics.go\<close> and the contract its users rely on:
  it remembers the latest lines, as many as it has room for. The contract is the locale
  \<open>log_buffer\<close>, in terms of the list of lines a buffer remembers, oldest first; the ring is an
  interpretation of it.
\<close>

section \<open>The ring\<close>

record startupLogRing =
  lr_lines :: "string list"
  lr_next :: nat
  lr_full :: bool

definition newStartupLogRing :: "int \<Rightarrow> startupLogRing" where
  "newStartupLogRing n =
     (let n' = (if n \<le> 0 then 1 else n)
      in \<lparr>lr_lines = replicate (nat n') [], lr_next = 0, lr_full = False\<rparr>)"

definition ring_reset :: "startupLogRing \<Rightarrow> startupLogRing" where
  "ring_reset r =
     r\<lparr>lr_next := 0, lr_full := False, lr_lines := map (\<lambda>_. []) (lr_lines r)\<rparr>"

definition ring_add :: "string \<Rightarrow> startupLogRing \<Rightarrow> startupLogRing" where
  "ring_add line r =
     (if length (lr_lines r) = 0 then r
      else (let n = (lr_next r + 1) mod length (lr_lines r);
                r' = r\<lparr>lr_lines := (lr_lines r)[lr_next r := line], lr_next := n\<rparr>
            in if n = 0 then r'\<lparr>lr_full := True\<rparr> else r'))"

definition ring_tail :: "int \<Rightarrow> startupLogRing \<Rightarrow> string list" where
  "ring_tail n r =
     (let count = (if lr_full r then length (lr_lines r) else lr_next r)
      in if count = 0 then []
         else (let k = (if n \<le> 0 \<or> n > int count then count else nat n);
                   oldest = (if lr_full r then lr_next r else 0);
                   start = count - k
               in map (\<lambda>i. lr_lines r ! ((oldest + start + i) mod length (lr_lines r))) [0..<k]))"

section \<open>The contract\<close>

definition lastn :: "nat \<Rightarrow> 'a list \<Rightarrow> 'a list" where
  "lastn k xs = drop (length xs - k) xs"

lemma length_lastn [simp]: "length (lastn k xs) = min k (length xs)"
  by (simp add: lastn_def)

lemma lastn_all: "length xs \<le> k \<Longrightarrow> lastn k xs = xs"
  by (simp add: lastn_def)

lemma lastn_lastn [simp]: "lastn j (lastn k xs) = lastn (min j k) xs"
  by (cases "k \<le> length xs") (auto simp: lastn_def min_def)

lemma lastn_lastn_snoc: "lastn k (lastn k xs @ [x]) = lastn k (xs @ [x])"
  by (cases "k \<le> length xs") (auto simp: lastn_def Suc_diff_le)

text \<open>
  \<open>mem\<close> is the list of lines a buffer remembers and \<open>cap\<close> its size; \<open>add\<close> appends a line and forgets
  the oldest one when there is no room, \<open>tail n\<close> reads the latest \<open>n\<close> lines (all of them when \<open>n\<close> is
  not positive).
\<close>

locale log_buffer =
  fixes ok :: "'b \<Rightarrow> bool"
    and cap :: "'b \<Rightarrow> nat"
    and mem :: "'b \<Rightarrow> string list"
    and reset :: "'b \<Rightarrow> 'b"
    and add :: "string \<Rightarrow> 'b \<Rightarrow> 'b"
    and tail :: "int \<Rightarrow> 'b \<Rightarrow> string list"
  assumes ok_reset: "ok b \<Longrightarrow> ok (reset b)"
    and ok_add: "ok b \<Longrightarrow> ok (add x b)"
    and cap_reset: "ok b \<Longrightarrow> cap (reset b) = cap b"
    and cap_add: "ok b \<Longrightarrow> cap (add x b) = cap b"
    and mem_reset: "ok b \<Longrightarrow> mem (reset b) = []"
    and mem_add: "ok b \<Longrightarrow> mem (add x b) = lastn (cap b) (mem b @ [x])"
    and tail_mem: "ok b \<Longrightarrow> tail n b = (if n \<le> 0 then mem b else lastn (nat n) (mem b))"
begin

text \<open>A run of additions keeps the latest lines of what was there and what was added.\<close>

lemma fold_add_ok: "ok b \<Longrightarrow> ok (fold add xs b) \<and> cap (fold add xs b) = cap b"
  by (induction xs arbitrary: b) (simp_all add: ok_add cap_add)

lemma fold_add_mem:
  "ok b \<Longrightarrow> mem b = lastn (cap b) ys \<Longrightarrow> mem (fold add xs b) = lastn (cap b) (ys @ xs)"
proof (induction xs arbitrary: b ys)
  case (Cons x xs)
  have "mem (add x b) = lastn (cap (add x b)) (ys @ [x])"
    using Cons.prems by (simp add: mem_add cap_add lastn_lastn_snoc)
  with Cons.IH [of "add x b" "ys @ [x]"] Cons.prems show ?case
    by (simp add: ok_add cap_add)
qed simp

lemma tail_of_run:
  assumes "ok b"
  shows "tail n (fold add xs (reset b)) =
    lastn (if n \<le> 0 then cap b else min (nat n) (cap b)) xs"
  using fold_add_mem [of "reset b" "[]" xs] fold_add_ok [of "reset b" xs]
  by (simp add: assms ok_reset cap_reset mem_reset tail_mem lastn_def [of _ "[]"])

end

section \<open>The ring keeps the contract\<close>

definition ring_ok :: "startupLogRing \<Rightarrow> bool" where
  "ring_ok r \<longleftrightarrow> lr_next r < length (lr_lines r)"

definition ring_cap :: "startupLogRing \<Rightarrow> nat" where
  "ring_cap r = length (lr_lines r)"

definition ring_mem :: "startupLogRing \<Rightarrow> string list" where
  "ring_mem r =
     (if lr_full r then drop (lr_next r) (lr_lines r) @ take (lr_next r) (lr_lines r)
      else take (lr_next r) (lr_lines r))"

lemma ring_ok_new [simp]: "ring_ok (newStartupLogRing n)"
  by (simp add: ring_ok_def newStartupLogRing_def)

lemma ring_cap_new [simp]: "ring_cap (newStartupLogRing n) = (if n \<le> 0 then 1 else nat n)"
  by (simp add: ring_cap_def newStartupLogRing_def)

lemma ring_mem_new [simp]: "ring_mem (newStartupLogRing n) = []"
  by (simp add: ring_mem_def newStartupLogRing_def Let_def)

lemma ring_ok_reset: "ring_ok r \<Longrightarrow> ring_ok (ring_reset r)"
  by (auto simp: ring_ok_def ring_reset_def)

lemma ring_ok_add: "ring_ok r \<Longrightarrow> ring_ok (ring_add x r)"
  by (auto simp: ring_ok_def ring_add_def Let_def)

lemma ring_mem_add:
  assumes "ring_ok r"
  shows "ring_mem (ring_add x r) = lastn (ring_cap r) (ring_mem r @ [x])"
proof -
  let ?L = "lr_lines r" and ?k = "lr_next r"
  have k: "?k < length ?L" using assms by (simp add: ring_ok_def)
  then have upd: "take (Suc ?k) (?L[?k := x]) = take ?k ?L @ [x]"
    "drop (Suc ?k) (?L[?k := x]) = drop (Suc ?k) ?L"
    by (simp_all add: take_Suc_conv_app_nth)
  show ?thesis
  proof (cases "Suc ?k = length ?L")
    case True
    then have "ring_mem (ring_add x r) = ?L[?k := x]"
      using k by (auto simp: ring_add_def ring_mem_def Let_def)
    moreover have "?L[?k := x] = take ?k ?L @ [x]"
      using upd(1) True by simp
    ultimately show ?thesis
      using True k by (auto simp: ring_mem_def ring_cap_def lastn_def Suc_diff_le)
  next
    case False
    with k have "Suc ?k < length ?L" by simp
    then show ?thesis
      using k upd by (auto simp: ring_add_def ring_mem_def ring_cap_def lastn_def Let_def)
  qed
qed

lemma ring_tail_mem:
  assumes "ring_ok r"
  shows "ring_tail n r = (if n \<le> 0 then ring_mem r else lastn (nat n) (ring_mem r))"
proof -
  let ?L = "lr_lines r"
  let ?c = "if lr_full r then length ?L else lr_next r"
  let ?o = "if lr_full r then lr_next r else 0"
  let ?k = "if n \<le> 0 \<or> n > int ?c then ?c else nat n"
  have k: "lr_next r < length ?L" using assms by (simp add: ring_ok_def)
  then have len: "length (ring_mem r) = ?c" by (simp add: ring_mem_def)
  have nth: "ring_mem r ! i = ?L ! ((?o + i) mod length ?L)" if "i < ?c" for i
  proof (cases "lr_full r")
    case True
    with that k show ?thesis
      by (auto simp: ring_mem_def nth_append not_less mod_if ac_simps)
  next
    case False
    with that k show ?thesis by (simp add: ring_mem_def)
  qed
  have "ring_tail n r = lastn ?k (ring_mem r)"
  proof (rule nth_equalityI)
    show "length (ring_tail n r) = length (lastn ?k (ring_mem r))"
      by (auto simp: ring_tail_def len Let_def)
    fix i
    assume "i < length (ring_tail n r)"
    then have "i < ?k" "?c \<noteq> 0" by (auto simp: ring_tail_def Let_def split: if_splits)
    then show "ring_tail n r ! i = lastn ?k (ring_mem r) ! i"
      by (auto simp: ring_tail_def Let_def lastn_def len nth add.assoc)
  qed
  then show ?thesis by (auto simp: lastn_def len)
qed

interpretation ring: log_buffer ring_ok ring_cap ring_mem ring_reset ring_add ring_tail
proof
  fix r :: startupLogRing and x n
  assume r: "ring_ok r"
  show "ring_ok (ring_reset r)" "ring_ok (ring_add x r)"
    using r by (rule ring_ok_reset, rule ring_ok_add)
  show "ring_cap (ring_reset r) = ring_cap r" "ring_cap (ring_add x r) = ring_cap r"
    by (simp_all add: ring_cap_def ring_reset_def ring_add_def Let_def)
  show "ring_mem (ring_reset r) = []"
    by (simp add: ring_mem_def ring_reset_def)
  show "ring_mem (ring_add x r) = lastn (ring_cap r) (ring_mem r @ [x])"
    by (rule ring_mem_add [OF r])
  show "ring_tail n r = (if n \<le> 0 then ring_mem r else lastn (nat n) (ring_mem r))"
    by (rule ring_tail_mem [OF r])
qed

text \<open>
  C20. The ring of log lines refines a list: after a reset and any lines added to a ring of size
  \<open>size\<close> (at least one), \<^verbatim>\<open>tail(n)\<close> is the latest \<open>n\<close> lines in the order they were added, or as many
  as the ring holds when \<open>n\<close> is larger or not positive.
\<close>

theorem ring_tail_latest:
  "ring_tail n (fold ring_add xs (newStartupLogRing sz)) =
   (let room = (if sz \<le> 0 then 1 else nat sz); k = (if n \<le> 0 then room else min (nat n) room)
    in drop (length xs - k) xs)"
proof -
  have "ring_reset (newStartupLogRing sz) = newStartupLogRing sz"
    by (simp add: ring_reset_def newStartupLogRing_def Let_def)
  then show ?thesis
    using ring.tail_of_run [of "newStartupLogRing sz" n xs] by (simp add: lastn_def)
qed

end
