(* ===== verification/Logger.thy ===== *)
theory Logger
  imports Prelude
begin

text \<open>
  \<^verbatim>\<open>logger/logger.go\<close>: the two log files of a core. The file system is the record \<open>fs\<close> of functions
  on a world: an open file is its descriptor, a failing write is ignored as \<^verbatim>\<open>log.Logger\<close> does.
  The lemmas say that what \<^verbatim>\<open>SetLogFile\<close> opened, \<^verbatim>\<open>Close\<close> closes, also when \<^verbatim>\<open>SetLogFile\<close> fails.
\<close>

section \<open>Files\<close>

type_synonym fd = nat

text \<open>
  \<open>fs_MkdirDir p\<close> is \<^verbatim>\<open>os.MkdirAll(filepath.Dir(p), 0755)\<close>, \<open>fs_OpenAppend\<close> is \<^verbatim>\<open>os.OpenFile\<close> with the
  flags of the source, \<open>fs_Println\<close> appends a line to an open file and does nothing otherwise, and
  \<open>fs_Stdout\<close> prints a line.
\<close>

record 'w fs =
  fs_MkdirDir :: "string \<Rightarrow> 'w \<Rightarrow> go_error option \<times> 'w"
  fs_OpenAppend :: "string \<Rightarrow> 'w \<Rightarrow> fd result \<times> 'w"
  fs_Close :: "fd \<Rightarrow> 'w \<Rightarrow> 'w"
  fs_Println :: "fd \<Rightarrow> string \<Rightarrow> 'w \<Rightarrow> 'w"
  fs_Stdout :: "string \<Rightarrow> 'w \<Rightarrow> 'w"

section \<open>The logger\<close>

datatype LogLevel = LogDebug | LogInfo | LogWarning | LogError | LogCritical

record Logger =
  lg_outputLogs :: bool
  lg_accessLogFile :: "fd option"
  lg_errorLogFile :: "fd option"
  lg_accessLogger :: "fd option"
  lg_errorLogger :: "fd option"

definition logger_New :: "bool \<Rightarrow> Logger" where
  "logger_New outputLogs =
     \<lparr>lg_outputLogs = outputLogs, lg_accessLogFile = None, lg_errorLogFile = None,
      lg_accessLogger = None, lg_errorLogger = None\<rparr>"

definition openLogFile :: "'w fs \<Rightarrow> string \<Rightarrow> 'w \<Rightarrow> fd option result \<times> 'w" where
  "openLogFile fs path w =
     (if path = [] then (Inr None, w)
      else (case fs_MkdirDir fs path w of
              (Some err, w1) \<Rightarrow> (Inl err, w1)
            | (None, w1) \<Rightarrow>
                (case fs_OpenAppend fs path w1 of
                   (Inl err, w2) \<Rightarrow> (Inl err, w2)
                 | (Inr f, w2) \<Rightarrow> (Inr (Some f), w2))))"

definition SetLogFile ::
  "'w fs \<Rightarrow> string \<Rightarrow> string \<Rightarrow> Logger \<Rightarrow> 'w \<Rightarrow> go_error option \<times> Logger \<times> 'w" where
  "SetLogFile fs accessPath errorPath l w =
     (case openLogFile fs accessPath w of
        (Inl err, w1) \<Rightarrow>
          (Some (Errorf_w ''failed to open access log: '' err), l\<lparr>lg_accessLogFile := None\<rparr>, w1)
      | (Inr af, w1) \<Rightarrow>
          (let l1 = l\<lparr>lg_accessLogFile := af\<rparr>;
               l2 = (if af = None then l1 else l1\<lparr>lg_accessLogger := af\<rparr>)
           in case openLogFile fs errorPath w1 of
                (Inl err, w2) \<Rightarrow>
                  (Some (Errorf_w ''failed to open error log: '' err), l2\<lparr>lg_errorLogFile := None\<rparr>, w2)
              | (Inr ef, w2) \<Rightarrow>
                  (let l3 = l2\<lparr>lg_errorLogFile := ef\<rparr>
                   in (None, if ef = None then l3 else l3\<lparr>lg_errorLogger := ef\<rparr>, w2))))"

definition print_to :: "'w fs \<Rightarrow> fd option \<Rightarrow> string \<Rightarrow> 'w \<Rightarrow> 'w" where
  "print_to fs f message w = (case f of None \<Rightarrow> w | Some d \<Rightarrow> fs_Println fs d message w)"

definition logger_Log :: "'w fs \<Rightarrow> LogLevel \<Rightarrow> string \<Rightarrow> Logger \<Rightarrow> 'w \<Rightarrow> 'w" where
  "logger_Log fs level message l w =
     (let w1 = (case level of
                  LogError \<Rightarrow> print_to fs (lg_errorLogger l) message w
                | LogCritical \<Rightarrow> print_to fs (lg_errorLogger l) message w
                | _ \<Rightarrow> print_to fs (lg_accessLogger l) message w)
      in if lg_outputLogs l then fs_Stdout fs message w1 else w1)"

definition close_opt :: "'w fs \<Rightarrow> fd option \<Rightarrow> 'w \<Rightarrow> 'w" where
  "close_opt fs f w = (case f of None \<Rightarrow> w | Some d \<Rightarrow> fs_Close fs d w)"

definition logger_Close :: "'w fs \<Rightarrow> Logger \<Rightarrow> 'w \<Rightarrow> Logger \<times> 'w" where
  "logger_Close fs l w =
     (l\<lparr>lg_accessLogFile := None, lg_errorLogFile := None\<rparr>,
      close_opt fs (lg_errorLogFile l) (close_opt fs (lg_accessLogFile l) w))"

section \<open>Descriptors\<close>

text \<open>
  What the operating system promises of descriptors, in terms of the open ones: opening gives a new
  one, closing closes just that one, nothing else changes them.
\<close>

definition fd_laws :: "'w fs \<Rightarrow> ('w \<Rightarrow> fd set) \<Rightarrow> bool" where
  "fd_laws fs fds \<longleftrightarrow>
     (\<forall>p w. fds (snd (fs_MkdirDir fs p w)) = fds w) \<and>
     (\<forall>p w f w'. fs_OpenAppend fs p w = (Inr f, w') \<longrightarrow> f \<notin> fds w \<and> fds w' = insert f (fds w)) \<and>
     (\<forall>p w e w'. fs_OpenAppend fs p w = (Inl e, w') \<longrightarrow> fds w' = fds w) \<and>
     (\<forall>f w. fds (fs_Close fs f w) = fds w - {f}) \<and>
     (\<forall>f m w. fds (fs_Println fs f m w) = fds w) \<and>
     (\<forall>m w. fds (fs_Stdout fs m w) = fds w)"

definition held_fds :: "Logger \<Rightarrow> fd set" where
  "held_fds l = set_option (lg_accessLogFile l) \<union> set_option (lg_errorLogFile l)"

lemma openLogFile_fds:
  assumes "fd_laws fs fds" "openLogFile fs p w = (r, w')"
  shows "(\<exists>e. r = Inl e) \<and> fds w' = fds w \<or>
    (\<exists>fo. r = Inr fo \<and> set_option fo \<inter> fds w = {} \<and> fds w' = set_option fo \<union> fds w)"
proof (cases "p = []")
  case True
  with assms(2) show ?thesis by (auto simp: openLogFile_def)
next
  case False
  obtain e w1 where m: "fs_MkdirDir fs p w = (e, w1)" by fastforce
  then have w1: "fds w1 = fds w" using assms(1) by (metis fd_laws_def snd_conv)
  obtain o' w2 where o: "fs_OpenAppend fs p w1 = (o', w2)" by fastforce
  have "case o' of Inl _ \<Rightarrow> fds w2 = fds w1 | Inr f \<Rightarrow> f \<notin> fds w1 \<and> fds w2 = insert f (fds w1)"
    using assms(1) o by (cases o') (auto simp: fd_laws_def)
  with False m o w1 assms(2) show ?thesis
    by (cases e; cases o') (auto simp: openLogFile_def)
qed

lemma SetLogFile_held:
  assumes "openLogFile fs a w = (ra, w1)" "openLogFile fs e w1 = (re, w2)"
    "SetLogFile fs a e (logger_New b) w = (r, l, w')"
  shows "w' = (case ra of Inl _ \<Rightarrow> w1 | Inr _ \<Rightarrow> w2) \<and>
    lg_accessLogFile l = (case ra of Inl _ \<Rightarrow> None | Inr fo \<Rightarrow> fo) \<and>
    lg_errorLogFile l = (case (ra, re) of (Inr _, Inr fo) \<Rightarrow> fo | _ \<Rightarrow> None)"
proof (cases ra)
  case (Inl x)
  with assms show ?thesis by (auto simp: SetLogFile_def logger_New_def)
next
  case (Inr x)
  with assms show ?thesis
    by (cases re; cases "x = None") (auto simp: SetLogFile_def logger_New_def Let_def)
qed

lemma SetLogFile_fds:
  assumes "fd_laws fs fds" "SetLogFile fs a e (logger_New b) w = (r, l, w')"
  shows "fds w' = held_fds l \<union> fds w \<and> held_fds l \<inter> fds w = {}"
proof -
  obtain ra w1 where a: "openLogFile fs a w = (ra, w1)" by fastforce
  obtain re w2 where e: "openLogFile fs e w1 = (re, w2)" by fastforce
  note held = SetLogFile_held [OF a e assms(2)]
  note opened = openLogFile_fds [OF assms(1) a] openLogFile_fds [OF assms(1) e]
  show ?thesis
    using opened by (cases ra; cases re) (simp_all add: held held_fds_def, blast+)
qed

lemma fd_laws_simps:
  assumes "fd_laws fs fds"
  shows "fds (fs_Close fs f w) = fds w - {f}" "fds (fs_Println fs f m w) = fds w"
    "fds (fs_Stdout fs m w) = fds w"
  using assms by (simp_all add: fd_laws_def)

lemma logger_Log_fds:
  assumes "fd_laws fs fds"
  shows "fds (logger_Log fs lv m l w) = fds w"
  by (cases lv; cases "lg_errorLogger l"; cases "lg_accessLogger l")
     (simp_all add: logger_Log_def print_to_def Let_def fd_laws_simps [OF assms])

lemma logger_Close_fds:
  assumes "fd_laws fs fds"
  shows "fds (snd (logger_Close fs l w)) = fds w - held_fds l"
  by (cases "lg_errorLogFile l"; cases "lg_accessLogFile l")
     (auto simp: logger_Close_def close_opt_def held_fds_def fd_laws_simps [OF assms])

end
