(* ===== verification/XrayLog.thy ===== *)
theory XrayLog
  imports LogRing Logger
begin

text \<open>
  The state of an Xray core (the struct \<^verbatim>\<open>Core\<close> of \<^verbatim>\<open>backend/xray/core.go\<close>) and the part of it
  that handles log lines: \<^verbatim>\<open>startup_diagnostics.go\<close> and \<^verbatim>\<open>log.go\<close>. A child process is known by the
  handle of its \<^verbatim>\<open>exec.Cmd\<close>; \<open>cmd_reaped\<close> says whether \<^verbatim>\<open>Wait\<close> has set its \<^verbatim>\<open>ProcessState\<close>. The log
  channel is its capacity and the lines queued in it. Each operation holds the mutex of what it
  touches, so it is one step. The lemmas say what the diagnostics report after any lines of output.
\<close>

section \<open>State\<close>

datatype log_phase = logPhaseRuntime | logPhaseStartup

record Cmd =
  cmd_id :: nat
  cmd_Pid :: int
  cmd_reaped :: bool

record Core =
  co_executablePath :: string
  co_assetsPath :: string
  co_configPath :: string
  co_version :: string
  co_process :: "Cmd option"
  co_processPID :: int
  co_restarting :: bool
  co_stopping :: bool
  co_waitDone :: "nat option"
  co_logsChan :: "int \<times> string list"
  co_logPhase :: log_phase
  co_startupLogs :: "startupLogRing option"
  co_startupLogSize :: int
  co_startupFailure :: string
  co_startupDiagnosticsEnabled :: bool
  co_runtimeLogs :: startupLogRing
  co_unixSocketPaths :: "string list"
  co_logger :: "Logger option"
  co_cancelFunc :: bool

section \<open>Startup diagnostics\<close>

definition ClearStartupDiagnostics :: "Core \<Rightarrow> Core" where
  "ClearStartupDiagnostics c =
     c\<lparr>co_startupFailure := [], co_startupLogs := map_option ring_reset (co_startupLogs c)\<rparr>"

definition EnableStartupDiagnostics :: "int \<Rightarrow> Core \<Rightarrow> Core" where
  "EnableStartupDiagnostics tailSize c =
     (let t1 = (if tailSize \<le> 0 then co_startupLogSize c else tailSize);
          t2 = (if t1 \<le> 0 then 200 else t1);
          logs = (case co_startupLogs c of
                    None \<Rightarrow> newStartupLogRing t2
                  | Some r \<Rightarrow> (if int (length (lr_lines r)) \<noteq> t2 then newStartupLogRing t2
                               else ring_reset r))
      in c\<lparr>co_startupLogSize := t2, co_startupLogs := Some logs, co_startupFailure := [],
           co_startupDiagnosticsEnabled := True\<rparr>)"

definition DisableStartupDiagnostics :: "Core \<Rightarrow> Core" where
  "DisableStartupDiagnostics c =
     c\<lparr>co_startupDiagnosticsEnabled := False, co_startupFailure := [], co_startupLogs := None\<rparr>"

definition setStartupLogPhase :: "Core \<Rightarrow> Core" where
  "setStartupLogPhase c = c\<lparr>co_logPhase := logPhaseStartup\<rparr>"

definition SwitchToRuntimeLogPhase :: "Core \<Rightarrow> Core" where
  "SwitchToRuntimeLogPhase c = DisableStartupDiagnostics (c\<lparr>co_logPhase := logPhaseRuntime\<rparr>)"

definition isStartupLogPhase :: "Core \<Rightarrow> bool" where
  "isStartupLogPhase c \<longleftrightarrow> co_logPhase c = logPhaseStartup"

definition isStartupFailureLog :: "string \<Rightarrow> bool" where
  "isStartupFailureLog line =
     (let lower = ToLower line
      in if Contains lower ''invalid request user id'' \<or> Contains lower ''rejected proxy/''
         then False
         else list_ex (Contains lower)
           [''failed to start'', ''panic'', ''fatal'', ''permission denied'',
            ''no such file or directory'', ''cannot find'', ''failed to open'', ''failed to load'',
            ''failed to listen''])"

definition RecordStartupLog :: "string \<Rightarrow> Core \<Rightarrow> Core" where
  "RecordStartupLog line c =
     (if \<not> co_startupDiagnosticsEnabled c then c
      else (let c1 = c\<lparr>co_startupLogs := map_option (ring_add line) (co_startupLogs c)\<rparr>
            in if isStartupFailureLog line then c1\<lparr>co_startupFailure := line\<rparr> else c1))"

definition LatestStartupFailure :: "Core \<Rightarrow> string" where
  "LatestStartupFailure c = (if \<not> co_startupDiagnosticsEnabled c then [] else co_startupFailure c)"

definition StartupLogTail :: "int \<Rightarrow> Core \<Rightarrow> string list" where
  "StartupLogTail n c =
     (if \<not> co_startupDiagnosticsEnabled c then []
      else (case co_startupLogs c of None \<Rightarrow> [] | Some r \<Rightarrow> ring_tail n r))"

definition RecordRuntimeLog :: "string \<Rightarrow> Core \<Rightarrow> Core" where
  "RecordRuntimeLog line c = c\<lparr>co_runtimeLogs := ring_add line (co_runtimeLogs c)\<rparr>"

definition RuntimeLogTail :: "int \<Rightarrow> Core \<Rightarrow> string list" where
  "RuntimeLogTail n c = ring_tail n (co_runtimeLogs c)"

section \<open>Process output\<close>

definition isAccessLog :: "string \<Rightarrow> bool" where
  "isAccessLog l =
     (if \<not> Contains l ''from '' \<or> \<not> Contains l '' email:'' then False
      else Contains l '' accepted tcp:'' \<or> Contains l '' accepted udp:'')"

definition detectLogType :: "'w fs \<Rightarrow> string \<Rightarrow> Core \<Rightarrow> 'w \<Rightarrow> 'w" where
  "detectLogType fs l c w =
     (case co_logger c of
        None \<Rightarrow> w
      | Some lg \<Rightarrow> logger_Log fs (if isAccessLog l then LogInfo else LogError) l lg w)"

text \<open>A send that is dropped when the channel is full.\<close>

definition send_log :: "string \<Rightarrow> Core \<Rightarrow> Core" where
  "send_log output c =
     (case co_logsChan c of
        (n, q) \<Rightarrow> (if int (length q) < n then c\<lparr>co_logsChan := (n, q @ [output])\<rparr> else c))"

definition captureStartupLogLine :: "'w fs \<Rightarrow> string \<Rightarrow> Core \<Rightarrow> 'w \<Rightarrow> Core \<times> 'w" where
  "captureStartupLogLine fs output c w =
     (let c1 = send_log output (RecordStartupLog output c) in (c1, detectLogType fs output c1 w))"

definition captureRuntimeLogLine :: "'w fs \<Rightarrow> string \<Rightarrow> Core \<Rightarrow> 'w \<Rightarrow> Core \<times> 'w" where
  "captureRuntimeLogLine fs output c w =
     (let c1 = send_log output (RecordRuntimeLog output c) in (c1, detectLogType fs output c1 w))"

definition recordProcessLog :: "'w fs \<Rightarrow> string \<Rightarrow> Core \<Rightarrow> 'w \<Rightarrow> Core \<times> 'w" where
  "recordProcessLog fs output c w =
     (if isStartupLogPhase c then captureStartupLogLine fs output c w
      else captureRuntimeLogLine fs output c w)"

text \<open>
  The loop over the lines the scanner reads. A line of a megabyte or more ends the scan. \<open>fin\<close> tells
  for each line whether the context is done when it is read.
\<close>

fun captureProcessLogs :: "'w fs \<Rightarrow> (string \<times> bool) list \<Rightarrow> Core \<Rightarrow> 'w \<Rightarrow> Core \<times> 'w" where
  "captureProcessLogs fs [] c w = (c, w)"
| "captureProcessLogs fs ((output, fin) # rest) c w =
     (if length output \<ge> 1048576 \<or> fin then (c, w)
      else (case (if isStartupLogPhase c then captureStartupLogLine fs output c w
                  else captureRuntimeLogLine fs output c w) of
              (c', w') \<Rightarrow> captureProcessLogs fs rest c' w'))"

section \<open>Lemmas\<close>

text \<open>The last of the lines that tells of a failure.\<close>

definition last_failure :: "string list \<Rightarrow> string" where
  "last_failure ls =
     (let fs = filter isStartupFailureLog ls in if fs = [] then [] else last fs)"

lemma last_failure_snoc:
  "last_failure (ls @ [l]) = (if isStartupFailureLog l then l else last_failure ls)"
  by (simp add: last_failure_def Let_def)

text \<open>The diagnostics of a core have seen just the lines \<open>ls\<close> since they were enabled.\<close>

definition diag_seen :: "int \<Rightarrow> string list \<Rightarrow> Core \<Rightarrow> bool" where
  "diag_seen sz ls c \<longleftrightarrow>
     co_logPhase c = logPhaseStartup \<and> co_startupDiagnosticsEnabled c \<and>
     co_startupFailure c = last_failure ls \<and>
     (\<exists>r. co_startupLogs c = Some r \<and> ring_ok r \<and> ring_cap r = nat sz \<and>
          ring_mem r = lastn (nat sz) ls)"

lemma send_log_simps [simp]:
  "co_logPhase (send_log l c) = co_logPhase c"
  "co_startupDiagnosticsEnabled (send_log l c) = co_startupDiagnosticsEnabled c"
  "co_startupFailure (send_log l c) = co_startupFailure c"
  "co_startupLogs (send_log l c) = co_startupLogs c"
  "co_runtimeLogs (send_log l c) = co_runtimeLogs c"
  "co_logger (send_log l c) = co_logger c"
  by (simp_all add: send_log_def split: prod.split)

lemma diag_seen_enable:
  assumes "case co_startupLogs c of None \<Rightarrow> True | Some r \<Rightarrow> ring_ok r"
  shows "diag_seen (co_startupLogSize (EnableStartupDiagnostics n c)) []
           (setStartupLogPhase (EnableStartupDiagnostics n c))"
    and "0 < co_startupLogSize (EnableStartupDiagnostics n c)"
  using assms
  by (auto simp: diag_seen_def setStartupLogPhase_def EnableStartupDiagnostics_def Let_def last_failure_def
      lastn_def ring.mem_reset ring.ok_reset ring.cap_reset split: option.splits)
     (auto simp: ring_cap_def)

lemma diag_seen_line:
  assumes "diag_seen sz ls c"
  shows "diag_seen sz (ls @ [l]) (fst (captureStartupLogLine fs l c w))"
  using assms
  by (auto simp: diag_seen_def captureStartupLogLine_def RecordStartupLog_def Let_def last_failure_snoc
      ring.ok_add ring.cap_add ring.mem_add lastn_lastn_snoc)

lemma diag_seen_capture:
  assumes "diag_seen sz ls c" "\<forall>(l, fin) \<in> set out. length l < 1048576 \<and> \<not> fin"
  shows "diag_seen sz (ls @ map fst out) (fst (captureProcessLogs fs out c w))"
  using assms
proof (induction out arbitrary: ls c w)
  case (Cons x out)
  obtain l fin where x: "x = (l, fin)" by fastforce
  obtain c' w' where c': "captureStartupLogLine fs l c w = (c', w')" by fastforce
  have "isStartupLogPhase c" using Cons.prems(1) by (simp add: diag_seen_def isStartupLogPhase_def)
  moreover have "diag_seen sz (ls @ [l]) c'"
    using diag_seen_line [OF Cons.prems(1), of l fs w] c' by simp
  ultimately show ?case
    using Cons.IH [of "ls @ [l]" c' w'] Cons.prems(2) x c' by simp
qed simp

text \<open>
  C19. While a core starts, its diagnostics are exact: after \<^verbatim>\<open>EnableStartupDiagnostics\<close> and any
  output of the process (of lines the scanner accepts), \<^verbatim>\<open>LatestStartupFailure\<close> is the latest line
  that tells of a failure, or empty, and \<^verbatim>\<open>StartupLogTail(n)\<close> is the latest \<open>n\<close> lines, as far as the
  configured size goes; after the switch to the runtime phase both are empty.
\<close>

theorem startup_diagnostics_exact:
  fixes fs :: "'w fs"
  assumes "case co_startupLogs c of None \<Rightarrow> True | Some r \<Rightarrow> ring_ok r"
    and "\<forall>(l, fin) \<in> set out. length l < 1048576 \<and> \<not> fin"
    and "c1 = fst (captureProcessLogs fs out (setStartupLogPhase (EnableStartupDiagnostics n c)) w)"
  shows "LatestStartupFailure c1 = last_failure (map fst out) \<and>
    (\<forall>k. StartupLogTail k c1 =
       (let room = co_startupLogSize (EnableStartupDiagnostics n c)
        in lastn (nat (if k \<le> 0 then room else min k room)) (map fst out))) \<and>
    LatestStartupFailure (SwitchToRuntimeLogPhase c1) = [] \<and>
    StartupLogTail k (SwitchToRuntimeLogPhase c1) = []"
proof -
  let ?sz = "co_startupLogSize (EnableStartupDiagnostics n c)"
  have "diag_seen ?sz (map fst out) c1"
    using diag_seen_capture [OF diag_seen_enable(1) [OF assms(1)] assms(2)] assms(3) by simp
  moreover have "0 < ?sz" by (rule diag_seen_enable(2) [OF assms(1)])
  ultimately show ?thesis
    by (auto simp: diag_seen_def LatestStartupFailure_def StartupLogTail_def ring.tail_mem Let_def min_def
        nat_mono SwitchToRuntimeLogPhase_def DisableStartupDiagnostics_def)
qed

definition ex_core :: Core where
  "ex_core =
     \<lparr>co_executablePath = ''/usr/local/bin/xray'', co_assetsPath = [], co_configPath = [],
      co_version = ''1.8.4'', co_process = None, co_processPID = 0, co_restarting = False,
      co_stopping = False, co_waitDone = None, co_logsChan = (4, []), co_logPhase = logPhaseRuntime,
      co_startupLogs = None, co_startupLogSize = 2, co_startupFailure = [],
      co_startupDiagnosticsEnabled = False, co_runtimeLogs = newStartupLogRing 10,
      co_unixSocketPaths = [], co_logger = None, co_cancelFunc = False\<rparr>"

definition no_fs :: "unit fs" where
  "no_fs = \<lparr>fs_MkdirDir = (\<lambda>_ w. (None, w)), fs_OpenAppend = (\<lambda>_ w. (Inr 3, w)),
     fs_Close = (\<lambda>_ w. w), fs_Println = (\<lambda>_ _ w. w), fs_Stdout = (\<lambda>_ w. w)\<rparr>"

theorem startup_diagnostics_exact_witness:
  "let c1 = fst (captureProcessLogs no_fs
         [(''reading config'', False), (''Failed to start: main'', False), (''bye'', False)]
         (setStartupLogPhase (EnableStartupDiagnostics 0 ex_core)) ())
   in LatestStartupFailure c1 = ''Failed to start: main'' \<and>
      StartupLogTail 200 c1 = [''Failed to start: main'', ''bye''] \<and>
      StartupLogTail 1 c1 = [''bye''] \<and>
      LatestStartupFailure (SwitchToRuntimeLogPhase c1) = []"
proof -
  let ?out = "[(''reading config'', False), (''Failed to start: main'', False), (''bye'', False)]"
  have "case co_startupLogs ex_core of None \<Rightarrow> True | Some r \<Rightarrow> ring_ok r"
    "\<forall>(l, fin) \<in> set ?out. length l < 1048576 \<and> \<not> fin"
    by (simp_all add: ex_core_def)
  note exact = startup_diagnostics_exact [OF this refl, of no_fs 0 "()"]
  moreover have "last_failure (map fst ?out) = ''Failed to start: main''"
    by code_simp
  moreover have "co_startupLogSize (EnableStartupDiagnostics 0 ex_core) = 2"
    by (simp add: EnableStartupDiagnostics_def ex_core_def)
  ultimately show ?thesis by (simp add: Let_def lastn_def)
qed

end
