(* ===== verification/XrayCore.thy ===== *)
theory XrayCore
  imports XrayProcess XrayLog XrayApply
begin

text \<open>
  \<^verbatim>\<open>backend/xray/core.go\<close> and \<^verbatim>\<open>core_unix.go\<close>: the life of the Xray process. The operating system is
  the record \<open>xos\<close> of functions on a world, which holds the file system of \<^verbatim>\<open>Logger\<close> and the process
  table of \<^verbatim>\<open>XrayProcess\<close>. An operation that holds \<^verbatim>\<open>Core.mu\<close> is one function on the state and the
  world. A configuration is a pointer in Go: an operation that writes to it returns the new value.
\<close>

section \<open>The operating system\<close>

text \<open>
  \<open>os_version p\<close> is the output of \<^verbatim>\<open>p version\<close>; \<open>os_MkdirAll\<close> and \<open>os_WriteFile dir name\<close> (create,
  write, close) make the debug copy of the configuration; \<open>os_Lstat\<close> tells whether a path is a socket
  (\<open>Inr None\<close> where it does not exist). \<open>os_Spawn\<close> is \<^verbatim>\<open>cmd.Start\<close> of the core with its environment
  and standard input, in a process group of its own (\<^verbatim>\<open>setProcAttributes\<close>); it gives the handle and
  the PID. \<open>os_WaitExit h\<close> waits at most five seconds for the channel \<^verbatim>\<open>waitDone\<close> of the process.
\<close>

record 'w xos =
  os_fs :: "'w fs"
  os_proc :: "'w psys"
  os_version :: "string \<Rightarrow> 'w \<Rightarrow> string result"
  os_json_Indent :: "string \<Rightarrow> string result"
  os_MkdirAll :: "string \<Rightarrow> 'w \<Rightarrow> go_error option \<times> 'w"
  os_WriteFile :: "string \<Rightarrow> string \<Rightarrow> string \<Rightarrow> 'w \<Rightarrow> go_error option \<times> 'w"
  os_Lstat :: "string \<Rightarrow> 'w \<Rightarrow> bool option result"
  os_Remove :: "string \<Rightarrow> 'w \<Rightarrow> 'w"
  os_StdoutPipe :: "'w \<Rightarrow> go_error option \<times> 'w"
  os_Spawn :: "string \<Rightarrow> string list \<Rightarrow> string \<Rightarrow> string \<Rightarrow> 'w \<Rightarrow> (nat \<times> int) result \<times> 'w"
  os_WaitExit :: "nat \<Rightarrow> 'w \<Rightarrow> bool \<times> 'w"

section \<open>Creation\<close>

text \<open>The regular expression \<^verbatim>\<open>^Xray (\d+\.\d+\.\d+)\<close>: the text of its group.\<close>

definition digits_of :: "string \<Rightarrow> (string \<times> string) option" where
  "digits_of s =
     (let d = takeWhile is_digit s in if d = [] then None else Some (d, dropWhile is_digit s))"

definition version_match :: "string \<Rightarrow> string option" where
  "version_match out =
     (if \<not> HasPrefix out ''Xray '' then None
      else (case digits_of (drop 5 out) of
              Some (a, CHR ''.'' # r1) \<Rightarrow>
                (case digits_of r1 of
                   Some (b, CHR ''.'' # r2) \<Rightarrow>
                     (case digits_of r2 of
                        Some (c, _) \<Rightarrow> Some (a @ ''.'' @ b @ ''.'' @ c)
                      | None \<Rightarrow> None)
                 | _ \<Rightarrow> None)
            | _ \<Rightarrow> None))"

definition refreshVersion :: "'w xos \<Rightarrow> Core \<Rightarrow> 'w \<Rightarrow> string result" where
  "refreshVersion s c w =
     (case os_version s (co_executablePath c) w of
        Inl err \<Rightarrow> Inl err
      | Inr out \<Rightarrow>
          (case version_match out of
             Some v \<Rightarrow> Inr v
           | None \<Rightarrow> Inl (errors_New ''could not parse Xray version'')))"

definition NewXRayCore ::
  "'w xos \<Rightarrow> string \<Rightarrow> string \<Rightarrow> string \<Rightarrow> int \<Rightarrow> int \<Rightarrow> 'w \<Rightarrow> Core result" where
  "NewXRayCore s executablePath assetsPath configPath logBufferSize startupLogTailSize w =
     (if logBufferSize < 0 then Inl (go_panic ''makechan: size out of range'')
      else
        (let c = \<lparr>co_executablePath = executablePath, co_assetsPath = assetsPath,
                  co_configPath = configPath, co_version = [], co_process = None, co_processPID = 0,
                  co_restarting = False, co_stopping = False, co_waitDone = None,
                  co_logsChan = (logBufferSize, []), co_logPhase = logPhaseRuntime,
                  co_startupLogs = None,
                  co_startupLogSize = (if startupLogTailSize \<le> 0 then 200 else startupLogTailSize),
                  co_startupFailure = [], co_startupDiagnosticsEnabled = False,
                  co_runtimeLogs = newStartupLogRing 10, co_unixSocketPaths = [],
                  co_logger = None, co_cancelFunc = False\<rparr>
         in case refreshVersion s c w of
              Inl err \<Rightarrow> Inl err
            | Inr version \<Rightarrow> Inr (c\<lparr>co_version := version\<rparr>)))"

definition GenerateConfigFile :: "'w xos \<Rightarrow> string \<Rightarrow> Core \<Rightarrow> 'w \<Rightarrow> go_error option \<times> 'w" where
  "GenerateConfigFile s config c w =
     (case os_json_Indent s config of
        Inl err \<Rightarrow> (Some err, w)
      | Inr pretty \<Rightarrow>
          (case os_MkdirAll s (co_configPath c) w of
             (Some err, w1) \<Rightarrow>
               (Some (errors_New (''failed to create config directory: '' @ Error_text err)), w1)
           | (None, w1) \<Rightarrow> os_WriteFile s (co_configPath c) ''xray.json'' pretty w1))"

definition core_Started :: "Core \<Rightarrow> bool" where
  "core_Started c = (case co_process c of None \<Rightarrow> False | Some cmd \<Rightarrow> \<not> cmd_reaped cmd)"

definition core_Stopping :: "Core \<Rightarrow> bool" where
  "core_Stopping c = co_stopping c"

definition core_Restarting :: "Core \<Rightarrow> bool" where
  "core_Restarting c = co_restarting c"

definition core_Version :: "Core \<Rightarrow> string" where
  "core_Version c = co_version c"

section \<open>Unix sockets\<close>

definition socket_path :: "string \<Rightarrow> string option" where
  "socket_path listen0 =
     (let listen = TrimSpace listen0
      in if listen = [] then None
         else (let path = TrimSpace (case Cut listen '','' of None \<Rightarrow> listen | Some (p, _) \<Rightarrow> p)
               in if HasPrefix path ''/'' then Some path else None))"

fun collect_paths :: "string set \<Rightarrow> Inbound list \<Rightarrow> string list" where
  "collect_paths seen [] = []"
| "collect_paths seen (i # is) =
     (case socket_path (in_Listen i) of
        None \<Rightarrow> collect_paths seen is
      | Some path \<Rightarrow>
          (if path \<in> seen then collect_paths seen is
           else path # collect_paths (insert path seen) is))"

definition collectUnixSocketPaths :: "XConfig option \<Rightarrow> string list" where
  "collectUnixSocketPaths cfg =
     (case cfg of None \<Rightarrow> [] | Some c \<Rightarrow> collect_paths {} (xc_InboundConfigs c))"

fun removeUnixSocketFiles :: "'w xos \<Rightarrow> string list \<Rightarrow> 'w \<Rightarrow> 'w" where
  "removeUnixSocketFiles s [] w = w"
| "removeUnixSocketFiles s (path # paths) w =
     (case os_Lstat s path w of
        Inr (Some True) \<Rightarrow> removeUnixSocketFiles s paths (os_Remove s path w)
      | _ \<Rightarrow> removeUnixSocketFiles s paths w)"

section \<open>Orphans\<close>

text \<open>The condition under which a listed process is killed.\<close>

definition is_orphan :: "int \<Rightarrow> int \<Rightarrow> ProcessInfo \<Rightarrow> bool" where
  "is_orphan currentPID nodePID p \<longleftrightarrow>
     pi_PID p \<noteq> currentPID \<and>
     (pi_IsZombie p \<and> (pi_PPID p = 0 \<or> pi_PPID p = 1) \<or> pi_PPID p = nodePID)"

fun kill_orphans :: "'w psys \<Rightarrow> int \<Rightarrow> int \<Rightarrow> ProcessInfo list \<Rightarrow> 'w \<Rightarrow> 'w" where
  "kill_orphans s currentPID nodePID [] w = w"
| "kill_orphans s currentPID nodePID (p # ps) w =
     (if is_orphan currentPID nodePID p
      then kill_orphans s currentPID nodePID ps (snd (killProcessTree s (pi_PID p) w))
      else kill_orphans s currentPID nodePID ps w)"

definition cleanupOrphanedProcesses :: "'w psys \<Rightarrow> Core \<Rightarrow> 'w \<Rightarrow> go_error option \<times> 'w" where
  "cleanupOrphanedProcesses s c w =
     (case findXrayProcesses s (co_executablePath c) w of
        Inl err \<Rightarrow> (Some (Errorf_w ''failed to find xray processes: '' err), w)
      | Inr processes \<Rightarrow>
          (let currentPID = (case co_process c of None \<Rightarrow> 0 | Some cmd \<Rightarrow> cmd_Pid cmd)
           in (None, kill_orphans s currentPID (po_Getpid s) processes w)))"


section \<open>Start and stop\<close>

text \<open>
  \<^verbatim>\<open>Process.Kill\<close> signals through the handle, so it does nothing once the process was waited for.
\<close>

definition cmd_Kill :: "'w xos \<Rightarrow> Cmd \<Rightarrow> 'w \<Rightarrow> 'w" where
  "cmd_Kill s cmd w =
     (if cmd_reaped cmd then w else snd (po_Signal (os_proc s) (cmd_Pid cmd) SIGKILL w))"

text \<open>What \<^verbatim>\<open>Start\<close> kills of its own: the process it still holds.\<close>

definition kill_old :: "'w xos \<Rightarrow> Core \<Rightarrow> 'w \<Rightarrow> Core \<times> 'w" where
  "kill_old s c w =
     (case co_process c of
        None \<Rightarrow> (c, w)
      | Some cmd \<Rightarrow>
          (c\<lparr>co_process := None, co_processPID := 0\<rparr>,
           snd (killProcessTree (os_proc s) (cmd_Pid cmd) (cmd_Kill s cmd w))))"

text \<open>The part of \<^verbatim>\<open>Start\<close> that runs the new process, and what it runs.\<close>

definition core_args :: "string list" where
  "core_args = [''-c'', ''stdin:'']"

definition core_env :: "Core \<Rightarrow> string" where
  "core_env c = ''XRAY_LOCATION_ASSET='' @ co_assetsPath c"

definition spawn_core ::
  "'w xos \<Rightarrow> string \<Rightarrow> string \<Rightarrow> string \<Rightarrow> string list \<Rightarrow> bool \<Rightarrow> Core \<Rightarrow> 'w \<Rightarrow>
     go_error option \<times> Core \<times> 'w" where
  "spawn_core s bytesConfig accessFile errorFile socketPaths debugMode c w =
     (case os_StdoutPipe s w of
        (Some err, w1) \<Rightarrow> (Some err, c, w1)
      | (None, w1) \<Rightarrow>
          (case SetLogFile (os_fs s) accessFile errorFile (logger_New debugMode) w1 of
             (Some err, l, w2) \<Rightarrow> (Some err, c\<lparr>co_logger := Some l\<rparr>, w2)
           | (None, l, w2) \<Rightarrow>
               (let c2 = c\<lparr>co_logger := Some l\<rparr>
                in case os_Spawn s (co_executablePath c) core_args (core_env c) bytesConfig w2 of
                     (Inl err, w3) \<Rightarrow> (Some err, c2, w3)
                   | (Inr (h, pid), w3) \<Rightarrow>
                       (None,
                        c2\<lparr>co_process := Some \<lparr>cmd_id = h, cmd_Pid = pid, cmd_reaped = False\<rparr>,
                           co_processPID := pid, co_stopping := False, co_waitDone := Some h,
                           co_unixSocketPaths := socketPaths, co_cancelFunc := True\<rparr>,
                        w3))))"

text \<open>\<^verbatim>\<open>Start\<close> does not look at the error of \<^verbatim>\<open>ToBytes\<close>: the bytes are then empty.\<close>

definition config_bytes :: "string result \<Rightarrow> string" where
  "config_bytes r = (case r of Inl _ \<Rightarrow> [] | Inr b \<Rightarrow> b)"

definition core_Start ::
  "'w xos \<Rightarrow> js \<Rightarrow> go_iter \<Rightarrow> XConfig \<Rightarrow> bool \<Rightarrow> Core \<Rightarrow> 'w \<Rightarrow>
     go_error option \<times> XConfig \<times> Core \<times> 'w" where
  "core_Start s j rng xConfig debugMode c w =
     (let ((accessFile, errorFile), x1) = GetLogFiles xConfig;
          (r, x2) = ToBytes j rng x1;
          bytesConfig = config_bytes r;
          (err, w1) = (if debugMode then GenerateConfigFile s bytesConfig c w else (None, w))
      in if err \<noteq> None then (err, x2, c, w1)
         else if core_Started c then (Some (errors_New ''xray is started already''), x2, c, w1)
         else
           (let c1 = setStartupLogPhase
                       (EnableStartupDiagnostics (co_startupLogSize c)
                          (c\<lparr>co_runtimeLogs := ring_reset (co_runtimeLogs c)\<rparr>));
                w2 = snd (cleanupOrphanedProcesses (os_proc s) c1 w1);
                (c2, w3) = kill_old s c1 w2;
                socketPaths = collectUnixSocketPaths (Some x2);
                w4 = removeUnixSocketFiles s socketPaths w3;
                (err', c3, w5) =
                  spawn_core s bytesConfig accessFile errorFile socketPaths debugMode c2 w4
            in (err', x2, c3, w5)))"

text \<open>
  The goroutine that waits for the process: \<open>reap\<close> is the return of \<^verbatim>\<open>cmd.Wait\<close>, which sets
  \<^verbatim>\<open>ProcessState\<close>, and \<open>handleProcessExit\<close> the call that follows.
\<close>

definition reap :: "nat \<Rightarrow> Core \<Rightarrow> Core" where
  "reap h c =
     c\<lparr>co_process := map_option (\<lambda>cmd. if cmd_id cmd = h then cmd\<lparr>cmd_reaped := True\<rparr> else cmd)
                       (co_process c)\<rparr>"

definition exit_message :: "go_error option \<Rightarrow> string" where
  "exit_message err =
     (let message = ''xray process exited unexpectedly''
      in case err of
           None \<Rightarrow> message
         | Some e \<Rightarrow>
             message @ '': '' @ Error_text e @
             (if Contains (ToLower (Error_text e)) ''signal: killed''
              then '' (process was killed externally; check container/system OOM and memory limits)''
              else []))"

definition handleProcessExit ::
  "'w xos \<Rightarrow> nat \<Rightarrow> go_error option \<Rightarrow> Core \<Rightarrow> 'w \<Rightarrow> Core \<times> 'w" where
  "handleProcessExit s h err c w =
     (if co_stopping c \<or> map_option cmd_id (co_process c) \<noteq> Some h then (c, w)
      else recordProcessLog (os_fs s) (exit_message err) c w)"

text \<open>The part of \<^verbatim>\<open>Stop\<close> that ends a running process.\<close>

definition end_process :: "'w xos \<Rightarrow> Cmd \<Rightarrow> nat option \<Rightarrow> 'w \<Rightarrow> 'w" where
  "end_process s cmd waitDone w =
     (let pid = cmd_Pid cmd;
          w1 = cmd_Kill s cmd w;
          (exited, w2) = (case waitDone of None \<Rightarrow> (False, w1) | Some h \<Rightarrow> os_WaitExit s h w1);
          w3 = (if exited then w2 else snd (killProcessTree (os_proc s) pid w2))
      in case verifyProcessDead (os_proc s) pid w3 of
           (None, w4) \<Rightarrow> w4
         | (Some err, w4) \<Rightarrow> snd (killProcessTree (os_proc s) pid w4))"

definition core_idle :: "Core \<Rightarrow> bool" where
  "core_idle c \<longleftrightarrow> co_process c = None \<and> \<not> co_cancelFunc c \<and> co_logger c = None \<and>
     co_unixSocketPaths c = []"

definition core_Stop :: "'w xos \<Rightarrow> Core \<Rightarrow> 'w \<Rightarrow> Core \<times> 'w" where
  "core_Stop s c w =
     (if \<not> core_Started c \<and> core_idle c then (c, w)
      else
        (let w1 = (if core_Started c then end_process s (the (co_process c)) (co_waitDone c) w else w);
             socketPaths = co_unixSocketPaths c;
             c1 = c\<lparr>co_process := None, co_processPID := 0, co_stopping := False,
                    co_waitDone := None, co_unixSocketPaths := []\<rparr>;
             w2 = removeUnixSocketFiles s socketPaths w1;
             c2 = c1\<lparr>co_cancelFunc := False\<rparr>;
             (c3, w3) = (case co_logger c2 of
                           None \<Rightarrow> (c2, w2)
                         | Some l \<Rightarrow>
                             (c2\<lparr>co_logger := None\<rparr>, snd (logger_Close (os_fs s) l w2)))
         in (SwitchToRuntimeLogPhase c3, w3)))"

definition core_Restart ::
  "'w xos \<Rightarrow> js \<Rightarrow> go_iter \<Rightarrow> XConfig \<Rightarrow> bool \<Rightarrow> Core \<Rightarrow> 'w \<Rightarrow>
     go_error option \<times> XConfig \<times> Core \<times> 'w" where
  "core_Restart s j rng config debugMode c w =
     (if co_restarting c then (Some (errors_New ''xray is already restarting''), config, c, w)
      else
        (let (c1, w1) = core_Stop s (c\<lparr>co_restarting := True\<rparr>) w;
             (err, config', c2, w2) = core_Start s j rng config debugMode c1 w1
         in (err, config', c2\<lparr>co_restarting := False\<rparr>, w2)))"

end
