(* ===== verification/XrayCoreProps.thy ===== *)
theory XrayCoreProps
  imports XrayCore
begin

text \<open>
  What makes the core's life correct: whom it sends a signal, that \<^verbatim>\<open>Stop\<close> and \<^verbatim>\<open>Restart\<close> leave the
  state they promise, and that the log files it holds open are just those of its logger, over every
  sequence of restarts, stops, exits of the process and lines of its output.
\<close>

section \<open>Signals\<close>

definition killed_by :: "(int \<Rightarrow> int) \<Rightarrow> int \<Rightarrow> int set" where
  "killed_by pgrp p = insert p {q. pgrp q = pgrp p}"

lemma kill_orphans_sent:
  assumes "signal_laws s sent pgrp" "q \<in> sent (kill_orphans s cur node ps w)"
  shows "q \<in> sent w \<or> (\<exists>p \<in> set ps. is_orphan cur node p \<and> q \<in> killed_by pgrp (pi_PID p))"
  using assms(2)
proof (induction ps arbitrary: w)
  case (Cons p ps)
  show ?case
  proof (cases "is_orphan cur node p")
    case True
    then have "q \<in> sent (kill_orphans s cur node ps (snd (killProcessTree s (pi_PID p) w)))"
      using Cons.prems by simp
    from Cons.IH [OF this] True show ?thesis
      using killProcessTree_sent [OF assms(1), of "pi_PID p" w, folded killed_by_def] by auto
  next
    case False
    with Cons.prems have "q \<in> sent (kill_orphans s cur node ps w)" by simp
    from Cons.IH [OF this] show ?thesis by auto
  qed
qed simp


section \<open>Stop and restart\<close>

lemma SwitchToRuntimeLogPhase_simps [simp]:
  "co_process (SwitchToRuntimeLogPhase c) = co_process c"
  "co_logger (SwitchToRuntimeLogPhase c) = co_logger c"
  "co_cancelFunc (SwitchToRuntimeLogPhase c) = co_cancelFunc c"
  "co_unixSocketPaths (SwitchToRuntimeLogPhase c) = co_unixSocketPaths c"
  "co_stopping (SwitchToRuntimeLogPhase c) = co_stopping c"
  "co_restarting (SwitchToRuntimeLogPhase c) = co_restarting c"
  "co_executablePath (SwitchToRuntimeLogPhase c) = co_executablePath c"
  "co_assetsPath (SwitchToRuntimeLogPhase c) = co_assetsPath c"
  by (simp_all add: SwitchToRuntimeLogPhase_def DisableStartupDiagnostics_def)

lemma EnableStartupDiagnostics_simps [simp]:
  "co_process (EnableStartupDiagnostics n c) = co_process c"
  "co_logger (EnableStartupDiagnostics n c) = co_logger c"
  "co_cancelFunc (EnableStartupDiagnostics n c) = co_cancelFunc c"
  "co_unixSocketPaths (EnableStartupDiagnostics n c) = co_unixSocketPaths c"
  "co_stopping (EnableStartupDiagnostics n c) = co_stopping c"
  "co_restarting (EnableStartupDiagnostics n c) = co_restarting c"
  by (simp_all add: EnableStartupDiagnostics_def Let_def)

lemma setStartupLogPhase_simps [simp]:
  "co_process (setStartupLogPhase c) = co_process c"
  "co_logger (setStartupLogPhase c) = co_logger c"
  "co_cancelFunc (setStartupLogPhase c) = co_cancelFunc c"
  "co_unixSocketPaths (setStartupLogPhase c) = co_unixSocketPaths c"
  "co_stopping (setStartupLogPhase c) = co_stopping c"
  "co_restarting (setStartupLogPhase c) = co_restarting c"
  by (simp_all add: setStartupLogPhase_def)

lemma core_Started_iff: "core_Started c \<longleftrightarrow> (\<exists>cmd. co_process c = Some cmd \<and> \<not> cmd_reaped cmd)"
  by (simp add: core_Started_def split: option.split)

lemma core_Stop_idle:
  assumes "core_Stop s c w = (c', w')"
  shows "core_idle c'" "\<not> core_Started c'" "co_restarting c' = co_restarting c"
    "co_logger c' = None"
  using assms
  by (auto simp: core_Stop_def core_idle_def core_Started_iff Let_def split: if_splits option.splits prod.splits)

lemma core_Stop_path:
  "core_Stop s c w = (c', w') \<Longrightarrow>
    co_executablePath c' = co_executablePath c \<and> core_env c' = core_env c"
  by (auto simp: core_env_def core_Stop_def Let_def split: if_splits option.splits prod.splits)

text \<open>
  \<^verbatim>\<open>Stop\<close> leaves nothing behind and may be called again: whatever state the core was in,
  afterwards it holds no process, no logger, no socket path and no log reader and is not started,
  and a second \<^verbatim>\<open>Stop\<close> changes neither the core nor the system.
\<close>

theorem core_Stop_complete:
  "let (c', w') = core_Stop s c w
   in core_idle c' \<and> \<not> core_Started c' \<and> core_Stop s c' w' = (c', w')"
proof -
  obtain c' w' where stop: "core_Stop s c w = (c', w')" by fastforce
  then show ?thesis using core_Stop_idle [OF stop] by (simp add: core_Stop_def)
qed

section \<open>Descriptors\<close>

text \<open>
  \<open>fds w\<close> is the set of log files that are open. The logger's operations change it as \<open>fd_laws\<close> says,
  the other operations of the system leave it alone.
\<close>

definition fd_frame :: "'w xos \<Rightarrow> ('w \<Rightarrow> fd set) \<Rightarrow> bool" where
  "fd_frame s fds \<longleftrightarrow>
     fd_laws (os_fs s) fds \<and>
     (\<forall>p w. fds (snd (os_MkdirAll s p w)) = fds w) \<and>
     (\<forall>d n b w. fds (snd (os_WriteFile s d n b w)) = fds w) \<and>
     (\<forall>p w. fds (os_Remove s p w) = fds w) \<and>
     (\<forall>w. fds (snd (os_StdoutPipe s w)) = fds w) \<and>
     (\<forall>e a v b w. fds (snd (os_Spawn s e a v b w)) = fds w) \<and>
     (\<forall>h w. fds (snd (os_WaitExit s h w)) = fds w) \<and>
     (\<forall>p sg w. fds (snd (po_Signal (os_proc s) p sg w)) = fds w) \<and>
     (\<forall>g sg w. fds (po_KillGroup (os_proc s) g sg w) = fds w) \<and>
     (\<forall>w. fds (po_Sleep (os_proc s) w) = fds w)"

lemma fd_frame_simps:
  assumes "fd_frame s fds"
  shows "fds (snd (os_MkdirAll s p w)) = fds w" "fds (snd (os_WriteFile s d n b w)) = fds w"
    "fds (os_Remove s p w) = fds w" "fds (snd (os_StdoutPipe s w)) = fds w"
    "fds (snd (os_Spawn s e a v b w)) = fds w" "fds (snd (os_WaitExit s h w)) = fds w"
    "fds (snd (po_Signal (os_proc s) q sg w)) = fds w"
    "fds (po_KillGroup (os_proc s) q sg w) = fds w" "fds (po_Sleep (os_proc s) w) = fds w"
  using assms by (simp_all add: fd_frame_def)

lemma fd_frame_laws: "fd_frame s fds \<Longrightarrow> fd_laws (os_fs s) fds"
  by (simp add: fd_frame_def)

lemma isProcessRunning_fds:
  assumes "fd_frame s fds"
  shows "fds (snd (isProcessRunning (os_proc s) p w)) = fds w"
  using fd_frame_simps(7) [OF assms, of p SIG0 w]
  by (cases "po_Signal (os_proc s) p SIG0 w") (simp add: isProcessRunning_def split: option.split)

lemma wait_dead_fds:
  assumes "fd_frame s fds"
  shows "fds (snd (wait_dead (os_proc s) p k w)) = fds w"
proof (induction k arbitrary: w)
  case (Suc k)
  obtain b w' where r: "isProcessRunning (os_proc s) p w = (b, w')" by fastforce
  then have "fds w' = fds w" using isProcessRunning_fds [OF assms, of p w] by simp
  then show ?case
    using r Suc [of "po_Sleep (os_proc s) w'"] fd_frame_simps(9) [OF assms, of w'] by (cases b) auto
qed simp

lemma killProcessTree_fds:
  assumes "fd_frame s fds"
  shows "fds (snd (killProcessTree (os_proc s) p w)) = fds w"
proof -
  have "fds (snd (case wait_dead (os_proc s) p k v of (True, w4) \<Rightarrow> (None, w4) | (False, w4) \<Rightarrow> (e, w4))) = fds v"
    for k v and e :: "go_error option"
    using wait_dead_fds [OF assms, of p k v]
    by (cases "wait_dead (os_proc s) p k v"; cases "fst (wait_dead (os_proc s) p k v)") simp_all
  then show ?thesis
    by (simp add: killProcessTree_def Let_def fd_frame_simps [OF assms] split: option.split sum.split)
qed

lemma verifyProcessDead_fds:
  assumes "fd_frame s fds"
  shows "fds (snd (verifyProcessDead (os_proc s) p w)) = fds w"
  using isProcessRunning_fds [OF assms, of p w]
  by (cases "isProcessRunning (os_proc s) p w"; cases "fst (isProcessRunning (os_proc s) p w)")
     (simp_all add: verifyProcessDead_def)

lemma kill_orphans_fds:
  assumes "fd_frame s fds"
  shows "fds (kill_orphans (os_proc s) cur node ps w) = fds w"
  by (induction ps arbitrary: w) (simp_all add: killProcessTree_fds [OF assms])

lemma cleanup_fds:
  assumes "fd_frame s fds"
  shows "fds (snd (cleanupOrphanedProcesses (os_proc s) c w)) = fds w"
  by (simp add: cleanupOrphanedProcesses_def Let_def kill_orphans_fds [OF assms] split: sum.split)

lemma removeUnixSocketFiles_fds:
  assumes "fd_frame s fds"
  shows "fds (removeUnixSocketFiles s paths w) = fds w"
  by (induction paths arbitrary: w)
     (simp_all add: fd_frame_simps [OF assms] split: sum.split option.split bool.split)

lemma GenerateConfigFile_fds:
  assumes "fd_frame s fds"
  shows "fds (snd (GenerateConfigFile s b c w)) = fds w"
proof -
  obtain e w1 where m: "os_MkdirAll s (co_configPath c) w = (e, w1)" by fastforce
  then have "fds w1 = fds w" using fd_frame_simps(1) [OF assms, of "co_configPath c" w] by simp
  with m show ?thesis
    by (simp add: GenerateConfigFile_def fd_frame_simps(2) [OF assms] split: sum.split option.split)
qed

lemma kill_old_fds:
  assumes "fd_frame s fds"
  shows "fds (snd (kill_old s c w)) = fds w"
  by (simp add: kill_old_def cmd_Kill_def killProcessTree_fds [OF assms] fd_frame_simps [OF assms]
      split: option.split)

lemma end_process_fds:
  assumes "fd_frame s fds"
  shows "fds (end_process s cmd wd w) = fds w"
proof -
  define w1 where "w1 = cmd_Kill s cmd w"
  obtain b w2 where w2: "(case wd of None \<Rightarrow> (False, w1) | Some h \<Rightarrow> os_WaitExit s h w1) = (b, w2)"
    by fastforce
  define w3 where "w3 = (if b then w2 else snd (killProcessTree (os_proc s) (cmd_Pid cmd) w2))"
  obtain e w4 where w4: "verifyProcessDead (os_proc s) (cmd_Pid cmd) w3 = (e, w4)" by fastforce
  have "fds w1 = fds w" by (simp add: w1_def cmd_Kill_def fd_frame_simps [OF assms])
  moreover have "fds w2 = fds w1"
    using w2 fd_frame_simps(6) [OF assms, of "the wd" w1] by (cases wd) auto
  moreover have "fds w3 = fds w2" by (simp add: w3_def killProcessTree_fds [OF assms])
  moreover have "fds w4 = fds w3"
    using verifyProcessDead_fds [OF assms, of "cmd_Pid cmd" w3] w4 by simp
  ultimately show ?thesis
    unfolding end_process_def Let_def w1_def [symmetric] w2 prod.case w3_def [symmetric] w4
    by (simp add: killProcessTree_fds [OF assms] split: option.split)
qed

text \<open>The log files a core has open.\<close>

definition core_fds :: "Core \<Rightarrow> fd set" where
  "core_fds c = (case co_logger c of None \<Rightarrow> {} | Some l \<Rightarrow> held_fds l)"

lemma core_Stop_fds:
  assumes "fd_frame s fds" "core_idle c \<Longrightarrow> core_fds c = {}" "core_Stop s c w = (c', w')"
  shows "fds w' = fds w - core_fds c"
  using assms(3)
  by (auto simp: core_Stop_def Let_def core_fds_def core_idle_def end_process_fds [OF assms(1)]
      removeUnixSocketFiles_fds [OF assms(1)] logger_Close_fds [OF fd_frame_laws [OF assms(1)]]
      split: if_splits option.splits)

lemma spawn_core_fds:
  assumes "fd_frame s fds" "spawn_core s b a e sp d c w = (r, c', w')" "co_logger c = None"
  shows "fds w' = core_fds c' \<union> fds w \<and> core_fds c' \<inter> fds w = {}"
proof -
  obtain r1 w1 where p: "os_StdoutPipe s w = (r1, w1)" by fastforce
  then have w1: "fds w1 = fds w" using fd_frame_simps(4) [OF assms(1), of w] by simp
  obtain r2 l w2 where l: "SetLogFile (os_fs s) a e (logger_New d) w1 = (r2, l, w2)"
    by (metis prod_cases3)
  note log = SetLogFile_fds [OF fd_frame_laws [OF assms(1)] l]
  obtain r3 w3 where sp: "os_Spawn s (co_executablePath c) core_args (core_env c) b w2 = (r3, w3)" by fastforce
  then have w3: "fds w3 = fds w2"
    using fd_frame_simps(5) [OF assms(1), of "co_executablePath c" core_args "core_env c" b w2] by simp
  show ?thesis
  proof (cases r1)
    case (Some x)
    with assms(2,3) p w1 show ?thesis by (auto simp: spawn_core_def core_fds_def)
  next
    case None
    note simps = spawn_core_def Let_def core_fds_def p l sp None
    show ?thesis
    proof (cases r2)
      case (Some x)
      with assms(2) log w1 show ?thesis by (auto simp: simps)
    next
      case None
      with assms(2) log w1 w3 show ?thesis by (cases r3) (auto simp: simps)
    qed
  qed
qed

lemma spawn_core_state:
  assumes "spawn_core s b a e sp d c w = (r, c', w')"
  shows "co_restarting c' = co_restarting c"
    "r \<noteq> None \<Longrightarrow> co_process c' = co_process c"
    "r = None \<Longrightarrow> \<exists>h pid v. os_Spawn s (co_executablePath c) core_args (core_env c) b v = (Inr (h, pid), w') \<and>
      co_process c' = Some \<lparr>cmd_id = h, cmd_Pid = pid, cmd_reaped = False\<rparr> \<and>
      co_processPID c' = pid \<and> co_waitDone c' = Some h \<and> \<not> co_stopping c' \<and>
      co_unixSocketPaths c' = sp \<and> co_cancelFunc c' \<and> co_logger c' \<noteq> None"
  using assms
  by (auto simp: spawn_core_def Let_def split: prod.splits option.splits sum.splits)

text \<open>
  How \<^verbatim>\<open>Start\<close> can go: it stops before it touches the core, or it runs \<open>spawn_core\<close> on a core that
  holds no process.
\<close>

lemma core_Start_cases:
  assumes start: "core_Start s j rng x d c w = (r, x', c', w')" and frame: "fd_frame s fds"
  obtains (refused) "r \<noteq> None" "c' = c" "fds w' = fds w"
  | (spawned) b a e c2 v where "spawn_core s b a e (collectUnixSocketPaths (Some x')) d c2 v = (r, c', w')"
      "b = config_bytes (fst (ToBytes j rng (snd (GetLogFiles x))))"
      "(a, e) = fst (GetLogFiles x)" "\<not> core_Started c"
      "co_process c2 = None" "co_logger c2 = co_logger c" "co_restarting c2 = co_restarting c"
      "co_executablePath c2 = co_executablePath c" "co_assetsPath c2 = co_assetsPath c"
      "fds v = fds w" "isStartupLogPhase c2" "co_startupDiagnosticsEnabled c2"
proof -
  obtain a e x1 where g: "GetLogFiles x = ((a, e), x1)" by (metis prod.exhaust)
  obtain br x2 where t: "ToBytes j rng x1 = (br, x2)" by fastforce
  obtain err w1 where gen: "(if d then GenerateConfigFile s (config_bytes br) c w else (None, w)) = (err, w1)"
    by fastforce
  have w1: "fds w1 = fds w"
    using gen GenerateConfigFile_fds [OF frame, of "config_bytes br" c w] by (cases d) auto
  define c1 where "c1 = setStartupLogPhase (EnableStartupDiagnostics (co_startupLogSize c)
      (c\<lparr>co_runtimeLogs := ring_reset (co_runtimeLogs c)\<rparr>))"
  define w2 where "w2 = snd (cleanupOrphanedProcesses (os_proc s) c1 w1)"
  obtain c2 w3 where k: "kill_old s c1 w2 = (c2, w3)" by fastforce
  define w4 where "w4 = removeUnixSocketFiles s (collectUnixSocketPaths (Some x2)) w3"
  obtain r' c3 w5 where sp: "spawn_core s (config_bytes br) a e (collectUnixSocketPaths (Some x2)) d c2 w4 =
      (r', c3, w5)" by (metis prod_cases3)
  note eq = start [unfolded core_Start_def, unfolded g t Let_def prod.case, unfolded gen,
      unfolded prod.case, folded c1_def, folded w2_def, unfolded k, unfolded prod.case,
      folded w4_def, unfolded sp, unfolded prod.case]
  show ?thesis
  proof (cases "err \<noteq> None \<or> core_Started c")
    case True
    then have "r \<noteq> None \<and> c' = c \<and> w' = w1" using eq by (auto split: if_splits)
    with w1 show ?thesis by (intro refused) auto
  next
    case False
    with eq have res: "r = r'" "x' = x2" "c' = c3" "w' = w5" by auto
    have "fds w4 = fds w"
      using kill_old_fds [OF frame, of c1 w2] k
      by (simp add: w4_def removeUnixSocketFiles_fds [OF frame] w2_def cleanup_fds [OF frame] w1)
    moreover have "co_process c2 = None" "co_logger c2 = co_logger c" "co_restarting c2 = co_restarting c"
      "co_executablePath c2 = co_executablePath c" "co_assetsPath c2 = co_assetsPath c"
      "isStartupLogPhase c2" "co_startupDiagnosticsEnabled c2"
      using k by (auto simp: kill_old_def c1_def isStartupLogPhase_def setStartupLogPhase_def
          EnableStartupDiagnostics_def Let_def split: option.splits)
    ultimately show ?thesis
      using False sp res g t by (intro spawned [of "config_bytes br" a e c2 w4]) auto
  qed
qed

section \<open>The steps of a core\<close>

text \<open>
  What can happen to a core once it was started: a call of \<^verbatim>\<open>Restart\<close> or \<^verbatim>\<open>Stop\<close>, the return of
  \<^verbatim>\<open>Wait\<close> for some process and the handler that runs after it, and the capture of lines of output.
\<close>

inductive core_step :: "'w xos \<Rightarrow> js \<Rightarrow> go_iter \<Rightarrow> Core \<times> 'w \<Rightarrow> Core \<times> 'w \<Rightarrow> bool"
  for s :: "'w xos" and j :: js and rng :: go_iter where
  restart: "core_Restart s j rng x d c w = (r, x', c', w') \<Longrightarrow> core_step s j rng (c, w) (c', w')"
| stop: "core_Stop s c w = (c', w') \<Longrightarrow> core_step s j rng (c, w) (c', w')"
| reaped: "core_step s j rng (c, w) (reap h c, w)"
| exited: "handleProcessExit s h err c w = (c', w') \<Longrightarrow> core_step s j rng (c, w) (c', w')"
| printed: "captureProcessLogs (os_fs s) out c w = (c', w') \<Longrightarrow> core_step s j rng (c, w) (c', w')"

definition log_files_ok :: "('w \<Rightarrow> fd set) \<Rightarrow> fd set \<Rightarrow> Core \<Rightarrow> 'w \<Rightarrow> bool" where
  "log_files_ok fds F c w \<longleftrightarrow> fds w = core_fds c \<union> F \<and> core_fds c \<inter> F = {}"

lemma log_files_same:
  "co_logger c' = co_logger c \<Longrightarrow> fds w' = fds w \<Longrightarrow> log_files_ok fds F c' w' = log_files_ok fds F c w"
  by (simp add: log_files_ok_def core_fds_def)

lemma log_files_Stop:
  assumes "fd_frame s fds" "log_files_ok fds F c w" "core_Stop s c w = (c', w')"
  shows "fds w' = F" "co_logger c' = None" "log_files_ok fds F c' w'"
proof -
  show f: "fds w' = F"
    using core_Stop_fds [OF assms(1) _ assms(3)] assms(2)
    by (auto simp: log_files_ok_def core_idle_def core_fds_def)
  show n: "co_logger c' = None" by (rule core_Stop_idle(4) [OF assms(3)])
  show "log_files_ok fds F c' w'" using f n by (simp add: log_files_ok_def core_fds_def)
qed

lemma log_files_Start:
  assumes "fd_frame s fds" "fds w = F" "co_logger c = None"
    and start: "core_Start s j rng x d c w = (r, x', c', w')"
  shows "log_files_ok fds F c' w'"
  using start assms(1)
proof (cases rule: core_Start_cases)
  case refused
  with assms(2,3) show ?thesis by (simp add: log_files_ok_def core_fds_def)
next
  case (spawned b a e c2 v)
  with spawn_core_fds [OF assms(1) spawned(1)] assms(2,3) show ?thesis by (simp add: log_files_ok_def)
qed

lemma captured_line:
  assumes "fd_laws fs fds"
  shows "co_logger (fst (captureStartupLogLine fs l c w)) = co_logger c"
    "fds (snd (captureStartupLogLine fs l c w)) = fds w"
    "co_logger (fst (captureRuntimeLogLine fs l c w)) = co_logger c"
    "fds (snd (captureRuntimeLogLine fs l c w)) = fds w"
  by (simp_all add: captureStartupLogLine_def captureRuntimeLogLine_def Let_def detectLogType_def
      RecordStartupLog_def RecordRuntimeLog_def logger_Log_fds [OF assms] split: option.split)

lemma recordProcessLog_same:
  assumes "fd_laws fs fds"
  shows "co_logger (fst (recordProcessLog fs l c w)) = co_logger c"
    "fds (snd (recordProcessLog fs l c w)) = fds w"
  by (simp_all add: recordProcessLog_def captured_line [OF assms])

lemma captureProcessLogs_same:
  assumes "fd_laws fs fds"
  shows "co_logger (fst (captureProcessLogs fs out c w)) = co_logger c \<and>
    fds (snd (captureProcessLogs fs out c w)) = fds w"
proof (induction out arbitrary: c w)
  case (Cons x out)
  obtain l fin where x: "x = (l, fin)" by fastforce
  obtain c' w' where r: "recordProcessLog fs l c w = (c', w')" by fastforce
  have eq: "(if isStartupLogPhase c then captureStartupLogLine fs l c w
      else captureRuntimeLogLine fs l c w) = (c', w')" using r by (simp add: recordProcessLog_def)
  show ?case
    using Cons.IH [of c' w'] recordProcessLog_same [OF assms, of l c w] r eq by (simp add: x)
qed simp

lemma handleProcessExit_cases:
  "handleProcessExit s h err c w = (c, w) \<or>
   handleProcessExit s h err c w = recordProcessLog (os_fs s) (exit_message err) c w"
  by (simp only: handleProcessExit_def split: if_split) simp

lemma log_files_step:
  assumes "core_step s j rng (c, w) (c', w')" "fd_frame s fds" "log_files_ok fds F c w"
  shows "log_files_ok fds F c' w'"
  using assms(1)
proof cases
  case (restart x d r x')
  show ?thesis
  proof (cases "co_restarting c")
    case True
    with restart assms(3) show ?thesis by (simp add: core_Restart_def)
  next
    case False
    obtain c1 w1 where stop: "core_Stop s (c\<lparr>co_restarting := True\<rparr>) w = (c1, w1)" by fastforce
    obtain r2 x2 c2 w2 where start: "core_Start s j rng x d c1 w1 = (r2, x2, c2, w2)"
      by (metis prod_cases4)
    have "log_files_ok fds F (c\<lparr>co_restarting := True\<rparr>) w"
      using assms(3) by (simp add: log_files_ok_def core_fds_def)
    note stopped = log_files_Stop [OF assms(2) this stop]
    have "c' = c2\<lparr>co_restarting := False\<rparr>" "w' = w2"
      using restart False stop start by (auto simp: core_Restart_def)
    then show ?thesis
      using log_files_Start [OF assms(2) stopped(1,2) start] by (simp add: log_files_ok_def core_fds_def)
  qed
next
  case stop
  then show ?thesis using log_files_Stop [OF assms(2,3)] by simp
next
  case (reaped h)
  then show ?thesis using assms(3) by (simp add: log_files_ok_def core_fds_def reap_def)
next
  case (exited h err)
  show ?thesis
    using handleProcessExit_cases [of s h err c w]
  proof
    assume "handleProcessExit s h err c w = (c, w)"
    then show ?thesis using exited assms(3) by simp
  next
    assume r: "handleProcessExit s h err c w = recordProcessLog (os_fs s) (exit_message err) c w"
    note rec = recordProcessLog_same [OF fd_frame_laws [OF assms(2)], of "exit_message err" c w,
        folded r, unfolded exited fst_conv snd_conv]
    show ?thesis using assms(3) unfolding log_files_same [of c' c fds w' w F, OF rec] .
  qed
next
  case (printed out)
  note rec = captureProcessLogs_same [OF fd_frame_laws [OF assms(2)], of out c w,
      unfolded printed fst_conv snd_conv]
  show ?thesis
    using assms(3) unfolding log_files_same [of c' c fds w' w F, OF conjunct1 [OF rec] conjunct2 [OF rec]] .
qed

lemma log_files_steps:
  assumes "(core_step s j rng)\<^sup>*\<^sup>* cw cw'" "fd_frame s fds"
    "log_files_ok fds F (fst cw) (snd cw)"
  shows "log_files_ok fds F (fst cw') (snd cw')"
  using assms(1)
proof induction
  case (step y z)
  then show ?case
    using log_files_step [of s j rng "fst y" "snd y" "fst z" "snd z", OF _ assms(2)] by simp
qed (rule assms(3))

text \<open>
  C29. A core neither leaks nor shares log files: after \<^verbatim>\<open>NewXRayCore\<close>, a first \<^verbatim>\<open>Start\<close> and any
  sequence of restarts, stops, exits of a process and lines of output, successful or failing, the log
  files open are those open before and the ones its logger holds, which are new; a \<^verbatim>\<open>Stop\<close> at any
  point closes just these.
\<close>

theorem core_log_files_exact:
  assumes "fd_frame s fds" "NewXRayCore s e a p n m w0 = Inr c0"
    and "core_Start s j rng x d c0 w0 = (r, x', c1, w1)"
    and "(core_step s j rng)\<^sup>*\<^sup>* (c1, w1) (c, w)"
  shows "fds w = core_fds c \<union> fds w0 \<and> core_fds c \<inter> fds w0 = {} \<and>
    fds (snd (core_Stop s c w)) = fds w0"
proof -
  have "co_logger c0 = None" using assms(2) by (auto simp: NewXRayCore_def Let_def split: if_splits sum.splits)
  then have "log_files_ok fds (fds w0) c1 w1" by (rule log_files_Start [OF assms(1) refl _ assms(3)])
  then have ok: "log_files_ok fds (fds w0) c w"
    using log_files_steps [OF assms(4,1)] by simp
  obtain c' w' where "core_Stop s c w = (c', w')" by fastforce
  then have "fds (snd (core_Stop s c w)) = fds w0" using log_files_Stop(1) [OF assms(1) ok] by simp
  with ok show ?thesis by (simp add: log_files_ok_def)
qed

section \<open>The outcome of a restart\<close>

text \<open>
  C30. A restart leaves a core that runs the given configuration or does not run at all: without an
  error the process it holds was just spawned from the executable with the bytes of the configuration
  as its input, it is started and not stopping, its socket paths are those of the configuration and
  its startup diagnostics are on; with an error it holds no process. Either way it is no longer
  restarting, and a second restart while one is under way is refused and changes nothing.
\<close>

theorem core_Restart_outcome:
  assumes "fd_frame s fds" "core_Restart s j rng x d c w = (r, x', c', w')"
  shows "if co_restarting c
    then r = Some (errors_New ''xray is already restarting'') \<and> x' = x \<and> c' = c \<and> w' = w
    else \<not> co_restarting c' \<and>
      (if r = None
       then \<exists>h pid v.
         os_Spawn s (co_executablePath c) core_args (core_env c)
           (config_bytes (fst (ToBytes j rng (snd (GetLogFiles x))))) v = (Inr (h, pid), w') \<and>
         co_process c' = Some \<lparr>cmd_id = h, cmd_Pid = pid, cmd_reaped = False\<rparr> \<and>
         core_Started c' \<and> \<not> core_Stopping c' \<and>
         co_unixSocketPaths c' = collectUnixSocketPaths (Some x')
       else co_process c' = None \<and> \<not> core_Started c')"
proof (cases "co_restarting c")
  case True
  with assms(2) show ?thesis by (simp add: core_Restart_def)
next
  case False
  obtain c1 w1 where stop: "core_Stop s (c\<lparr>co_restarting := True\<rparr>) w = (c1, w1)" by fastforce
  obtain r2 x2 c2 w2 where start: "core_Start s j rng x d c1 w1 = (r2, x2, c2, w2)"
    by (metis prod_cases4)
  have res: "r = r2" "x' = x2" "c' = c2\<lparr>co_restarting := False\<rparr>" "w' = w2"
    using assms(2) False stop start by (auto simp: core_Restart_def)
  have idle: "co_process c1 = None" using core_Stop_idle(1) [OF stop] by (simp add: core_idle_def)
  have path: "co_executablePath c1 = co_executablePath c" "core_env c1 = core_env c"
    using core_Stop_path [OF stop] by (simp_all add: core_env_def)
  from start assms(1) show ?thesis
  proof (cases rule: core_Start_cases)
    case refused
    with res idle False show ?thesis by (simp add: core_Started_iff)
  next
    case (spawned b a e c3 v)
    note state = spawn_core_state [OF spawned(1)]
    have env: "core_env c3 = core_env c" using spawned(9) path(2) by (simp add: core_env_def)
    show ?thesis
    proof (cases "r2 = None")
      case True
      then obtain h pid u where u: "os_Spawn s (co_executablePath c) core_args (core_env c) b u = (Inr (h, pid), w2)"
          "co_process c2 = Some \<lparr>cmd_id = h, cmd_Pid = pid, cmd_reaped = False\<rparr>" "\<not> co_stopping c2"
          "co_unixSocketPaths c2 = collectUnixSocketPaths (Some x2)"
        using state(3) spawned(8) path(1) env by auto
      then show ?thesis
        using res False True spawned(2) by (auto simp: core_Started_iff core_Stopping_def)
    next
      case False
      with state(2) res \<open>\<not> co_restarting c\<close> spawned(5) show ?thesis by (auto simp: core_Started_iff)
    qed
  qed
qed

section \<open>A concrete system\<close>

text \<open>
  A system with the node as process 100 and an Xray process 77 that an earlier run of the node left
  behind. Its world is the list of open log files and of the processes that were sent a signal.
\<close>

type_synonym demo_world = "nat list \<times> int list"

definition demo_exe :: string where "demo_exe = ''/x''"

definition demo_proc :: "demo_world psys" where
  "demo_proc =
     \<lparr>po_linux = True, po_Getpid = 100, po_Abs = Inr, po_EvalSymlinks = (\<lambda>p w. Inr p),
      po_ReadDirProc = (\<lambda>w. Inr [(''77'', True), (''net'', True), (''stat'', False)]),
      po_Readlink = (\<lambda>p w. if p = ''/proc/77/exe'' then Inr demo_exe else Inl (errors_New ''ENOENT'')),
      po_ReadFile = (\<lambda>p w. if p = ''/proc/77/stat'' then Inr ''77 (x) S 100 77''
                            else Inl (errors_New ''ENOENT'')),
      po_ps = (\<lambda>args w. Inl (errors_New ''not found'')),
      po_FindProcess = (\<lambda>p w. None),
      po_Signal = (\<lambda>p sg w. if p \<in> set (snd w) then (Some (errors_New ''ESRCH''), w)
                             else if sg = SIGKILL then (None, (fst w, p # snd w)) else (None, w)),
      po_KillGroup = (\<lambda>g sg w. (fst w, g # snd w)),
      po_Sleep = id\<rparr>"

definition demo_fs :: "demo_world fs" where
  "demo_fs = \<lparr>fs_MkdirDir = (\<lambda>_ w. (None, w)),
     fs_OpenAppend = (\<lambda>_ w. let f = Suc (sum_list (fst w)) in (Inr f, (f # fst w, snd w))),
     fs_Close = (\<lambda>f w. (filter (\<lambda>x. x \<noteq> f) (fst w), snd w)),
     fs_Println = (\<lambda>_ _ w. w), fs_Stdout = (\<lambda>_ w. w)\<rparr>"

definition demo_os :: "demo_world xos" where
  "demo_os =
     \<lparr>os_fs = demo_fs, os_proc = demo_proc, os_version = (\<lambda>p w. Inr ''Xray 1.8.4 (Xray)''),
      os_json_Indent = Inr, os_MkdirAll = (\<lambda>p w. (None, w)), os_WriteFile = (\<lambda>d n b w. (None, w)),
      os_Lstat = (\<lambda>p w. Inr None), os_Remove = (\<lambda>p w. w), os_StdoutPipe = (\<lambda>w. (None, w)),
      os_Spawn = (\<lambda>e a v b w. (Inr (0, 500), w)), os_WaitExit = (\<lambda>h w. (True, w))\<rparr>"

definition demo_core :: Core where
  "demo_core = ex_core\<lparr>co_executablePath := demo_exe\<rparr>"

lemma demo_frame: "fd_frame demo_os (\<lambda>w. set (fst w))"
proof -
  have "f \<in> set fs \<Longrightarrow> f \<noteq> Suc (sum_list fs)" for f and fs :: "nat list"
    using member_le_sum_list [of f fs] by auto
  then show ?thesis
    by (auto simp: fd_frame_def fd_laws_def demo_os_def demo_fs_def demo_proc_def Let_def)
qed

lemma int_text_77: "int_text p = ''77'' \<Longrightarrow> p = 77"
proof -
  assume a: "int_text p = ''77''"
  then have pos: "\<not> p < 0" by (auto simp: int_text_def)
  with a have "decimal (nat p) = ''77''" by (simp add: int_text_def)
  then have "int (nat p) = digits_value ''77''" using digits_value_decimal [of "nat p"] by simp
  also have "\<dots> = 77" by code_simp
  finally show ?thesis using pos by simp
qed

lemma demo_stat: "getProcessGroupID demo_proc p w = Inr g \<Longrightarrow> g = p"
proof -
  assume a: "getProcessGroupID demo_proc p w = Inr g"
  then have "proc_path p ''stat'' = ''/proc/77/stat''"
    by (auto simp: getProcessGroupID_def demo_proc_def split: if_splits)
  then have p: "p = 77" by (intro int_text_77) (simp add: proc_path_def)
  have "getProcessGroupID demo_proc 77 w = Inr 77"
    unfolding getProcessGroupID_def demo_proc_def by (cases w) code_simp
  with a p show ?thesis by simp
qed

lemma demo_signals: "signal_laws demo_proc (\<lambda>w. set (snd w)) id"
  by (auto simp: signal_laws_def demo_stat) (auto simp: demo_proc_def split: if_splits)


definition demo_js :: js where
  "demo_js = \<lparr>js_rule = (\<lambda>_. Inr Map.empty), js_marshal = (\<lambda>_. Inr []), js_config = (\<lambda>_. Inr ''{}''),
     js_unconfig = (\<lambda>_. Inl (errors_New ''no''))\<rparr>"

definition demo_cfg :: XConfig where
  "demo_cfg = \<lparr>xc_LogConfig = Some \<lparr>lc_AccessLog = ''/a'', lc_ErrorLog = ''/e'', lc_LogLevel = [], lc_other = []\<rparr>,
     xc_RouterConfig = None, xc_DNSConfig = None, xc_InboundConfigs = [], xc_OutboundConfigs = ANil,
     xc_Policy = None, xc_API = None, xc_Metrics = None, xc_Reverse = None, xc_FakeDNS = None,
     xc_Observatory = None, xc_BurstObservatory = None\<rparr>"

lemma demo_new: "NewXRayCore demo_os demo_exe [] [] 4 2 ([], []) = Inr demo_core"
  unfolding demo_core_def by code_simp

lemma demo_open: "\<exists>fo w'. openLogFile demo_fs p w = (Inr fo, w')"
  by (simp add: openLogFile_def demo_fs_def Let_def)

lemma demo_spawn: "fst (spawn_core demo_os b a e sp d c w) = None"
proof -
  obtain fa w1 where a: "openLogFile demo_fs a w = (Inr fa, w1)" using demo_open by blast
  obtain fe w2 where e: "openLogFile demo_fs e w1 = (Inr fe, w2)" using demo_open by blast
  show ?thesis by (simp add: spawn_core_def demo_os_def SetLogFile_def a e Let_def)
qed

lemma demo_start_ok:
  assumes "\<not> core_Started c" "core_Start demo_os j rng x False c w = (r, x', c', w')"
  shows "r = None"
proof -
  have "fst (core_Start demo_os j rng x False c w) = None"
    using assms(1) by (simp add: core_Start_def Let_def case_prod_unfold demo_spawn)
  with assms(2) show ?thesis by simp
qed

theorem core_log_files_exact_witness:
  "\<exists>r x c1 w1 r' x' c2 w2.
     core_Start demo_os demo_js asc_iter demo_cfg False demo_core ([], []) = (r, x, c1, w1) \<and>
     core_Restart demo_os demo_js asc_iter demo_cfg True c1 w1 = (r', x', c2, w2) \<and> r = None \<and>
     set (fst w2) = core_fds c2 \<and> set (fst (snd (core_Stop demo_os c2 w2))) = {}"
proof -
  obtain r x c1 w1 where start:
    "core_Start demo_os demo_js asc_iter demo_cfg False demo_core ([], []) = (r, x, c1, w1)"
    by (metis prod_cases4)
  obtain r' x' c2 w2 where restart:
    "core_Restart demo_os demo_js asc_iter demo_cfg True c1 w1 = (r', x', c2, w2)"
    by (metis prod_cases4)
  have "(core_step demo_os demo_js asc_iter)\<^sup>*\<^sup>* (c1, w1) (c2, w2)"
    using core_step.restart [OF restart] by (rule r_into_rtranclp)
  note exact = core_log_files_exact [OF demo_frame demo_new start this]
  have "\<not> core_Started demo_core" by (simp add: demo_core_def ex_core_def core_Started_def)
  then have "r = None" using demo_start_ok [OF _ start] by simp
  with exact start restart show ?thesis by (intro exI conjI) auto
qed

theorem core_Restart_outcome_witness:
  "\<exists>x' c' w'. core_Restart demo_os demo_js asc_iter demo_cfg False demo_core ([], []) = (None, x', c', w') \<and>
     core_Started c' \<and> map_option cmd_Pid (co_process c') = Some 500"
proof -
  obtain r x' c' w' where restart:
    "core_Restart demo_os demo_js asc_iter demo_cfg False demo_core ([], []) = (r, x', c', w')"
    by (metis prod_cases4)
  obtain c1 w1 where stop: "core_Stop demo_os (demo_core\<lparr>co_restarting := True\<rparr>) ([], []) = (c1, w1)"
    by (metis prod.exhaust)
  obtain r2 x2 c2 w2 where start: "core_Start demo_os demo_js asc_iter demo_cfg False c1 w1 = (r2, x2, c2, w2)"
    by (metis prod_cases4)
  have nr: "\<not> co_restarting demo_core" by (simp add: demo_core_def ex_core_def)
  then have "r = r2" using restart stop start by (auto simp: core_Restart_def)
  moreover have "r2 = None" by (rule demo_start_ok [OF core_Stop_idle(2) [OF stop] start])
  ultimately have r: "r = None" by simp
  with core_Restart_outcome [OF demo_frame restart] nr
  obtain h pid v where "os_Spawn demo_os (co_executablePath demo_core) core_args (core_env demo_core)
      (config_bytes (fst (ToBytes demo_js asc_iter (snd (GetLogFiles demo_cfg))))) v = (Inr (h, pid), w')"
    "co_process c' = Some \<lparr>cmd_id = h, cmd_Pid = pid, cmd_reaped = False\<rparr>" "core_Started c'"
    by auto
  then have "map_option cmd_Pid (co_process c') = Some 500" by (simp add: demo_os_def)
  with restart r \<open>core_Started c'\<close> show ?thesis by blast
qed

end
