(* ===== verification/NodeReplies.thy ===== *)
theory NodeReplies
  imports NodeMessages
begin

text \<open>
  The messages of \<^verbatim>\<open>common/service.pb.go\<close> with which the node answers requests for statistics and for
  the routing of the Xray core. A list of pointers to messages is a list of the messages. The floating
  point number of \<^verbatim>\<open>CpuUsage\<close> is only passed on: it is its bits.
\<close>

record BackendStatsResponse =
  bs_NumGoroutine :: "32 word"
  bs_NumGc :: "32 word"
  bs_Alloc :: uint64
  bs_TotalAlloc :: uint64
  bs_Sys :: uint64
  bs_Mallocs :: uint64
  bs_Frees :: uint64
  bs_LiveObjects :: uint64
  bs_PauseTotalNs :: uint64
  bs_Uptime :: "32 word"

record SystemStatsResponse =
  ss_MemTotal :: uint64
  ss_MemUsed :: uint64
  ss_CpuCores :: uint64
  ss_CpuUsage :: uint64
  ss_IncomingBandwidthSpeed :: uint64
  ss_OutgoingBandwidthSpeed :: uint64
  ss_Uptime :: uint64

record RoutingRule =
  rr_OutboundTag :: string
  rr_RuleTag :: string

record BalancerInfoResponse =
  bi_OverrideTarget :: string
  bi_PrincipleTarget :: "string list"

record TestRouteRequest =
  tq_InboundTag :: string
  tq_Network :: string
  tq_TargetIp :: string
  tq_TargetDomain :: string
  tq_TargetPort :: "32 word"
  tq_Protocol :: string
  tq_User :: string
  tq_Attributes :: "string \<rightharpoonup> string"
  tq_FieldSelectors :: "string list"
  tq_PublishResult :: bool

record RouteResult =
  ro_OutboundTag :: string
  ro_OutboundGroupTags :: "string list"
  ro_InboundTag :: string
  ro_Network :: string
  ro_TargetDomain :: string

record AddRoutingRuleRequest =
  ar_Rule :: string
  ar_ShouldReset :: bool

record OverrideBalancerTargetRequest =
  ob_BalancerTag :: string
  ob_Target :: string

end
