(* ===== verification/XrayStats.thy ===== *)
theory XrayStats
  imports NodeReplies XrayApply
begin

text \<open>
  What the node asks the gRPC services of a running Xray core: \<^verbatim>\<open>backend/xray/api/stats.go\<close> and
  \<^verbatim>\<open>api/routing.go\<close>. The services are the record \<open>xsvc\<close> of functions on a world. The names of the
  core's counters have the form \<^verbatim>\<open>kind>>>name>>>traffic>>>direction\<close>; the lemmas say when such a name
  is read back and which counters a query finds.
\<close>

section \<open>The services\<close>

text \<open>
  \<open>sv_QueryStats pattern reset\<close> gives the counters with their values; \<open>sv_GetStatsOnline\<close> the value of
  one (\<open>None\<close> where the response has no counter). \<open>sv_ListRule\<close> gives the outbound tag and the tag of
  every rule; \<open>sv_GetBalancerInfo\<close> the override and the targets, each where the response has it.
  \<open>sv_Build\<close> is \<^verbatim>\<open>conf.RouterConfig.Build\<close> on one rule: the number of rules it made and the message
  that carries them.
\<close>

datatype Network = Network_Unknown | Network_TCP | Network_UDP | Network_UNIX

record RoutingContext =
  rc_InboundTag :: string
  rc_Network :: Network
  rc_TargetIPs :: "IP list"
  rc_TargetDomain :: string
  rc_TargetPort :: "32 word"
  rc_Protocol :: string
  rc_User :: string
  rc_Attributes :: "string \<rightharpoonup> string"
  rc_OutboundTag :: string
  rc_OutboundGroupTags :: "string list"

record 'w xsvc =
  sv_GetSysStats :: "'w \<Rightarrow> BackendStatsResponse result \<times> 'w"
  sv_QueryStats :: "string \<Rightarrow> bool \<Rightarrow> 'w \<Rightarrow> (string \<times> int64) list result \<times> 'w"
  sv_GetStatsOnline :: "string \<Rightarrow> 'w \<Rightarrow> int64 option result"
  sv_GetStatsOnlineIpList :: "string \<Rightarrow> 'w \<Rightarrow> (string \<rightharpoonup> int64) result"
  sv_ListRule :: "'w \<Rightarrow> (string \<times> string) list result"
  sv_GetBalancerInfo :: "string \<Rightarrow> 'w \<Rightarrow> (string option \<times> string list option) option result"
  sv_TestRoute :: "RoutingContext \<Rightarrow> string list \<Rightarrow> bool \<Rightarrow> 'w \<Rightarrow> RoutingContext result"
  sv_AddRule :: "string \<Rightarrow> bool \<Rightarrow> 'w \<Rightarrow> go_error option \<times> 'w"
  sv_RemoveRule :: "string \<Rightarrow> 'w \<Rightarrow> go_error option \<times> 'w"
  sv_OverrideBalancerTarget :: "string \<Rightarrow> string \<Rightarrow> 'w \<Rightarrow> go_error option \<times> 'w"
  sv_Build :: "string \<Rightarrow> (nat \<times> string) result"

section \<open>Statistics\<close>

definition api_GetSysStats :: "'w xsvc \<Rightarrow> 'w \<Rightarrow> BackendStatsResponse result \<times> 'w" where
  "api_GetSysStats s w =
     (case sv_GetSysStats s w of
        (Inl err, w') \<Rightarrow>
          (Inl (status_Error (status_code err) (''failed to get sys stats: '' @ Error_text err)), w')
      | (Inr resp, w') \<Rightarrow> (Inr resp, w'))"

definition QueryStats :: "'w xsvc \<Rightarrow> string \<Rightarrow> bool \<Rightarrow> 'w \<Rightarrow> (string \<times> int64) list result \<times> 'w" where
  "QueryStats s pattern reset w = sv_QueryStats s pattern reset w"

definition stat_sep :: string where
  "stat_sep = ''>>>''"

definition parseStatName :: "string \<Rightarrow> (string \<times> string \<times> string) option" where
  "parseStatName raw =
     (let parts = Split raw stat_sep
      in if length parts < 4 then None
         else if parts ! 1 = [] \<or> parts ! 2 = [] \<or> parts ! 3 = [] then None
         else Some (parts ! 1, parts ! 2, parts ! 3))"

definition stat_entry :: "string \<times> int64 \<Rightarrow> Stat option" where
  "stat_entry stat =
     (case parseStatName (fst stat) of
        None \<Rightarrow> None
      | Some (name, link, statType) \<Rightarrow>
          Some \<lparr>stat_Name = name, stat_Type = statType, stat_Link = link, stat_Value = snd stat\<rparr>)"

definition buildStatResponse :: "(string \<times> int64) list \<Rightarrow> Stat list" where
  "buildStatResponse queryStats = List.map_filter stat_entry queryStats"

definition query_response :: "'w xsvc \<Rightarrow> string \<Rightarrow> bool \<Rightarrow> 'w \<Rightarrow> Stat list result \<times> 'w" where
  "query_response s pattern reset w =
     (case QueryStats s pattern reset w of
        (Inl err, w') \<Rightarrow> (Inl err, w')
      | (Inr stats, w') \<Rightarrow> (Inr (buildStatResponse stats), w'))"

definition user_kind :: string where "user_kind = ''user''"
definition inbound_kind :: string where "inbound_kind = ''inbound''"
definition outbound_kind :: string where "outbound_kind = ''outbound''"

lemmas kind_defs = user_kind_def inbound_kind_def outbound_kind_def

definition api_GetUsersStats :: "'w xsvc \<Rightarrow> bool \<Rightarrow> 'w \<Rightarrow> Stat list result \<times> 'w" where
  "api_GetUsersStats s reset w = query_response s (user_kind @ stat_sep) reset w"

definition api_GetInboundsStats :: "'w xsvc \<Rightarrow> bool \<Rightarrow> 'w \<Rightarrow> Stat list result \<times> 'w" where
  "api_GetInboundsStats s reset w = query_response s (inbound_kind @ stat_sep) reset w"

definition api_GetOutboundsStats :: "'w xsvc \<Rightarrow> bool \<Rightarrow> 'w \<Rightarrow> Stat list result \<times> 'w" where
  "api_GetOutboundsStats s reset w = query_response s (outbound_kind @ stat_sep) reset w"

definition api_GetUserStats :: "'w xsvc \<Rightarrow> string \<Rightarrow> bool \<Rightarrow> 'w \<Rightarrow> Stat list result \<times> 'w" where
  "api_GetUserStats s email reset w =
     (if email = [] then (Inl (errors_New ''email required''), w)
      else query_response s (user_kind @ stat_sep @ email @ stat_sep) reset w)"

definition api_GetInboundStats :: "'w xsvc \<Rightarrow> string \<Rightarrow> bool \<Rightarrow> 'w \<Rightarrow> Stat list result \<times> 'w" where
  "api_GetInboundStats s tag reset w =
     (if tag = [] then (Inl (errors_New ''tag required''), w)
      else query_response s (inbound_kind @ stat_sep @ tag @ stat_sep) reset w)"

definition api_GetOutboundStats :: "'w xsvc \<Rightarrow> string \<Rightarrow> bool \<Rightarrow> 'w \<Rightarrow> Stat list result \<times> 'w" where
  "api_GetOutboundStats s tag reset w =
     (if tag = [] then (Inl (errors_New ''tag required''), w)
      else query_response s (outbound_kind @ stat_sep @ tag @ stat_sep) reset w)"

definition online_name :: "string \<Rightarrow> string" where
  "online_name email = user_kind @ stat_sep @ email @ stat_sep @ ''online''"

definition api_GetUserOnlineStats :: "'w xsvc \<Rightarrow> string \<Rightarrow> 'w \<Rightarrow> OnlineStatResponse result" where
  "api_GetUserOnlineStats s email w =
     (if email = [] then Inl (errors_New ''email required'')
      else (case sv_GetStatsOnline s (online_name email) w of
              Inl err \<Rightarrow> Inl err
            | Inr stat \<Rightarrow>
                Inr \<lparr>on_Name = email, on_Value = (case stat of None \<Rightarrow> 0 | Some v \<Rightarrow> v)\<rparr>))"

definition api_GetUserOnlineIpListStats ::
  "'w xsvc \<Rightarrow> string \<Rightarrow> 'w \<Rightarrow> StatsOnlineIpListResponse result" where
  "api_GetUserOnlineIpListStats s email w =
     (if email = [] then Inl (errors_New ''email required'')
      else (case sv_GetStatsOnlineIpList s (online_name email) w of
              Inl err \<Rightarrow> Inl err
            | Inr ips \<Rightarrow> Inr \<lparr>ol_Name = email, ol_Ips = ips\<rparr>))"

section \<open>Routing\<close>

definition toCommonRoutingRules :: "(string \<times> string) list \<Rightarrow> RoutingRule list" where
  "toCommonRoutingRules resp =
     map (\<lambda>(tag, ruleTag). \<lparr>rr_OutboundTag = tag, rr_RuleTag = ruleTag\<rparr>) resp"

definition toCommonBalancerInfo :: "(string option \<times> string list option) option \<Rightarrow> BalancerInfoResponse" where
  "toCommonBalancerInfo resp =
     (case resp of
        None \<Rightarrow> \<lparr>bi_OverrideTarget = [], bi_PrincipleTarget = []\<rparr>
      | Some (ov, p) \<Rightarrow>
          \<lparr>bi_OverrideTarget = (case ov of None \<Rightarrow> [] | Some t \<Rightarrow> t),
           bi_PrincipleTarget = (case p of None \<Rightarrow> [] | Some ts \<Rightarrow> ts)\<rparr>)"

definition networkFromString :: "string \<Rightarrow> Network" where
  "networkFromString s =
     (if ToLower s = ''udp'' then Network_UDP
      else if ToLower s = ''tcp'' then Network_TCP else Network_Unknown)"

fun Network_String :: "Network \<Rightarrow> string" where
  "Network_String Network_Unknown = ''Unknown''"
| "Network_String Network_TCP = ''TCP''"
| "Network_String Network_UDP = ''UDP''"
| "Network_String Network_UNIX = ''UNIX''"

text \<open>\<^verbatim>\<open>net.ParseIP\<close>: an address is always given as 16 bytes.\<close>

definition net_ParseIP :: "string \<Rightarrow> IP option" where
  "net_ParseIP s = map_option (\<lambda>b. if length b = 4 then v4InV6Prefix @ b else b) (ParseAddr s)"

definition buildTestRouteRequest :: "TestRouteRequest \<Rightarrow> RoutingContext" where
  "buildTestRouteRequest req =
     \<lparr>rc_InboundTag = tq_InboundTag req, rc_Network = networkFromString (tq_Network req),
      rc_TargetIPs = (case net_ParseIP (tq_TargetIp req) of None \<Rightarrow> [] | Some ip \<Rightarrow> [ip]),
      rc_TargetDomain = tq_TargetDomain req, rc_TargetPort = tq_TargetPort req,
      rc_Protocol = tq_Protocol req, rc_User = tq_User req, rc_Attributes = tq_Attributes req,
      rc_OutboundTag = [], rc_OutboundGroupTags = []\<rparr>"

definition toCommonRouteResult :: "RoutingContext \<Rightarrow> RouteResult" where
  "toCommonRouteResult rc =
     \<lparr>ro_OutboundTag = rc_OutboundTag rc, ro_OutboundGroupTags = rc_OutboundGroupTags rc,
      ro_InboundTag = rc_InboundTag rc, ro_Network = ToLower (Network_String (rc_Network rc)),
      ro_TargetDomain = rc_TargetDomain rc\<rparr>"

definition addRuleConfig :: "'w xsvc \<Rightarrow> string \<Rightarrow> string result" where
  "addRuleConfig s ruleJSON =
     (case sv_Build s ruleJSON of
        Inl err \<Rightarrow> Inl (status_Error InvalidArgument (''parse routing rule: '' @ Error_text err))
      | Inr (n, tm) \<Rightarrow>
          (if n = 0 then Inl (status_Error InvalidArgument ''no routing rule parsed from JSON'')
           else Inr tm))"

definition api_ListRoutingRules :: "'w xsvc \<Rightarrow> 'w \<Rightarrow> RoutingRule list result" where
  "api_ListRoutingRules s w = map_sum id toCommonRoutingRules (sv_ListRule s w)"

definition api_GetBalancerInfo :: "'w xsvc \<Rightarrow> string \<Rightarrow> 'w \<Rightarrow> BalancerInfoResponse result" where
  "api_GetBalancerInfo s tag w = map_sum id toCommonBalancerInfo (sv_GetBalancerInfo s tag w)"

definition api_TestRoute :: "'w xsvc \<Rightarrow> TestRouteRequest \<Rightarrow> 'w \<Rightarrow> RouteResult result" where
  "api_TestRoute s req w =
     map_sum id toCommonRouteResult
       (sv_TestRoute s (buildTestRouteRequest req) (tq_FieldSelectors req) (tq_PublishResult req) w)"

definition api_AddRoutingRule :: "'w xsvc \<Rightarrow> string \<Rightarrow> bool \<Rightarrow> 'w \<Rightarrow> go_error option \<times> 'w" where
  "api_AddRoutingRule s ruleJSON shouldAppend w =
     (case addRuleConfig s ruleJSON of
        Inl err \<Rightarrow> (Some err, w)
      | Inr tm \<Rightarrow> sv_AddRule s tm shouldAppend w)"

definition api_RemoveRoutingRule :: "'w xsvc \<Rightarrow> string \<Rightarrow> 'w \<Rightarrow> go_error option \<times> 'w" where
  "api_RemoveRoutingRule s ruleTag w = sv_RemoveRule s ruleTag w"

definition api_OverrideBalancerTarget :: "'w xsvc \<Rightarrow> string \<Rightarrow> string \<Rightarrow> 'w \<Rightarrow> go_error option \<times> 'w" where
  "api_OverrideBalancerTarget s balancerTag target w = sv_OverrideBalancerTarget s balancerTag target w"

section \<open>Reading counter names\<close>

text \<open>A counter of the core for one direction of the traffic of a user, an inbound or an outbound.\<close>

definition traffic :: string where "traffic = ''traffic''"

definition counter_name :: "string \<Rightarrow> string \<Rightarrow> string \<Rightarrow> string" where
  "counter_name kind name dir = kind @ stat_sep @ name @ stat_sep @ traffic @ stat_sep @ dir"

text \<open>A text that is not empty and has no character of the separator.\<close>

definition plain :: "string \<Rightarrow> bool" where
  "plain s \<longleftrightarrow> s \<noteq> [] \<and> CHR ''>'' \<notin> set s"

lemma plain_kinds [simp]: "plain user_kind" "plain inbound_kind" "plain outbound_kind" "plain traffic"
  by (simp_all add: plain_def kind_defs traffic_def)

lemma stat_sep_Cons: "stat_sep = CHR ''>'' # CHR ''>'' # CHR ''>'' # []"
  by (simp add: stat_sep_def)

lemma HasPrefix_Cons: "HasPrefix (c # s) (d # p) = (c = d \<and> HasPrefix s p)"
  by (auto simp: HasPrefix_def)

lemma HasPrefix_Nil [simp]: "HasPrefix s []"
  by (simp add: HasPrefix_def)

lemma split_go_plain:
  assumes "CHR ''>'' \<notin> set p"
  shows "split_go stat_sep cur 0 (p @ stat_sep @ s) = (rev cur @ p) # split_go stat_sep [] 0 s"
    and "split_go stat_sep cur 0 p = [rev cur @ p]"
  using assms
  by (induction p arbitrary: cur) (auto simp: stat_sep_Cons HasPrefix_Cons numeral_2_eq_2)

lemma Split_counter:
  assumes "CHR ''>'' \<notin> set a" "CHR ''>'' \<notin> set b" "CHR ''>'' \<notin> set c" "CHR ''>'' \<notin> set d"
  shows "Split (a @ stat_sep @ b @ stat_sep @ c @ stat_sep @ d) stat_sep = [a, b, c, d]"
  using assms by (simp add: Split_def split_go_plain)

lemma parseStatName_counter:
  assumes "plain kind" "plain name" "plain dir"
  shows "parseStatName (counter_name kind name dir) = Some (name, traffic, dir)"
  using assms Split_counter [of kind name traffic dir]
  by (simp add: parseStatName_def counter_name_def plain_def traffic_def)

section \<open>Which counters a query finds\<close>

lemma HasPrefix_plain:
  assumes "CHR ''>'' \<notin> set p" "CHR ''>'' \<notin> set x"
  shows "HasPrefix (p @ stat_sep @ s) (x @ stat_sep @ t) \<longleftrightarrow> p = x \<and> HasPrefix s t"
  using assms
proof (induction p arbitrary: x)
  case Nil
  then show ?case by (cases x) (auto simp: stat_sep_Cons HasPrefix_Cons)
next
  case (Cons c p)
  then show ?case by (cases x) (auto simp: stat_sep_Cons HasPrefix_Cons)
qed

lemma HasPrefix_short:
  assumes "CHR ''>'' \<notin> set p"
  shows "\<not> HasPrefix p (x @ stat_sep @ t)"
  using assms
proof (induction p arbitrary: x)
  case Nil
  then show ?case by (simp add: HasPrefix_def stat_sep_def)
next
  case (Cons c p)
  then show ?case by (cases x) (auto simp: stat_sep_Cons HasPrefix_Cons)
qed

lemma Contains_short: "CHR ''>'' \<notin> set p \<Longrightarrow> \<not> Contains p (x @ stat_sep @ t)"
proof (induction p)
  case (Cons c p)
  then show ?case using HasPrefix_short [of "c # p" x t] by simp
qed (simp add: stat_sep_def)

fun is_suffix :: "string \<Rightarrow> string \<Rightarrow> bool" where
  "is_suffix [] x = (x = [])"
| "is_suffix (c # s) x = (c # s = x \<or> is_suffix s x)"

lemma Contains_step:
  assumes "CHR ''>'' \<notin> set p" "plain x"
  shows "Contains (p @ stat_sep @ s) (x @ stat_sep @ t) \<longleftrightarrow>
    is_suffix p x \<and> HasPrefix s t \<or> Contains s (x @ stat_sep @ t)"
  using assms(1)
proof (induction p)
  case Nil
  obtain c y where "x = c # y" "c \<noteq> CHR ''>''" using assms(2) by (cases x) (auto simp: plain_def)
  then show ?case by (simp add: stat_sep_Cons HasPrefix_Cons)
next
  case (Cons c p)
  have "CHR ''>'' \<notin> set x" using assms(2) by (simp add: plain_def)
  with Cons HasPrefix_plain [of "c # p" x s t] show ?case by auto
qed

lemma HasPrefix_plain_sep:
  assumes "CHR ''>'' \<notin> set p" "CHR ''>'' \<notin> set x"
  shows "HasPrefix (p @ stat_sep @ s) (x @ stat_sep) \<longleftrightarrow> p = x"
  using HasPrefix_plain [OF assms, of s "[]"] by simp

lemma Contains_counter:
  assumes "plain kind" "plain name" "plain dir" "plain x" "plain e" "e \<noteq> traffic"
  shows "Contains (counter_name kind name dir) (x @ stat_sep @ e @ stat_sep) \<longleftrightarrow>
    is_suffix kind x \<and> name = e"
proof -
  have p: "CHR ''>'' \<notin> set kind" "CHR ''>'' \<notin> set name" "CHR ''>'' \<notin> set dir"
    "CHR ''>'' \<notin> set e" "CHR ''>'' \<notin> set traffic"
    using assms by (simp_all add: plain_def traffic_def)
  show ?thesis
    unfolding counter_name_def Contains_step [OF p(1) assms(4)] Contains_step [OF p(2) assms(4)]
      Contains_step [OF p(5) assms(4)] HasPrefix_plain_sep [OF p(2,4)] HasPrefix_plain_sep [OF p(5,4)]
    using assms(6) Contains_short [OF p(3), of x "e @ stat_sep"] HasPrefix_short [OF p(3), of e "[]"]
    by auto
qed

lemma Contains_kind:
  assumes "plain kind" "plain name" "plain dir" "plain x"
  shows "Contains (counter_name kind name dir) (x @ stat_sep) \<longleftrightarrow>
    is_suffix kind x \<or> is_suffix name x \<or> is_suffix traffic x"
proof -
  have p: "CHR ''>'' \<notin> set kind" "CHR ''>'' \<notin> set name" "CHR ''>'' \<notin> set dir"
    "CHR ''>'' \<notin> set traffic"
    using assms by (simp_all add: plain_def traffic_def)
  show ?thesis
    unfolding counter_name_def
    using Contains_step [OF p(1) assms(4), of _ "[]"] Contains_step [OF p(2) assms(4), of _ "[]"]
      Contains_step [OF p(4) assms(4), of _ "[]"] Contains_short [OF p(3), of x "[]"]
    by simp
qed

text \<open>
  The counters of a core: kind, name, direction and value. The documented answer to a query is the
  counters whose name contains the pattern.
\<close>

type_synonym counter = "string \<times> string \<times> string \<times> int64"

definition counters_ok :: "counter list \<Rightarrow> bool" where
  "counters_ok cs \<longleftrightarrow>
     (\<forall>(k, n, d, v) \<in> set cs. k \<in> {user_kind, inbound_kind, outbound_kind} \<and> plain n \<and> plain d)"

definition raw_counter :: "counter \<Rightarrow> string \<times> int64" where
  "raw_counter c = (case c of (k, n, d, v) \<Rightarrow> (counter_name k n d, v))"

definition serves :: "'w xsvc \<Rightarrow> ('w \<Rightarrow> counter list) \<Rightarrow> bool" where
  "serves s cs \<longleftrightarrow>
     (\<forall>pattern reset w. fst (sv_QueryStats s pattern reset w) =
        Inr (filter (\<lambda>r. Contains (fst r) pattern) (map raw_counter (cs w))))"

definition as_stat :: "counter \<Rightarrow> Stat" where
  "as_stat c = (case c of (k, n, d, v) \<Rightarrow>
     \<lparr>stat_Name = n, stat_Type = d, stat_Link = traffic, stat_Value = v\<rparr>)"

lemma query_response_counters:
  assumes "serves s cs" "counters_ok (cs w)"
    and "\<And>k n d v. (k, n, d, v) \<in> set (cs w) \<Longrightarrow> Contains (counter_name k n d) pattern = P (k, n, d, v)"
  shows "fst (query_response s pattern reset w) = Inr (map as_stat (filter P (cs w)))"
proof -
  have "buildStatResponse (filter (\<lambda>r. Contains (fst r) pattern) (map raw_counter xs)) =
      map as_stat (filter P xs)" if "set xs \<subseteq> set (cs w)" for xs
    using that
  proof (induction xs)
    case Nil
    then show ?case by (simp add: buildStatResponse_def List.map_filter_simps)
  next
    case (Cons c xs)
    obtain k n d v where c: "c = (k, n, d, v)" by (metis prod_cases4)
    with Cons.prems have mem: "(k, n, d, v) \<in> set (cs w)" by simp
    then have "k \<in> {user_kind, inbound_kind, outbound_kind}" "plain n" "plain d"
      using assms(2) by (auto simp: counters_ok_def)
    then have "parseStatName (counter_name k n d) = Some (n, traffic, d)"
      by (intro parseStatName_counter) auto
    then show ?case
      using Cons assms(3) [OF mem]
      by (auto simp: c buildStatResponse_def List.map_filter_simps raw_counter_def stat_entry_def as_stat_def)
  qed
  then have "buildStatResponse (filter (\<lambda>r. Contains (fst r) pattern) (map raw_counter (cs w))) =
      map as_stat (filter P (cs w))" by simp
  moreover obtain r w' where q: "sv_QueryStats s pattern reset w = (r, w')" by fastforce
  moreover have "r = Inr (filter (\<lambda>r. Contains (fst r) pattern) (map raw_counter (cs w)))"
    using assms(1) q by (metis fst_conv serves_def)
  ultimately show ?thesis by (simp add: query_response_def QueryStats_def)
qed

lemma kinds_apart:
  assumes "k \<in> {user_kind, inbound_kind, outbound_kind}" "x \<in> {user_kind, inbound_kind, outbound_kind}"
  shows "is_suffix k x \<longleftrightarrow> k = x" "\<not> is_suffix traffic x"
  using assms by (auto simp: kind_defs traffic_def)

lemma stats_exact:
  assumes "serves s cs" "counters_ok (cs w)" "plain e" "e \<noteq> traffic"
  shows "fst (api_GetUserStats s e reset w) =
      Inr (map as_stat (filter (\<lambda>(k, n, d, v). k = user_kind \<and> n = e) (cs w)))"
    and "fst (api_GetInboundStats s e reset w) =
      Inr (map as_stat (filter (\<lambda>(k, n, d, v). k = inbound_kind \<and> n = e) (cs w)))"
    and "fst (api_GetOutboundStats s e reset w) =
      Inr (map as_stat (filter (\<lambda>(k, n, d, v). k = outbound_kind \<and> n = e) (cs w)))"
    and "fst (api_GetUsersStats s reset w) =
      Inr (map as_stat (filter (\<lambda>(k, n, d, v). k = user_kind \<or> is_suffix n user_kind) (cs w)))"
proof -
  have ok: "k \<in> {user_kind, inbound_kind, outbound_kind}" "plain k" "plain n" "plain d"
    if "(k, n, d, v) \<in> set (cs w)" for k n d v
    using assms(2) that by (auto simp: counters_ok_def)
  have one: "fst (query_response s (x @ stat_sep @ e @ stat_sep) reset w) =
      Inr (map as_stat (filter (\<lambda>(k, n, d, v). k = x \<and> n = e) (cs w)))"
    if "x \<in> {user_kind, inbound_kind, outbound_kind}" for x
  proof (rule query_response_counters [OF assms(1,2)])
    fix k n d v
    assume m: "(k, n, d, v) \<in> set (cs w)"
    have "plain x" using that by auto
    then show "Contains (counter_name k n d) (x @ stat_sep @ e @ stat_sep) =
        (case (k, n, d, v) of (k, n, d, v) \<Rightarrow> k = x \<and> n = e)"
      using Contains_counter [OF ok(2-4) [OF m] _ assms(3,4), of x] kinds_apart(1) [OF ok(1) [OF m] that]
      by simp
  qed
  have "e \<noteq> []" using assms(3) by (simp add: plain_def)
  then show "fst (api_GetUserStats s e reset w) =
      Inr (map as_stat (filter (\<lambda>(k, n, d, v). k = user_kind \<and> n = e) (cs w)))"
    and "fst (api_GetInboundStats s e reset w) =
      Inr (map as_stat (filter (\<lambda>(k, n, d, v). k = inbound_kind \<and> n = e) (cs w)))"
    and "fst (api_GetOutboundStats s e reset w) =
      Inr (map as_stat (filter (\<lambda>(k, n, d, v). k = outbound_kind \<and> n = e) (cs w)))"
    using one by (simp_all add: api_GetUserStats_def api_GetInboundStats_def api_GetOutboundStats_def)
  show "fst (api_GetUsersStats s reset w) =
      Inr (map as_stat (filter (\<lambda>(k, n, d, v). k = user_kind \<or> is_suffix n user_kind) (cs w)))"
    unfolding api_GetUsersStats_def
  proof (rule query_response_counters [OF assms(1,2)])
    fix k n d v
    assume m: "(k, n, d, v) \<in> set (cs w)"
    show "Contains (counter_name k n d) (user_kind @ stat_sep) =
        (case (k, n, d, v) of (k, n, d, v) \<Rightarrow> k = user_kind \<or> is_suffix n user_kind)"
      using Contains_kind [OF ok(2-4) [OF m], of user_kind] kinds_apart [OF ok(1) [OF m], of user_kind]
      by simp
  qed
qed

text \<open>
  C32. The statistics of one name are exact: when the core answers a query with the counters whose
  name contains the pattern, the response for a user is the counters of the user of that e-mail, and
  that for an inbound or outbound those of that tag, each with its name, direction and value, unless
  the name is \<^verbatim>\<open>traffic\<close>. The response for all users, however, is the counters of the users and also
  those of every inbound and outbound whose tag ends in \<^verbatim>\<open>user\<close>. (Names are not empty and have
  no \<^verbatim>\<open>>\<close>.)
\<close>

theorem xray_stats_exact:
  assumes "serves s cs" "counters_ok (cs w)" "plain e" "e \<noteq> traffic"
  shows "fst (api_GetUserStats s e reset w) =
      Inr (map as_stat (filter (\<lambda>(k, n, d, v). k = user_kind \<and> n = e) (cs w))) \<and>
    fst (api_GetInboundStats s e reset w) =
      Inr (map as_stat (filter (\<lambda>(k, n, d, v). k = inbound_kind \<and> n = e) (cs w))) \<and>
    fst (api_GetOutboundStats s e reset w) =
      Inr (map as_stat (filter (\<lambda>(k, n, d, v). k = outbound_kind \<and> n = e) (cs w))) \<and>
    fst (api_GetUsersStats s reset w) =
      Inr (map as_stat (filter (\<lambda>(k, n, d, v). k = user_kind \<or> is_suffix n user_kind) (cs w)))"
  using stats_exact [OF assms] by (intro conjI)

text \<open>A core with a user, a user whose e-mail is a prefix of the other's, and an inbound.\<close>

definition ex_counters :: "counter list" where
  "ex_counters = [(user_kind, ''bob'', ''uplink'', 5), (user_kind, ''bo'', ''uplink'', 7),
     (inbound_kind, ''super-user'', ''downlink'', 9)]"

definition ex_svc :: "unit xsvc" where
  "ex_svc = \<lparr>sv_GetSysStats = (\<lambda>w. (Inl (errors_New ''no''), w)),
     sv_QueryStats = (\<lambda>pattern reset w.
       (Inr (filter (\<lambda>r. Contains (fst r) pattern) (map raw_counter ex_counters)), w)),
     sv_GetStatsOnline = (\<lambda>n w. Inr None), sv_GetStatsOnlineIpList = (\<lambda>n w. Inr Map.empty),
     sv_ListRule = (\<lambda>w. Inr []), sv_GetBalancerInfo = (\<lambda>t w. Inr None),
     sv_TestRoute = (\<lambda>r f p w. Inr r), sv_AddRule = (\<lambda>r a w. (None, w)),
     sv_RemoveRule = (\<lambda>t w. (None, w)), sv_OverrideBalancerTarget = (\<lambda>b t w. (None, w)),
     sv_Build = (\<lambda>r. Inr (1, r))\<rparr>"

theorem xray_stats_exact_witness:
  "fst (api_GetUserStats ex_svc ''bo'' True ()) =
     Inr [\<lparr>stat_Name = ''bo'', stat_Type = ''uplink'', stat_Link = ''traffic'', stat_Value = 7\<rparr>] \<and>
   map_sum id (map stat_Name) (fst (api_GetUsersStats ex_svc True ())) = Inr [''bob'', ''bo'', ''super-user'']"
proof -
  have "serves ex_svc (\<lambda>_. ex_counters)" by (simp add: serves_def ex_svc_def)
  moreover have "counters_ok ex_counters"
    by (simp add: counters_ok_def ex_counters_def) (simp add: plain_def)
  moreover have "plain ''bo''" "''bo'' \<noteq> traffic" by (simp_all add: plain_def traffic_def)
  ultimately have "fst (api_GetUserStats ex_svc ''bo'' True ()) =
      Inr (map as_stat (filter (\<lambda>(k, n, d, v). k = user_kind \<and> n = ''bo'') ex_counters)) \<and>
    fst (api_GetUsersStats ex_svc True ()) =
      Inr (map as_stat (filter (\<lambda>(k, n, d, v). k = user_kind \<or> is_suffix n user_kind) ex_counters))"
    using xray_stats_exact [of ex_svc "\<lambda>_. ex_counters" "()" "''bo''" True] by blast
  then show ?thesis by (simp add: ex_counters_def as_stat_def kind_defs traffic_def)
qed

end
