(* ===== verification/XrayBackend.thy ===== *)
theory XrayBackend
  imports XrayCoreProps XrayStats XrayUsers
begin

text \<open>
  The Xray backend: \<^verbatim>\<open>backend/xray/xray.go\<close>, the operations of \<^verbatim>\<open>user.go\<close>, \<^verbatim>\<open>jobs.go\<close>, \<^verbatim>\<open>stats.go\<close>,
  \<^verbatim>\<open>routing.go\<close> and \<^verbatim>\<open>latency.go\<close>. What the code calls outside itself is the record \<open>xenv\<close>. A call that
  waits for the core (\<^verbatim>\<open>checkXrayStatus\<close>) takes the list of what its \<^verbatim>\<open>select\<close> receives and what happens
  to the core meanwhile; its result is \<open>None\<close> where the list ends before the call returns. Each
  operation holds \<^verbatim>\<open>syncMu\<close> or \<^verbatim>\<open>mu\<close>, so it is one function on the state and the world.
\<close>

section \<open>State\<close>

record observatoryEntry =
  ob_Alive :: bool
  ob_Delay :: int64
  ob_OutboundTag :: string
  ob_LastSeenTime :: int64
  ob_LastTryTime :: int64

text \<open>
  \<open>xe_NewClient\<close> is \<^verbatim>\<open>grpc.NewClient\<close> for a port and \<open>xe_Close\<close> closes the connection; \<open>xe_Vars\<close> fetches
  a URL of the core's metrics: an error of the request, or the status and the decoded body.
\<close>

record 'w xenv =
  xe_os :: "'w xos"
  xe_js :: js
  xe_rng :: go_iter
  xe_uuid :: uuid_parser
  xe_api :: "'w xapi"
  xe_svc :: "'w xsvc"
  xe_ifaces :: "net_Interface list option"
  xe_NewClient :: "int \<Rightarrow> 'w \<Rightarrow> go_error option \<times> 'w"
  xe_Close :: "'w \<Rightarrow> 'w"
  xe_Vars :: "string \<Rightarrow> 'w \<Rightarrow> (nat \<times> (string \<rightharpoonup> observatoryEntry) result) result"

text \<open>
  An \<^verbatim>\<open>Xray\<close> that was published has a core. \<open>x_handler\<close> says whether the pointer to the API handler
  is set, \<open>x_cancelled\<close> whether the context of the health check was cancelled.
\<close>

record Xray =
  x_config :: XConfig
  x_cfg :: NodeConfig
  x_core :: Core
  x_handler :: bool
  x_metricPort :: int
  x_cancelled :: bool

definition x_Version :: "Xray \<Rightarrow> string" where
  "x_Version x = core_Version (x_core x)"

definition x_Started :: "Xray \<Rightarrow> bool" where
  "x_Started x = core_Started (x_core x)"

definition restartCoreWithConfig ::
  "'w xenv \<Rightarrow> XConfig \<Rightarrow> Xray \<Rightarrow> 'w \<Rightarrow> go_error option \<times> XConfig \<times> Xray \<times> 'w" where
  "restartCoreWithConfig e config x w =
     (case core_Restart (xe_os e) (xe_js e) (xe_rng e) config (nc_Debug (x_cfg x)) (x_core x) w of
        (err, config', c, w') \<Rightarrow> (err, config', x\<lparr>x_core := c\<rparr>, w'))"

definition setConfig :: "XConfig \<Rightarrow> Xray \<Rightarrow> Xray" where
  "setConfig config x = x\<lparr>x_config := config\<rparr>"

definition x_Restart :: "'w xenv \<Rightarrow> Xray \<Rightarrow> 'w \<Rightarrow> go_error option \<times> Xray \<times> 'w" where
  "x_Restart e x w =
     (case restartCoreWithConfig e (x_config x) x w of
        (err, config', x', w') \<Rightarrow> (err, setConfig config' x', w'))"

definition x_Shutdown :: "'w xenv \<Rightarrow> Xray \<Rightarrow> 'w \<Rightarrow> Xray \<times> 'w" where
  "x_Shutdown e x w =
     (let (c, w1) = core_Stop (xe_os e) (x_core x) w;
          w2 = (if x_handler x then xe_Close e w1 else w1)
      in (x\<lparr>x_cancelled := True, x_core := c\<rparr>, w2))"

section \<open>Waiting for the core\<close>

definition x_GetSysStats :: "'w xenv \<Rightarrow> 'w \<Rightarrow> BackendStatsResponse result \<times> 'w" where
  "x_GetSysStats e w = api_GetSysStats (xe_svc e) w"

definition startupLogTailSize :: "Xray \<Rightarrow> int" where
  "startupLogTailSize x =
     (if nc_StartupLogTailSize (x_cfg x) > 0 then nc_StartupLogTailSize (x_cfg x) else 200)"

definition failed_start :: "string \<Rightarrow> go_error" where
  "failed_start failure = errors_New (''failed to start xray: '' @ failure)"

definition extractStartupError :: "Xray \<Rightarrow> go_error option" where
  "extractStartupError x =
     (let failure = LatestStartupFailure (x_core x)
      in if failure = [] then None else Some (failed_start failure))"

definition startupErrorWithTail :: "Core \<Rightarrow> int \<Rightarrow> string \<Rightarrow> go_error" where
  "startupErrorWithTail core tailSize reason =
     (let failure = LatestStartupFailure core
      in if failure \<noteq> [] then failed_start failure
         else (let tail = StartupLogTail tailSize core
               in if tail = [] then errors_New reason
                  else errors_New (reason @
                    ''; no fatal xray startup log was detected. Recent xray logs:'' @ nl @ Join tail nl)))"

text \<open>
  What the \<^verbatim>\<open>select\<close> of \<^verbatim>\<open>checkXrayStatus\<close> receives: the end of the context, a tick for the errors, a tick
  for the API; and what the goroutines of the core do in between: a line of output, the end of a
  process.
\<close>

datatype xevent = CtxDone | ErrorTick | ApiTick | CoreOutput string | CoreExit nat "go_error option"

fun core_event :: "'w xenv \<Rightarrow> xevent \<Rightarrow> Core \<Rightarrow> 'w \<Rightarrow> Core \<times> 'w" where
  "core_event e (CoreOutput l) c w = captureProcessLogs (os_fs (xe_os e)) [(l, False)] c w"
| "core_event e (CoreExit h err) c w = handleProcessExit (xe_os e) h err (reap h c) w"
| "core_event e _ c w = (c, w)"

definition stop_reason :: "Core \<Rightarrow> string" where
  "stop_reason c =
     (if core_Stopping c
      then ''xray startup was interrupted by a stop/restart request before API became ready''
      else ''xray process stopped before API became ready'')"

fun checkXrayStatus ::
  "'w xenv \<Rightarrow> xevent list \<Rightarrow> Xray \<Rightarrow> 'w \<Rightarrow> (go_error option \<times> Xray \<times> 'w) option" where
  "checkXrayStatus e [] x w = None"
| "checkXrayStatus e (ev # evs) x w =
     (case ev of
        CtxDone \<Rightarrow> Some (Some (errors_New ''context cancelled''), x, w)
      | ErrorTick \<Rightarrow>
          (case extractStartupError x of
             Some err \<Rightarrow> Some (Some err, x, w)
           | None \<Rightarrow> checkXrayStatus e evs x w)
      | ApiTick \<Rightarrow>
          (case x_GetSysStats e w of
             (Inr _, w1) \<Rightarrow> Some (None, x\<lparr>x_core := SwitchToRuntimeLogPhase (x_core x)\<rparr>, w1)
           | (Inl _, w1) \<Rightarrow>
               (case extractStartupError x of
                  Some err \<Rightarrow> Some (Some err, x, w1)
                | None \<Rightarrow>
                    (if \<not> core_Started (x_core x)
                     then Some (Some (startupErrorWithTail (x_core x) (startupLogTailSize x)
                            (stop_reason (x_core x))), x, w1)
                     else checkXrayStatus e evs x w1)))
      | _ \<Rightarrow> (case core_event e ev (x_core x) w of
                (c', w1) \<Rightarrow> checkXrayStatus e evs (x\<lparr>x_core := c'\<rparr>) w1))"

section \<open>Start\<close>

definition xray_New ::
  "'w xenv \<Rightarrow> xevent list \<Rightarrow> XConfig \<Rightarrow> User list \<Rightarrow> int \<Rightarrow> int \<Rightarrow> NodeConfig \<Rightarrow> 'w \<Rightarrow>
     (Xray result \<times> 'w) option" where
  "xray_New e evs xrayConfig users apiPort metricPort cfg w =
     (let abs = po_Abs (os_proc (xe_os e))
      in case (abs (nc_XrayExecutablePath cfg), abs (nc_XrayAssetsPath cfg), abs (nc_GeneratedConfigPath cfg)) of
           (Inl err, _, _) \<Rightarrow> Some (Inl err, w)
         | (_, Inl err, _) \<Rightarrow> Some (Inl err, w)
         | (_, _, Inl err) \<Rightarrow> Some (Inl err, w)
         | (Inr executable, Inr assets, Inr configPath) \<Rightarrow>
             (case ApplyAPI (xe_js e) (xe_rng e) (xe_ifaces e) apiPort metricPort xrayConfig of
                Inl err \<Rightarrow> Some (Inl err, w)
              | Inr c1 \<Rightarrow>
                  (let c2 = (if users = [] then c1 else config_syncUsers (xe_uuid e) users c1)
                   in case NewXRayCore (xe_os e) executable assets configPath (nc_LogBufferSize cfg)
                             (nc_StartupLogTailSize cfg) w of
                        Inl err \<Rightarrow> Some (Inl err, w)
                      | Inr core \<Rightarrow>
                          (case core_Start (xe_os e) (xe_js e) (xe_rng e) c2 (nc_Debug cfg) core w of
                             (Some err, c3, core', w1) \<Rightarrow> Some (Inl err, w1)
                           | (None, c3, core', w1) \<Rightarrow>
                               (let x = \<lparr>x_config = c3, x_cfg = cfg, x_core = core', x_handler = False,
                                         x_metricPort = metricPort, x_cancelled = False\<rparr>
                                in case xe_NewClient e apiPort w1 of
                                     (Some err, w2) \<Rightarrow> Some (Inl err, snd (x_Shutdown e x w2))
                                   | (None, w2) \<Rightarrow>
                                       (case checkXrayStatus e evs (x\<lparr>x_handler := True\<rparr>) w2 of
                                          None \<Rightarrow> None
                                        | Some (Some err, x', w3) \<Rightarrow>
                                            Some (Inl err, snd (x_Shutdown e x' w3))
                                        | Some (None, x', w3) \<Rightarrow> Some (Inr x', w3)))))))"

section \<open>Users\<close>

text \<open>
  The loop of \<^verbatim>\<open>SyncUser\<close> over the inbounds: the new inbounds, the messages of the errors and the
  world.
\<close>

fun sync_user_loop ::
  "'w xenv \<Rightarrow> User \<Rightarrow> Inbound list \<Rightarrow> 'w \<Rightarrow> Inbound list \<times> string \<times> 'w" where
  "sync_user_loop e user [] w = ([], [], w)"
| "sync_user_loop e user (inbound # rest) w =
     (if in_exclude inbound
      then (case sync_user_loop e user rest w of (is, msg, w') \<Rightarrow> (inbound # is, msg, w'))
      else
        (let w1 = snd (RemoveInboundUser (xe_api e) (in_Tag inbound) (u_Email user) w)
         in case isActiveInbound inbound (u_Inbounds user) (setupUserAccount (xe_uuid e) user) of
              Some account \<Rightarrow>
                (let inbound' = inbound_updateUser account inbound;
                     (err, w2) = AddInboundUser (xe_api e) (in_Tag inbound)
                                   (accountForAPI (Some inbound') account) w1;
                     m = (case err of None \<Rightarrow> [] | Some x \<Rightarrow> nl @ Error_text x)
                 in case sync_user_loop e user rest w2 of (is, msg, w') \<Rightarrow> (inbound' # is, m @ msg, w'))
            | None \<Rightarrow>
                (case sync_user_loop e user rest w1 of
                   (is, msg, w') \<Rightarrow> (inbound_removeUser (u_Email user) inbound # is, msg, w'))))"

definition x_SyncUser :: "'w xenv \<Rightarrow> User \<Rightarrow> Xray \<Rightarrow> 'w \<Rightarrow> go_error option \<times> Xray \<times> 'w" where
  "x_SyncUser e user x w =
     (case sync_user_loop e user (xc_InboundConfigs (x_config x)) w of
        (is, msg, w') \<Rightarrow>
          (if msg \<noteq> [] then Some (errors_New (''failed to add user:'' @ msg)) else None,
           setConfig ((x_config x)\<lparr>xc_InboundConfigs := is\<rparr>) x, w'))"

definition restorePreviousConfig ::
  "'w xenv \<Rightarrow> xevent list \<Rightarrow> XConfig \<Rightarrow> Xray \<Rightarrow> 'w \<Rightarrow> (go_error option \<times> XConfig \<times> Xray \<times> 'w) option" where
  "restorePreviousConfig e evs previous x w =
     (case restartCoreWithConfig e previous x w of
        (Some err, previous', x1, w1) \<Rightarrow> Some (Some err, previous', x1, w1)
      | (None, previous', x1, w1) \<Rightarrow>
          (case checkXrayStatus e evs x1 w1 of
             None \<Rightarrow> None
           | Some (Some err, x2, w2) \<Rightarrow> Some (Some err, previous', x2, w2)
           | Some (None, x2, w2) \<Rightarrow> Some (None, previous', setConfig previous' x2, w2)))"

text \<open>
  What follows a failure: the previous configuration, which is the one \<^verbatim>\<open>x.config\<close> points to, is
  started again.
\<close>

definition fail_and_restore ::
  "'w xenv \<Rightarrow> xevent list \<Rightarrow> go_error \<Rightarrow> Xray \<Rightarrow> 'w \<Rightarrow> (go_error option \<times> Xray \<times> 'w) option" where
  "fail_and_restore e evs err x w =
     (case restorePreviousConfig e evs (x_config x) x w of
        None \<Rightarrow> None
      | Some (restoreErr, previous', x', w') \<Rightarrow>
          Some (Some (case restoreErr of
                  Some r \<Rightarrow> GoErr Plain (Error_text err @
                    ''; failed to restore previous xray config: '' @ Error_text r) (Some err)
                | None \<Rightarrow> err), setConfig previous' x', w'))"

text \<open>\<open>evs\<close> is what the check of the new core receives, \<open>evs'\<close> that of the restored one.\<close>

definition applyConfigWithRestart ::
  "'w xenv \<Rightarrow> xevent list \<Rightarrow> xevent list \<Rightarrow> XConfig \<Rightarrow> Xray \<Rightarrow> 'w \<Rightarrow>
     (go_error option \<times> Xray \<times> 'w) option" where
  "applyConfigWithRestart e evs evs' candidate x w =
     (case restartCoreWithConfig e candidate x w of
        (Some err, candidate', x1, w1) \<Rightarrow> fail_and_restore e evs' err x1 w1
      | (None, candidate', x1, w1) \<Rightarrow>
          (case checkXrayStatus e evs x1 w1 of
             None \<Rightarrow> None
           | Some (Some err, x2, w2) \<Rightarrow> fail_and_restore e evs' err x2 w2
           | Some (None, x2, w2) \<Rightarrow> Some (None, setConfig candidate' x2, w2)))"

definition x_SyncUsers ::
  "'w xenv \<Rightarrow> xevent list \<Rightarrow> xevent list \<Rightarrow> User list \<Rightarrow> Xray \<Rightarrow> 'w \<Rightarrow>
     (go_error option \<times> Xray \<times> 'w) option" where
  "x_SyncUsers e evs evs' users x w =
     (case Clone (xe_js e) (Some (x_config x)) of
        Inl err \<Rightarrow> Some (Some err, x, w)
      | Inr candidate \<Rightarrow>
          applyConfigWithRestart e evs evs' (config_syncUsers (xe_uuid e) users candidate) x w)"

definition x_UpdateUsersAndRestart ::
  "'w xenv \<Rightarrow> xevent list \<Rightarrow> xevent list \<Rightarrow> User list \<Rightarrow> Xray \<Rightarrow> 'w \<Rightarrow>
     (go_error option \<times> Xray \<times> 'w) option" where
  "x_UpdateUsersAndRestart e evs evs' users x w =
     (case Clone (xe_js e) (Some (x_config x)) of
        Inl err \<Rightarrow> Some (Some err, x, w)
      | Inr candidate \<Rightarrow>
          applyConfigWithRestart e evs evs' (config_updateUsers (xe_rng e) (xe_uuid e) users candidate) x w)"

text \<open>The calls of \<^verbatim>\<open>UpdateUsers\<close> for one inbound: first the removed users, then the accounts.\<close>

fun remove_all :: "'w xenv \<Rightarrow> string \<Rightarrow> string list \<Rightarrow> 'w \<Rightarrow> 'w" where
  "remove_all e tag [] w = w"
| "remove_all e tag (email # emails) w =
     remove_all e tag emails (snd (RemoveInboundUser (xe_api e) tag email w))"

fun add_all :: "'w xenv \<Rightarrow> string \<Rightarrow> Inbound \<Rightarrow> Account list \<Rightarrow> 'w \<Rightarrow> string \<times> 'w" where
  "add_all e tag inbound [] w = ([], w)"
| "add_all e tag inbound (account # accounts) w =
     (let w1 = snd (RemoveInboundUser (xe_api e) tag (GetEmail account) w);
          (err, w2) = AddInboundUser (xe_api e) tag (accountForAPI (Some inbound) account) w1;
          m = (case err of None \<Rightarrow> [] | Some x \<Rightarrow> nl @ Error_text x)
      in case add_all e tag inbound accounts w2 of (msg, w') \<Rightarrow> (m @ msg, w'))"

definition update_tag ::
  "'w xenv \<Rightarrow> (string \<rightharpoonup> nat) \<Rightarrow> (string \<rightharpoonup> inboundUpdate) \<Rightarrow> string \<Rightarrow> XConfig \<Rightarrow> 'w \<Rightarrow>
     XConfig \<times> string \<times> 'w" where
  "update_tag e byTag updates tag c w =
     (case (byTag tag, updates tag) of
        (Some k, Some u) \<Rightarrow>
          (let removeEmails = xe_rng e 1 (iu_removeEmailSet u);
               inbound = inbound_updateUsers (iu_accounts u) removeEmails (xc_InboundConfigs c ! k);
               w1 = remove_all e tag removeEmails w;
               (msg, w2) = add_all e tag inbound (iu_accounts u) w1
           in (c\<lparr>xc_InboundConfigs := (xc_InboundConfigs c)[k := inbound]\<rparr>, msg, w2))
      | _ \<Rightarrow> (c, [], w))"

fun update_tags ::
  "'w xenv \<Rightarrow> (string \<rightharpoonup> nat) \<Rightarrow> (string \<rightharpoonup> inboundUpdate) \<Rightarrow> string list \<Rightarrow> XConfig \<Rightarrow> 'w \<Rightarrow>
     XConfig \<times> string \<times> 'w" where
  "update_tags e byTag updates [] c w = (c, [], w)"
| "update_tags e byTag updates (tag # tags) c w =
     (let (c1, m, w1) = update_tag e byTag updates tag c w;
          (c2, msg, w2) = update_tags e byTag updates tags c1 w1
      in (c2, m @ msg, w2))"

definition x_UpdateUsers :: "'w xenv \<Rightarrow> User list \<Rightarrow> Xray \<Rightarrow> 'w \<Rightarrow> go_error option \<times> Xray \<times> 'w" where
  "x_UpdateUsers e users x w =
     (let (byTag, updates) = buildInboundUpdates (xe_uuid e) users (x_config x)
      in case update_tags e byTag updates (xe_rng e 0 (dom byTag)) (x_config x) w of
           (c, msg, w') \<Rightarrow>
             (if msg \<noteq> [] then Some (errors_New (''failed to update users:'' @ msg)) else None,
              setConfig c x, w'))"

section \<open>The health check\<close>

text \<open>
  The goroutine is between two checks (\<open>Checking\<close>, with the failures so far), has decided to restart
  (\<open>Restarting_pc\<close>) or has returned. A round is the check and the restart it may lead to; the restart
  waits for \<^verbatim>\<open>x.mu\<close>, so that other operations can run before it.
\<close>

datatype health_pc = Checking nat | Restarting_pc nat | Health_returned

definition maxFailures :: nat where
  "maxFailures = 10"

definition health_check :: "'w xenv \<Rightarrow> nat \<Rightarrow> Xray \<Rightarrow> 'w \<Rightarrow> health_pc \<times> 'w" where
  "health_check e consecutiveFailures x w =
     (if x_cancelled x then (Health_returned, w)
      else if core_Restarting (x_core x) then (Checking 0, w)
      else (case x_GetSysStats e w of
              (Inl err, w1) \<Rightarrow>
                (if err_is ContextCanceled err then (Health_returned, w1)
                 else (let n = consecutiveFailures + 1
                       in if \<not> core_Started (x_core x) \<or> n \<ge> maxFailures then (Restarting_pc n, w1)
                          else (Checking n, w1)))
            | (Inr _, w1) \<Rightarrow> (Checking 0, w1)))"

definition health_restart :: "'w xenv \<Rightarrow> nat \<Rightarrow> Xray \<Rightarrow> 'w \<Rightarrow> health_pc \<times> Xray \<times> 'w" where
  "health_restart e n x w =
     (case x_Restart e x w of
        (None, x', w') \<Rightarrow> (Checking 0, x', w')
      | (Some err, x', w') \<Rightarrow> (Checking n, x', w'))"

definition health_round :: "'w xenv \<Rightarrow> health_pc \<times> Xray \<times> 'w \<Rightarrow> health_pc \<times> Xray \<times> 'w" where
  "health_round e s =
     (case s of
        (Checking n, x, w) \<Rightarrow>
          (case health_check e n x w of
             (Restarting_pc k, w1) \<Rightarrow> health_restart e k x w1
           | (pc, w1) \<Rightarrow> (pc, x, w1))
      | (Restarting_pc k, x, w) \<Rightarrow> health_restart e k x w
      | (Health_returned, x, w) \<Rightarrow> (Health_returned, x, w))"

section \<open>Statistics and routing\<close>

definition x_GetUserOnlineStats :: "'w xenv \<Rightarrow> string \<Rightarrow> 'w \<Rightarrow> OnlineStatResponse result" where
  "x_GetUserOnlineStats e email w = api_GetUserOnlineStats (xe_svc e) email w"

definition x_GetUserOnlineIpListStats :: "'w xenv \<Rightarrow> string \<Rightarrow> 'w \<Rightarrow> StatsOnlineIpListResponse result" where
  "x_GetUserOnlineIpListStats e email w = api_GetUserOnlineIpListStats (xe_svc e) email w"

definition x_GetStats :: "'w xenv \<Rightarrow> StatRequest \<Rightarrow> 'w \<Rightarrow> Stat list result \<times> 'w" where
  "x_GetStats e request w =
     (case sr_Type request of
        Outbounds \<Rightarrow> api_GetOutboundsStats (xe_svc e) (sr_Reset request) w
      | Outbound \<Rightarrow> api_GetOutboundStats (xe_svc e) (sr_Name request) (sr_Reset request) w
      | Inbounds \<Rightarrow> api_GetInboundsStats (xe_svc e) (sr_Reset request) w
      | StatType.Inbound \<Rightarrow> api_GetInboundStats (xe_svc e) (sr_Name request) (sr_Reset request) w
      | UsersStat \<Rightarrow> api_GetUsersStats (xe_svc e) (sr_Reset request) w
      | UserStat \<Rightarrow> api_GetUserStats (xe_svc e) (sr_Name request) (sr_Reset request) w
      | StatType_other _ \<Rightarrow> (Inl (errors_New ''not implemented stat type''), w))"

definition routingHandler :: "Xray \<Rightarrow> go_error option" where
  "routingHandler x =
     (if \<not> core_Started (x_core x) \<or> \<not> x_handler x then Some (errors_New ''xray not started'') else None)"

definition x_ListRoutingRules :: "'w xenv \<Rightarrow> Xray \<Rightarrow> 'w \<Rightarrow> RoutingRule list result" where
  "x_ListRoutingRules e x w =
     (case routingHandler x of Some err \<Rightarrow> Inl err | None \<Rightarrow> api_ListRoutingRules (xe_svc e) w)"

definition x_GetBalancerInfo :: "'w xenv \<Rightarrow> string \<Rightarrow> Xray \<Rightarrow> 'w \<Rightarrow> BalancerInfoResponse result" where
  "x_GetBalancerInfo e tag x w =
     (case routingHandler x of Some err \<Rightarrow> Inl err | None \<Rightarrow> api_GetBalancerInfo (xe_svc e) tag w)"

definition x_TestRoute :: "'w xenv \<Rightarrow> TestRouteRequest \<Rightarrow> Xray \<Rightarrow> 'w \<Rightarrow> RouteResult result" where
  "x_TestRoute e req x w =
     (case routingHandler x of Some err \<Rightarrow> Inl err | None \<Rightarrow> api_TestRoute (xe_svc e) req w)"

definition x_AddRoutingRule :: "'w xenv \<Rightarrow> string \<Rightarrow> bool \<Rightarrow> Xray \<Rightarrow> 'w \<Rightarrow> go_error option \<times> 'w" where
  "x_AddRoutingRule e ruleJSON shouldAppend x w =
     (case routingHandler x of
        Some err \<Rightarrow> (Some err, w) | None \<Rightarrow> api_AddRoutingRule (xe_svc e) ruleJSON shouldAppend w)"

definition x_RemoveRoutingRule :: "'w xenv \<Rightarrow> string \<Rightarrow> Xray \<Rightarrow> 'w \<Rightarrow> go_error option \<times> 'w" where
  "x_RemoveRoutingRule e ruleTag x w =
     (case routingHandler x of
        Some err \<Rightarrow> (Some err, w) | None \<Rightarrow> api_RemoveRoutingRule (xe_svc e) ruleTag w)"

definition x_OverrideBalancerTarget ::
  "'w xenv \<Rightarrow> string \<Rightarrow> string \<Rightarrow> Xray \<Rightarrow> 'w \<Rightarrow> go_error option \<times> 'w" where
  "x_OverrideBalancerTarget e balancerTag target x w =
     (case routingHandler x of
        Some err \<Rightarrow> (Some err, w)
      | None \<Rightarrow> api_OverrideBalancerTarget (xe_svc e) balancerTag target w)"

section \<open>Latency\<close>

definition shouldIncludeObservatoryOutbound :: "(string \<rightharpoonup> string) \<Rightarrow> string \<Rightarrow> bool" where
  "shouldIncludeObservatoryOutbound protocolByTag tag =
     (case protocolByTag tag of None \<Rightarrow> True | Some protocol \<Rightarrow> protocol \<notin> observatoryExcludedProtocols)"

definition metrics_url :: "int \<Rightarrow> string" where
  "metrics_url port = ''http://'' @ loopbackListenAddress port @ ''/debug/vars''"

definition latency_entry :: "string \<Rightarrow> observatoryEntry \<Rightarrow> Latency" where
  "latency_entry key entry =
     \<lparr>lt_Name = key, lt_Alive = ob_Alive entry, lt_Delay = ob_Delay entry,
      lt_Link = (if ob_OutboundTag entry = [] then key else ob_OutboundTag entry),
      lt_LastTryTime = ob_LastTryTime entry, lt_LastSeenTime = ob_LastSeenTime entry,
      lt_Source = ''xray-observatory''\<rparr>"

definition x_GetOutboundsLatency :: "'w xenv \<Rightarrow> string \<Rightarrow> Xray \<Rightarrow> 'w \<Rightarrow> Latency list result" where
  "x_GetOutboundsLatency e name x w =
     (if \<not> core_Started (x_core x) then Inl (errors_New ''xray not started'')
      else (case xe_Vars e (metrics_url (x_metricPort x)) w of
              Inl err \<Rightarrow> Inl (Errorf_w ''read xray observatory metrics: '' err)
            | Inr (status, body) \<Rightarrow>
                (if status \<noteq> 200
                 then Inl (errors_New (''read xray observatory metrics: unexpected status '' @ decimal status))
                 else (case body of
                         Inl err \<Rightarrow> Inl (Errorf_w ''decode xray observatory metrics: '' err)
                       | Inr obs \<Rightarrow>
                           (if dom obs = {}
                            then Inl (errors_New ''xray outbound latency is not available'')
                            else
                              (let protocolByTag = outboundProtocolByTag (x_config x);
                                   keys = sort (filter
                                     (\<lambda>key. (name = [] \<or> key = name) \<and>
                                            shouldIncludeObservatoryOutbound protocolByTag key)
                                     (xe_rng e 0 (dom obs)))
                               in Inr (map (\<lambda>key. latency_entry key (the (obs key))) keys)))))))"

end
