(* ===== verification/XrayBackendProps.thy ===== *)
theory XrayBackendProps
  imports XrayBackend
begin

text \<open>
  What the operations of the Xray backend promise: a failed synchronisation keeps the users, the wait
  for a core ends, the health check restarts a core that does not answer, and a single user ends up
  with the same account in the configuration and in the running core.
\<close>

section \<open>A synchronisation by restart\<close>

text \<open>What a configuration says of users: the tag, the exclusion and the accounts of every inbound.\<close>

definition inbound_view :: "Inbound \<Rightarrow> string \<times> bool \<times> (string \<rightharpoonup> Account)" where
  "inbound_view i = (in_Tag i, in_exclude i, in_clients i)"

definition config_view :: "XConfig \<Rightarrow> (string \<times> bool \<times> (string \<rightharpoonup> Account)) list" where
  "config_view c = map inbound_view (xc_InboundConfigs c)"

lemma set_clients_view [simp]: "inbound_view (set_clients rng n i) = inbound_view i"
  by (simp add: set_clients_def inbound_view_def Let_def split: option.split)

lemma ToBytes_view: "ToBytes j rng c = (r, c') \<Longrightarrow> config_view c' = config_view c"
proof -
  have "map inbound_view (map (\<lambda>(n, i). set_clients rng n i) (enumerate k is)) = map inbound_view is" for k "is"
    by (induction "is" arbitrary: k) simp_all
  then show "ToBytes j rng c = (r, c') \<Longrightarrow> config_view c' = config_view c"
    by (auto simp: ToBytes_def Let_def config_view_def with_log_def split: option.splits)
qed

lemma GetLogFiles_view: "GetLogFiles c = (f, c') \<Longrightarrow> config_view c' = config_view c"
  by (auto simp: GetLogFiles_def Let_def config_view_def split: option.splits)

lemma core_Start_view:
  assumes "core_Start s j rng x d c w = (r, x', c', w')"
  shows "config_view x' = config_view x"
proof -
  obtain f x1 where g: "GetLogFiles x = (f, x1)" by fastforce
  obtain b x2 where t: "ToBytes j rng x1 = (b, x2)" by fastforce
  have "x' = x2"
    using assms by (auto simp: core_Start_def Let_def g t split: prod.splits if_splits)
  then show ?thesis using GetLogFiles_view [OF g] ToBytes_view [OF t] by simp
qed

lemma core_Restart_view:
  assumes "core_Restart s j rng x d c w = (r, x', c', w')"
  shows "config_view x' = config_view x"
  using assms
  by (auto simp: core_Restart_def Let_def split: if_splits prod.splits dest: core_Start_view)

lemma restartCoreWithConfig_view:
  assumes "restartCoreWithConfig e c x w = (r, c', x', w')"
  shows "config_view c' = config_view c" "x_config x' = x_config x"
  using assms core_Restart_view by (auto simp: restartCoreWithConfig_def split: prod.splits)

lemma checkXrayStatus_config:
  "checkXrayStatus e evs x w = Some (r, x', w') \<Longrightarrow> x_config x' = x_config x"
proof (induction e evs x w rule: checkXrayStatus.induct)
  case (2 e ev evs x w)
  then show ?case
    by (cases ev) (auto split: option.splits sum.splits prod.splits if_splits)
qed simp

lemma setConfig_sel [simp]: "x_config (setConfig c x) = c"
  by (simp add: setConfig_def)

lemma fail_and_restore_view:
  assumes "fail_and_restore e evs err x w = Some (r, x', w')"
  shows "r \<noteq> None" "config_view (x_config x') = config_view (x_config x)"
proof -
  obtain r1 p x1 w1 where rs: "restartCoreWithConfig e (x_config x) x w = (r1, p, x1, w1)"
    by (metis prod_cases4)
  note view = restartCoreWithConfig_view [OF rs]
  show "r \<noteq> None" using assms by (auto simp: fail_and_restore_def split: option.splits)
  have "\<exists>re x2 w2. restorePreviousConfig e evs (x_config x) x w = Some (re, p, x2, w2) \<and>
      x_config x' = p"
    using assms by (auto simp: fail_and_restore_def restorePreviousConfig_def rs split: option.splits)
  then show "config_view (x_config x') = config_view (x_config x)" using view by auto
qed

lemma applyConfigWithRestart_view:
  assumes "applyConfigWithRestart e evs evs' cand x w = Some (r, x', w')"
  shows "config_view (x_config x') = (if r = None then config_view cand else config_view (x_config x))"
proof -
  obtain r1 c1 x1 w1 where rs: "restartCoreWithConfig e cand x w = (r1, c1, x1, w1)"
    by (metis prod_cases4)
  note view = restartCoreWithConfig_view [OF rs]
  show ?thesis
  proof (cases r1)
    case (Some err)
    then show ?thesis
      using assms fail_and_restore_view [of e evs' err x1 w1 r x' w'] view
      by (auto simp: applyConfigWithRestart_def rs)
  next
    case None
    obtain r2 x2 w2 where ck: "checkXrayStatus e evs x1 w1 = Some (r2, x2, w2)"
      using assms None by (auto simp: applyConfigWithRestart_def rs split: option.splits)
    then have x2: "x_config x2 = x_config x" using checkXrayStatus_config view by metis
    show ?thesis
    proof (cases r2)
      case None
      then show ?thesis
        using assms \<open>r1 = None\<close> ck view by (auto simp: applyConfigWithRestart_def rs)
    next
      case (Some err)
      then show ?thesis
        using assms \<open>r1 = None\<close> ck x2 fail_and_restore_view [of e evs' err x2 w2 r x' w']
        by (auto simp: applyConfigWithRestart_def rs)
    qed
  qed
qed


section \<open>The wait ends\<close>

lemma checkXrayStatus_done: "CtxDone \<in> set evs \<Longrightarrow> \<exists>r. checkXrayStatus e evs x w = Some r"
proof (induction evs arbitrary: x w)
  case (Cons ev evs)
  obtain c' w1 where c': "core_event e ev (x_core x) w = (c', w1)" by fastforce
  obtain r v where sys: "x_GetSysStats e w = (r, v)" by fastforce
  show ?case
  proof (cases "ev = CtxDone")
    case False
    with Cons.prems have "CtxDone \<in> set evs" by auto
    note IH = Cons.IH [OF this]
    show ?thesis
    proof (cases ev)
      case ErrorTick
      with IH show ?thesis by (cases "extractStartupError x") simp_all
    next
      case ApiTick
      with IH sys show ?thesis by (cases r; cases "extractStartupError x") simp_all
    next
      case (CoreOutput l)
      with IH c' show ?thesis by (simp del: core_event.simps)
    next
      case (CoreExit h err)
      with IH c' show ?thesis by (simp del: core_event.simps)
    qed (use False in simp)
  qed simp
qed simp

text \<open>
  C31. The synchronisation by restart returns when the contexts end: \<^verbatim>\<open>SyncUsers\<close> and
  \<^verbatim>\<open>UpdateUsersAndRestart\<close> wait for the new core and, after a failure, for the restored one, and if
  what each wait receives contains the end of its context, both return. A wait also ends at the first
  API tick once the process has gone.
\<close>

theorem sync_by_restart_returns:
  assumes "CtxDone \<in> set evs" "CtxDone \<in> set evs'"
  shows "x_SyncUsers e evs evs' users x w \<noteq> None \<and>
    x_UpdateUsersAndRestart e evs evs' users x w \<noteq> None \<and>
    (\<not> core_Started (x_core x) \<longrightarrow> checkXrayStatus e (ApiTick # rest) x w \<noteq> None)"
proof -
  have fr: "\<exists>z. fail_and_restore e evs' err y v = Some z" for err y v
  proof -
    obtain r1 p y1 v1 where rs: "restartCoreWithConfig e (x_config y) y v = (r1, p, y1, v1)"
      by (metis prod_cases4)
    obtain r2 y2 v2 where "checkXrayStatus e evs' y1 v1 = Some (r2, y2, v2)"
      using checkXrayStatus_done [OF assms(2)] by (metis prod_cases3)
    then show ?thesis
      by (cases r1; cases r2) (simp_all add: fail_and_restore_def restorePreviousConfig_def rs)
  qed
  have "\<exists>z. applyConfigWithRestart e evs evs' c x w = Some z" for c
  proof -
    obtain r1 p y1 v1 where rs: "restartCoreWithConfig e c x w = (r1, p, y1, v1)"
      by (metis prod_cases4)
    obtain r2 y2 v2 where "checkXrayStatus e evs y1 v1 = Some (r2, y2, v2)"
      using checkXrayStatus_done [OF assms(1)] by (metis prod_cases3)
    then show ?thesis
      using fr by (cases r1; cases r2) (simp_all add: applyConfigWithRestart_def rs)
  qed
  moreover have "\<exists>z. checkXrayStatus e (ApiTick # rest) x w = Some z" if "\<not> core_Started (x_core x)"
    using that by (cases "x_GetSysStats e w"; cases "fst (x_GetSysStats e w)"; cases "extractStartupError x") simp_all
  ultimately show ?thesis
    by (cases "Clone (xe_js e) (Some (x_config x))") (auto simp: x_SyncUsers_def x_UpdateUsersAndRestart_def)
qed

section \<open>The health check\<close>

definition api_down :: "'w xenv \<Rightarrow> bool" where
  "api_down e \<longleftrightarrow> (\<forall>w. \<exists>err w'. sv_GetSysStats (xe_svc e) w = (Inl err, w'))"

text \<open>
  The error of \<^verbatim>\<open>GetSysStats\<close> is made anew with \<^verbatim>\<open>status.Errorf\<close>, so it never is \<^verbatim>\<open>context.Canceled\<close>.
\<close>

lemma GetSysStats_not_Canceled: "x_GetSysStats e w = (Inl err, w') \<Longrightarrow> \<not> err_is ContextCanceled err"
  by (auto simp: x_GetSysStats_def api_GetSysStats_def status_Error_def split: prod.splits sum.splits)

lemma api_down_GetSysStats:
  assumes "api_down e"
  obtains err w' where "x_GetSysStats e w = (Inl err, w')" "\<not> err_is ContextCanceled err"
proof -
  obtain err w' where "sv_GetSysStats (xe_svc e) w = (Inl err, w')"
    using assms unfolding api_down_def by blast
  then have "\<exists>err. x_GetSysStats e w = (Inl err, w')"
    by (simp add: x_GetSysStats_def api_GetSysStats_def)
  then obtain err where err: "x_GetSysStats e w = (Inl err, w')" by blast
  show ?thesis using that [OF err GetSysStats_not_Canceled [OF err]] .
qed

lemma health_round_failed:
  assumes "api_down e" "\<not> x_cancelled x" "\<not> core_Restarting (x_core x)"
  obtains w1 where "health_round e (Checking n, x, w) =
    (if core_Started (x_core x) \<and> n + 1 < maxFailures then (Checking (n + 1), x, w1)
     else health_restart e (n + 1) x w1)"
proof -
  obtain err w1 where "x_GetSysStats e w = (Inl err, w1)" "\<not> err_is ContextCanceled err"
    using api_down_GetSysStats [OF assms(1)] by blast
  then show ?thesis
    using assms(2,3) by (intro that [of w1]) (auto simp: health_round_def health_check_def Let_def)
qed

lemma health_streak:
  assumes "api_down e" "\<not> x_cancelled x" "\<not> core_Restarting (x_core x)" "core_Started (x_core x)"
  shows "k < maxFailures \<Longrightarrow> \<exists>v. (health_round e ^^ k) (Checking 0, x, w) = (Checking k, x, v)"
proof (induction k)
  case (Suc k)
  then obtain v where v: "(health_round e ^^ k) (Checking 0, x, w) = (Checking k, x, v)" by auto
  obtain v' where "health_round e (Checking k, x, v) = (if core_Started (x_core x) \<and> k + 1 < maxFailures
      then (Checking (k + 1), x, v') else health_restart e (k + 1) x v')"
    by (rule health_round_failed [OF assms(1-3)])
  with v Suc.prems assms(4) show ?case by auto
qed simp

text \<open>
  C27. A core that does not answer is restarted. While its API fails (and no restart is under way and
  the backend is not shut down), nine checks in a row leave a running core alone and the tenth
  restarts it with the current configuration; a core whose process has gone is restarted by the next
  check, and so is a core at every further check after ten failures whose restart failed; one answer
  sets the count back.
\<close>

theorem health_check_restarts:
  assumes "api_down e" "\<not> x_cancelled x" "\<not> core_Restarting (x_core x)"
  shows "(core_Started (x_core x) \<longrightarrow>
      (\<forall>k < 10. \<exists>v. (health_round e ^^ k) (Checking 0, x, w) = (Checking k, x, v)) \<and>
      (\<exists>v. (health_round e ^^ 10) (Checking 0, x, w) = health_restart e 10 x v)) \<and>
    (\<not> core_Started (x_core x) \<or> n \<ge> 9 \<longrightarrow>
      (\<exists>v. health_round e (Checking n, x, w) = health_restart e (n + 1) x v)) \<and>
    (\<forall>e'. (\<exists>r v. sv_GetSysStats (xe_svc e') w = (Inr r, v)) \<longrightarrow>
      (\<exists>v. health_round e' (Checking n, x, w) = (Checking 0, x, v)))"
proof (intro conjI impI allI)
  fix k :: nat
  assume "core_Started (x_core x)" "k < 10"
  then show "\<exists>v. (health_round e ^^ k) (Checking 0, x, w) = (Checking k, x, v)"
    using health_streak [OF assms] by (simp add: maxFailures_def)
next
  assume started: "core_Started (x_core x)"
  then obtain v where v: "(health_round e ^^ 9) (Checking 0, x, w) = (Checking 9, x, v)"
    using health_streak [OF assms, of 9 w] by (auto simp: maxFailures_def)
  obtain v' where "health_round e (Checking 9, x, v) = (if core_Started (x_core x) \<and> 9 + 1 < maxFailures
      then (Checking (9 + 1), x, v') else health_restart e (9 + 1) x v')"
    by (rule health_round_failed [OF assms])
  then have "health_round e (Checking 9, x, v) = health_restart e 10 x v'"
    by (simp add: maxFailures_def)
  with v have "(health_round e ^^ Suc 9) (Checking 0, x, w) = health_restart e 10 x v'"
    by (simp only: funpow.simps comp_apply)
  then show "\<exists>v. (health_round e ^^ 10) (Checking 0, x, w) = health_restart e 10 x v"
    by (auto simp: eval_nat_numeral)
next
  assume gone: "\<not> core_Started (x_core x) \<or> n \<ge> 9"
  obtain v where "health_round e (Checking n, x, w) = (if core_Started (x_core x) \<and> n + 1 < maxFailures
      then (Checking (n + 1), x, v) else health_restart e (n + 1) x v)"
    by (rule health_round_failed [OF assms])
  then have "health_round e (Checking n, x, w) = health_restart e (n + 1) x v"
    using gone by (auto simp: maxFailures_def)
  then show "\<exists>v. health_round e (Checking n, x, w) = health_restart e (n + 1) x v" by blast
next
  fix e' :: "'a xenv"
  assume "\<exists>r v. sv_GetSysStats (xe_svc e') w = (Inr r, v)"
  then show "\<exists>v. health_round e' (Checking n, x, w) = (Checking 0, x, v)"
    using assms(2,3)
    by (auto simp: health_round_def health_check_def x_GetSysStats_def api_GetSysStats_def)
qed

section \<open>Shutdown and a pending restart\<close>

text \<open>
  C33. A restart that the health check has decided on and that waits for \<^verbatim>\<open>x.mu\<close> while \<^verbatim>\<open>Shutdown\<close> runs
  starts the core again afterwards: \<^verbatim>\<open>Shutdown\<close> stops the core, but the restart does not look at the
  context that was cancelled, and if it succeeds the backend that was shut down holds a running
  process; only the next check returns.
\<close>

theorem pending_restart_revives_core:
  assumes "fd_frame (xe_os e) fds" "\<not> core_Restarting (x_core x)"
    and "x_Shutdown e x w = (x1, w1)" "x_Restart e x1 w1 = (None, x2, w2)"
  shows "\<not> core_Started (x_core x1) \<and>
    health_round e (Restarting_pc k, x1, w1) = (Checking 0, x2, w2) \<and>
    core_Started (x_core x2) \<and> x_cancelled x2 \<and>
    fst (health_round e (Checking 0, x2, w2)) = Health_returned"
proof -
  obtain c v where stop: "core_Stop (xe_os e) (x_core x) w = (c, v)" by fastforce
  have x1: "x1 = x\<lparr>x_cancelled := True, x_core := c\<rparr>"
    using assms(3) stop by (auto simp: x_Shutdown_def Let_def)
  note idle = core_Stop_idle [OF stop]
  obtain cfg c2 where restart: "core_Restart (xe_os e) (xe_js e) (xe_rng e) (x_config x1)
      (nc_Debug (x_cfg x1)) (x_core x1) w1 = (None, cfg, c2, w2)" "x2 = setConfig cfg (x1\<lparr>x_core := c2\<rparr>)"
    using assms(4) by (auto simp: x_Restart_def restartCoreWithConfig_def split: prod.splits)
  have "\<not> co_restarting (x_core x1)" using assms(2) idle(3) by (simp add: x1 core_Restarting_def)
  then have started: "core_Started c2"
    using core_Restart_outcome [OF assms(1) restart(1)] by auto
  have cancelled: "x_cancelled x2" by (simp add: restart(2) setConfig_def x1)
  show ?thesis
    using idle(2) started cancelled assms(4)
    by (simp add: x1 restart(2) setConfig_def health_round_def health_restart_def health_check_def)
qed

section \<open>A concrete backend\<close>

text \<open>
  The system of \<open>demo_os\<close> with a core whose API answers or not, and a JSON library that encodes every
  configuration as the same text.
\<close>

definition demo_stats :: BackendStatsResponse where
  "demo_stats = \<lparr>bs_NumGoroutine = 1, bs_NumGc = 0, bs_Alloc = 0, bs_TotalAlloc = 0, bs_Sys = 0,
     bs_Mallocs = 0, bs_Frees = 0, bs_LiveObjects = 0, bs_PauseTotalNs = 0, bs_Uptime = 3\<rparr>"

definition demo_svc :: "bool \<Rightarrow> demo_world xsvc" where
  "demo_svc up = \<lparr>sv_GetSysStats = (\<lambda>w. (if up then Inr demo_stats else Inl (status_Error Unavailable ''refused''), w)),
     sv_QueryStats = (\<lambda>p r w. (Inr [], w)), sv_GetStatsOnline = (\<lambda>n w. Inr None),
     sv_GetStatsOnlineIpList = (\<lambda>n w. Inr Map.empty), sv_ListRule = (\<lambda>w. Inr []),
     sv_GetBalancerInfo = (\<lambda>t w. Inr None), sv_TestRoute = (\<lambda>r f p w. Inr r),
     sv_AddRule = (\<lambda>r a w. (None, w)), sv_RemoveRule = (\<lambda>t w. (None, w)),
     sv_OverrideBalancerTarget = (\<lambda>b t w. (None, w)), sv_Build = (\<lambda>r. Inr (1, r))\<rparr>"

definition demo_codec :: js where
  "demo_codec = demo_js\<lparr>js_unconfig := \<lambda>_. Inr (ex_tconfig, map Some (xc_InboundConfigs ex_tconfig))\<rparr>"

definition demo_api :: "demo_world xapi" where
  "demo_api = \<lparr>pb_Marshal = (\<lambda>_. Inr []), pb_Name = (\<lambda>_. []), uuid_String = (\<lambda>_. []),
     AlterInbound = (\<lambda>tag op w. (None, w)), AlterOutbound = (\<lambda>tag op w. (None, w))\<rparr>"

definition demo_env :: "bool \<Rightarrow> demo_world xenv" where
  "demo_env up = \<lparr>xe_os = demo_os, xe_js = demo_codec, xe_rng = asc_iter, xe_uuid = ex_uuid_Parse,
     xe_api = demo_api, xe_svc = demo_svc up, xe_ifaces = None, xe_NewClient = (\<lambda>p w. (None, w)),
     xe_Close = (\<lambda>w. w), xe_Vars = (\<lambda>u w. Inr (200, Inr Map.empty))\<rparr>"

definition demo_cfg_node :: NodeConfig where
  "demo_cfg_node = fst (Load ex_uuid_Parse (\<lambda>_. None))"

definition demo_xray :: Xray where
  "demo_xray = \<lparr>x_config = ex_tconfig, x_cfg = demo_cfg_node, x_core = demo_core, x_handler = True,
     x_metricPort = 1, x_cancelled = False\<rparr>"

lemma demo_not_debug: "nc_Debug demo_cfg_node = False"
  unfolding demo_cfg_node_def by code_simp

lemma demo_restart_ok:
  assumes "\<not> co_restarting c"
  obtains x' c' w' where "core_Restart demo_os j rng x False c w = (None, x', c', w')"
proof -
  obtain c1 w1 where stop: "core_Stop demo_os (c\<lparr>co_restarting := True\<rparr>) w = (c1, w1)"
    by (metis prod.exhaust)
  obtain r2 x2 c2 w2 where start: "core_Start demo_os j rng x False c1 w1 = (r2, x2, c2, w2)"
    by (metis prod_cases4)
  have "r2 = None" by (rule demo_start_ok [OF core_Stop_idle(2) [OF stop] start])
  then show ?thesis using that stop start assms by (auto simp: core_Restart_def)
qed

lemma demo_restartCoreWithConfig:
  obtains config' x' w' where "restartCoreWithConfig (demo_env up) config demo_xray w = (None, config', x', w')"
    "x_cfg x' = demo_cfg_node"
proof -
  have "\<not> co_restarting demo_core" by (simp add: demo_core_def ex_core_def)
  then obtain x' c' w' where "core_Restart demo_os demo_codec asc_iter config False demo_core w = (None, x', c', w')"
    by (rule demo_restart_ok)
  then show ?thesis
    by (intro that) (auto simp: restartCoreWithConfig_def demo_env_def demo_xray_def demo_not_debug)
qed

lemma demo_apply:
  obtains x' w' where "applyConfigWithRestart (demo_env True) [ApiTick] [] c demo_xray w = Some (None, x', w')"
proof -
  obtain c1 x1 w1 where rs: "restartCoreWithConfig (demo_env True) c demo_xray w = (None, c1, x1, w1)"
    by (rule demo_restartCoreWithConfig)
  have "x_GetSysStats (demo_env True) w1 = (Inr demo_stats, w1)"
    by (simp add: x_GetSysStats_def api_GetSysStats_def demo_env_def demo_svc_def)
  then show ?thesis by (intro that) (simp add: applyConfigWithRestart_def rs)
qed

definition demo_candidate :: XConfig where
  "demo_candidate = ex_tconfig\<lparr>xc_InboundConfigs := [ex_trojan\<lparr>in_clients := cloneClients Map.empty\<rparr>]\<rparr>"

lemma demo_clone: "Clone demo_codec (Some ex_tconfig) = Inr demo_candidate"
  by (simp add: Clone_def demo_codec_def demo_js_def originalByTag_def ex_tconfig_def demo_candidate_def ex_trojan_def)


theorem sync_by_restart_returns_witness:
  "x_SyncUsers (demo_env False) [ErrorTick, ApiTick, CtxDone] [CtxDone] [] demo_xray ([], []) \<noteq> None"
  using sync_by_restart_returns [of "[ErrorTick, ApiTick, CtxDone]" "[CtxDone]" "demo_env False" "[]" demo_xray "([], [])" "[]"]
  by simp

theorem health_check_restarts_witness:
  "\<exists>v. health_round (demo_env False) (Checking 9, demo_xray, ([], [])) =
     health_restart (demo_env False) 10 demo_xray v"
proof -
  have "api_down (demo_env False)" by (simp add: api_down_def demo_env_def demo_svc_def)
  moreover have "\<not> x_cancelled demo_xray" "\<not> core_Restarting (x_core demo_xray)"
    by (simp_all add: demo_xray_def core_Restarting_def demo_core_def ex_core_def)
  ultimately show ?thesis
    using health_check_restarts [of "demo_env False" demo_xray "([], [])" 9] by auto
qed

theorem pending_restart_revives_core_witness:
  "\<exists>x1 w1 x2 w2. x_Shutdown (demo_env False) demo_xray ([], []) = (x1, w1) \<and>
     x_Restart (demo_env False) x1 w1 = (None, x2, w2) \<and> x_cancelled x2 \<and> core_Started (x_core x2)"
proof -
  let ?e = "demo_env False"
  have nr: "\<not> co_restarting demo_core" by (simp add: demo_core_def ex_core_def)
  obtain c v where stop: "core_Stop demo_os demo_core ([], []) = (c, v)" by (metis prod.exhaust)
  then have down: "x_Shutdown ?e demo_xray ([], []) = (demo_xray\<lparr>x_cancelled := True, x_core := c\<rparr>, v)"
    by (simp add: x_Shutdown_def demo_env_def demo_xray_def)
  have "\<not> co_restarting c" using core_Stop_idle(3) [OF stop] nr by simp
  then obtain x' c' w' where "core_Restart demo_os demo_codec asc_iter ex_tconfig False c v = (None, x', c', w')"
    by (rule demo_restart_ok)
  then have restart: "\<exists>x2 w2. x_Restart ?e (demo_xray\<lparr>x_cancelled := True, x_core := c\<rparr>) v = (None, x2, w2)"
    by (simp add: x_Restart_def restartCoreWithConfig_def demo_env_def demo_xray_def demo_not_debug)
  then obtain x2 w2 where r: "x_Restart ?e (demo_xray\<lparr>x_cancelled := True, x_core := c\<rparr>) v = (None, x2, w2)"
    by blast
  have "fd_frame (xe_os ?e) (\<lambda>w. set (fst w))" using demo_frame by (simp add: demo_env_def)
  moreover have "\<not> core_Restarting (x_core demo_xray)" using nr by (simp add: demo_xray_def core_Restarting_def)
  ultimately show ?thesis using pending_restart_revives_core [OF _ _ down r] down r by blast
qed

end
