(* ===== verification/XrayAgree.thy ===== *)
theory XrayAgree
  imports XrayBackend
begin

text \<open>
  The running core and the configuration of the Xray backend agree on the users. \<open>tbl w tag\<close> is the
  table of users the core has for an inbound: under each e-mail the message of the account it was
  given. \<^verbatim>\<open>SyncUser\<close> and \<^verbatim>\<open>UpdateUsers\<close> change both sides; the lemmas say that they end up equal.
\<close>

section \<open>The table of the core\<close>

text \<open>
  What the core's handler service promises: removing a user leaves none under the e-mail, adding one
  without an error puts its account there, an error changes nothing; and its messages can be encoded.
\<close>

definition table_laws :: "'w xapi \<Rightarrow> ('w \<Rightarrow> string \<Rightarrow> string \<Rightarrow> TypedMessage option) \<Rightarrow> bool" where
  "table_laws x tbl \<longleftrightarrow>
     (\<forall>p err. pb_Marshal x p \<noteq> Inl err) \<and>
     (\<forall>tag e op w. ToTypedMessage x (PbRemoveUser e) = Inr op \<longrightarrow>
        tbl (snd (AlterInbound x tag op w)) = (tbl w)(tag := (tbl w tag)(e := None))) \<and>
     (\<forall>tag l e m op w w'. ToTypedMessage x (PbAddUser l e m) = Inr op \<longrightarrow>
        AlterInbound x tag op w = (None, w') \<longrightarrow> tbl w' = (tbl w)(tag := (tbl w tag)(e \<mapsto> m))) \<and>
     (\<forall>tag l e m op w w' err. ToTypedMessage x (PbAddUser l e m) = Inr op \<longrightarrow>
        AlterInbound x tag op w = (Some err, w') \<longrightarrow> tbl w' = tbl w)"

text \<open>What the core should have for an account of an inbound.\<close>

definition api_entry :: "'w xapi \<Rightarrow> Inbound \<Rightarrow> Account \<Rightarrow> TypedMessage option" where
  "api_entry x i a = (case Message x (accountForAPI (Some i) a) of Inl _ \<Rightarrow> None | Inr m \<Rightarrow> Some m)"

definition agrees ::
  "'w xapi \<Rightarrow> ('w \<Rightarrow> string \<Rightarrow> string \<Rightarrow> TypedMessage option) \<Rightarrow> 'w \<Rightarrow> Inbound \<Rightarrow> string \<Rightarrow> bool" where
  "agrees x tbl w i e \<longleftrightarrow> tbl w (in_Tag i) e = Option.bind (in_clients i e) (api_entry x i)"

definition in_sync ::
  "'w xapi \<Rightarrow> ('w \<Rightarrow> string \<Rightarrow> string \<Rightarrow> TypedMessage option) \<Rightarrow> XConfig \<Rightarrow> 'w \<Rightarrow> bool" where
  "in_sync x tbl c w \<longleftrightarrow>
     (\<forall>i \<in> set (xc_InboundConfigs c). \<not> in_exclude i \<longrightarrow> (\<forall>e. agrees x tbl w i e))"

lemma accountForAPI_same [simp]:
  "accountForAPI (Some (i\<lparr>in_clients := m\<rparr>)) a = accountForAPI (Some i) a"
  by (simp add: accountForAPI_def inboundFlow_def setting_string_def split: Account.split)

lemma api_entry_same [simp]: "api_entry x (i\<lparr>in_clients := m\<rparr>) = api_entry x i"
  by (rule ext) (simp add: api_entry_def)

lemma GetEmail_accountForAPI [simp]: "GetEmail (accountForAPI i a) = GetEmail a"
  by (cases a) (simp_all add: accountForAPI_def Let_def account_email)

lemma ToTypedMessage_ok:
  assumes "table_laws x tbl"
  obtains m where "ToTypedMessage x p = Inr m"
proof -
  obtain d where "pb_Marshal x p = Inr d"
    using assms by (cases "pb_Marshal x p") (auto simp: table_laws_def)
  then show ?thesis by (intro that) (simp add: ToTypedMessage_def)
qed

lemma RemoveInboundUser_tbl:
  assumes "table_laws x tbl"
  shows "tbl (snd (RemoveInboundUser x tag e w)) = (tbl w)(tag := (tbl w tag)(e := None))"
proof -
  obtain op where "ToTypedMessage x (PbRemoveUser e) = Inr op" by (rule ToTypedMessage_ok [OF assms])
  then show ?thesis using assms by (simp add: RemoveInboundUser_def AlertInbound_def table_laws_def)
qed

lemma AddInboundUser_tbl:
  assumes "table_laws x tbl" "AddInboundUser x tag (accountForAPI (Some i) a) w = (err, w')"
  shows "tbl w' = (if err = None then (tbl w)(tag := (tbl w tag)(GetEmail a := api_entry x i a)) else tbl w)"
    and "\<exists>m. api_entry x i a = Some m"
proof -
  let ?a = "accountForAPI (Some i) a"
  obtain m where m: "Message x ?a = Inr m"
    unfolding Message_def by (rule ToTypedMessage_ok [OF assms(1)])
  obtain op where op: "ToTypedMessage x (PbAddUser (GetLevel ?a) (GetEmail ?a) m) = Inr op"
    by (rule ToTypedMessage_ok [OF assms(1)])
  have entry: "api_entry x i a = Some m" by (simp add: api_entry_def m)
  then show "\<exists>m. api_entry x i a = Some m" by blast
  have run: "AlterInbound x tag op w = (err, w')"
    using assms(2) by (simp add: AddInboundUser_def add_operation_def m op AlertInbound_def del: GetEmail_accountForAPI)
  show "tbl w' = (if err = None then (tbl w)(tag := (tbl w tag)(GetEmail a := api_entry x i a)) else tbl w)"
  proof (cases err)
    case None
    then have "tbl w' = (tbl w)(tag := (tbl w tag)(GetEmail ?a \<mapsto> m))"
      using assms(1) op run unfolding table_laws_def by blast
    with None entry show ?thesis by simp
  next
    case (Some y)
    then have "tbl w' = tbl w" using assms(1) op run unfolding table_laws_def by blast
    with Some show ?thesis by simp
  qed
qed

section \<open>One user\<close>

lemma sync_user_loop_config:
  "fst (sync_user_loop e u is w) =
     map (\<lambda>i. if in_exclude i then i else sync_inbound (xe_uuid e) u i) is"
  by (induction "is" arbitrary: w)
     (simp_all add: sync_inbound_def Let_def case_prod_unfold split: option.split)

definition live_tags :: "Inbound list \<Rightarrow> string set" where
  "live_tags is = in_Tag ` set (filter (\<lambda>i. \<not> in_exclude i) is)"

lemma live_tags_Cons: "live_tags (i # is) = (if in_exclude i then live_tags is else insert (in_Tag i) (live_tags is))"
  by (simp add: live_tags_def)

lemma sync_inbound_agrees:
  assumes "cipher_known i" "tbl w (in_Tag i) (u_Email u) = Option.bind (user_account up i u) (api_entry x i)"
  shows "agrees x tbl w (sync_inbound up u i) (u_Email u)"
proof (cases "user_account up i u")
  case None
  then show ?thesis
    using assms(2) by (simp add: agrees_def sync_inbound_def user_account_def [symmetric] inbound_removeUser_def)
next
  case (Some a)
  note typed = user_account_typed [OF Some]
  show ?thesis
    using assms Some recheck_user_account [OF assms(1) Some]
    by (simp add: agrees_def sync_inbound_def user_account_def [symmetric] updateUser_recheck [OF typed(1)] typed(2))
qed

lemma sync_user_loop_tbl:
  assumes "table_laws (xe_api e) tbl"
  shows "sync_user_loop e u is w = (is', [], w') \<Longrightarrow>
    distinct (map in_Tag (filter (\<lambda>i. \<not> in_exclude i) is)) \<Longrightarrow>
    (\<forall>i \<in> set is. \<not> in_exclude i \<longrightarrow>
       tbl w' (in_Tag i) (u_Email u) = Option.bind (user_account (xe_uuid e) i u) (api_entry (xe_api e) i)) \<and>
    (\<forall>tag e'. tag \<notin> live_tags is \<or> e' \<noteq> u_Email u \<longrightarrow> tbl w' tag e' = tbl w tag e')"
proof (induction "is" arbitrary: w is' w')
  case Nil
  then show ?case by simp
next
  case (Cons i rest)
  show ?case
  proof (cases "in_exclude i")
    case True
    then obtain is1 where "sync_user_loop e u rest w = (is1, [], w')"
      using Cons.prems(1) by (auto split: prod.splits)
    from Cons.IH [OF this] Cons.prems(2) True show ?thesis by (simp add: live_tags_Cons)
  next
    case False
    let ?t = "in_Tag i" and ?em = "u_Email u" and ?x = "xe_api e"
    let ?w1 = "snd (RemoveInboundUser ?x ?t ?em w)"
    note rem = RemoveInboundUser_tbl [OF assms, of ?t ?em w]
    have dist: "distinct (map in_Tag (filter (\<lambda>i. \<not> in_exclude i) rest))" "?t \<notin> live_tags rest"
      using Cons.prems(2) False by (auto simp: live_tags_def)
    have step: "\<exists>is1 v. sync_user_loop e u rest v = (is1, [], w') \<and>
        tbl v ?t ?em = Option.bind (user_account (xe_uuid e) i u) (api_entry ?x i) \<and>
        (\<forall>tag e'. tag \<noteq> ?t \<or> e' \<noteq> ?em \<longrightarrow> tbl v tag e' = tbl w tag e')"
    proof (cases "user_account (xe_uuid e) i u")
      case None
      then have "isActiveInbound i (u_Inbounds u) (setupUserAccount (xe_uuid e) u) = None"
        by (simp add: user_account_def)
      then obtain is1 where "sync_user_loop e u rest ?w1 = (is1, [], w')"
        using Cons.prems(1) False by (auto simp: Let_def split: prod.splits)
      with None rem show ?thesis by (intro exI [of _ is1] exI [of _ ?w1]) auto
    next
      case (Some a)
      note typed = user_account_typed [OF Some]
      have act: "isActiveInbound i (u_Inbounds u) (setupUserAccount (xe_uuid e) u) = Some a"
        using Some by (simp add: user_account_def)
      have same: "accountForAPI (Some (inbound_updateUser a i)) a = accountForAPI (Some i) a"
        by (simp add: inbound_updateUser_def Let_def)
      obtain err w2 where add: "AddInboundUser ?x ?t (accountForAPI (Some i) a) ?w1 = (err, w2)" by fastforce
      obtain is1 msg w3 where lp: "sync_user_loop e u rest w2 = (is1, msg, w3)" by (metis prod_cases3)
      have res: "(case err of None \<Rightarrow> [] | Some y \<Rightarrow> nl @ Error_text y) @ msg = []" "w3 = w'"
        using Cons.prems(1) False act same add lp by (auto simp: Let_def)
      then have "err = None" "msg = []" by (auto simp: nl_def split: option.splits)
      then show ?thesis
        using AddInboundUser_tbl(1) [OF assms add] rem Some typed(2) lp res(2)
        by (intro exI [of _ is1] exI [of _ w2]) auto
    qed
    then obtain is1 v where v: "sync_user_loop e u rest v = (is1, [], w')"
      "tbl v ?t ?em = Option.bind (user_account (xe_uuid e) i u) (api_entry ?x i)"
      "\<forall>tag e'. tag \<noteq> ?t \<or> e' \<noteq> ?em \<longrightarrow> tbl v tag e' = tbl w tag e'" by blast
    note IH = Cons.IH [OF v(1) dist(1)]
    have "tbl w' ?t ?em = tbl v ?t ?em" using IH dist(2) by blast
    then show ?thesis
      using IH v(2,3) False by (auto simp: live_tags_Cons)
  qed
qed

lemma sync_inbound_sel [simp]:
  "in_Tag (sync_inbound up u i) = in_Tag i" "in_exclude (sync_inbound up u i) = in_exclude i"
  "e \<noteq> u_Email u \<Longrightarrow> in_clients (sync_inbound up u i) e = in_clients i e"
  "api_entry x (sync_inbound up u i) = api_entry x i"
proof -
  have "\<exists>m. sync_inbound up u i = i\<lparr>in_clients := m\<rparr> \<and> (e \<noteq> u_Email u \<longrightarrow> m e = in_clients i e)"
  proof (cases "user_account up i u")
    case None
    then show ?thesis
      by (simp add: sync_inbound_def user_account_def [symmetric] inbound_removeUser_def) (intro exI conjI, rule refl, simp)
  next
    case (Some a)
    then show ?thesis
      using user_account_typed(2) [OF Some]
      by (simp add: sync_inbound_def user_account_def [symmetric] inbound_updateUser_def Let_def)
         (intro exI conjI, rule refl, simp)
  qed
  then show "in_Tag (sync_inbound up u i) = in_Tag i" "in_exclude (sync_inbound up u i) = in_exclude i"
    "e \<noteq> u_Email u \<Longrightarrow> in_clients (sync_inbound up u i) e = in_clients i e"
    "api_entry x (sync_inbound up u i) = api_entry x i"
    by auto
qed


section \<open>A list of users\<close>

lemma remove_all_tbl:
  assumes "table_laws (xe_api e) tbl"
  shows "tbl (remove_all e tag es w) = (tbl w)(tag := \<lambda>em. if em \<in> set es then None else tbl w tag em)"
proof (induction es arbitrary: w)
  case (Cons a es)
  show ?case
    by (rule ext) (simp add: Cons RemoveInboundUser_tbl [OF assms, of tag a w] fun_eq_iff)
qed simp

lemma add_all_tbl:
  assumes "table_laws (xe_api e) tbl"
  shows "add_all e tag i accs w = ([], w') \<Longrightarrow>
    tbl w' = (tbl w)(tag := fold (\<lambda>a m. m(GetEmail a := api_entry (xe_api e) i a)) accs (tbl w tag))"
proof (induction accs arbitrary: w)
  case (Cons a accs)
  let ?w1 = "snd (RemoveInboundUser (xe_api e) tag (GetEmail a) w)"
  obtain err w2 where add: "AddInboundUser (xe_api e) tag (accountForAPI (Some i) a) ?w1 = (err, w2)" by fastforce
  obtain msg w3 where lp: "add_all e tag i accs w2 = (msg, w3)" by fastforce
  have "(case err of None \<Rightarrow> [] | Some y \<Rightarrow> nl @ Error_text y) @ msg = []" "w3 = w'"
    using Cons.prems add lp by (auto simp: Let_def)
  then have "err = None" "msg = []" "w3 = w'" by (auto simp: nl_def split: option.splits)
  then have "add_all e tag i accs w2 = ([], w')"
    "tbl w2 = (tbl w)(tag := (tbl w tag)(GetEmail a := api_entry (xe_api e) i a))"
    using lp AddInboundUser_tbl(1) [OF assms add] RemoveInboundUser_tbl [OF assms, of tag "GetEmail a" w]
    by simp_all
  from Cons.IH [OF this(1)] this(2) show ?case by (simp add: fun_eq_iff)
qed simp

lemma find_distinct:
  "distinct (map u_Email users) \<Longrightarrow> u \<in> set users \<Longrightarrow> List.find (\<lambda>v. u_Email v = u_Email u) users = Some u"
  by (induction users) (auto simp: image_iff)

lemma fold_accounts:
  assumes "distinct (map u_Email users)"
  shows "fold (\<lambda>a m. m(GetEmail a := f a)) (List.map_filter (user_account up i) users) m em =
    (case List.find (\<lambda>u. u_Email u = em) users of
       None \<Rightarrow> m em
     | Some u \<Rightarrow> (case user_account up i u of None \<Rightarrow> m em | Some a \<Rightarrow> f a))"
  using assms
proof (induction users arbitrary: m)
  case (Cons u users)
  have notin: "List.find (\<lambda>v. u_Email v = em) users = None" if "u_Email u = em"
    using that Cons.prems by (auto simp: find_None_iff image_iff)
  show ?case
  proof (cases "user_account up i u")
    case None
    then show ?thesis using Cons notin by (auto simp: List.map_filter_simps)
  next
    case (Some a)
    then show ?thesis
      using Cons notin user_account_typed(2) [OF Some]
      by (auto simp: List.map_filter_simps split: option.split)
  qed
qed (simp add: List.map_filter_simps)

text \<open>The table of one inbound after the calls of \<^verbatim>\<open>UpdateUsers\<close> for it.\<close>

definition table_after ::
  "'w xapi \<Rightarrow> uuid_parser \<Rightarrow> User list \<Rightarrow> Inbound \<Rightarrow> (string \<Rightarrow> TypedMessage option) \<Rightarrow> string \<Rightarrow>
     TypedMessage option" where
  "table_after x up users i t em =
     (if em \<in> u_Email ` set users then Option.bind (last_account up i users em) (api_entry x i) else t em)"

lemma update_one_table:
  assumes "table_laws (xe_api e) tbl" "distinct (map u_Email users)"
    and "set es = {u_Email v | v. v \<in> set users \<and> user_account up i v = None}"
    and "add_all e tag (i\<lparr>in_clients := m\<rparr>) (List.map_filter (user_account up i) users)
           (remove_all e tag es w) = ([], w')"
  shows "tbl w' = (tbl w)(tag := table_after (xe_api e) up users i (tbl w tag))"
proof -
  have "fold (\<lambda>a m. m(GetEmail a := api_entry (xe_api e) i a)) (List.map_filter (user_account up i) users)
      (\<lambda>em. if em \<in> set es then None else tbl w tag em) em = table_after (xe_api e) up users i (tbl w tag) em"
    for em
  proof (cases "em \<in> u_Email ` set users")
    case True
    then obtain u where u: "u \<in> set users" "u_Email u = em" by blast
    then have find: "List.find (\<lambda>u. u_Email u = em) users = Some u"
      using find_distinct [OF assms(2) u(1)] by simp
    have "em \<in> set es \<longleftrightarrow> user_account up i u = None"
      using u assms(2) by (auto simp: assms(3) distinct_map dest: inj_onD)
    with True u find last_account_distinct [OF assms(2) u(1)] show ?thesis
      by (simp add: fold_accounts [OF assms(2)] table_after_def split: option.split)
  next
    case False
    then have "List.find (\<lambda>u. u_Email u = em) users = None" "em \<notin> set es"
      by (auto simp: find_None_iff assms(3))
    with False show ?thesis by (simp add: fold_accounts [OF assms(2)] table_after_def)
  qed
  then show ?thesis
    using add_all_tbl [OF assms(1,4)] remove_all_tbl [OF assms(1), of tag es w] by (simp add: fun_eq_iff)
qed

lemma update_tag_config: "fst (update_tag e byTag updates tag c w) = update_inbound_at (xe_rng e) byTag updates tag c"
  by (simp add: update_tag_def update_inbound_at_def apply_update_def Let_def case_prod_unfold split: option.split)

lemma update_tags_config:
  "fst (update_tags e byTag updates tags c w) = fold (update_inbound_at (xe_rng e) byTag updates) tags c"
  by (induction tags arbitrary: c w) (simp_all add: Let_def case_prod_unfold update_tag_config)

definition same_shape :: "Inbound list \<Rightarrow> Inbound list \<Rightarrow> bool" where
  "same_shape is js \<longleftrightarrow> length is = length js \<and> (\<forall>k < length is. \<exists>m. js ! k = (is ! k)\<lparr>in_clients := m\<rparr>)"

lemma update_tags_tbl:
  assumes laws: "table_laws (xe_api e) tbl" and dist: "distinct (map u_Email users)" and rng: "go_range (xe_rng e)"
    and upd: "\<And>t k. byTag t = Some k \<Longrightarrow> k < length is \<and>
      updates t = Some \<lparr>iu_accounts = List.map_filter (user_account up (is ! k)) users,
        iu_removeEmailSet = {u_Email v | v. v \<in> set users \<and> user_account up (is ! k) v = None}\<rparr>"
  shows "update_tags e byTag updates tags c w = (c', [], w') \<Longrightarrow> distinct tags \<Longrightarrow> set tags \<subseteq> dom byTag \<Longrightarrow>
    same_shape is (xc_InboundConfigs c) \<Longrightarrow>
    tbl w' = (\<lambda>t. if t \<in> set tags then table_after (xe_api e) up users (is ! the (byTag t)) (tbl w t) else tbl w t)"
proof (induction tags arbitrary: c w)
  case Nil
  then show ?case by simp
next
  case (Cons t tags)
  obtain k where k: "byTag t = Some k" using Cons.prems(3) by auto
  note u = upd [OF k]
  let ?i = "is ! k"
  let ?R = "{u_Email v | v. v \<in> set users \<and> user_account up ?i v = None}"
  let ?accs = "List.map_filter (user_account up ?i) users"
  obtain m where m: "xc_InboundConfigs c ! k = ?i\<lparr>in_clients := m\<rparr>"
    using Cons.prems(4) u by (auto simp: same_shape_def)
  obtain c1 m1 w1 where one: "update_tag e byTag updates t c w = (c1, m1, w1)" by (metis prod_cases3)
  obtain c2 m2 w2 where rest: "update_tags e byTag updates tags c1 w1 = (c2, m2, w2)" by (metis prod_cases3)
  have res: "m1 = []" "m2 = []" "w2 = w'"
    using Cons.prems(1) by (auto simp: one rest Let_def)
  define inb where "inb = inbound_updateUsers ?accs (xe_rng e 1 ?R) (xc_InboundConfigs c ! k)"
  have "\<exists>m'. inb = ?i\<lparr>in_clients := m'\<rparr>" by (simp add: inb_def m inbound_updateUsers_def) blast
  then obtain m' where m': "inb = ?i\<lparr>in_clients := m'\<rparr>" by blast
  obtain msg v where add: "add_all e t inb ?accs (remove_all e t (xe_rng e 1 ?R) w) = (msg, v)" by fastforce
  have c1: "c1 = c\<lparr>xc_InboundConfigs := (xc_InboundConfigs c)[k := inb]\<rparr>" "m1 = msg" "w1 = v"
    using one u add unfolding inb_def by (auto simp: update_tag_def k Let_def)
  have "finite ?R" by simp
  then have "set (xe_rng e 1 ?R) = ?R" using rng by (rule go_range_set [rotated])
  then have t1: "tbl w1 = (tbl w)(t := table_after (xe_api e) up users ?i (tbl w t))"
    using update_one_table [OF laws dist, of "xe_rng e 1 ?R" up ?i t m' w v] add res(1) c1 m' by simp
  have "same_shape is (xc_InboundConfigs c1)"
    using Cons.prems(4) m' u by (auto simp: c1(1) same_shape_def nth_list_update)
  with Cons.IH [of c1 w1] rest res Cons.prems
  have "tbl w' = (\<lambda>t. if t \<in> set tags then table_after (xe_api e) up users (is ! the (byTag t)) (tbl w1 t) else tbl w1 t)"
    by (auto simp: one Let_def)
  note rest_tbl = this
  show ?case
  proof (rule ext)
    fix t'
    have "t \<notin> set tags" using Cons.prems(2) by simp
    then show "tbl w' t' = (if t' \<in> set (t # tags)
        then table_after (xe_api e) up users (is ! the (byTag t')) (tbl w t') else tbl w t')"
      using k by (cases "t' = t") (simp_all add: rest_tbl t1)
  qed
qed


section \<open>A core that keeps a table\<close>

text \<open>
  A concrete core: its world is the table itself. A message names its kind and carries the e-mail after
  its length, and the account it adds.
\<close>

type_synonym table = "string \<Rightarrow> string \<Rightarrow> TypedMessage option"

definition enc :: "string \<Rightarrow> string \<Rightarrow> string" where
  "enc e t = replicate (length e) CHR ''x'' @ CHR ''.'' # e @ t"

definition dec :: "string \<Rightarrow> string \<times> string" where
  "dec s = (let n = length (takeWhile (\<lambda>c. c = CHR ''x'') s); r = drop (Suc n) s in (take n r, drop n r))"

lemma dec_enc [simp]: "dec (enc e t) = (e, t)"
proof -
  have "takeWhile (\<lambda>c. c = CHR ''x'') (replicate n CHR ''x'' @ CHR ''.'' # s) = replicate n CHR ''x''" for n s
    by (induction n) simp_all
  then show ?thesis by (simp add: dec_def enc_def Let_def)
qed

fun table_name :: "pb \<Rightarrow> string" where
  "table_name (PbAddUser l e m) = CHR ''A'' # enc e (tm_Type m)"
| "table_name (PbRemoveUser e) = CHR ''R'' # e"
| "table_name (PbTrojan p) = CHR ''T'' # p"
| "table_name _ = ''?''"

fun table_bytes :: "pb \<Rightarrow> byte list" where
  "table_bytes (PbAddUser l e m) = tm_Value m"
| "table_bytes _ = []"

definition table_alter :: "string \<Rightarrow> TypedMessage \<Rightarrow> table \<Rightarrow> go_error option \<times> table" where
  "table_alter tag op w =
     (case tm_Type op of
        [] \<Rightarrow> (Some (errors_New ''no operation''), w)
      | c # s \<Rightarrow>
          (if c = CHR ''R'' then (None, w(tag := (w tag)(s := None)))
           else if c = CHR ''A'' then
             (case dec s of (e, t) \<Rightarrow>
                (None, w(tag := (w tag)(e \<mapsto> \<lparr>tm_Type = t, tm_Value = tm_Value op\<rparr>))))
           else (Some (errors_New ''unknown operation''), w)))"

definition table_api :: "table xapi" where
  "table_api = \<lparr>pb_Marshal = (\<lambda>p. Inr (table_bytes p)), pb_Name = table_name, uuid_String = (\<lambda>_. []),
     AlterInbound = table_alter, AlterOutbound = (\<lambda>tag op w. (None, w))\<rparr>"

lemma message_eta: "\<lparr>tm_Type = tm_Type m, tm_Value = tm_Value m\<rparr> = m"
  by (cases m) simp

lemma table_api_laws: "table_laws table_api id"
  by (auto simp: table_laws_def table_api_def ToTypedMessage_def table_alter_def message_eta)

definition table_env :: "table xenv" where
  "table_env =
     \<lparr>xe_os = \<lparr>os_fs = \<lparr>fs_MkdirDir = (\<lambda>_ w. (None, w)), fs_OpenAppend = (\<lambda>_ w. (Inr 3, w)),
                       fs_Close = (\<lambda>_ w. w), fs_Println = (\<lambda>_ _ w. w), fs_Stdout = (\<lambda>_ w. w)\<rparr>,
               os_proc = \<lparr>po_linux = True, po_Getpid = 1, po_Abs = Inr, po_EvalSymlinks = (\<lambda>p w. Inr p),
                 po_ReadDirProc = (\<lambda>w. Inr []), po_Readlink = (\<lambda>p w. Inr p), po_ReadFile = (\<lambda>p w. Inr []),
                 po_ps = (\<lambda>a w. Inr []), po_FindProcess = (\<lambda>p w. None), po_Signal = (\<lambda>p s w. (None, w)),
                 po_KillGroup = (\<lambda>g s w. w), po_Sleep = id\<rparr>,
               os_version = (\<lambda>p w. Inr []), os_json_Indent = Inr, os_MkdirAll = (\<lambda>p w. (None, w)),
               os_WriteFile = (\<lambda>d n b w. (None, w)), os_Lstat = (\<lambda>p w. Inr None), os_Remove = (\<lambda>p w. w),
               os_StdoutPipe = (\<lambda>w. (None, w)), os_Spawn = (\<lambda>e a v b w. (Inr (0, 7), w)),
               os_WaitExit = (\<lambda>h w. (True, w))\<rparr>,
      xe_js = \<lparr>js_rule = (\<lambda>_. Inr Map.empty), js_marshal = (\<lambda>_. Inr []), js_config = (\<lambda>_. Inr []),
               js_unconfig = (\<lambda>_. Inl (errors_New ''no''))\<rparr>,
      xe_rng = asc_iter, xe_uuid = ex_uuid_Parse, xe_api = table_api,
      xe_svc = \<lparr>sv_GetSysStats = (\<lambda>w. (Inl (errors_New ''no''), w)), sv_QueryStats = (\<lambda>p r w. (Inr [], w)),
        sv_GetStatsOnline = (\<lambda>n w. Inr None), sv_GetStatsOnlineIpList = (\<lambda>n w. Inr Map.empty),
        sv_ListRule = (\<lambda>w. Inr []), sv_GetBalancerInfo = (\<lambda>t w. Inr None), sv_TestRoute = (\<lambda>r f p w. Inr r),
        sv_AddRule = (\<lambda>r a w. (None, w)), sv_RemoveRule = (\<lambda>t w. (None, w)),
        sv_OverrideBalancerTarget = (\<lambda>b t w. (None, w)), sv_Build = (\<lambda>r. Inr (1, r))\<rparr>,
      xe_ifaces = None, xe_NewClient = (\<lambda>p w. (None, w)), xe_Close = (\<lambda>w. w),
      xe_Vars = (\<lambda>u w. Inr (200, Inr Map.empty))\<rparr>"

definition table_xray :: Xray where
  "table_xray = \<lparr>x_config = ex_tconfig, x_cfg = fst (Load ex_uuid_Parse Map.empty), x_core = ex_core,
     x_handler = True, x_metricPort = 1, x_cancelled = False\<rparr>"

lemma table_xray_ok:
  "tags_ok (x_config table_xray)" "\<forall>i \<in> set (xc_InboundConfigs (x_config table_xray)). cipher_known i"
  "in_sync table_api id (x_config table_xray) (\<lambda>_. Map.empty)"
  by (simp_all add: tags_ok_def table_xray_def ex_tconfig_def ex_trojan_def cipher_known_def ss2022_method_def
      setting_string_def in_sync_def agrees_def)


lemma table_env_sel:
  "xe_api table_env = table_api" "xe_uuid table_env = ex_uuid_Parse" "xe_rng table_env = asc_iter"
  by (simp_all add: table_env_def)

lemma table_remove: "RemoveInboundUser table_api tag e w = (None, w(tag := (w tag)(e := None)))"
  by (simp add: RemoveInboundUser_def ToTypedMessage_def table_api_def AlertInbound_def table_alter_def)

lemma table_add:
  "AddInboundUser table_api tag (ATrojan a) w =
     (None, w(tag := (w tag)(ba_Email a \<mapsto> \<lparr>tm_Type = CHR ''T'' # tr_Password a, tm_Value = []\<rparr>)))"
  by (simp add: AddInboundUser_def add_operation_def Message_def ToTypedMessage_def table_api_def AlertInbound_def
      table_alter_def)


end
