(* ===== verification/Chunks.thy ===== *)
theory Chunks
  imports NodeMessages
begin

text \<open>
  The chunked synchronisation of users: \<^verbatim>\<open>BuildUsersFromChunks\<close> of
  \<^verbatim>\<open>controller/users_chunk.go\<close> and the loops of the two servers that receive the chunks
  (\<^verbatim>\<open>controller/rpc/user.go\<close> and \<^verbatim>\<open>controller/rest/user.go\<close>, \<^verbatim>\<open>SyncUsersChunked\<close>). The gRPC loop
  reads messages from a stream, the REST loop reads frames (a length as a variable-length integer
  and that many bytes) from the body of the request. Decoding of a message is the parameter
  \<open>unmarshal\<close>. The lemmas say when the loops return and what they put together.
\<close>

section \<open>Assembly\<close>

type_synonym chunk_map = "uint64 \<rightharpoonup> User list"

definition missing_chunk :: "uint64 \<Rightarrow> go_error" where
  "missing_chunk i = errors_New (''missing chunk index '' @ decimal (unat i))"

text \<open>
  The loop \<^verbatim>\<open>for i := uint64(0); i <= lastIndex; i++\<close>. The counter wraps round at \<open>2 ^ 64\<close>, so the
  loop need not end; not returning is \<open>None\<close>.
\<close>

partial_function (option) collect_chunks ::
  "chunk_map \<Rightarrow> uint64 \<Rightarrow> uint64 \<Rightarrow> User list \<Rightarrow> User list result option" where
  "collect_chunks chunks lastIndex i users =
     (if i \<le> lastIndex
      then (case chunks i of
              None \<Rightarrow> Some (Inl (missing_chunk i))
            | Some chunkUsers \<Rightarrow> collect_chunks chunks lastIndex (i + 1) (users @ chunkUsers))
      else Some (Inr users))"

definition BuildUsersFromChunks ::
  "chunk_map \<Rightarrow> uint64 \<Rightarrow> bool \<Rightarrow> User list result option" where
  "BuildUsersFromChunks chunks lastIndex sawLast =
     (if \<not> sawLast then Some (Inl (errors_New ''missing final chunk indicator''))
      else map_option
        (\<lambda>r. case r of
           Inl err \<Rightarrow> Inl err
         | Inr users \<Rightarrow>
             (if users = [] then Inl (errors_New ''no users received'') else Inr users))
        (collect_chunks chunks lastIndex 0 []))"

section \<open>Receiving over gRPC\<close>

text \<open>\<^verbatim>\<open>chunks[chunk.GetIndex()] = append(chunks[chunk.GetIndex()], chunk.GetUsers()...)\<close>\<close>

definition add_chunk :: "UsersChunk \<Rightarrow> chunk_map \<Rightarrow> chunk_map" where
  "add_chunk chunk chunks =
     chunks(ck_Index chunk \<mapsto>
       (case chunks (ck_Index chunk) of None \<Rightarrow> [] | Some us \<Rightarrow> us) @ ck_Users chunk)"

text \<open>A stream is the messages \<^verbatim>\<open>Recv\<close> returns and the error it returns after them.\<close>

fun rpc_recv_chunks ::
  "UsersChunk list \<Rightarrow> go_error \<Rightarrow> chunk_map \<Rightarrow> (chunk_map \<times> uint64 \<times> bool) result" where
  "rpc_recv_chunks [] fin chunks =
     (if err_is EOF fin then Inr (chunks, 0, False)
      else Inl (status_Error Internal (''failed to receive chunk: '' @ Error_text fin)))"
| "rpc_recv_chunks (chunk # msgs) fin chunks =
     (let chunks' = add_chunk chunk chunks
      in if ck_Last chunk then Inr (chunks', ck_Index chunk, True)
         else rpc_recv_chunks msgs fin chunks')"

definition rpc_chunk_users :: "UsersChunk list \<Rightarrow> go_error \<Rightarrow> User list result option" where
  "rpc_chunk_users msgs fin =
     (case rpc_recv_chunks msgs fin Map.empty of
        Inl err \<Rightarrow> Some (Inl err)
      | Inr (chunks, lastIndex, sawLast) \<Rightarrow>
          map_option (\<lambda>r. case r of
              Inl err \<Rightarrow> Inl (status_Error InvalidArgument (Error_text err))
            | Inr users \<Rightarrow> Inr users)
            (BuildUsersFromChunks chunks lastIndex sawLast))"

section \<open>Receiving over HTTP\<close>

text \<open>What a handler may answer in place of a response: an HTTP error, or a run-time panic.\<close>

datatype http_fail = HttpError nat string | HttpPanic string

text \<open>
  \<^verbatim>\<open>binary.ReadUvarint\<close>: \<open>i\<close> bytes are read, \<open>x\<close> is their value. \<open>fin\<close> is the error the reader
  returns at the end of the body.
\<close>

definition unexpected_EOF :: go_error where
  "unexpected_EOF = errors_New ''unexpected EOF''"

definition varint_overflow :: go_error where
  "varint_overflow = errors_New ''binary: varint overflows a 64-bit integer''"

fun read_uvarint :: "go_error \<Rightarrow> nat \<Rightarrow> nat \<Rightarrow> byte list \<Rightarrow> (nat \<times> byte list) result" where
  "read_uvarint fin i x [] = Inl (if i > 0 \<and> err_is EOF fin then unexpected_EOF else fin)"
| "read_uvarint fin i x (b # bs) =
     (if unat b < 128
      then (if i = 9 \<and> unat b > 1 then Inl varint_overflow else Inr (x + unat b * 128 ^ i, bs))
      else if i \<ge> 9 then Inl varint_overflow
      else read_uvarint fin (Suc i) (x + unat b mod 128 * 128 ^ i) bs)"

text \<open>The largest slice the run-time allocates; \<^verbatim>\<open>make\<close> panics above it.\<close>

definition max_alloc :: nat where
  "max_alloc = 2 ^ 48"

lemma read_uvarint_shorter:
  "read_uvarint fin i x bs = Inr (n, r) \<Longrightarrow> length r < length bs"
  by (induction fin i x bs rule: read_uvarint.induct) (auto split: if_splits)

function rest_recv_chunks ::
  "(byte list \<Rightarrow> UsersChunk result) \<Rightarrow> go_error \<Rightarrow> byte list \<Rightarrow> chunk_map \<Rightarrow>
   http_fail + (chunk_map \<times> uint64 \<times> bool)" where
  "rest_recv_chunks unmarshal fin body chunks =
     (case read_uvarint fin 0 0 body of
        Inl err \<Rightarrow>
          (if err_is EOF err then Inr (chunks, 0, False)
           else Inl (HttpError 400 (''failed to read chunk length: '' @ Error_text err)))
      | Inr (sz, rest) \<Rightarrow>
          (if sz = 0 then rest_recv_chunks unmarshal fin rest chunks
           else if sz > max_alloc then Inl (HttpPanic ''makeslice: len out of range'')
           else if length rest < sz then
             Inl (HttpError 400 (''failed to read chunk payload: '' @
               Error_text (if rest \<noteq> [] \<and> err_is EOF fin then unexpected_EOF else fin)))
           else (case unmarshal (take sz rest) of
              Inl err \<Rightarrow> Inl (HttpError 400 (''failed to decode chunk: '' @ Error_text err))
            | Inr chunk \<Rightarrow>
                (let chunks' = add_chunk chunk chunks
                 in if ck_Last chunk then Inr (chunks', ck_Index chunk, True)
                    else rest_recv_chunks unmarshal fin (drop sz rest) chunks'))))"
  by pat_completeness auto
termination
  by (relation "measure (\<lambda>(_, _, body, _). length body)")
     (auto dest: read_uvarint_shorter)

declare rest_recv_chunks.simps [simp del]

definition rest_chunk_users ::
  "(byte list \<Rightarrow> UsersChunk result) \<Rightarrow> go_error \<Rightarrow> byte list \<Rightarrow> (http_fail + User list) option" where
  "rest_chunk_users unmarshal fin body =
     (case rest_recv_chunks unmarshal fin body Map.empty of
        Inl f \<Rightarrow> Some (Inl f)
      | Inr (chunks, lastIndex, sawLast) \<Rightarrow>
          map_option (\<lambda>r. case r of
              Inl err \<Rightarrow> Inl (HttpError 400 (Error_text err))
            | Inr users \<Rightarrow> Inr users)
            (BuildUsersFromChunks chunks lastIndex sawLast))"

section \<open>Termination and result of the assembly\<close>

text \<open>The chunks \<open>i\<close>, \dots, \<open>lastIndex\<close> in order, or the first one that is missing.\<close>

definition chunk_indices :: "uint64 \<Rightarrow> uint64 \<Rightarrow> uint64 list" where
  "chunk_indices i lastIndex = map word_of_nat [unat i..<Suc (unat lastIndex)]"

definition gather :: "chunk_map \<Rightarrow> uint64 list \<Rightarrow> User list \<Rightarrow> User list result" where
  "gather chunks is users =
     (case List.find (\<lambda>j. chunks j = None) is of
        Some j \<Rightarrow> Inl (missing_chunk j)
      | None \<Rightarrow> Inr (users @ concat (map (\<lambda>j. the (chunks j)) is)))"

lemma gather_Cons:
  "gather chunks (i # is) users =
     (case chunks i of
        None \<Rightarrow> Inl (missing_chunk i)
      | Some us \<Rightarrow> gather chunks is (users @ us))"
  by (simp add: gather_def split: option.split)

lemma chunk_indices_Cons:
  assumes "i \<le> lastIndex" "i \<noteq> -1"
  shows "chunk_indices i lastIndex = i # chunk_indices (i + 1) lastIndex"
proof -
  have "unat i \<le> unat lastIndex" using assms(1) by (simp add: word_le_nat_alt)
  moreover have "unat (i + 1) = Suc (unat i)"
    using assms(2) by (metis unatSuc add.commute add_eq_0_iff)
  ultimately show ?thesis by (simp add: chunk_indices_def upt_conv_Cons del: upt_Suc)
qed

lemma chunk_indices_None: "\<not> i \<le> lastIndex \<Longrightarrow> chunk_indices i lastIndex = []"
  by (simp add: chunk_indices_def word_le_nat_alt)

lemma chunk_indices_hd: "i \<le> lastIndex \<Longrightarrow> \<exists>is. chunk_indices i lastIndex = i # is"
  by (simp add: chunk_indices_def word_le_nat_alt upt_conv_Cons del: upt_Suc)

text \<open>The loop returns, and what it returns, unless it counts through all \<open>2 ^ 64\<close> indices.\<close>

lemma collect_chunks_result:
  assumes "lastIndex \<noteq> -1 \<or> (\<exists>j \<ge> i. chunks j = None)"
  shows "collect_chunks chunks lastIndex i users =
    Some (gather chunks (chunk_indices i lastIndex) users)"
  using assms
proof (induction "Suc (unat lastIndex) - unat i" arbitrary: i users)
  case 0
  then have "\<not> i \<le> lastIndex" by (simp add: word_le_nat_alt)
  then show ?case
    by (subst collect_chunks.simps) (simp add: chunk_indices_None gather_def)
next
  case (Suc n)
  then have le: "i \<le> lastIndex" by (simp add: word_le_nat_alt)
  show ?case
  proof (cases "chunks i")
    case None
    with le chunk_indices_hd [OF le] show ?thesis
      by (auto simp: collect_chunks.simps [of chunks lastIndex i] gather_Cons)
  next
    case (Some us)
    have "i \<noteq> -1"
      using Suc.prems le Some by (metis option.distinct(1) word_order.extremum_unique)
    then have *: "unat (i + 1) = Suc (unat i)"
      by (metis unatSuc add.commute add_eq_0_iff)
    have "lastIndex \<noteq> -1 \<or> (\<exists>j \<ge> i + 1. chunks j = None)"
      using Suc.prems Some by (metis inc_le le_neq_trans option.distinct(1))
    with Suc.hyps * have
      "collect_chunks chunks lastIndex (i + 1) (users @ us) =
       Some (gather chunks (chunk_indices (i + 1) lastIndex) (users @ us))" by simp
    with le Some \<open>i \<noteq> -1\<close> show ?thesis
      by (simp add: collect_chunks.simps [of chunks lastIndex i] gather_Cons chunk_indices_Cons)
  qed
qed

lemma collect_chunks_diverges:
  assumes "collect_chunks chunks lastIndex i users = Some r"
  shows "lastIndex \<noteq> -1 \<or> (\<exists>j. chunks j = None)"
proof (rule collect_chunks.raw_induct
    [where P = "\<lambda>chunks lastIndex i users r. lastIndex \<noteq> -1 \<or> (\<exists>j. chunks j = None)", OF _ assms])
qed (auto split: if_splits option.splits)

lemma BuildUsersFromChunks_gather:
  assumes "lastIndex \<noteq> -1 \<or> (\<exists>j. chunks j = None)"
  shows "BuildUsersFromChunks chunks lastIndex True =
    Some (case gather chunks (chunk_indices 0 lastIndex) [] of
            Inl err \<Rightarrow> Inl err
          | Inr users \<Rightarrow>
              (if users = [] then Inl (errors_New ''no users received'') else Inr users))"
  using collect_chunks_result [of lastIndex 0 chunks "[]"] assms
  by (simp add: BuildUsersFromChunks_def)

section \<open>What the receiving loops collect\<close>

lemma fold_add_chunk:
  "fold add_chunk cs m k =
     (case filter (\<lambda>c. ck_Index c = k) cs of
        [] \<Rightarrow> m k
      | f # fs \<Rightarrow> Some ((case m k of None \<Rightarrow> [] | Some us \<Rightarrow> us) @ concat (map ck_Users (f # fs))))"
  by (induction cs arbitrary: m) (auto simp: add_chunk_def split: list.splits option.splits)

lemma rpc_recv_chunks_last:
  assumes "\<forall>c \<in> set cs. \<not> ck_Last c" "ck_Last l"
  shows "rpc_recv_chunks (cs @ l # late) fin m = Inr (fold add_chunk (cs @ [l]) m, ck_Index l, True)"
  using assms(1) by (induction cs arbitrary: m) (simp_all add: assms(2) Let_def)

lemma rpc_recv_chunks_no_last:
  assumes "\<forall>c \<in> set cs. \<not> ck_Last c" "err_is EOF fin"
  shows "rpc_recv_chunks cs fin m = Inr (fold add_chunk cs m, 0, False)"
  using assms(1) by (induction cs arbitrary: m) (simp_all add: assms(2) Let_def)

text \<open>The frame of a message, as the clients write it.\<close>

fun put_uvarint :: "nat \<Rightarrow> byte list" where
  "put_uvarint n =
     (if n < 128 then [word_of_nat n] else word_of_nat (n mod 128 + 128) # put_uvarint (n div 128))"

declare put_uvarint.simps [simp del]

definition frame :: "(UsersChunk \<Rightarrow> byte list) \<Rightarrow> UsersChunk \<Rightarrow> byte list" where
  "frame marshal c = put_uvarint (length (marshal c)) @ marshal c"

lemma unat_small_byte: "n < 256 \<Longrightarrow> unat (word_of_nat n :: byte) = n"
  by (simp add: unat_of_nat take_bit_eq_mod)

lemma read_put_uvarint:
  assumes "n * 128 ^ i < 2 ^ 64" "i \<le> 9"
  shows "read_uvarint fin i x (put_uvarint n @ rest) = Inr (x + n * 128 ^ i, rest)"
  using assms
proof (induction n arbitrary: i x rule: put_uvarint.induct)
  case (1 n)
  show ?case
  proof (cases "n < 128")
    case True
    have "n \<le> 1" if "i = 9"
      using 1(2) that by simp
    with True show ?thesis
      by (auto simp: put_uvarint.simps [of n] unat_small_byte)
  next
    case False
    have div: "n div 128 * 128 ^ Suc i \<le> n * 128 ^ i"
      using mult_le_mono1 [of "n div 128 * 128" n "128 ^ i"] by (simp add: ac_simps)
    note lt = le_less_trans [OF this 1(2)]
    have "i < 9"
    proof (rule ccontr)
      assume "\<not> i < 9"
      with 1(3) have "i = 9" by simp
      with 1(2) False show False by simp
    qed
    moreover have "read_uvarint fin (Suc i) (x + n mod 128 * 128 ^ i) (put_uvarint (n div 128) @ rest) =
        Inr (x + n mod 128 * 128 ^ i + n div 128 * 128 ^ Suc i, rest)"
      by (rule 1(1) [OF False lt]) (use \<open>i < 9\<close> in simp)
    moreover have "n mod 128 * 128 ^ i + n div 128 * 128 ^ Suc i = n * 128 ^ i"
    proof -
      have "n mod 128 * 128 ^ i + n div 128 * 128 ^ Suc i = (n div 128 * 128 + n mod 128) * 128 ^ i"
        by (simp only: power_Suc distrib_right mult.assoc add.commute)
      then show ?thesis by (simp only: div_mult_mod_eq)
    qed
    moreover have "unat (word_of_nat (n mod 128 + 128) :: byte) = n mod 128 + 128"
      by (rule unat_small_byte) simp
    ultimately show ?thesis
      using False by (simp add: put_uvarint.simps [of n] del: of_nat_add)
  qed
qed

text \<open>
  What the decoder promises for a message, and the message all of whose fields have their default
  value, which alone has the empty encoding.
\<close>

definition default_chunk :: UsersChunk where
  "default_chunk = \<lparr>ck_Users = [], ck_Index = 0, ck_Last = False\<rparr>"

definition chunk_codec ::
  "(UsersChunk \<Rightarrow> byte list) \<Rightarrow> (byte list \<Rightarrow> UsersChunk result) \<Rightarrow> UsersChunk list \<Rightarrow> bool" where
  "chunk_codec marshal unmarshal msgs \<longleftrightarrow>
     (\<forall>c \<in> set msgs. unmarshal (marshal c) = Inr c \<and> (marshal c = [] \<longleftrightarrow> c = default_chunk) \<and>
        length (marshal c) \<le> max_alloc)"

lemma rest_recv_frame:
  assumes "chunk_codec marshal unmarshal [c]" "c \<noteq> default_chunk"
  shows "rest_recv_chunks unmarshal fin (frame marshal c @ rest) m =
    (let m' = add_chunk c m
     in if ck_Last c then Inr (m', ck_Index c, True) else rest_recv_chunks unmarshal fin rest m')"
proof -
  have "length (marshal c) * 128 ^ 0 < 2 ^ 64"
    using assms(1) by (simp add: chunk_codec_def max_alloc_def)
  then have "read_uvarint fin 0 0 (frame marshal c @ rest) =
      Inr (length (marshal c), marshal c @ rest)"
    using read_put_uvarint [of "length (marshal c)" 0 fin 0 "marshal c @ rest"]
    by (simp add: frame_def)
  with assms show ?thesis
    by (subst rest_recv_chunks.simps) (simp add: chunk_codec_def Let_def)
qed

lemma rest_recv_empty_frame:
  assumes "marshal default_chunk = []"
  shows "rest_recv_chunks unmarshal fin (frame marshal default_chunk @ rest) m =
    rest_recv_chunks unmarshal fin rest m"
  using read_put_uvarint [of 0 0 fin 0 rest] assms
  by (subst rest_recv_chunks.simps) (simp add: frame_def)

lemma rest_recv_chunks_rpc:
  assumes "chunk_codec marshal unmarshal msgs" "default_chunk \<notin> set msgs" "err_is EOF fin"
  shows "map_sum (\<lambda>_. ()) id (rest_recv_chunks unmarshal fin (concat (map (frame marshal) msgs)) m) =
    map_sum (\<lambda>_. ()) id (rpc_recv_chunks msgs fin m)"
  using assms(1,2)
proof (induction msgs arbitrary: m)
  case Nil
  then show ?case using assms(3) by (subst rest_recv_chunks.simps) simp
next
  case (Cons c msgs)
  then have "chunk_codec marshal unmarshal [c]" "chunk_codec marshal unmarshal msgs"
    "c \<noteq> default_chunk"
    by (auto simp: chunk_codec_def)
  with Cons show ?case by (simp add: rest_recv_frame Let_def)
qed

lemma rpc_recv_chunks_eof: "err_is EOF fin \<Longrightarrow> \<exists>r. rpc_recv_chunks msgs fin m = Inr r"
  by (induction msgs arbitrary: m) (auto simp: Let_def)

text \<open>The users a server reports, without the form of its error.\<close>

definition users_of :: "('e + User list) option \<Rightarrow> User list option" where
  "users_of r = (case r of Some (Inr us) \<Rightarrow> Some us | _ \<Rightarrow> None)"


text \<open>A codec on the two messages of the witness.\<close>

definition ex_msgs :: "UsersChunk list" where
  "ex_msgs = [\<lparr>ck_Users = [], ck_Index = 1, ck_Last = False\<rparr>,
              \<lparr>ck_Users = [], ck_Index = 0, ck_Last = True\<rparr>]"

definition ex_marshal :: "UsersChunk \<Rightarrow> byte list" where
  "ex_marshal c = (if c = default_chunk then [] else if ck_Last c then [24, 1] else [16, 1])"

definition ex_unmarshal :: "byte list \<Rightarrow> UsersChunk result" where
  "ex_unmarshal bs =
     (if bs = [] then Inr default_chunk
      else if bs = [24, 1] then Inr \<lparr>ck_Users = [], ck_Index = 0, ck_Last = True\<rparr>
      else if bs = [16, 1] then Inr \<lparr>ck_Users = [], ck_Index = 1, ck_Last = False\<rparr>
      else Inl (errors_New ''proto: cannot parse''))"


text \<open>
  The message without any field set is skipped over HTTP, because a frame of length zero is, and
  counted over gRPC.
\<close>

lemma default_chunk_differs:
  assumes "chunk_codec marshal unmarshal [default_chunk]"
  shows "rest_recv_chunks unmarshal fin (frame marshal default_chunk @ rest) m =
      rest_recv_chunks unmarshal fin rest m"
    and "rpc_recv_chunks (default_chunk # msgs) fin m = rpc_recv_chunks msgs fin (add_chunk default_chunk m)"
    and "add_chunk default_chunk Map.empty = [0 \<mapsto> []]"
  using assms
  by (simp_all add: rest_recv_empty_frame chunk_codec_def)
     (simp_all add: default_chunk_def add_chunk_def Let_def)

text \<open>
  Users cut into the chunks \<open>uss\<close>, sent in the order \<open>p\<close> of their indices with the last chunk at
  the end.
\<close>

definition cut_chunk :: "User list list \<Rightarrow> nat \<Rightarrow> UsersChunk" where
  "cut_chunk uss i =
     \<lparr>ck_Users = uss ! i, ck_Index = word_of_nat i, ck_Last = (Suc i = length uss)\<rparr>"

lemma unat_of_nat64: "n < 2 ^ 64 \<Longrightarrow> unat (word_of_nat n :: uint64) = n"
  by (simp add: unat_of_nat take_bit_eq_mod)

lemma word_of_nat_inj64:
  "i < 2 ^ 64 \<Longrightarrow> j < 2 ^ 64 \<Longrightarrow> (word_of_nat i :: uint64) = word_of_nat j \<longleftrightarrow> i = j"
  by (metis unat_of_nat64)

lemma fold_cut_chunks:
  assumes "distinct is" "i \<in> set is" "\<forall>j \<in> set is. j < 2 ^ 64"
  shows "fold add_chunk (map (cut_chunk uss) is) Map.empty (word_of_nat i) = Some (uss ! i)"
proof -
  have "filter (\<lambda>j. (word_of_nat j :: uint64) = word_of_nat i) is = filter (\<lambda>j. j = i) is"
    using assms(2,3) by (auto intro!: filter_cong simp: word_of_nat_inj64)
  also have "\<dots> = [i]"
    using assms(1,2) by (induction "is") (auto simp: filter_empty_conv)
  finally show ?thesis
    by (simp add: fold_add_chunk filter_map comp_def cut_chunk_def)
qed

lemma gather_cut:
  assumes "\<forall>i < n. m (word_of_nat i) = Some (uss ! i)" "length uss = n" "0 < n" "n < 2 ^ 64"
  shows "gather m (chunk_indices 0 (word_of_nat (n - 1))) [] = Inr (concat uss)"
proof -
  have "unat (word_of_nat (n - 1) :: uint64) = n - 1"
    using assms(4) by (intro unat_of_nat64) simp
  then have idx: "chunk_indices 0 (word_of_nat (n - 1)) = map word_of_nat [0..<n]"
    using assms(3) by (simp add: chunk_indices_def del: upt_Suc)
  have "List.find (\<lambda>j. m j = None) (map word_of_nat [0..<n]) = None"
    using assms(1) by (auto simp: find_None_iff)
  moreover have "map (\<lambda>j. the (m j)) (map word_of_nat [0..<n]) = uss"
    using assms(1,2) by (intro nth_equalityI) simp_all
  ultimately show ?thesis unfolding idx gather_def by simp
qed


definition ex_user :: "string \<Rightarrow> User" where
  "ex_user e = \<lparr>u_Email = e, u_Proxies = None, u_Inbounds = []\<rparr>"


text \<open>
  C17. The assembly of the chunks returns unless the last index is the largest 64-bit number and a
  chunk is stored under every index.
\<close>

theorem BuildUsersFromChunks_returns:
  "(\<exists>r. BuildUsersFromChunks chunks lastIndex sawLast = Some r) \<longleftrightarrow>
     \<not> (sawLast \<and> lastIndex = -1 \<and> (\<forall>j. chunks j \<noteq> None))" (is "?T \<longleftrightarrow> ?C")
proof
  assume ?T
  then show ?C
    using collect_chunks_diverges [of chunks lastIndex 0 "[]"]
    by (auto simp: BuildUsersFromChunks_def split: if_splits)
next
  assume ?C
  then show ?T
    using BuildUsersFromChunks_gather [of lastIndex chunks]
    by (cases sawLast) (auto simp: BuildUsersFromChunks_def [of _ _ False])
qed

end
