(* ===== verification/Backend.thy ===== *)
theory Backend
  imports WireGuardSync XrayBackend Chunks
begin

text \<open>
  The interface \<^verbatim>\<open>backend.Backend\<close> of \<^verbatim>\<open>backend/backend.go\<close>, which the controller calls, and its two
  implementations. A value of the interface type is a pointer to an \<^verbatim>\<open>xray.Xray\<close> or to a
  \<^verbatim>\<open>wireguard.WireGuard\<close>; here it is what the pointer points to. A call dispatches to the method of the
  implementation. \<open>None\<close> is a call that has not returned: the Xray backend waits for its core, and the
  list of what this wait receives (\<open>en_evs\<close>) has ended.
\<close>

section \<open>What the node calls\<close>

text \<open>
  The environments of the two backends; \<open>en_wg_config\<close> decodes a WireGuard configuration, \<open>en_probe\<close> is
  the HTTP probe, \<open>en_mem\<close> reads the memory statistics of the run-time, \<open>en_port_free\<close> says whether a
  port can be bound, \<open>en_rand i\<close> is the \<open>i\<close>-th random number below 50000 of an operation, \<open>en_uuid\<close> is
  \<^verbatim>\<open>uuid.Parse\<close>, \<open>en_now\<close> the clock and \<open>en_evs i\<close> what the \<open>i\<close>-th wait for a core receives: the wait of
  a new backend, that of a new configuration and that of a restored one.
\<close>

record 'w node_env =
  en_x :: "'w xenv"
  en_wg :: "'w ctx"
  en_wg_config :: "string \<Rightarrow> Config result"
  en_probe :: "string \<Rightarrow> string \<Rightarrow> int \<Rightarrow> (bool \<times> int64) result"
  en_mem :: "'w \<Rightarrow> BackendStatsResponse"
  en_port_free :: "'w \<Rightarrow> nat \<Rightarrow> bool"
  en_rand :: "nat \<Rightarrow> 'w \<Rightarrow> nat"
  en_uuid :: "string \<Rightarrow> UUID result"
  en_now :: "'w \<Rightarrow> gotime"
  en_evs :: "nat \<Rightarrow> xevent list"

datatype 'w Backend = BXray Xray | BWireGuard "'w WireGuard"

section \<open>The statistics of the WireGuard process\<close>

text \<open>
  The run-time's readings are the fields of \<open>en_mem\<close>; the live objects and the seconds since the start
  are computed from them and the clock.
\<close>

definition wg_GetSysStats :: "'w node_env \<Rightarrow> 'w WireGuard \<Rightarrow> 'w \<Rightarrow> BackendStatsResponse result" where
  "wg_GetSysStats e wg w =
     (case lifecycleReadinessError (wg_state wg) of
        Some err \<Rightarrow> Inl err
      | None \<Rightarrow>
          (case wg_manager wg of
             None \<Rightarrow> Inl errWireGuardManagerNotInitialized
           | Some mgr \<Rightarrow>
               (case GetInterfaceStats (cx_host (en_wg e)) mgr w of
                  Inl err \<Rightarrow> Inl (Errorf_w ''wireguard interface not available: '' err)
                | Inr _ \<Rightarrow>
                    (let m = en_mem e w
                     in Inr (m\<lparr>bs_LiveObjects := bs_Mallocs m - bs_Frees m,
                               bs_Uptime := word_of_int ((cx_now (en_wg e) - wg_startTime wg) div second)\<rparr>)))))"

section \<open>The methods of the interface\<close>

fun be_Started :: "'w Backend \<Rightarrow> bool" where
  "be_Started (BXray x) = x_Started x"
| "be_Started (BWireGuard wg) = wg_Started wg"

fun be_Version :: "'w Backend \<Rightarrow> string" where
  "be_Version (BXray x) = x_Version x"
| "be_Version (BWireGuard wg) = wg_Version wg"

fun be_Restart :: "'w node_env \<Rightarrow> 'w Backend \<Rightarrow> 'w \<Rightarrow> go_error option \<times> 'w Backend \<times> 'w" where
  "be_Restart e (BXray x) w = (case x_Restart (en_x e) x w of (err, x', w') \<Rightarrow> (err, BXray x', w'))"
| "be_Restart e (BWireGuard wg) w =
     (case wg_Restart (en_wg e) wg w of (err, wg', w') \<Rightarrow> (err, BWireGuard wg', w'))"

fun be_Shutdown :: "'w node_env \<Rightarrow> 'w Backend \<Rightarrow> 'w \<Rightarrow> 'w Backend \<times> 'w" where
  "be_Shutdown e (BXray x) w = (case x_Shutdown (en_x e) x w of (x', w') \<Rightarrow> (BXray x', w'))"
| "be_Shutdown e (BWireGuard wg) w =
     (case wg_Shutdown (en_wg e) wg w of (wg', w') \<Rightarrow> (BWireGuard wg', w'))"

fun be_SyncUser :: "'w node_env \<Rightarrow> User \<Rightarrow> 'w Backend \<Rightarrow> 'w \<Rightarrow> go_error option \<times> 'w Backend \<times> 'w" where
  "be_SyncUser e user (BXray x) w =
     (case x_SyncUser (en_x e) user x w of (err, x', w') \<Rightarrow> (err, BXray x', w'))"
| "be_SyncUser e user (BWireGuard wg) w =
     (case wg_SyncUser (en_wg e) (Some user) wg w of (err, wg', w') \<Rightarrow> (err, BWireGuard wg', w'))"

fun be_SyncUsers ::
  "'w node_env \<Rightarrow> User list \<Rightarrow> 'w Backend \<Rightarrow> 'w \<Rightarrow> (go_error option \<times> 'w Backend \<times> 'w) option" where
  "be_SyncUsers e users (BXray x) w =
     map_option (\<lambda>(err, x', w'). (err, BXray x', w')) (x_SyncUsers (en_x e) (en_evs e 1) (en_evs e 2) users x w)"
| "be_SyncUsers e users (BWireGuard wg) w =
     (case wg_SyncUsers (en_wg e) (map Some users) wg w of (err, wg', w') \<Rightarrow> Some (err, BWireGuard wg', w'))"

fun be_UpdateUsers ::
  "'w node_env \<Rightarrow> User list \<Rightarrow> 'w Backend \<Rightarrow> 'w \<Rightarrow> go_error option \<times> 'w Backend \<times> 'w" where
  "be_UpdateUsers e users (BXray x) w =
     (case x_UpdateUsers (en_x e) users x w of (err, x', w') \<Rightarrow> (err, BXray x', w'))"
| "be_UpdateUsers e users (BWireGuard wg) w =
     (case wg_UpdateUsers (en_wg e) (map Some users) wg w of (err, wg', w') \<Rightarrow> (err, BWireGuard wg', w'))"

fun be_UpdateUsersAndRestart ::
  "'w node_env \<Rightarrow> User list \<Rightarrow> 'w Backend \<Rightarrow> 'w \<Rightarrow> (go_error option \<times> 'w Backend \<times> 'w) option" where
  "be_UpdateUsersAndRestart e users (BXray x) w =
     map_option (\<lambda>(err, x', w'). (err, BXray x', w'))
       (x_UpdateUsersAndRestart (en_x e) (en_evs e 1) (en_evs e 2) users x w)"
| "be_UpdateUsersAndRestart e users (BWireGuard wg) w =
     (case wg_UpdateUsersAndRestart (en_wg e) (map Some users) wg w of
        (err, wg', w') \<Rightarrow> Some (err, BWireGuard wg', w'))"

fun be_GetSysStats :: "'w node_env \<Rightarrow> 'w Backend \<Rightarrow> 'w \<Rightarrow> BackendStatsResponse result \<times> 'w" where
  "be_GetSysStats e (BXray x) w = x_GetSysStats (en_x e) w"
| "be_GetSysStats e (BWireGuard wg) w = (wg_GetSysStats e wg w, w)"

fun be_GetStats ::
  "'w node_env \<Rightarrow> StatRequest \<Rightarrow> 'w Backend \<Rightarrow> 'w \<Rightarrow> Stat list result \<times> 'w Backend \<times> 'w" where
  "be_GetStats e request (BXray x) w =
     (case x_GetStats (en_x e) request w of (r, w') \<Rightarrow> (r, BXray x, w'))"
| "be_GetStats e request (BWireGuard wg) w =
     (case wg_GetStats (en_wg e) request wg w of (r, wg') \<Rightarrow> (r, BWireGuard wg', w))"

fun be_GetOutboundsLatency :: "'w node_env \<Rightarrow> string \<Rightarrow> 'w Backend \<Rightarrow> 'w \<Rightarrow> Latency list result" where
  "be_GetOutboundsLatency e name (BXray x) w = x_GetOutboundsLatency (en_x e) name x w"
| "be_GetOutboundsLatency e name (BWireGuard wg) w = wg_GetOutboundsLatency (en_wg e) (en_probe e) name wg"

fun be_GetUserOnlineStats :: "'w node_env \<Rightarrow> string \<Rightarrow> 'w Backend \<Rightarrow> 'w \<Rightarrow> OnlineStatResponse result" where
  "be_GetUserOnlineStats e email (BXray x) w = x_GetUserOnlineStats (en_x e) email w"
| "be_GetUserOnlineStats e email (BWireGuard wg) w = wg_GetUserOnlineStats (en_wg e) email wg"

fun be_GetUserOnlineIpListStats ::
  "'w node_env \<Rightarrow> string \<Rightarrow> 'w Backend \<Rightarrow> 'w \<Rightarrow> StatsOnlineIpListResponse result" where
  "be_GetUserOnlineIpListStats e email (BXray x) w = x_GetUserOnlineIpListStats (en_x e) email w"
| "be_GetUserOnlineIpListStats e email (BWireGuard wg) w = wg_GetUserOnlineIpListStats (en_wg e) email wg"

text \<open>\<^verbatim>\<open>controller/users_chunk.go\<close>: chunked updates are incremental.\<close>

definition ApplyChunkedUserUpdate ::
  "'w node_env \<Rightarrow> User list \<Rightarrow> 'w Backend \<Rightarrow> 'w \<Rightarrow> go_error option \<times> 'w Backend \<times> 'w" where
  "ApplyChunkedUserUpdate e users b w = be_UpdateUsers e users b w"

text \<open>The assertion to \<^verbatim>\<open>backend.RoutingBackend\<close>, which only \<^verbatim>\<open>*xray.Xray\<close> implements.\<close>

fun asRoutingBackend :: "'w Backend option \<Rightarrow> Xray result" where
  "asRoutingBackend (Some (BXray x)) = Inr x"
| "asRoutingBackend _ = Inl (status_Error Unimplemented ''routing is only supported by the xray backend'')"

section \<open>A shut down backend has not started\<close>

text \<open>\<open>off_ok\<close>: a WireGuard backend whose shutdown ran has stopped. Every backend has it from its creation on.\<close>

fun off_ok :: "'w Backend \<Rightarrow> bool" where
  "off_ok (BXray x) = True"
| "off_ok (BWireGuard wg) = (wg_shutdownOnce wg \<longrightarrow> wg_state wg = lifecycleStopped)"

lemma wg_state_emitLog [simp]: "wg_state (emitLogLocked cx s m wg) = wg_state wg"
  "wg_shutdownOnce (emitLogLocked cx s m wg) = wg_shutdownOnce wg"
  by (simp_all add: emitLogLocked_def split: option.splits prod.splits)

lemma shutdownLocked_state [simp]: "wg_state (fst (shutdownLocked cx wg w)) = lifecycleStopped"
  by (simp add: shutdownLocked_def Let_def split: prod.splits)

lemma x_Shutdown_stops: "\<not> x_Started (fst (x_Shutdown e x w))"
  using core_Stop_idle(2)
  by (fastforce simp: x_Shutdown_def x_Started_def Let_def split: prod.splits)

lemma wg_Shutdown_stops:
  "(wg_shutdownOnce wg \<longrightarrow> wg_state wg = lifecycleStopped) \<Longrightarrow>
   wg_state (fst (wg_Shutdown cx wg w)) = lifecycleStopped"
  by (simp add: wg_Shutdown_def split_beta)

lemma be_Shutdown_stops:
  "off_ok b \<Longrightarrow> \<not> be_Started (fst (be_Shutdown e b w)) \<and> off_ok (fst (be_Shutdown e b w))"
  using x_Shutdown_stops [of "en_x e"] wg_Shutdown_stops [of _ "en_wg e"]
  by (cases b) (simp_all add: wg_Started_def split_beta)

section \<open>The contract of a managed backend\<close>

text \<open>
  What the controller relies on when it replaces a backend: a shutdown stops the backend for good. From it
  follows that a store of backends, of which at most one runs, has none running after the shutdown
  of that one.
\<close>

locale managed_backend =
  fixes started :: "'b \<Rightarrow> bool"
    and usable :: "'b \<Rightarrow> bool"
    and shutdown :: "'b \<Rightarrow> 'w \<Rightarrow> 'b \<times> 'w"
  assumes stops: "usable b \<Longrightarrow> \<not> started (fst (shutdown b w))"
    and stays_usable: "usable b \<Longrightarrow> usable (fst (shutdown b w))"
begin

lemma shutdown_store:
  assumes "\<forall>b \<in> set store. usable b" "p < length store"
    and "\<forall>q < length store. started (store ! q) \<longrightarrow> q = p"
  shows "(\<forall>b \<in> set (store[p := fst (shutdown (store ! p) w)]). usable b) \<and>
    (\<forall>q < length store. \<not> started (store[p := fst (shutdown (store ! p) w)] ! q))"
proof -
  have "usable (store ! p)" using assms(1,2) by simp
  then have "usable (fst (shutdown (store ! p) w))" "\<not> started (fst (shutdown (store ! p) w))"
    by (simp_all add: stops stays_usable)
  then show ?thesis
    using assms set_update_subset_insert [of store p "fst (shutdown (store ! p) w)"]
    by (auto simp: nth_list_update)
qed

end

interpretation node_backend: managed_backend be_Started off_ok "be_Shutdown e" for e
  by unfold_locales (simp_all add: be_Shutdown_stops)

end
