(* ===== verification/Controller.thy ===== *)
theory Controller
  imports Backend
begin

text \<open>
  \<^verbatim>\<open>controller/controller.go\<close>. The backends live in a store (\<open>nd_heap\<close>, in the order of their creation)
  and the controller holds a pointer into it, so that a backend the controller has let go of is still
  there and may still run. \<^verbatim>\<open>Disconnect\<close> releases \<^verbatim>\<open>c.mu\<close> between its parts; they are single
  definitions, so that \<^verbatim>\<open>Disconnect\<close> is their sequence and a concurrent run may interleave them.
\<close>

section \<open>State\<close>

text \<open>Where a call of \<^verbatim>\<open>Disconnect\<close> is: before the cancellation, before the snapshot, before the shutdown of
  the backend it saw, before it clears the controller.\<close>

datatype disc_pc = D_cancel | D_snapshot | D_shutdown "nat option" | D_clear

text \<open>
  A \<^verbatim>\<open>keepAliveTracker\<close>: its context, its \<^verbatim>\<open>time.Duration\<close> and, while it disconnects, how far it is.
\<close>

record tracker =
  tk_ctx :: nat
  tk_keepAlive :: int64
  tk_pc :: "disc_pc option"

text \<open>
  The struct \<^verbatim>\<open>Controller\<close>, the store of the backends, the goroutines it started and the world.
  \<open>nd_ctx\<close> names the context that \<^verbatim>\<open>cancelFunc\<close> cancels, \<open>nd_done\<close> the contexts that were cancelled.
\<close>

record 'w Node =
  nd_backend :: "nat option"
  nd_cfg :: NodeConfig
  nd_apiPort :: int
  nd_metricPort :: int
  nd_lastRequest :: gotime
  nd_stats :: "SystemStatsResponse option"
  nd_ctx :: nat
  nd_done :: "nat set"
  nd_heap :: "'w Backend list"
  nd_trackers :: "tracker list"
  nd_w :: 'w

definition NodeVersion :: string where
  "NodeVersion = ''0.6.0''"

definition find_port :: "'w node_env \<Rightarrow> nat \<Rightarrow> 'w \<Rightarrow> int" where
  "find_port e i w = int (FindFreePort (en_port_free e w) (en_rand e i w))"

definition controller_New :: "'w node_env \<Rightarrow> NodeConfig \<Rightarrow> 'w \<Rightarrow> 'w Node" where
  "controller_New e cfg w =
     \<lparr>nd_backend = None, nd_cfg = cfg, nd_apiPort = find_port e 0 w, nd_metricPort = find_port e 1 w,
      nd_lastRequest = time_zero, nd_stats = None, nd_ctx = 0, nd_done = {}, nd_heap = [],
      nd_trackers = [], nd_w = w\<rparr>"

definition ApiKey :: "'w Node \<Rightarrow> UUID" where
  "ApiKey n = nc_ApiKey (nd_cfg n)"

definition NewRequest :: "'w node_env \<Rightarrow> 'w Node \<Rightarrow> 'w Node" where
  "NewRequest e n = n\<lparr>nd_lastRequest := en_now e (nd_w n)\<rparr>"

text \<open>What the pointer of the controller points to.\<close>

definition current :: "'w Node \<Rightarrow> 'w Backend option" where
  "current n = map_option (\<lambda>p. nd_heap n ! p) (nd_backend n)"

section \<open>Connections\<close>

text \<open>\<^verbatim>\<open>time.Duration(keepAlive) * time.Second\<close> wraps.\<close>

definition keepAlive_duration :: "uint64 \<Rightarrow> int64" where
  "keepAlive_duration k = k * word_of_int second"

definition Connect :: "'w node_env \<Rightarrow> uint64 \<Rightarrow> 'w Node \<Rightarrow> 'w Node" where
  "Connect e keep n =
     (let ctx = Suc (nd_ctx n)
      in n\<lparr>nd_lastRequest := en_now e (nd_w n),
           nd_done := insert (nd_ctx n) (nd_done n),
           nd_ctx := ctx,
           nd_trackers := nd_trackers n @
             (if keep > 0
              then [\<lparr>tk_ctx = ctx, tk_keepAlive = keepAlive_duration keep, tk_pc = None\<rparr>] else [])\<rparr>)"

definition disc_cancel :: "'w Node \<Rightarrow> 'w Node" where
  "disc_cancel n = n\<lparr>nd_done := insert (nd_ctx n) (nd_done n)\<rparr>"

definition disc_shutdown :: "'w node_env \<Rightarrow> nat option \<Rightarrow> 'w Node \<Rightarrow> 'w Node" where
  "disc_shutdown e back n =
     (case back of
        None \<Rightarrow> n
      | Some p \<Rightarrow>
          (case be_Shutdown e (nd_heap n ! p) (nd_w n) of
             (b, w) \<Rightarrow> n\<lparr>nd_heap := (nd_heap n)[p := b], nd_w := w\<rparr>))"

definition disc_clear :: "'w node_env \<Rightarrow> 'w Node \<Rightarrow> 'w Node" where
  "disc_clear e n =
     n\<lparr>nd_backend := None, nd_apiPort := find_port e 0 (nd_w n), nd_metricPort := find_port e 1 (nd_w n)\<rparr>"

definition Disconnect :: "'w node_env \<Rightarrow> 'w Node \<Rightarrow> 'w Node" where
  "Disconnect e n = disc_clear e (disc_shutdown e (nd_backend n) (disc_cancel n))"

text \<open>One part of \<^verbatim>\<open>Disconnect\<close>, and where the call is then; \<open>None\<close>: it has returned.\<close>

fun disc_step :: "'w node_env \<Rightarrow> disc_pc \<Rightarrow> 'w Node \<Rightarrow> disc_pc option \<times> 'w Node" where
  "disc_step e D_cancel n = (Some D_snapshot, disc_cancel n)"
| "disc_step e D_snapshot n = (Some (D_shutdown (nd_backend n)), n)"
| "disc_step e (D_shutdown back) n = (Some D_clear, disc_shutdown e back n)"
| "disc_step e D_clear n = (None, disc_clear e n)"

section \<open>Start of a backend\<close>

definition install :: "'w Backend \<Rightarrow> 'w \<Rightarrow> 'w Node \<Rightarrow> 'w Node" where
  "install b w n = n\<lparr>nd_heap := nd_heap n @ [b], nd_backend := Some (length (nd_heap n)), nd_w := w\<rparr>"

definition StartBackend :: "'w node_env \<Rightarrow> BackendMsg \<Rightarrow> 'w Node \<Rightarrow> (go_error option \<times> 'w Node) option" where
  "StartBackend e backend n =
     (case bk_Type backend of
        XRAY \<Rightarrow>
          (case xray_NewConfig (xe_js (en_x e)) (bk_Config backend) (bk_ExcludeInbounds backend) of
             Inl err \<Rightarrow> Some (Some err, n)
           | Inr config \<Rightarrow>
               map_option (\<lambda>(r, w). case r of
                   Inl err \<Rightarrow> (Some err, n\<lparr>nd_w := w\<rparr>)
                 | Inr newBackend \<Rightarrow> (None, install (BXray newBackend) w n))
                 (xray_New (en_x e) (en_evs e 0) config (bk_Users backend) (nd_apiPort n) (nd_metricPort n)
                    (nd_cfg n) (nd_w n)))
      | WIREGUARD \<Rightarrow>
          (case NewConfig (cx_Validate (en_wg e)) (en_wg_config e) (bk_Config backend) of
             Inl err \<Rightarrow> Some (Some err, n)
           | Inr config \<Rightarrow>
               (case wireguard_New (en_wg e) (nd_cfg n) (Some config) (map Some (bk_Users backend)) (nd_w n) of
                  (Inl err, w) \<Rightarrow> Some (Some err, n\<lparr>nd_w := w\<rparr>)
                | (Inr newBackend, w) \<Rightarrow> Some (None, install (BWireGuard newBackend) w n)))
      | BackendType_other _ \<Rightarrow> Some (Some (errors_New ''invalid backend type''), n))"

section \<open>The goroutines of a connection\<close>

text \<open>The tick of a \<^verbatim>\<open>keepAliveTracker\<close>: it starts to disconnect when the last request is too old.\<close>

definition keepAlive_expired :: "'w node_env \<Rightarrow> tracker \<Rightarrow> 'w Node \<Rightarrow> bool" where
  "keepAlive_expired e t n \<longleftrightarrow> en_now e (nd_w n) - nd_lastRequest n \<ge> sint (tk_keepAlive t)"

definition keepAlive_tick :: "'w node_env \<Rightarrow> tracker \<Rightarrow> 'w Node \<Rightarrow> 'w Node" where
  "keepAlive_tick e t n = (if keepAlive_expired e t n then Disconnect e n else n)"

text \<open>One round of \<^verbatim>\<open>recordSystemStats\<close>: the statistics it read, if it could.\<close>

definition collect :: "SystemStatsResponse result \<Rightarrow> 'w Node \<Rightarrow> 'w Node" where
  "collect r n = (case r of Inl err \<Rightarrow> n | Inr stats \<Rightarrow> n\<lparr>nd_stats := Some stats\<rparr>)"

section \<open>Responses\<close>

definition empty_stats :: SystemStatsResponse where
  "empty_stats = \<lparr>ss_MemTotal = 0, ss_MemUsed = 0, ss_CpuCores = 0, ss_CpuUsage = 0,
     ss_IncomingBandwidthSpeed = 0, ss_OutgoingBandwidthSpeed = 0, ss_Uptime = 0\<rparr>"

definition SystemStats :: "'w node_env \<Rightarrow> 'w Node \<Rightarrow> SystemStatsResponse \<times> 'w Node" where
  "SystemStats e n =
     (let response = (case nd_stats n of None \<Rightarrow> empty_stats | Some s \<Rightarrow> s)
      in case current n of
           None \<Rightarrow> (response, n)
         | Some b \<Rightarrow>
             (case be_GetSysStats e b (nd_w n) of
                (Inl err, w) \<Rightarrow> (response, n\<lparr>nd_w := w\<rparr>)
              | (Inr st, w) \<Rightarrow> (response\<lparr>ss_Uptime := ucast (bs_Uptime st)\<rparr>, n\<lparr>nd_w := w\<rparr>)))"

definition BaseInfo :: "'w Node \<Rightarrow> BaseInfoResponse" where
  "BaseInfo n =
     (case current n of
        None \<Rightarrow> \<lparr>bi_Started = False, bi_CoreVersion = [], bi_NodeVersion = NodeVersion\<rparr>
      | Some b \<Rightarrow> \<lparr>bi_Started = be_Started b, bi_CoreVersion = be_Version b, bi_NodeVersion = NodeVersion\<rparr>)"

definition OutboundsLatency :: "'w node_env \<Rightarrow> string \<Rightarrow> 'w Node \<Rightarrow> Latency list result" where
  "OutboundsLatency e name n =
     (case current n of
        None \<Rightarrow> Inr []
      | Some b \<Rightarrow> be_GetOutboundsLatency e name b (nd_w n))"

end
