(* ===== verification/RpcServer.thy ===== *)
theory RpcServer
  imports Controller
begin

text \<open>
  The gRPC server: \<^verbatim>\<open>controller/rpc/*.go\<close>. A handler is a function of the node that returns its reply or
  error and the node after it; \<open>None\<close> is a handler that has not returned. The replies
  \<^verbatim>\<open>&common.Empty{}\<close> and \<^verbatim>\<open>nil\<close> of an \<^verbatim>\<open>*common.Empty\<close> are the same empty message on the wire. What the
  log records and the addresses of clients in it are left out.
\<close>

section \<open>Replies and handlers\<close>

datatype reply =
    R_Empty
  | R_BaseInfo BaseInfoResponse
  | R_Stats "Stat list"
  | R_Online OnlineStatResponse
  | R_IpList StatsOnlineIpListResponse
  | R_Backend BackendStatsResponse
  | R_System SystemStatsResponse
  | R_Latency "Latency list"
  | R_Rules "RoutingRule list"
  | R_Balancer BalancerInfoResponse
  | R_Route RouteResult
  | R_Logs "string list"

type_synonym 'w handler = "'w Node \<Rightarrow> (reply result \<times> 'w Node) option"
type_synonym 'w stream_handler = "'w Node \<Rightarrow> (go_error option \<times> 'w Node) option"

definition put_backend :: "nat \<Rightarrow> 'w Backend \<Rightarrow> 'w \<Rightarrow> 'w Node \<Rightarrow> 'w Node" where
  "put_backend p b w n = n\<lparr>nd_heap := (nd_heap n)[p := b], nd_w := w\<rparr>"

definition empty_reply :: "go_error option \<Rightarrow> reply result" where
  "empty_reply err = (case err of None \<Rightarrow> Inr R_Empty | Some x \<Rightarrow> Inl x)"

section \<open>Start and stop\<close>

definition rpc_Start :: "'w node_env \<Rightarrow> BackendMsg \<Rightarrow> 'w handler" where
  "rpc_Start e data n =
     (let n1 = (if nd_backend n \<noteq> None then Disconnect e n else n)
      in case StartBackend e data n1 of
           None \<Rightarrow> None
         | Some (Some err, n2) \<Rightarrow> Some (Inl err, n2)
         | Some (None, n2) \<Rightarrow>
             (let n3 = Connect e (bk_KeepAlive data) n2 in Some (Inr (R_BaseInfo (BaseInfo n3)), n3)))"

definition rpc_Stop :: "'w node_env \<Rightarrow> 'w handler" where
  "rpc_Stop e n = Some (Inr R_Empty, Disconnect e n)"

definition rpc_GetBaseInfo :: "'w handler" where
  "rpc_GetBaseInfo n = Some (Inr (R_BaseInfo (BaseInfo n)), n)"

section \<open>Statistics\<close>

definition rpc_backend :: "'w Node \<Rightarrow> nat result" where
  "rpc_backend n =
     (case nd_backend n of
        None \<Rightarrow> Inl (status_Error Unavailable ''backend not initialized'')
      | Some p \<Rightarrow> Inr p)"

definition rpc_GetStats :: "'w node_env \<Rightarrow> StatRequest \<Rightarrow> 'w handler" where
  "rpc_GetStats e request n =
     (case rpc_backend n of
        Inl err \<Rightarrow> Some (Inl err, n)
      | Inr p \<Rightarrow>
          (case be_GetStats e request (nd_heap n ! p) (nd_w n) of
             (r, b, w) \<Rightarrow> Some (map_sum InterceptNotFound R_Stats r, put_backend p b w n)))"

definition rpc_GetUserOnlineStats :: "'w node_env \<Rightarrow> StatRequest \<Rightarrow> 'w handler" where
  "rpc_GetUserOnlineStats e request n =
     (case rpc_backend n of
        Inl err \<Rightarrow> Some (Inl err, n)
      | Inr p \<Rightarrow>
          Some (map_sum InterceptNotFound R_Online
                  (be_GetUserOnlineStats e (sr_Name request) (nd_heap n ! p) (nd_w n)), n))"

definition rpc_GetUserOnlineIpListStats :: "'w node_env \<Rightarrow> StatRequest \<Rightarrow> 'w handler" where
  "rpc_GetUserOnlineIpListStats e request n =
     (case rpc_backend n of
        Inl err \<Rightarrow> Some (Inl err, n)
      | Inr p \<Rightarrow>
          Some (map_sum InterceptNotFound R_IpList
                  (be_GetUserOnlineIpListStats e (sr_Name request) (nd_heap n ! p) (nd_w n)), n))"

definition rpc_GetBackendStats :: "'w node_env \<Rightarrow> 'w handler" where
  "rpc_GetBackendStats e n =
     (case rpc_backend n of
        Inl err \<Rightarrow> Some (Inl err, n)
      | Inr p \<Rightarrow>
          (case be_GetSysStats e (nd_heap n ! p) (nd_w n) of
             (r, w) \<Rightarrow> Some (map_sum id R_Backend r, n\<lparr>nd_w := w\<rparr>)))"

definition rpc_GetOutboundsLatency :: "'w node_env \<Rightarrow> string \<Rightarrow> 'w handler" where
  "rpc_GetOutboundsLatency e name n = Some (map_sum id R_Latency (OutboundsLatency e name n), n)"

definition rpc_GetSystemStats :: "'w node_env \<Rightarrow> 'w handler" where
  "rpc_GetSystemStats e n = (case SystemStats e n of (s, n') \<Rightarrow> Some (Inr (R_System s), n'))"

section \<open>Routing\<close>

definition rpc_routingBackend :: "'w Node \<Rightarrow> Xray result" where
  "rpc_routingBackend n =
     (case rpc_backend n of
        Inl err \<Rightarrow> Inl err
      | Inr p \<Rightarrow> asRoutingBackend (Some (nd_heap n ! p)))"

definition rpc_ListRoutingRules :: "'w node_env \<Rightarrow> 'w handler" where
  "rpc_ListRoutingRules e n =
     (case rpc_routingBackend n of
        Inl err \<Rightarrow> Some (Inl err, n)
      | Inr rb \<Rightarrow> Some (map_sum InterceptNotFound R_Rules (x_ListRoutingRules (en_x e) rb (nd_w n)), n))"

definition rpc_GetBalancerInfo :: "'w node_env \<Rightarrow> string \<Rightarrow> 'w handler" where
  "rpc_GetBalancerInfo e tag n =
     (case rpc_routingBackend n of
        Inl err \<Rightarrow> Some (Inl err, n)
      | Inr rb \<Rightarrow> Some (map_sum InterceptNotFound R_Balancer (x_GetBalancerInfo (en_x e) tag rb (nd_w n)), n))"

definition rpc_TestRoute :: "'w node_env \<Rightarrow> TestRouteRequest \<Rightarrow> 'w handler" where
  "rpc_TestRoute e request n =
     (case rpc_routingBackend n of
        Inl err \<Rightarrow> Some (Inl err, n)
      | Inr rb \<Rightarrow> Some (map_sum InterceptNotFound R_Route (x_TestRoute (en_x e) request rb (nd_w n)), n))"

definition rpc_AddRoutingRule :: "'w node_env \<Rightarrow> AddRoutingRuleRequest \<Rightarrow> 'w handler" where
  "rpc_AddRoutingRule e request n =
     (case rpc_routingBackend n of
        Inl err \<Rightarrow> Some (Inl err, n)
      | Inr rb \<Rightarrow>
          (case x_AddRoutingRule (en_x e) (ar_Rule request) (\<not> ar_ShouldReset request) rb (nd_w n) of
             (err, w) \<Rightarrow> Some (empty_reply err, n\<lparr>nd_w := w\<rparr>)))"

definition rpc_RemoveRoutingRule :: "'w node_env \<Rightarrow> string \<Rightarrow> 'w handler" where
  "rpc_RemoveRoutingRule e ruleTag n =
     (case rpc_routingBackend n of
        Inl err \<Rightarrow> Some (Inl err, n)
      | Inr rb \<Rightarrow>
          (case x_RemoveRoutingRule (en_x e) ruleTag rb (nd_w n) of
             (err, w) \<Rightarrow> Some (empty_reply (map_option InterceptNotFound err), n\<lparr>nd_w := w\<rparr>)))"

definition rpc_OverrideBalancerTarget :: "'w node_env \<Rightarrow> OverrideBalancerTargetRequest \<Rightarrow> 'w handler" where
  "rpc_OverrideBalancerTarget e request n =
     (case rpc_routingBackend n of
        Inl err \<Rightarrow> Some (Inl err, n)
      | Inr rb \<Rightarrow>
          (case x_OverrideBalancerTarget (en_x e) (ob_BalancerTag request) (ob_Target request) rb (nd_w n) of
             (err, w) \<Rightarrow> Some (empty_reply (map_option InterceptNotFound err), n\<lparr>nd_w := w\<rparr>)))"

section \<open>Users\<close>

definition rpc_SyncUsers :: "'w node_env \<Rightarrow> User list \<Rightarrow> 'w handler" where
  "rpc_SyncUsers e users n =
     (case rpc_backend n of
        Inl err \<Rightarrow> Some (Inl err, n)
      | Inr p \<Rightarrow>
          map_option (\<lambda>(err, b, w). (empty_reply err, put_backend p b w n))
            (be_SyncUsers e users (nd_heap n ! p) (nd_w n)))"

definition email_required :: go_error where
  "email_required = errors_New ''email is required''"

text \<open>
  The stream of \<^verbatim>\<open>SyncUser\<close> after the backend \<open>p\<close> was found: the users it receives until \<^verbatim>\<open>Recv\<close> returns
  an error, of whatever kind; \<open>fin\<close> is the result of \<^verbatim>\<open>SendAndClose\<close>.
\<close>

fun rpc_sync_stream :: "'w node_env \<Rightarrow> nat \<Rightarrow> go_error option \<Rightarrow> User list \<Rightarrow> 'w stream_handler" where
  "rpc_sync_stream e p fin [] n = Some (fin, n)"
| "rpc_sync_stream e p fin (user # users) n =
     (if u_Email user = [] then Some (Some email_required, n)
      else case be_SyncUser e user (nd_heap n ! p) (nd_w n) of
             (Some err, b, w) \<Rightarrow>
               Some (Some (status_Error Internal (''failed to update user: '' @ Error_text err)), put_backend p b w n)
           | (None, b, w) \<Rightarrow> rpc_sync_stream e p fin users (put_backend p b w n))"

definition rpc_SyncUser :: "'w node_env \<Rightarrow> go_error option \<Rightarrow> User list \<Rightarrow> 'w stream_handler" where
  "rpc_SyncUser e fin users n =
     (case rpc_backend n of
        Inl err \<Rightarrow> Some (Some err, n)
      | Inr p \<Rightarrow> rpc_sync_stream e p fin users n)"

text \<open>The chunks received until \<^verbatim>\<open>Recv\<close> returns the error \<open>rerr\<close>.\<close>

definition rpc_SyncUsersChunked ::
  "'w node_env \<Rightarrow> go_error option \<Rightarrow> UsersChunk list \<Rightarrow> go_error \<Rightarrow> 'w stream_handler" where
  "rpc_SyncUsersChunked e fin chunks rerr n =
     (case rpc_chunk_users chunks rerr of
        None \<Rightarrow> None
      | Some (Inl err) \<Rightarrow> Some (Some err, n)
      | Some (Inr users) \<Rightarrow>
          (case rpc_backend n of
             Inl err \<Rightarrow> Some (Some err, n)
           | Inr p \<Rightarrow>
               (case ApplyChunkedUserUpdate e users (nd_heap n ! p) (nd_w n) of
                  (Some err, b, w) \<Rightarrow>
                    Some (Some (status_Error Internal (''failed to update users: '' @ Error_text err)),
                      put_backend p b w n)
                | (None, b, w) \<Rightarrow> Some (fin, put_backend p b w n))))"

section \<open>Logs\<close>

text \<open>
  What the \<^verbatim>\<open>select\<close> of \<^verbatim>\<open>GetLogs\<close> receives: a line (with the result of sending it), the end of the
  channel or the end of the client. The result is the lines that were sent and what the handler
  returns, or no result where the events end before it returns.
\<close>

datatype log_event = LogLine string "go_error option" | LogsClosed | ClientGone

fun log_stream :: "log_event list \<Rightarrow> string list \<times> go_error option option" where
  "log_stream [] = ([], None)"
| "log_stream (LogLine l err # evs) =
     (case err of
        Some x \<Rightarrow> ([], Some (Some (Errorf_w ''failed to send log: '' x)))
      | None \<Rightarrow> (case log_stream evs of (ls, r) \<Rightarrow> (l # ls, r)))"
| "log_stream (LogsClosed # evs) = ([], Some (Some (errors_New ''log channel closed'')))"
| "log_stream (ClientGone # evs) = ([], Some None)"

definition rpc_GetLogs :: "log_event list \<Rightarrow> 'w stream_handler" where
  "rpc_GetLogs evs n =
     (case rpc_backend n of
        Inl err \<Rightarrow> Some (Some err, n)
      | Inr p \<Rightarrow> map_option (\<lambda>r. (r, n)) (snd (log_stream evs)))"

section \<open>Interceptors\<close>

text \<open>The metadata of a call: none, or the values of each key.\<close>

type_synonym metadata = "(string \<rightharpoonup> string list) option"
type_synonym 'w interceptor = "metadata \<Rightarrow> string \<Rightarrow> 'w handler \<Rightarrow> 'w handler"
type_synonym 'w stream_interceptor = "metadata \<Rightarrow> string \<Rightarrow> 'w stream_handler \<Rightarrow> 'w stream_handler"

definition api_key_header :: string where
  "api_key_header = ''x-api-key''"

definition rpc_validateApiKey :: "'w node_env \<Rightarrow> metadata \<Rightarrow> 'w Node \<Rightarrow> go_error option" where
  "rpc_validateApiKey e md n =
     (case md of
        None \<Rightarrow> Some (status_Error Unauthenticated ''missing metadata'')
      | Some m \<Rightarrow>
          (case m api_key_header of
             None \<Rightarrow> Some (status_Error Unauthenticated ''missing x-api-key header'')
           | Some [] \<Rightarrow> Some (status_Error Unauthenticated ''missing x-api-key header'')
           | Some (apiKeyHeader # _) \<Rightarrow>
               (case en_uuid e apiKeyHeader of
                  Inl err \<Rightarrow>
                    Some (status_Error InvalidArgument ''invalid api key format: must be a valid UUID'')
                | Inr key \<Rightarrow>
                    (if key \<noteq> ApiKey n then Some (status_Error PermissionDenied ''api key mismatch'') else None))))"

definition validateApiKeyMiddleware :: "'w node_env \<Rightarrow> 'w interceptor" where
  "validateApiKeyMiddleware e md info h n =
     (case rpc_validateApiKey e md n of Some err \<Rightarrow> Some (Inl err, n) | None \<Rightarrow> h n)"

definition validateApiKeyStreamMiddleware :: "'w node_env \<Rightarrow> 'w stream_interceptor" where
  "validateApiKeyStreamMiddleware e md info h n =
     (case rpc_validateApiKey e md n of Some err \<Rightarrow> Some (Some err, n) | None \<Rightarrow> h n)"

definition checkBackendStatus :: "'w Node \<Rightarrow> go_error option" where
  "checkBackendStatus n =
     (case current n of
        None \<Rightarrow> Some (status_Error Unavailable ''backend not initialized'')
      | Some back \<Rightarrow>
          (if \<not> be_Started back then Some (status_Error Unavailable ''core is not started yet'') else None))"

definition CheckBackendMiddleware :: "'w interceptor" where
  "CheckBackendMiddleware md info h n =
     (case checkBackendStatus n of Some err \<Rightarrow> Some (Inl err, n) | None \<Rightarrow> h n)"

definition CheckBackendStreamMiddleware :: "'w stream_interceptor" where
  "CheckBackendStreamMiddleware md info h n =
     (case checkBackendStatus n of Some err \<Rightarrow> Some (Some err, n) | None \<Rightarrow> h n)"

definition LoggingInterceptor :: "'w node_env \<Rightarrow> 'w interceptor" where
  "LoggingInterceptor e md info h n =
     map_option (\<lambda>(r, n'). (r, case r of Inl _ \<Rightarrow> n' | Inr _ \<Rightarrow> NewRequest e n')) (h n)"

definition LoggingStreamInterceptor :: "'w node_env \<Rightarrow> 'w stream_interceptor" where
  "LoggingStreamInterceptor e md info h n =
     map_option (\<lambda>(err, n'). (err, case err of Some _ \<Rightarrow> n' | None \<Rightarrow> NewRequest e n')) (h n)"

definition service_prefix :: string where
  "service_prefix = ''/service.NodeService/''"

definition backendMethods :: "string list" where
  "backendMethods = map (\<lambda>m. service_prefix @ m)
     [''GetStats'', ''GetUserOnlineStats'', ''GetUserOnlineIpListStats'', ''GetBackendStats'',
      ''GetSystemStats'', ''Stop'', ''SyncUser'', ''SyncUsers'', ''SyncUsersChunked'', ''GetLogs'',
      ''ListRoutingRules'', ''GetBalancerInfo'', ''TestRoute'', ''AddRoutingRule'',
      ''RemoveRoutingRule'', ''OverrideBalancerTarget'']"

text \<open>
  \<open>chain\<close> is \<^verbatim>\<open>grpcmiddleware.ChainUnaryServer\<close> (and \<^verbatim>\<open>ChainStreamServer\<close>): the first interceptor is the
  outermost.
\<close>

definition chain_law :: "(('m \<Rightarrow> 'i \<Rightarrow> 'h \<Rightarrow> 'h) list \<Rightarrow> 'm \<Rightarrow> 'i \<Rightarrow> 'h \<Rightarrow> 'h) \<Rightarrow> bool" where
  "chain_law chain \<longleftrightarrow>
     (\<forall>md info h. chain [] md info h = h) \<and>
     (\<forall>i is md info h. chain (i # is) md info h = i md info (chain is md info h))"

definition ConditionalMiddleware ::
  "('w interceptor list \<Rightarrow> 'w interceptor) \<Rightarrow> 'w node_env \<Rightarrow> 'w interceptor" where
  "ConditionalMiddleware chain e md info h =
     chain ([LoggingInterceptor e, validateApiKeyMiddleware e] @
            (if info \<in> set backendMethods then [CheckBackendMiddleware] else [])) md info h"

definition ConditionalStreamMiddleware ::
  "('w stream_interceptor list \<Rightarrow> 'w stream_interceptor) \<Rightarrow> 'w node_env \<Rightarrow> 'w stream_interceptor" where
  "ConditionalStreamMiddleware chain e md info h =
     chain ([LoggingStreamInterceptor e, validateApiKeyStreamMiddleware e] @
            (if info \<in> set backendMethods then [CheckBackendStreamMiddleware] else [])) md info h"

end
