(* ===== verification/RestServer.thy ===== *)
theory RestServer
  imports RpcServer
begin

text \<open>
  The HTTP server: \<^verbatim>\<open>controller/rest/*.go\<close>. A handler returns an HTTP error, a panic (the type
  \<open>http_fail\<close>) or the reply it sends with status 200. A body is the bytes that can be read and the error
  that ends the reading (\<open>EOF\<close> for a complete body); the decoders of \<^verbatim>\<open>proto.Unmarshal\<close> are the parameter
  \<open>codec\<close>. The writes of replies succeed: a failed write means that the client is gone. \<^verbatim>\<open>LogRequest\<close>, which
  only logs, is left out.
\<close>

section \<open>Requests\<close>

record codec =
  cd_Backend :: "byte list \<Rightarrow> BackendMsg result"
  cd_StatRequest :: "byte list \<Rightarrow> StatRequest result"
  cd_LatencyRequest :: "byte list \<Rightarrow> string result"
  cd_User :: "byte list \<Rightarrow> User result"
  cd_Users :: "byte list \<Rightarrow> User list result"
  cd_UsersChunk :: "byte list \<Rightarrow> UsersChunk result"
  cd_Balancer :: "byte list \<Rightarrow> string result"
  cd_TestRoute :: "byte list \<Rightarrow> TestRouteRequest result"
  cd_AddRule :: "byte list \<Rightarrow> AddRoutingRuleRequest result"
  cd_RemoveRule :: "byte list \<Rightarrow> string result"
  cd_Override :: "byte list \<Rightarrow> OverrideBalancerTargetRequest result"

text \<open>\<open>hq_key\<close> is the header \<^verbatim>\<open>x-api-key\<close>, empty when it is missing.\<close>

record http_request =
  hq_key :: string
  hq_data :: "byte list"
  hq_fin :: go_error

type_synonym 'w rest_handler = "'w Node \<Rightarrow> ((http_fail + reply) \<times> 'w Node) option"

definition ReadAll :: "http_request \<Rightarrow> byte list result" where
  "ReadAll rq = (if err_is EOF (hq_fin rq) then Inr (hq_data rq) else Inl (hq_fin rq))"

definition ReadProtoBody :: "(byte list \<Rightarrow> 'm result) \<Rightarrow> http_request \<Rightarrow> 'm result" where
  "ReadProtoBody unmarshal rq = (case ReadAll rq of Inl err \<Rightarrow> Inl err | Inr data \<Rightarrow> unmarshal data)"

text \<open>The error reply to an error value, which a panic of the code below is not.\<close>

definition http_error :: "nat \<Rightarrow> go_error \<Rightarrow> http_fail + reply" where
  "http_error code err =
     Inl (if err_kind_of err = Panic then HttpPanic (Error_text err) else HttpError code (Error_text err))"

definition nil_backend :: "http_fail + reply" where
  "nil_backend = Inl (HttpPanic ''nil pointer dereference'')"

definition with_body ::
  "(byte list \<Rightarrow> 'm result) \<Rightarrow> http_request \<Rightarrow> ('m \<Rightarrow> 'w rest_handler) \<Rightarrow> 'w rest_handler" where
  "with_body unmarshal rq f n =
     (case ReadProtoBody unmarshal rq of
        Inl err \<Rightarrow> Some (http_error 400 err, n)
      | Inr request \<Rightarrow> f request n)"

section \<open>Start and stop\<close>

definition rest_Base :: "'w rest_handler" where
  "rest_Base n = Some (Inr (R_BaseInfo (BaseInfo n)), n)"

definition rest_Start :: "'w node_env \<Rightarrow> codec \<Rightarrow> http_request \<Rightarrow> 'w rest_handler" where
  "rest_Start e cd rq n =
     (case ReadProtoBody (cd_Backend cd) rq of
        Inl err \<Rightarrow> Some (http_error 400 err, n)
      | Inr data \<Rightarrow>
          (let n1 = (if nd_backend n \<noteq> None then Disconnect e n else n)
           in case StartBackend e data n1 of
                None \<Rightarrow> None
              | Some (Some err, n2) \<Rightarrow> Some (http_error 503 err, n2)
              | Some (None, n2) \<Rightarrow>
                  (let n3 = Connect e (bk_KeepAlive data) n2
                   in Some (Inr (R_BaseInfo (BaseInfo n3)), n3))))"

definition rest_Stop :: "'w node_env \<Rightarrow> 'w rest_handler" where
  "rest_Stop e n = Some (Inr R_Empty, Disconnect e n)"

section \<open>Statistics\<close>

definition status_error :: "go_error \<Rightarrow> http_fail + reply" where
  "status_error err = http_error (GrpcCodeToHTTP (status_code err)) err"

definition rest_reply :: "('a \<Rightarrow> reply) \<Rightarrow> 'a result \<Rightarrow> http_fail + reply" where
  "rest_reply f r = (case r of Inl err \<Rightarrow> status_error (InterceptNotFound err) | Inr a \<Rightarrow> Inr (f a))"

definition rest_GetStats :: "'w node_env \<Rightarrow> codec \<Rightarrow> http_request \<Rightarrow> 'w rest_handler" where
  "rest_GetStats e cd rq =
     with_body (cd_StatRequest cd) rq
       (\<lambda>request n. case nd_backend n of
           None \<Rightarrow> Some (nil_backend, n)
         | Some p \<Rightarrow>
             (case be_GetStats e request (nd_heap n ! p) (nd_w n) of
                (r, b, w) \<Rightarrow> Some (rest_reply R_Stats r, put_backend p b w n)))"

definition rest_GetUserOnlineStat :: "'w node_env \<Rightarrow> codec \<Rightarrow> http_request \<Rightarrow> 'w rest_handler" where
  "rest_GetUserOnlineStat e cd rq =
     with_body (cd_StatRequest cd) rq
       (\<lambda>request n. case nd_backend n of
           None \<Rightarrow> Some (nil_backend, n)
         | Some p \<Rightarrow>
             Some (rest_reply R_Online
                     (be_GetUserOnlineStats e (sr_Name request) (nd_heap n ! p) (nd_w n)), n))"

definition rest_GetUserOnlineIpListStats :: "'w node_env \<Rightarrow> codec \<Rightarrow> http_request \<Rightarrow> 'w rest_handler" where
  "rest_GetUserOnlineIpListStats e cd rq =
     with_body (cd_StatRequest cd) rq
       (\<lambda>request n. case nd_backend n of
           None \<Rightarrow> Some (nil_backend, n)
         | Some p \<Rightarrow>
             Some (rest_reply R_IpList
                     (be_GetUserOnlineIpListStats e (sr_Name request) (nd_heap n ! p) (nd_w n)), n))"

definition rest_GetBackendStats :: "'w node_env \<Rightarrow> 'w rest_handler" where
  "rest_GetBackendStats e n =
     (case nd_backend n of
        None \<Rightarrow> Some (nil_backend, n)
      | Some p \<Rightarrow>
          (case be_GetSysStats e (nd_heap n ! p) (nd_w n) of
             (r, w) \<Rightarrow>
               Some (case r of Inl err \<Rightarrow> status_error err | Inr s \<Rightarrow> Inr (R_Backend s), n\<lparr>nd_w := w\<rparr>)))"

definition rest_GetOutboundsLatency :: "'w node_env \<Rightarrow> codec \<Rightarrow> http_request \<Rightarrow> 'w rest_handler" where
  "rest_GetOutboundsLatency e cd rq =
     with_body (cd_LatencyRequest cd) rq
       (\<lambda>name n. Some (case OutboundsLatency e name n of
                          Inl err \<Rightarrow> http_error 502 err
                        | Inr l \<Rightarrow> Inr (R_Latency l), n))"

definition rest_GetSystemStats :: "'w node_env \<Rightarrow> 'w rest_handler" where
  "rest_GetSystemStats e n = (case SystemStats e n of (s, n') \<Rightarrow> Some (Inr (R_System s), n'))"

section \<open>Routing\<close>

definition rest_routingBackend :: "'w Node \<Rightarrow> Xray result" where
  "rest_routingBackend n = asRoutingBackend (current n)"

definition writeRoutingError :: "go_error \<Rightarrow> http_fail + reply" where
  "writeRoutingError err = status_error (InterceptNotFound err)"

definition routing_done :: "go_error option \<Rightarrow> http_fail + reply" where
  "routing_done err = (case err of None \<Rightarrow> Inr R_Empty | Some x \<Rightarrow> writeRoutingError x)"

definition rest_ListRoutingRules :: "'w node_env \<Rightarrow> 'w rest_handler" where
  "rest_ListRoutingRules e n =
     (case rest_routingBackend n of
        Inl err \<Rightarrow> Some (writeRoutingError err, n)
      | Inr rb \<Rightarrow> Some (rest_reply R_Rules (x_ListRoutingRules (en_x e) rb (nd_w n)), n))"

definition rest_GetBalancerInfo :: "'w node_env \<Rightarrow> codec \<Rightarrow> http_request \<Rightarrow> 'w rest_handler" where
  "rest_GetBalancerInfo e cd rq n =
     (case rest_routingBackend n of
        Inl err \<Rightarrow> Some (writeRoutingError err, n)
      | Inr rb \<Rightarrow>
          with_body (cd_Balancer cd) rq
            (\<lambda>tag n. Some (rest_reply R_Balancer (x_GetBalancerInfo (en_x e) tag rb (nd_w n)), n)) n)"

definition rest_TestRoute :: "'w node_env \<Rightarrow> codec \<Rightarrow> http_request \<Rightarrow> 'w rest_handler" where
  "rest_TestRoute e cd rq n =
     (case rest_routingBackend n of
        Inl err \<Rightarrow> Some (writeRoutingError err, n)
      | Inr rb \<Rightarrow>
          with_body (cd_TestRoute cd) rq
            (\<lambda>request n. Some (rest_reply R_Route (x_TestRoute (en_x e) request rb (nd_w n)), n)) n)"

definition rest_AddRoutingRule :: "'w node_env \<Rightarrow> codec \<Rightarrow> http_request \<Rightarrow> 'w rest_handler" where
  "rest_AddRoutingRule e cd rq n =
     (case rest_routingBackend n of
        Inl err \<Rightarrow> Some (writeRoutingError err, n)
      | Inr rb \<Rightarrow>
          with_body (cd_AddRule cd) rq
            (\<lambda>request n. case x_AddRoutingRule (en_x e) (ar_Rule request) (\<not> ar_ShouldReset request) rb (nd_w n) of
               (err, w) \<Rightarrow> Some (routing_done err, n\<lparr>nd_w := w\<rparr>)) n)"

definition rest_RemoveRoutingRule :: "'w node_env \<Rightarrow> codec \<Rightarrow> http_request \<Rightarrow> 'w rest_handler" where
  "rest_RemoveRoutingRule e cd rq n =
     (case rest_routingBackend n of
        Inl err \<Rightarrow> Some (writeRoutingError err, n)
      | Inr rb \<Rightarrow>
          with_body (cd_RemoveRule cd) rq
            (\<lambda>ruleTag n. case x_RemoveRoutingRule (en_x e) ruleTag rb (nd_w n) of
               (err, w) \<Rightarrow> Some (routing_done err, n\<lparr>nd_w := w\<rparr>)) n)"

definition rest_OverrideBalancerTarget :: "'w node_env \<Rightarrow> codec \<Rightarrow> http_request \<Rightarrow> 'w rest_handler" where
  "rest_OverrideBalancerTarget e cd rq n =
     (case rest_routingBackend n of
        Inl err \<Rightarrow> Some (writeRoutingError err, n)
      | Inr rb \<Rightarrow>
          with_body (cd_Override cd) rq
            (\<lambda>request n. case x_OverrideBalancerTarget (en_x e) (ob_BalancerTag request) (ob_Target request)
                                 rb (nd_w n) of
               (err, w) \<Rightarrow> Some (routing_done err, n\<lparr>nd_w := w\<rparr>)) n)"

section \<open>Users\<close>

definition rest_done :: "go_error option \<Rightarrow> http_fail + reply" where
  "rest_done err = (case err of None \<Rightarrow> Inr R_Empty | Some x \<Rightarrow> http_error 500 x)"

text \<open>\<^verbatim>\<open>io.ReadAll\<close> and \<^verbatim>\<open>proto.Unmarshal\<close> with the fixed texts of the handlers of users.\<close>

definition decode_users :: "(byte list \<Rightarrow> 'm result) \<Rightarrow> http_request \<Rightarrow> http_fail + 'm" where
  "decode_users unmarshal rq =
     (case ReadAll rq of
        Inl _ \<Rightarrow> Inl (HttpError 400 ''Failed to read request body'')
      | Inr body \<Rightarrow>
          (case unmarshal body of
             Inl _ \<Rightarrow> Inl (HttpError 400 ''Failed to decode user'')
           | Inr m \<Rightarrow> Inr m))"

definition rest_SyncUser :: "'w node_env \<Rightarrow> codec \<Rightarrow> http_request \<Rightarrow> 'w rest_handler" where
  "rest_SyncUser e cd rq n =
     (case decode_users (cd_User cd) rq of
        Inl f \<Rightarrow> Some (Inl f, n)
      | Inr user \<Rightarrow>
          (if u_Email user = [] then Some (Inl (HttpError 400 (Error_text email_required)), n)
           else case nd_backend n of
                  None \<Rightarrow> Some (nil_backend, n)
                | Some p \<Rightarrow>
                    (case be_SyncUser e user (nd_heap n ! p) (nd_w n) of
                       (err, b, w) \<Rightarrow> Some (rest_done err, put_backend p b w n))))"

definition rest_SyncUsers :: "'w node_env \<Rightarrow> codec \<Rightarrow> http_request \<Rightarrow> 'w rest_handler" where
  "rest_SyncUsers e cd rq n =
     (case decode_users (cd_Users cd) rq of
        Inl f \<Rightarrow> Some (Inl f, n)
      | Inr users \<Rightarrow>
          (case nd_backend n of
             None \<Rightarrow> Some (nil_backend, n)
           | Some p \<Rightarrow>
               map_option (\<lambda>(err, b, w). (rest_done err, put_backend p b w n))
                 (be_SyncUsers e users (nd_heap n ! p) (nd_w n))))"

definition rest_SyncUsersChunked :: "'w node_env \<Rightarrow> codec \<Rightarrow> http_request \<Rightarrow> 'w rest_handler" where
  "rest_SyncUsersChunked e cd rq n =
     (case rest_chunk_users (cd_UsersChunk cd) (hq_fin rq) (hq_data rq) of
        None \<Rightarrow> None
      | Some (Inl f) \<Rightarrow> Some (Inl f, n)
      | Some (Inr users) \<Rightarrow>
          (case nd_backend n of
             None \<Rightarrow> Some (nil_backend, n)
           | Some p \<Rightarrow>
               (case ApplyChunkedUserUpdate e users (nd_heap n ! p) (nd_w n) of
                  (err, b, w) \<Rightarrow> Some (rest_done err, put_backend p b w n))))"

text \<open>
  \<^verbatim>\<open>GetLogs\<close> over what its \<^verbatim>\<open>select\<close> receives. A failed write ends it like the end of the client; the
  reply holds the lines that were written.
\<close>

definition rest_GetLogs :: "log_event list \<Rightarrow> 'w rest_handler" where
  "rest_GetLogs evs n =
     (case nd_backend n of
        None \<Rightarrow> Some (nil_backend, n)
      | Some p \<Rightarrow>
          (case log_stream evs of
             (ls, None) \<Rightarrow> None
           | (ls, Some _) \<Rightarrow> Some (Inr (R_Logs ls), n)))"

section \<open>Middleware\<close>

type_synonym 'w middleware = "'w rest_handler \<Rightarrow> 'w rest_handler"

definition rest_validateApiKey :: "'w node_env \<Rightarrow> http_request \<Rightarrow> 'w middleware" where
  "rest_validateApiKey e rq next n =
     (if hq_key rq = [] then Some (Inl (HttpError 401 ''missing x-api-key header''), n)
      else case en_uuid e (hq_key rq) of
             Inl err \<Rightarrow> Some (Inl (HttpError 422 ''invalid api key format: must be a valid UUID''), n)
           | Inr key \<Rightarrow>
               (if key \<noteq> ApiKey n then Some (Inl (HttpError 403 ''api key mismatch''), n) else next n))"

definition checkBackendMiddleware :: "'w middleware" where
  "checkBackendMiddleware next n =
     (case current n of
        None \<Rightarrow> Some (Inl (HttpError 500 ''backend not initialized''), n)
      | Some back \<Rightarrow>
          (if \<not> be_Started back then Some (Inl (HttpError 503 ''core is not started yet''), n) else next n))"

text \<open>
  The status that the wrapped writer has seen: none (0) where the handler wrote nothing, which only
  happens for a stream of logs without a line.
\<close>

fun http_status :: "http_fail + reply \<Rightarrow> nat" where
  "http_status (Inl (HttpError code _)) = code"
| "http_status (Inl (HttpPanic _)) = 0"
| "http_status (Inr (R_Logs [])) = 0"
| "http_status (Inr _) = 200"

definition trackSuccessfulRequest :: "'w node_env \<Rightarrow> 'w middleware" where
  "trackSuccessfulRequest e next n =
     map_option (\<lambda>(r, n'). (r, if 200 \<le> http_status r \<and> http_status r < 300 then NewRequest e n' else n'))
       (next n)"

section \<open>The router\<close>

datatype endpoint =
    E_Start | E_Info | E_Stop | E_Logs | E_Stats | E_Latency | E_Online | E_OnlineIp | E_Backend
  | E_System | E_SyncUser | E_SyncUsers | E_SyncUsersChunked | E_Rules | E_AddRule | E_RemoveRule
  | E_Balancer | E_Override | E_Test

text \<open>The routes: the method, the path and whether the route is in the group that checks the backend.\<close>

fun rest_route :: "endpoint \<Rightarrow> string \<times> string \<times> bool" where
  "rest_route E_Start = (''POST'', ''/start'', False)"
| "rest_route E_Info = (''GET'', ''/info'', False)"
| "rest_route E_Stop = (''PUT'', ''/stop'', True)"
| "rest_route E_Logs = (''GET'', ''/logs'', True)"
| "rest_route E_Stats = (''GET'', ''/stats/'', True)"
| "rest_route E_Latency = (''GET'', ''/stats/latency'', True)"
| "rest_route E_Online = (''GET'', ''/stats/user/online'', True)"
| "rest_route E_OnlineIp = (''GET'', ''/stats/user/online_ip'', True)"
| "rest_route E_Backend = (''GET'', ''/stats/backend'', True)"
| "rest_route E_System = (''GET'', ''/stats/system'', True)"
| "rest_route E_SyncUser = (''PUT'', ''/user/sync'', True)"
| "rest_route E_SyncUsers = (''PUT'', ''/users/sync'', True)"
| "rest_route E_SyncUsersChunked = (''PUT'', ''/users/sync/chunked'', True)"
| "rest_route E_Rules = (''GET'', ''/routing/rules'', True)"
| "rest_route E_AddRule = (''PUT'', ''/routing/rules'', True)"
| "rest_route E_RemoveRule = (''DELETE'', ''/routing/rules'', True)"
| "rest_route E_Balancer = (''POST'', ''/routing/balancer'', True)"
| "rest_route E_Override = (''PUT'', ''/routing/balancer/override'', True)"
| "rest_route E_Test = (''POST'', ''/routing/test'', True)"

definition rest_private :: "endpoint \<Rightarrow> bool" where
  "rest_private ep = snd (snd (rest_route ep))"

fun rest_handler_of ::
  "'w node_env \<Rightarrow> codec \<Rightarrow> log_event list \<Rightarrow> http_request \<Rightarrow> endpoint \<Rightarrow> 'w rest_handler" where
  "rest_handler_of e cd evs rq E_Start = rest_Start e cd rq"
| "rest_handler_of e cd evs rq E_Info = rest_Base"
| "rest_handler_of e cd evs rq E_Stop = rest_Stop e"
| "rest_handler_of e cd evs rq E_Logs = rest_GetLogs evs"
| "rest_handler_of e cd evs rq E_Stats = rest_GetStats e cd rq"
| "rest_handler_of e cd evs rq E_Latency = rest_GetOutboundsLatency e cd rq"
| "rest_handler_of e cd evs rq E_Online = rest_GetUserOnlineStat e cd rq"
| "rest_handler_of e cd evs rq E_OnlineIp = rest_GetUserOnlineIpListStats e cd rq"
| "rest_handler_of e cd evs rq E_Backend = rest_GetBackendStats e"
| "rest_handler_of e cd evs rq E_System = rest_GetSystemStats e"
| "rest_handler_of e cd evs rq E_SyncUser = rest_SyncUser e cd rq"
| "rest_handler_of e cd evs rq E_SyncUsers = rest_SyncUsers e cd rq"
| "rest_handler_of e cd evs rq E_SyncUsersChunked = rest_SyncUsersChunked e cd rq"
| "rest_handler_of e cd evs rq E_Rules = rest_ListRoutingRules e"
| "rest_handler_of e cd evs rq E_AddRule = rest_AddRoutingRule e cd rq"
| "rest_handler_of e cd evs rq E_RemoveRule = rest_RemoveRoutingRule e cd rq"
| "rest_handler_of e cd evs rq E_Balancer = rest_GetBalancerInfo e cd rq"
| "rest_handler_of e cd evs rq E_Override = rest_OverrideBalancerTarget e cd rq"
| "rest_handler_of e cd evs rq E_Test = rest_TestRoute e cd rq"

text \<open>
  The router of chi applies the middleware of \<^verbatim>\<open>Use\<close> in the order of the calls, the first outermost, those
  of a group around the handlers of the group; its \<^verbatim>\<open>Recoverer\<close> answers a panic with status 500.
\<close>

definition recovered ::
  "((http_fail + reply) \<times> 'w Node) option \<Rightarrow> ((http_fail + reply) \<times> 'w Node) option" where
  "recovered o_result =
     map_option (\<lambda>(r, n). (case r of Inl (HttpPanic _) \<Rightarrow> Inl (HttpError 500 []) | _ \<Rightarrow> r, n)) o_result"

definition chi_laws :: "('w middleware list \<Rightarrow> 'w middleware) \<Rightarrow> 'w middleware \<Rightarrow> bool" where
  "chi_laws use recoverer \<longleftrightarrow>
     (\<forall>h. use [] h = h) \<and> (\<forall>m ms h. use (m # ms) h = m (use ms h)) \<and>
     (\<forall>h n. recoverer h n = recovered (h n))"

definition setRouter ::
  "('w middleware list \<Rightarrow> 'w middleware) \<Rightarrow> 'w middleware \<Rightarrow> 'w node_env \<Rightarrow> codec \<Rightarrow> log_event list \<Rightarrow>
   http_request \<Rightarrow> endpoint \<Rightarrow> 'w rest_handler" where
  "setRouter use recoverer e cd evs rq ep =
     use [rest_validateApiKey e rq, trackSuccessfulRequest e, recoverer]
       (use (if rest_private ep then [checkBackendMiddleware] else []) (rest_handler_of e cd evs rq ep))"

end
