(* ===== verification/ServerProps.thy ===== *)
theory ServerProps
  imports RestServer WireGuardProps XrayBackendProps
begin

text \<open>
  The two servers: no handler runs without the API key or, where it needs one, without a running backend,
  and both servers answer the same calls alike.
\<close>

section \<open>Authorisation\<close>

definition rpc_authorised :: "'w node_env \<Rightarrow> metadata \<Rightarrow> 'w Node \<Rightarrow> bool" where
  "rpc_authorised e md n \<longleftrightarrow>
     (case md of
        None \<Rightarrow> False
      | Some m \<Rightarrow> (case m api_key_header of
                     Some (key # _) \<Rightarrow> en_uuid e key = Inr (ApiKey n)
                   | _ \<Rightarrow> False))"

definition rest_authorised :: "'w node_env \<Rightarrow> http_request \<Rightarrow> 'w Node \<Rightarrow> bool" where
  "rest_authorised e rq n \<longleftrightarrow> hq_key rq \<noteq> [] \<and> en_uuid e (hq_key rq) = Inr (ApiKey n)"

definition running :: "'w Node \<Rightarrow> bool" where
  "running n \<longleftrightarrow> (case current n of None \<Rightarrow> False | Some b \<Rightarrow> be_Started b)"

definition auth_codes :: "grpc_code set" where
  "auth_codes = {Unauthenticated, InvalidArgument, PermissionDenied}"

text \<open>The call is refused with such a code or status and leaves the node as it is.\<close>

definition unary_refusal :: "grpc_code set \<Rightarrow> 'w Node \<Rightarrow> (reply result \<times> 'w Node) option \<Rightarrow> bool" where
  "unary_refusal codes n r \<longleftrightarrow> (\<exists>err. r = Some (Inl err, n) \<and> status_code err \<in> codes)"

definition stream_refusal :: "grpc_code set \<Rightarrow> 'w Node \<Rightarrow> (go_error option \<times> 'w Node) option \<Rightarrow> bool" where
  "stream_refusal codes n r \<longleftrightarrow> (\<exists>err. r = Some (Some err, n) \<and> status_code err \<in> codes)"

definition http_refusal :: "nat set \<Rightarrow> 'w Node \<Rightarrow> ((http_fail + reply) \<times> 'w Node) option \<Rightarrow> bool" where
  "http_refusal codes n r \<longleftrightarrow> (\<exists>code t. r = Some (Inl (HttpError code t), n) \<and> code \<in> codes)"

lemma status_code_status_Error [simp]: "status_code (status_Error c s) = c"
  by (simp add: status_Error_def)

lemma rpc_validateApiKey_None: "rpc_validateApiKey e md n = None \<longleftrightarrow> rpc_authorised e md n"
  by (auto simp: rpc_validateApiKey_def rpc_authorised_def
      split: option.splits list.splits sum.splits)

lemma rpc_validateApiKey_Some:
  "rpc_validateApiKey e md n = Some err \<Longrightarrow> status_code err \<in> auth_codes"
  by (auto simp: rpc_validateApiKey_def auth_codes_def
      split: option.splits list.splits sum.splits if_splits)

lemma rpc_unauthorised:
  "\<not> rpc_authorised e md n \<Longrightarrow>
   \<exists>err. rpc_validateApiKey e md n = Some err \<and> status_code err \<in> auth_codes"
  using rpc_validateApiKey_None [of e md n] rpc_validateApiKey_Some [of e md n] by blast

lemma checkBackendStatus_None: "checkBackendStatus n = None \<longleftrightarrow> running n"
  by (auto simp: checkBackendStatus_def running_def split: option.splits)

lemma checkBackendStatus_Some:
  "\<not> running n \<Longrightarrow> \<exists>err. checkBackendStatus n = Some err \<and> status_code err = Unavailable"
  by (auto simp: checkBackendStatus_def running_def split: option.splits)

lemma chain_simps:
  assumes "chain_law chain"
  shows "chain [] md info h = h" "chain (i # is) md info h = i md info (chain is md info h)"
  using assms by (simp_all add: chain_law_def)

lemma unary_refused:
  assumes "chain_law chain" "\<not> rpc_authorised e md n"
  shows "unary_refusal auth_codes n (ConditionalMiddleware chain e md info h n)"
  using rpc_unauthorised [OF assms(2)]
  by (auto simp: unary_refusal_def ConditionalMiddleware_def chain_simps [OF assms(1)] LoggingInterceptor_def
      validateApiKeyMiddleware_def)

lemma unary_unavailable:
  assumes "chain_law chain" "rpc_authorised e md n" "info \<in> set backendMethods" "\<not> running n"
  shows "unary_refusal {Unavailable} n (ConditionalMiddleware chain e md info h n)"
  using checkBackendStatus_Some [OF assms(4)] assms(2,3)
  by (auto simp: unary_refusal_def ConditionalMiddleware_def chain_simps [OF assms(1)] LoggingInterceptor_def
      validateApiKeyMiddleware_def CheckBackendMiddleware_def rpc_validateApiKey_None [symmetric])

lemma unary_served:
  assumes "chain_law chain" "rpc_authorised e md n" "info \<in> set backendMethods \<longrightarrow> running n"
  shows "ConditionalMiddleware chain e md info h n = LoggingInterceptor e md info h n"
  using assms(2,3)
  by (auto simp: unary_refusal_def ConditionalMiddleware_def chain_simps [OF assms(1)] LoggingInterceptor_def
      validateApiKeyMiddleware_def CheckBackendMiddleware_def rpc_validateApiKey_None [symmetric]
      checkBackendStatus_None [symmetric])

lemma stream_refused:
  assumes "chain_law chain" "\<not> rpc_authorised e md n"
  shows "stream_refusal auth_codes n (ConditionalStreamMiddleware chain e md info h n)"
  using rpc_unauthorised [OF assms(2)]
  by (auto simp: stream_refusal_def ConditionalStreamMiddleware_def chain_simps [OF assms(1)] LoggingStreamInterceptor_def
      validateApiKeyStreamMiddleware_def)

lemma stream_unavailable:
  assumes "chain_law chain" "rpc_authorised e md n" "info \<in> set backendMethods" "\<not> running n"
  shows "stream_refusal {Unavailable} n (ConditionalStreamMiddleware chain e md info h n)"
  using checkBackendStatus_Some [OF assms(4)] assms(2,3)
  by (auto simp: stream_refusal_def ConditionalStreamMiddleware_def chain_simps [OF assms(1)] LoggingStreamInterceptor_def
      validateApiKeyStreamMiddleware_def CheckBackendStreamMiddleware_def rpc_validateApiKey_None [symmetric])

lemma chi_simps:
  assumes "chi_laws use recoverer"
  shows "use [] h = h" "use (m # ms) h = m (use ms h)" "recoverer h n = recovered (h n)"
  using assms by (simp_all add: chi_laws_def)

lemma recovered_error [simp]:
  "recovered (Some (Inl (HttpError code t), n)) = Some (Inl (HttpError code t), n)"
  "recovered None = None" "recovered (Some (Inr r, n)) = Some (Inr r, n)"
  "recovered (Some (Inl (HttpPanic t), n)) = Some (Inl (HttpError 500 []), n)"
  by (simp_all add: recovered_def)

lemma rest_chain:
  assumes "chi_laws use recoverer"
  shows "setRouter use recoverer e cd evs rq ep n =
    rest_validateApiKey e rq (trackSuccessfulRequest e (\<lambda>n. recovered
      ((if rest_private ep then checkBackendMiddleware (rest_handler_of e cd evs rq ep)
        else rest_handler_of e cd evs rq ep) n))) n"
proof -
  have "recoverer h = (\<lambda>n. recovered (h n))" for h
    using chi_simps(3) [OF assms] by blast
  then show ?thesis by (simp add: setRouter_def chi_simps(1,2) [OF assms])
qed

lemma rest_refused:
  assumes "chi_laws use recoverer" "\<not> rest_authorised e rq n"
  shows "http_refusal {401, 403, 422} n (setRouter use recoverer e cd evs rq ep n)"
  using assms(2)
  by (auto simp: http_refusal_def rest_chain [OF assms(1)] rest_validateApiKey_def rest_authorised_def split: sum.splits)

lemma rest_served:
  assumes "chi_laws use recoverer" "rest_authorised e rq n" "rest_private ep \<longrightarrow> running n"
  shows "setRouter use recoverer e cd evs rq ep n =
    trackSuccessfulRequest e (\<lambda>n. recovered (rest_handler_of e cd evs rq ep n)) n"
  using assms(2,3)
  by (auto simp: http_refusal_def rest_chain [OF assms(1)] rest_validateApiKey_def rest_authorised_def
      trackSuccessfulRequest_def checkBackendMiddleware_def running_def split: option.splits)

lemma rest_unavailable:
  assumes "chi_laws use recoverer" "rest_authorised e rq n" "rest_private ep" "\<not> running n"
  shows "http_refusal {500, 503} n (setRouter use recoverer e cd evs rq ep n)"
  using assms(2-4)
  by (auto simp: http_refusal_def rest_chain [OF assms(1)] rest_validateApiKey_def rest_authorised_def
      trackSuccessfulRequest_def checkBackendMiddleware_def running_def split: option.splits)

section \<open>The same calls on both servers\<close>

text \<open>The unary calls that both servers offer, with their decoded requests.\<close>

datatype call =
    K_Start BackendMsg | K_Stop | K_Info
  | K_Stats StatRequest | K_Online StatRequest | K_OnlineIp StatRequest
  | K_Backend | K_System | K_Latency string | K_SyncUsers "User list"
  | K_Rules | K_Balancer string | K_Test TestRouteRequest
  | K_AddRule AddRoutingRuleRequest | K_RemoveRule string | K_Override OverrideBalancerTargetRequest

fun rpc_dispatch :: "'w node_env \<Rightarrow> call \<Rightarrow> 'w handler" where
  "rpc_dispatch e (K_Start data) = rpc_Start e data"
| "rpc_dispatch e K_Stop = rpc_Stop e"
| "rpc_dispatch e K_Info = rpc_GetBaseInfo"
| "rpc_dispatch e (K_Stats r) = rpc_GetStats e r"
| "rpc_dispatch e (K_Online r) = rpc_GetUserOnlineStats e r"
| "rpc_dispatch e (K_OnlineIp r) = rpc_GetUserOnlineIpListStats e r"
| "rpc_dispatch e K_Backend = rpc_GetBackendStats e"
| "rpc_dispatch e K_System = rpc_GetSystemStats e"
| "rpc_dispatch e (K_Latency name) = rpc_GetOutboundsLatency e name"
| "rpc_dispatch e (K_SyncUsers users) = rpc_SyncUsers e users"
| "rpc_dispatch e K_Rules = rpc_ListRoutingRules e"
| "rpc_dispatch e (K_Balancer tag) = rpc_GetBalancerInfo e tag"
| "rpc_dispatch e (K_Test r) = rpc_TestRoute e r"
| "rpc_dispatch e (K_AddRule r) = rpc_AddRoutingRule e r"
| "rpc_dispatch e (K_RemoveRule tag) = rpc_RemoveRoutingRule e tag"
| "rpc_dispatch e (K_Override r) = rpc_OverrideBalancerTarget e r"

fun rpc_method :: "call \<Rightarrow> string" where
  "rpc_method (K_Start data) = service_prefix @ ''Start''"
| "rpc_method K_Stop = service_prefix @ ''Stop''"
| "rpc_method K_Info = service_prefix @ ''GetBaseInfo''"
| "rpc_method (K_Stats r) = service_prefix @ ''GetStats''"
| "rpc_method (K_Online r) = service_prefix @ ''GetUserOnlineStats''"
| "rpc_method (K_OnlineIp r) = service_prefix @ ''GetUserOnlineIpListStats''"
| "rpc_method K_Backend = service_prefix @ ''GetBackendStats''"
| "rpc_method K_System = service_prefix @ ''GetSystemStats''"
| "rpc_method (K_Latency name) = service_prefix @ ''GetOutboundsLatency''"
| "rpc_method (K_SyncUsers users) = service_prefix @ ''SyncUsers''"
| "rpc_method K_Rules = service_prefix @ ''ListRoutingRules''"
| "rpc_method (K_Balancer tag) = service_prefix @ ''GetBalancerInfo''"
| "rpc_method (K_Test r) = service_prefix @ ''TestRoute''"
| "rpc_method (K_AddRule r) = service_prefix @ ''AddRoutingRule''"
| "rpc_method (K_RemoveRule tag) = service_prefix @ ''RemoveRoutingRule''"
| "rpc_method (K_Override r) = service_prefix @ ''OverrideBalancerTarget''"

fun call_endpoint :: "call \<Rightarrow> endpoint" where
  "call_endpoint (K_Start data) = E_Start"
| "call_endpoint K_Stop = E_Stop"
| "call_endpoint K_Info = E_Info"
| "call_endpoint (K_Stats r) = E_Stats"
| "call_endpoint (K_Online r) = E_Online"
| "call_endpoint (K_OnlineIp r) = E_OnlineIp"
| "call_endpoint K_Backend = E_Backend"
| "call_endpoint K_System = E_System"
| "call_endpoint (K_Latency name) = E_Latency"
| "call_endpoint (K_SyncUsers users) = E_SyncUsers"
| "call_endpoint K_Rules = E_Rules"
| "call_endpoint (K_Balancer tag) = E_Balancer"
| "call_endpoint (K_Test r) = E_Test"
| "call_endpoint (K_AddRule r) = E_AddRule"
| "call_endpoint (K_RemoveRule tag) = E_RemoveRule"
| "call_endpoint (K_Override r) = E_Override"

text \<open>The body of the HTTP request decodes to the request of the call.\<close>

fun decodes :: "codec \<Rightarrow> http_request \<Rightarrow> call \<Rightarrow> bool" where
  "decodes cd rq (K_Start data) \<longleftrightarrow> ReadProtoBody (cd_Backend cd) rq = Inr data"
| "decodes cd rq (K_Stats r) \<longleftrightarrow> ReadProtoBody (cd_StatRequest cd) rq = Inr r"
| "decodes cd rq (K_Online r) \<longleftrightarrow> ReadProtoBody (cd_StatRequest cd) rq = Inr r"
| "decodes cd rq (K_OnlineIp r) \<longleftrightarrow> ReadProtoBody (cd_StatRequest cd) rq = Inr r"
| "decodes cd rq (K_Latency name) \<longleftrightarrow> ReadProtoBody (cd_LatencyRequest cd) rq = Inr name"
| "decodes cd rq (K_SyncUsers users) \<longleftrightarrow> ReadProtoBody (cd_Users cd) rq = Inr users"
| "decodes cd rq (K_Balancer tag) \<longleftrightarrow> ReadProtoBody (cd_Balancer cd) rq = Inr tag"
| "decodes cd rq (K_Test r) \<longleftrightarrow> ReadProtoBody (cd_TestRoute cd) rq = Inr r"
| "decodes cd rq (K_AddRule r) \<longleftrightarrow> ReadProtoBody (cd_AddRule cd) rq = Inr r"
| "decodes cd rq (K_RemoveRule tag) \<longleftrightarrow> ReadProtoBody (cd_RemoveRule cd) rq = Inr tag"
| "decodes cd rq (K_Override r) \<longleftrightarrow> ReadProtoBody (cd_Override cd) rq = Inr r"
| "decodes cd rq _ \<longleftrightarrow> True"

lemma decode_users_read: "ReadProtoBody f rq = Inr m \<Longrightarrow> decode_users f rq = Inr m"
  by (cases "ReadAll rq") (simp_all add: ReadProtoBody_def decode_users_def)

text \<open>The outcomes of the two handlers: the same node, the same reply, or an error on both sides.\<close>

fun refusal :: "http_fail \<Rightarrow> bool" where
  "refusal (HttpError code t) \<longleftrightarrow> 400 \<le> code"
| "refusal (HttpPanic t) \<longleftrightarrow> False"

fun failed :: "http_fail \<Rightarrow> bool" where
  "failed (HttpError code t) \<longleftrightarrow> 400 \<le> code"
| "failed (HttpPanic t) \<longleftrightarrow> True"

definition same_outcome ::
  "(http_fail \<Rightarrow> bool) \<Rightarrow> (reply result \<times> 'w Node) option \<Rightarrow> ((http_fail + reply) \<times> 'w Node) option \<Rightarrow> bool" where
  "same_outcome P = rel_option (rel_prod (rel_sum (\<lambda>err f. P f) (=)) (=))"

lemma GrpcCodeToHTTP_error: "c \<noteq> OK \<Longrightarrow> 400 \<le> GrpcCodeToHTTP c"
  by (cases c) (simp_all add: GrpcCodeToHTTP_def)

lemma InterceptNotFound_code: "status_code err \<noteq> OK \<Longrightarrow> status_code (InterceptNotFound err) \<noteq> OK"
  by (simp add: InterceptNotFound_def)

lemma InterceptNotFound_code_back: "status_code (InterceptNotFound err) \<noteq> OK \<Longrightarrow>
  400 \<le> GrpcCodeToHTTP (status_code (InterceptNotFound err))"
  by (rule GrpcCodeToHTTP_error)

text \<open>A status error never has the code \<open>OK\<close>: for it, \<^verbatim>\<open>status.Error\<close> returns nil.\<close>

definition fair :: "'a result \<Rightarrow> bool" where
  "fair r \<longleftrightarrow> (case r of Inl err \<Rightarrow> status_code err \<noteq> OK | Inr _ \<Rightarrow> True)"

definition no_ok_error :: "(reply result \<times> 'w Node) option \<Rightarrow> bool" where
  "no_ok_error r \<longleftrightarrow> (case r of None \<Rightarrow> True | Some (a, n) \<Rightarrow> fair a)"

lemma no_ok_error_simps [simp]: "no_ok_error None" "no_ok_error (Some (a, n)) \<longleftrightarrow> fair a"
  "fair (Inl err) \<longleftrightarrow> status_code err \<noteq> OK" "fair (Inr x)"
  by (simp_all add: no_ok_error_def fair_def)

lemma http_error_failed: "400 \<le> code \<Longrightarrow> \<exists>f. http_error code err = Inl f \<and> failed f"
  by (simp add: http_error_def)

lemma rel_sum_http: "400 \<le> code \<Longrightarrow> rel_sum (\<lambda>err f. failed f) (=) (Inl x) (http_error code err)"
  by (simp add: http_error_def)

lemma status_error_sum:
  "status_code err \<noteq> OK \<Longrightarrow> rel_sum (\<lambda>err f. failed f) (=) (Inl x) (status_error err)"
  by (simp add: status_error_def rel_sum_http GrpcCodeToHTTP_error)

lemma rest_reply_sum:
  "fair (map_sum InterceptNotFound g r) \<Longrightarrow>
   rel_sum (\<lambda>err f. failed f) (=) (map_sum InterceptNotFound g r) (rest_reply g r)"
  by (cases r) (simp_all add: rest_reply_def status_error_sum)

lemma same_outcome_simps [simp]:
  "same_outcome P None None"
  "same_outcome P (Some (a, n)) (Some (b, m)) \<longleftrightarrow> rel_sum (\<lambda>err f. P f) (=) a b \<and> n = m"
  by (simp_all add: same_outcome_def)

lemma rest_done_sum:
  "rel_sum (\<lambda>err f. failed f) (=) (empty_reply err) (rest_done err)"
  by (cases err) (simp_all add: empty_reply_def rest_done_def rel_sum_http)

lemma routing_done_sum:
  "fair (empty_reply err) \<Longrightarrow> rel_sum (\<lambda>err f. failed f) (=) (empty_reply err) (routing_done err)"
  "fair (empty_reply (map_option InterceptNotFound err)) \<Longrightarrow>
   rel_sum (\<lambda>err f. failed f) (=) (empty_reply (map_option InterceptNotFound err)) (routing_done err)"
  by (cases err; simp add: empty_reply_def routing_done_def writeRoutingError_def status_error_sum
      InterceptNotFound_code)+

lemma backend_reply_sum:
  "fair (map_sum id g r) \<Longrightarrow> rel_sum (\<lambda>err f. failed f) (=) (map_sum id g r)
     (case r of Inl err \<Rightarrow> status_error err | Inr s \<Rightarrow> Inr (g s))"
  by (cases r) (simp_all add: status_error_sum)

lemma not_xray_code: "asRoutingBackend b = Inl err \<Longrightarrow> status_code (InterceptNotFound err) \<noteq> OK"
  by (cases b rule: asRoutingBackend.cases) (auto simp: InterceptNotFound_def)

lemma handlers_agree:
  assumes "decodes cd rq c" "nd_backend n \<noteq> None" "no_ok_error (rpc_dispatch e c n)"
  shows "same_outcome failed (rpc_dispatch e c n) (rest_handler_of e cd evs rq (call_endpoint c) n)"
proof -
  obtain p where p: "nd_backend n = Some p" using assms(2) by blast
  note base = p rpc_backend_def with_body_def rest_reply_sum rest_done_sum routing_done_sum
    backend_reply_sum rpc_routingBackend_def rest_routingBackend_def current_def writeRoutingError_def
    status_error_sum not_xray_code
  show ?thesis
  proof (cases c)
    case (K_Start data)
    then show ?thesis using assms(1)
      by (simp add: rpc_Start_def rest_Start_def Let_def rel_sum_http split: option.split prod.split)
  next
    case (K_Stats r)
    then show ?thesis using assms(1,3)
      by (simp add: base rpc_GetStats_def rest_GetStats_def split: prod.splits)
  next
    case (K_Online r)
    then show ?thesis using assms(1,3)
      by (simp add: base rpc_GetUserOnlineStats_def rest_GetUserOnlineStat_def)
  next
    case (K_OnlineIp r)
    then show ?thesis using assms(1,3)
      by (simp add: base rpc_GetUserOnlineIpListStats_def rest_GetUserOnlineIpListStats_def)
  next
    case K_Backend
    then show ?thesis using assms(3)
      by (simp add: base rpc_GetBackendStats_def rest_GetBackendStats_def split: prod.splits)
  next
    case K_System
    then show ?thesis
      by (simp add: rpc_GetSystemStats_def rest_GetSystemStats_def split: prod.split)
  next
    case (K_Latency name)
    then show ?thesis using assms(1)
      by (simp add: base rpc_GetOutboundsLatency_def rest_GetOutboundsLatency_def rel_sum_http
          split: sum.split)
  next
    case (K_SyncUsers users)
    then show ?thesis using assms(1)
      by (cases "be_SyncUsers e users (nd_heap n ! p) (nd_w n)")
         (auto simp: base rpc_SyncUsers_def rest_SyncUsers_def decode_users_read)
  next
    case K_Rules
    then show ?thesis using assms(3)
      by (simp add: base rpc_ListRoutingRules_def rest_ListRoutingRules_def split: sum.splits)
  next
    case (K_Balancer tag)
    then show ?thesis using assms(1,3)
      by (simp add: base rpc_GetBalancerInfo_def rest_GetBalancerInfo_def split: sum.splits)
  next
    case (K_Test r)
    then show ?thesis using assms(1,3)
      by (simp add: base rpc_TestRoute_def rest_TestRoute_def split: sum.splits)
  next
    case (K_AddRule r)
    then show ?thesis using assms(1,3)
      by (simp add: base rpc_AddRoutingRule_def rest_AddRoutingRule_def split: sum.splits prod.splits)
  next
    case (K_RemoveRule tag)
    then show ?thesis using assms(1,3)
      by (simp add: base rpc_RemoveRoutingRule_def rest_RemoveRoutingRule_def split: sum.splits prod.splits)
  next
    case (K_Override r)
    then show ?thesis using assms(1,3)
      by (simp add: base rpc_OverrideBalancerTarget_def rest_OverrideBalancerTarget_def
          split: sum.splits prod.splits)
  qed (simp_all add: rpc_Stop_def rest_Stop_def rpc_GetBaseInfo_def rest_Base_def)
qed

lemma open_handlers_agree:
  assumes "decodes cd rq c" "\<not> rest_private (call_endpoint c)"
  shows "same_outcome failed (rpc_dispatch e c n) (rest_handler_of e cd evs rq (call_endpoint c) n)"
  using assms
  by (cases c)
     (simp_all add: rest_private_def rpc_Start_def rest_Start_def rpc_GetBaseInfo_def rest_Base_def
       Let_def rel_sum_http split: option.split prod.split)

lemma dispatch_no_logs: "rpc_dispatch e c n = Some (Inr r, n') \<Longrightarrow> r \<noteq> R_Logs ls"
proof (cases c)
  case (K_Start data)
  then show "rpc_dispatch e c n = Some (Inr r, n') \<Longrightarrow> r \<noteq> R_Logs ls"
    by (auto simp: rpc_Start_def Let_def split: option.splits)
qed (auto simp: rpc_Stop_def rpc_GetBaseInfo_def rpc_GetStats_def rpc_GetUserOnlineStats_def
    rpc_GetUserOnlineIpListStats_def rpc_GetBackendStats_def rpc_GetSystemStats_def
    rpc_GetOutboundsLatency_def rpc_SyncUsers_def rpc_ListRoutingRules_def rpc_GetBalancerInfo_def
    rpc_TestRoute_def rpc_AddRoutingRule_def rpc_RemoveRoutingRule_def rpc_OverrideBalancerTarget_def
    empty_reply_def map_sum_def split: sum.splits prod.splits option.splits)

lemma http_status_reply: "\<forall>ls. r \<noteq> R_Logs ls \<Longrightarrow> http_status (Inr r) = 200"
  by (cases r) auto

text \<open>What the outer middleware adds keeps the outcomes alike.\<close>

lemma outer_agree:
  assumes "same_outcome failed a b" "\<And>r n' ls. a = Some (Inr r, n') \<Longrightarrow> r \<noteq> R_Logs ls"
    and "h n = a" "k n = b"
  shows "same_outcome refusal (LoggingInterceptor e md info h n)
    (trackSuccessfulRequest e (\<lambda>n. recovered (k n)) n)"
proof (cases a)
  case None
  then have "b = None" using assms(1) by (simp add: same_outcome_def)
  then show ?thesis
    using None assms(3,4) by (simp add: LoggingInterceptor_def trackSuccessfulRequest_def)
next
  case (Some x)
  then obtain r n' where a: "a = Some (r, n')" by (cases x) simp
  obtain s m where "b = Some (s, m)"
    using assms(1) a by (cases b) (auto simp: same_outcome_def)
  with a assms(1) have b: "b = Some (s, n')" and rel: "rel_sum (\<lambda>err f. failed f) (=) r s"
    by simp_all
  show ?thesis
  proof (cases r)
    case (Inl err)
    then obtain f where "s = Inl f" "failed f" using rel by (cases s) simp_all
    then show ?thesis using a b Inl assms(3,4)
      by (cases f) (simp_all add: LoggingInterceptor_def trackSuccessfulRequest_def)
  next
    case (Inr reply)
    then have "s = Inr reply" using rel by (cases s) simp_all
    moreover have "http_status (Inr reply) = 200"
      using assms(2) a Inr by (intro http_status_reply) blast
    ultimately show ?thesis using a b Inr assms(3,4)
      by (simp add: LoggingInterceptor_def trackSuccessfulRequest_def)
  qed
qed

lemma same_gate:
  "\<forall>name. c \<noteq> K_Latency name \<Longrightarrow>
   rpc_method c \<in> set backendMethods \<longleftrightarrow> rest_private (call_endpoint c)"
  by (cases c) (auto simp: backendMethods_def rest_private_def)

text \<open>
  C34. Safety of both servers. A call without the API key changes nothing and is refused: over gRPC with
  one of the codes \<^verbatim>\<open>Unauthenticated\<close>, \<^verbatim>\<open>InvalidArgument\<close> and \<^verbatim>\<open>PermissionDenied\<close>, over HTTP with 401, 403
  or 422. A call with the key that needs a backend, while none is running, changes nothing and is
  refused too.
\<close>

theorem unauthorised_calls_refused:
  assumes "chain_law chain" "chain_law schain" "chi_laws use recoverer"
  shows "(\<not> rpc_authorised e md n \<longrightarrow>
      unary_refusal auth_codes n (ConditionalMiddleware chain e md info h n) \<and>
      stream_refusal auth_codes n (ConditionalStreamMiddleware schain e md info sh n)) \<and>
    (\<not> rest_authorised e rq n \<longrightarrow>
      http_refusal {401, 403, 422} n (setRouter use recoverer e cd evs rq ep n)) \<and>
    (rpc_authorised e md n \<and> info \<in> set backendMethods \<and> \<not> running n \<longrightarrow>
      unary_refusal {Unavailable} n (ConditionalMiddleware chain e md info h n) \<and>
      stream_refusal {Unavailable} n (ConditionalStreamMiddleware schain e md info sh n)) \<and>
    (rest_authorised e rq n \<and> rest_private ep \<and> \<not> running n \<longrightarrow>
      http_refusal {500, 503} n (setRouter use recoverer e cd evs rq ep n))"
  by (intro conjI impI unary_refused stream_refused rest_refused unary_unavailable stream_unavailable
      rest_unavailable assms) simp_all

lemma refusals_agree:
  "unary_refusal C n a \<Longrightarrow> http_refusal D n b \<Longrightarrow> \<forall>code \<in> D. 400 \<le> code \<Longrightarrow> same_outcome refusal a b"
  by (auto simp: unary_refusal_def http_refusal_def)

lemma same_key:
  "m api_key_header = Some [hq_key rq] \<Longrightarrow> hq_key rq \<noteq> [] \<Longrightarrow>
   rpc_authorised e (Some m) n \<longleftrightarrow> rest_authorised e rq n"
  by (simp add: rpc_authorised_def rest_authorised_def)


lemma latency_not_gated:
  "rpc_method (K_Latency name) \<notin> set backendMethods \<and> rest_private (call_endpoint (K_Latency name))"
  by (simp add: backendMethods_def rest_private_def)

section \<open>A concrete node\<close>

text \<open>
  A host on which every call succeeds, the Xray environment of \<open>demo_env\<close>, and a node with a running
  WireGuard backend.
\<close>

definition demo_host :: "demo_world host" where
  "demo_host = \<lparr>nl_ParseAddr = (\<lambda>_. Inl (errors_New [])), nl_LinkAdd = (\<lambda>_ _ w. (None, w)),
     nl_LinkByName = (\<lambda>name w. Inr \<lparr>ln_Name = name, ln_Type = ''wireguard'', ln_Statistics = None\<rparr>),
     nl_AddrAdd = (\<lambda>_ _ w. (None, w)), nl_LinkSetUp = (\<lambda>_ w. (None, w)), nl_LinkDel = (\<lambda>_ w. (None, w)),
     ctl_New = (\<lambda>w. (None, w)), ctl_ConfigureDevice = (\<lambda>_ _ w. (None, w)),
     ctl_Device = (\<lambda>_ _. Inr []), ctl_Close = (\<lambda>w. (None, w))\<rparr>"

definition demo_sys :: "demo_world sys" where
  "demo_sys = \<lparr>sys_exec = (\<lambda>_ _ w. ((None, ''wg v1''), w)), sys_ReadFile = (\<lambda>_ _. Inr ''1''),
     sys_WriteFile = (\<lambda>_ _ w. (None, w)), sys_ruleset = (\<lambda>_. Inr []), sys_chain = (\<lambda>_. Inl (errors_New [])),
     sys_routes = (\<lambda>_. Inr []), sys_rand = None, sys_pid = 1, sys_nanos = 1\<rparr>"

definition demo_ctx :: "demo_world ctx" where
  "demo_ctx = \<lparr>cx_host = demo_host, cx_sys = demo_sys, cx_ParseKey = raw_ParseKey,
     cx_KeyString = raw_KeyString, cx_Validate = (\<lambda>_. None), cx_rng = asc_iter, cx_now = 1, cx_stamp = []\<rparr>"

definition demo_settings :: NodeConfig where
  "demo_settings = ex_node\<lparr>nc_WGHostRouting := False, nc_ApiKey := replicate 16 7\<rparr>"

definition demo_node_env :: "demo_world node_env" where
  "demo_node_env = \<lparr>en_x = demo_env True, en_wg = demo_ctx, en_wg_config = (\<lambda>_. Inr ex_config),
     en_probe = (\<lambda>_ _ _. Inr (True, 5)), en_mem = (\<lambda>_. demo_stats), en_port_free = (\<lambda>_ _. True),
     en_rand = (\<lambda>i _. i), en_uuid = (\<lambda>s. if s = ''k'' then Inr (replicate 16 7) else Inl (errors_New [])),
     en_now = (\<lambda>_. 9 * second), en_evs = (\<lambda>_. [ApiTick])\<rparr>"

definition demo_wg :: "demo_world WireGuard" where
  "demo_wg = (wg_initial demo_ctx demo_settings [])\<lparr>wg_config := Some ex_config, wg_manager := Some ex_manager,
     wg_state := lifecycleRunning\<rparr>"

definition demo_node :: "demo_world Node" where
  "demo_node = (controller_New demo_node_env demo_settings ([], []))\<lparr>nd_backend := Some 0,
     nd_heap := [BWireGuard demo_wg]\<rparr>"

definition demo_rq :: http_request where
  "demo_rq = \<lparr>hq_key = ''k'', hq_data = [], hq_fin = GoErr EOF [] None\<rparr>"

definition demo_messages :: codec where
  "demo_messages = \<lparr>cd_Backend = (\<lambda>_. Inl (errors_New [])), cd_StatRequest = (\<lambda>_. Inl (errors_New [])),
     cd_LatencyRequest = (\<lambda>_. Inr []), cd_User = (\<lambda>_. Inl (errors_New [])), cd_Users = (\<lambda>_. Inr []),
     cd_UsersChunk = (\<lambda>_. Inl (errors_New [])), cd_Balancer = (\<lambda>_. Inr []),
     cd_TestRoute = (\<lambda>_. Inl (errors_New [])), cd_AddRule = (\<lambda>_. Inl (errors_New [])),
     cd_RemoveRule = (\<lambda>_. Inr []), cd_Override = (\<lambda>_. Inl (errors_New []))\<rparr>"

text \<open>Chains that keep the laws.\<close>

definition nest_chain :: "('m \<Rightarrow> 'i \<Rightarrow> 'h \<Rightarrow> 'h) list \<Rightarrow> 'm \<Rightarrow> 'i \<Rightarrow> 'h \<Rightarrow> 'h" where
  "nest_chain is md info h = foldr (\<lambda>i h. i md info h) is h"

definition nest_use :: "'w middleware list \<Rightarrow> 'w middleware" where
  "nest_use ms h = foldr (\<lambda>m h. m h) ms h"

definition nest_recover :: "'w middleware" where
  "nest_recover h n = recovered (h n)"

lemma nest_laws: "chain_law nest_chain" "chi_laws nest_use nest_recover"
  by (simp_all add: chain_law_def nest_chain_def chi_laws_def nest_use_def nest_recover_def)

theorem unauthorised_calls_refused_witness:
  "unary_refusal auth_codes demo_node (ConditionalMiddleware nest_chain demo_node_env None
     (rpc_method K_Stop) (rpc_Stop demo_node_env) demo_node) \<and>
   http_refusal {401, 403, 422} demo_node (setRouter nest_use nest_recover demo_node_env demo_messages []
     (demo_rq\<lparr>hq_key := ''x''\<rparr>) E_Stop demo_node) \<and>
   http_refusal {500, 503} (demo_node\<lparr>nd_backend := None\<rparr>) (setRouter nest_use nest_recover demo_node_env
     demo_messages [] demo_rq E_Stop (demo_node\<lparr>nd_backend := None\<rparr>))"
proof -
  have a: "\<not> rpc_authorised demo_node_env None demo_node"
    and b: "\<not> rest_authorised demo_node_env (demo_rq\<lparr>hq_key := ''x''\<rparr>) demo_node"
    and c: "rest_authorised demo_node_env demo_rq (demo_node\<lparr>nd_backend := None\<rparr>) \<and>
      rest_private E_Stop \<and> \<not> running (demo_node\<lparr>nd_backend := None\<rparr>)"
    by (simp_all add: rpc_authorised_def rest_authorised_def demo_node_env_def demo_rq_def demo_node_def
        controller_New_def ApiKey_def demo_settings_def rest_private_def running_def current_def)
  note refused = unauthorised_calls_refused [OF nest_laws(1,1,2)]
  show ?thesis using refused a b c by blast
qed


end
