(* ===== verification/ControllerProps.thy ===== *)
theory ControllerProps
  imports ServerProps
begin

text \<open>
  The controller as a state machine. The requests \<^verbatim>\<open>Start\<close> and \<^verbatim>\<open>Stop\<close> hold \<^verbatim>\<open>controlMu\<close>, so there is one
  control thread; the keep-alive trackers run beside it and do not take \<^verbatim>\<open>controlMu\<close>. As long as no
  tracker disconnects while a request controls the backend, a running backend is always the one of the
  controller; a tracker that disconnects during a \<^verbatim>\<open>Start\<close> can leave a running backend without a
  controller. What the other handlers do to a backend is not a step.
\<close>

section \<open>Steps\<close>

text \<open>Where the control thread is; a \<^verbatim>\<open>Start\<close> keeps its request while it disconnects.\<close>

datatype control_pc =
  Idle | Disconnecting disc_pc "BackendMsg option" | Starting BackendMsg | Connecting BackendMsg

definition set_pc :: "nat \<Rightarrow> disc_pc option \<Rightarrow> 'w Node \<Rightarrow> 'w Node" where
  "set_pc i pc n = n\<lparr>nd_trackers := (nd_trackers n)[i := (nd_trackers n ! i)\<lparr>tk_pc := pc\<rparr>]\<rparr>"

inductive node_step :: "'w node_env \<Rightarrow> control_pc \<times> 'w Node \<Rightarrow> control_pc \<times> 'w Node \<Rightarrow> bool" for e where
  start_busy: "nd_backend n \<noteq> None \<Longrightarrow> node_step e (Idle, n) (Disconnecting D_cancel (Some data), n)"
| start_free: "nd_backend n = None \<Longrightarrow> node_step e (Idle, n) (Starting data, n)"
| stop: "node_step e (Idle, n) (Disconnecting D_cancel None, n)"
| disc: "disc_step e pc n = (Some pc', n') \<Longrightarrow>
    node_step e (Disconnecting pc req, n) (Disconnecting pc' req, n')"
| disc_end: "disc_step e pc n = (None, n') \<Longrightarrow>
    node_step e (Disconnecting pc req, n) (case req of None \<Rightarrow> Idle | Some data \<Rightarrow> Starting data, n')"
| started: "StartBackend e data n = Some (None, n') \<Longrightarrow> node_step e (Starting data, n) (Connecting data, n')"
| start_failed: "StartBackend e data n = Some (Some err, n') \<Longrightarrow> node_step e (Starting data, n) (Idle, n')"
| connect: "node_step e (Connecting data, n) (Idle, Connect e (bk_KeepAlive data) n)"
| request: "node_step e (c, n) (c, NewRequest e n)"
| sample: "node_step e (c, n) (c, collect r n)"
| world: "node_step e (c, n) (c, n\<lparr>nd_w := w\<rparr>)"
| tick: "i < length (nd_trackers n) \<Longrightarrow> tk_pc (nd_trackers n ! i) = None \<Longrightarrow>
    keepAlive_expired e (nd_trackers n ! i) n \<Longrightarrow> node_step e (c, n) (c, set_pc i (Some D_cancel) n)"
| tracker: "i < length (nd_trackers n) \<Longrightarrow> tk_pc (nd_trackers n ! i) = Some pc \<Longrightarrow>
    disc_step e pc n = (pc', n') \<Longrightarrow> node_step e (c, n) (c, set_pc i pc' n')"
| tracker_done: "t \<in> set (nd_trackers n) \<Longrightarrow> tk_pc t = None \<Longrightarrow> tk_ctx t \<in> nd_done n \<Longrightarrow>
    node_step e (c, n) (c, n\<lparr>nd_trackers := remove1 t (nd_trackers n)\<rparr>)"

text \<open>The steps of a disconnection, one after the other, are \<^verbatim>\<open>Disconnect\<close>.\<close>

lemma disc_run:
  "node_step e (Disconnecting D_cancel req, n) (Disconnecting D_snapshot req, disc_cancel n)"
  "node_step e (Disconnecting D_snapshot req, n) (Disconnecting (D_shutdown (nd_backend n)) req, n)"
  "node_step e (Disconnecting (D_shutdown back) req, n) (Disconnecting D_clear req, disc_shutdown e back n)"
  "node_step e (Disconnecting D_clear req, n) (case req of None \<Rightarrow> Idle | Some data \<Rightarrow> Starting data, disc_clear e n)"
  by (auto intro: disc disc_end)

lemma Disconnect_steps:
  "(node_step e)\<^sup>*\<^sup>* (Disconnecting D_cancel req, n)
     (case req of None \<Rightarrow> Idle | Some data \<Rightarrow> Starting data, Disconnect e n)"
proof -
  have b: "nd_backend (disc_cancel n) = nd_backend n" by (simp add: disc_cancel_def)
  have "node_step e (Disconnecting D_snapshot req, disc_cancel n)
    (Disconnecting (D_shutdown (nd_backend n)) req, disc_cancel n)"
    using disc_run(2) [of e req "disc_cancel n"] b by simp
  then show ?thesis
    unfolding Disconnect_def
    by (meson disc_run(1,3,4) converse_rtranclp_into_rtranclp rtranclp.rtrancl_refl)
qed

section \<open>Serial runs\<close>

text \<open>At most one thread is in the middle of a disconnection or a start.\<close>

definition trackers_idle :: "'w Node \<Rightarrow> bool" where
  "trackers_idle n \<longleftrightarrow> (\<forall>t \<in> set (nd_trackers n). tk_pc t = None)"

fun serial :: "control_pc \<times> 'w Node \<Rightarrow> bool" where
  "serial (c, n) \<longleftrightarrow> (c \<noteq> Idle \<longrightarrow> trackers_idle n) \<and>
     length (filter (\<lambda>t. tk_pc t \<noteq> None) (nd_trackers n)) \<le> 1"

inductive serial_reach :: "'w node_env \<Rightarrow> control_pc \<times> 'w Node \<Rightarrow> control_pc \<times> 'w Node \<Rightarrow> bool" for e s0 where
  here: "serial_reach e s0 s0"
| step: "serial_reach e s0 s \<Longrightarrow> node_step e s s' \<Longrightarrow> serial s' \<Longrightarrow> serial_reach e s0 s'"

text \<open>Only the backend of the controller runs.\<close>

definition only_current :: "'w Node \<Rightarrow> bool" where
  "only_current n \<longleftrightarrow>
     (\<forall>p < length (nd_heap n). be_Started (nd_heap n ! p) \<longrightarrow> nd_backend n = Some p)"

text \<open>What holds at the parts of a disconnection when nothing overlaps with it.\<close>

fun disc_ok :: "disc_pc \<Rightarrow> 'w Node \<Rightarrow> bool" where
  "disc_ok (D_shutdown back) n \<longleftrightarrow> back = nd_backend n"
| "disc_ok D_clear n \<longleftrightarrow> (\<forall>p < length (nd_heap n). \<not> be_Started (nd_heap n ! p))"
| "disc_ok _ n \<longleftrightarrow> True"

definition heap_ok :: "'w Node \<Rightarrow> bool" where
  "heap_ok n \<longleftrightarrow> (\<forall>b \<in> set (nd_heap n). off_ok b) \<and>
     (\<forall>p. nd_backend n = Some p \<longrightarrow> p < length (nd_heap n)) \<and> only_current n"

fun control_ok :: "control_pc \<Rightarrow> 'w Node \<Rightarrow> bool" where
  "control_ok Idle n \<longleftrightarrow> True"
| "control_ok (Disconnecting pc req) n \<longleftrightarrow> disc_ok pc n"
| "control_ok (Starting data) n \<longleftrightarrow> nd_backend n = None"
| "control_ok (Connecting data) n \<longleftrightarrow> True"

definition serial_inv :: "control_pc \<times> 'w Node \<Rightarrow> bool" where
  "serial_inv s \<longleftrightarrow> (case s of (c, n) \<Rightarrow>
     heap_ok n \<and> control_ok c n \<and>
     (\<forall>t \<in> set (nd_trackers n). \<forall>pc. tk_pc t = Some pc \<longrightarrow> disc_ok pc n) \<and> serial s)"

lemma heap_ok_cong:
  "nd_heap n' = nd_heap n \<Longrightarrow> nd_backend n' = nd_backend n \<Longrightarrow> heap_ok n' = heap_ok n"
  unfolding heap_ok_def only_current_def by (simp only:)

lemma heap_ok_cleared:
  "heap_ok n \<Longrightarrow> \<forall>p < length (nd_heap n). \<not> be_Started (nd_heap n ! p) \<Longrightarrow>
   nd_heap n' = nd_heap n \<Longrightarrow> nd_backend n' = None \<Longrightarrow> heap_ok n'"
  by (simp add: heap_ok_def only_current_def)

lemma disc_step_ok:
  assumes "heap_ok n" "disc_ok pc n" "disc_step e pc n = (pc', n')"
  shows "heap_ok n' \<and> (\<forall>q. pc' = Some q \<longrightarrow> disc_ok q n') \<and> (pc' = None \<longrightarrow> nd_backend n' = None) \<and>
    nd_trackers n' = nd_trackers n"
proof (cases pc)
  case (D_shutdown tgt)
  have tgt: "tgt = nd_backend n" using assms(2) D_shutdown by simp
  have n': "n' = disc_shutdown e tgt n" "pc' = Some D_clear" using assms(3) D_shutdown by simp_all
  show ?thesis
  proof (cases "nd_backend n")
    case None
    then have "\<not> be_Started (nd_heap n ! p)" if "p < length (nd_heap n)" for p
      using assms(1) that by (auto simp: heap_ok_def only_current_def)
    then show ?thesis using n' tgt assms(1) None by (simp add: disc_shutdown_def)
  next
    case (Some p)
    obtain b w where b: "be_Shutdown e (nd_heap n ! p) (nd_w n) = (b, w)" by fastforce
    have p: "p < length (nd_heap n)" "\<forall>b \<in> set (nd_heap n). off_ok b"
      "\<forall>q < length (nd_heap n). be_Started (nd_heap n ! q) \<longrightarrow> q = p"
      using assms(1) Some by (auto simp: heap_ok_def only_current_def)
    have h: "n' = n\<lparr>nd_heap := (nd_heap n)[p := b], nd_w := w\<rparr>"
      using n' tgt Some b by (simp add: disc_shutdown_def)
    then show ?thesis
      using node_backend.shutdown_store [OF p(2,1,3), of e "nd_w n"] b p(1) Some n'(2)
      by (auto simp: heap_ok_def only_current_def)
  qed
next
  case D_cancel
  then have "n' = disc_cancel n" "pc' = Some D_snapshot" using assms(3) by simp_all
  then show ?thesis using assms(1) heap_ok_cong [of n' n] by (simp add: disc_cancel_def)
next
  case D_snapshot
  then have "n' = n" "pc' = Some (D_shutdown (nd_backend n))" using assms(3) by auto
  then show ?thesis using assms(1) by simp
next
  case D_clear
  then have "n' = disc_clear e n" "pc' = None" using assms(3) by simp_all
  then show ?thesis using assms(2) D_clear heap_ok_cleared [OF assms(1), of n'] by (simp add: disc_clear_def)
qed

lemma start_with_manager_fresh:
  "start_with_manager cx cfg c privateKey peerConfigs keys upserts wg manager w = (Inr wg', w') \<Longrightarrow>
   wg_shutdownOnce wg' = wg_shutdownOnce wg"
  by (auto simp: start_with_manager_def Let_def split: prod.splits option.splits)

lemma wireguard_New_fresh:
  assumes "wireguard_New cx cfg c users w = (Inr wg, w')"
  shows "\<not> wg_shutdownOnce wg"
  using assms unfolding wireguard_New_def newWithManagerFactory_def
  by (auto simp: Let_def wg_initial_def dest!: start_with_manager_fresh
      split: prod.splits option.splits sum.splits)

lemma heap_ok_install:
  assumes "heap_ok n" "nd_backend n = None" "off_ok b"
  shows "heap_ok (install b w n)"
proof -
  have "\<not> be_Started (nd_heap n ! p)" if "p < length (nd_heap n)" for p
    using assms(1,2) that by (auto simp: heap_ok_def only_current_def)
  then show ?thesis
    using assms by (auto simp: heap_ok_def only_current_def install_def nth_append less_Suc_eq)
qed

text \<open>\<^verbatim>\<open>StartBackend\<close> fails and changes at most the world, or installs a new backend.\<close>

lemma StartBackend_cases:
  assumes "StartBackend e data n = Some (err, n')"
  obtains (failed) w where "n' = n\<lparr>nd_w := w\<rparr>" "err \<noteq> None"
    | (new) b w where "n' = install b w n" "off_ok b" "err = None"
proof (cases "bk_Type data")
  case XRAY
  show thesis
  proof (cases "xray_NewConfig (xe_js (en_x e)) (bk_Config data) (bk_ExcludeInbounds data)")
    case (Inl err')
    then show thesis using assms XRAY failed [of "nd_w n"] by (auto simp: StartBackend_def)
  next
    case (Inr config)
    then obtain r w where n': "(case r of Inl err \<Rightarrow> (Some err, n\<lparr>nd_w := w\<rparr>)
        | Inr b \<Rightarrow> (None, install (BXray b) w n)) = (err, n')"
      using assms XRAY by (auto simp: StartBackend_def)
    then show thesis using failed [of w] new [of _ w] by (cases r) auto
  qed
next
  case WIREGUARD
  then show thesis using assms failed [of "nd_w n"] failed new
    by (auto simp: StartBackend_def dest: wireguard_New_fresh split: sum.splits prod.splits)
next
  case (BackendType_other i)
  then show thesis using assms failed [of "nd_w n"] by (auto simp: StartBackend_def)
qed

lemma StartBackend_ok:
  assumes "heap_ok n" "nd_backend n = None" "StartBackend e data n = Some (err, n')"
  shows "heap_ok n' \<and> nd_trackers n' = nd_trackers n"
  using assms(3)
proof (cases rule: StartBackend_cases)
  case (failed w)
  then show ?thesis using assms(1) heap_ok_cong [of n' n] by simp
next
  case (new b w)
  then show ?thesis using heap_ok_install [OF assms(1,2)] by (simp add: install_def)
qed

section \<open>The invariant of serial runs\<close>

lemma disc_ok_cong:
  "nd_heap n' = nd_heap n \<Longrightarrow> nd_backend n' = nd_backend n \<Longrightarrow> disc_ok pc n' = disc_ok pc n"
  by (cases pc) simp_all

lemma control_ok_cong:
  "nd_heap n' = nd_heap n \<Longrightarrow> nd_backend n' = nd_backend n \<Longrightarrow> control_ok c n' = control_ok c n"
  by (cases c) (simp_all add: disc_ok_cong [of n' n])

text \<open>A step that touches neither the store nor the pointer keeps everything but the trackers.\<close>

lemma serial_inv_frame:
  assumes "serial_inv (c, n)" "nd_heap n' = nd_heap n" "nd_backend n' = nd_backend n"
    "\<forall>t \<in> set (nd_trackers n'). t \<in> set (nd_trackers n) \<or> tk_pc t = None \<or> tk_pc t = Some D_cancel"
    "control_ok c' n'" "serial (c', n')"
  shows "serial_inv (c', n')"
proof -
  have ok: "heap_ok n'" using assms(1) heap_ok_cong [OF assms(2,3)] by (simp add: serial_inv_def)
  have old: "\<forall>t \<in> set (nd_trackers n). \<forall>pc. tk_pc t = Some pc \<longrightarrow> disc_ok pc n'"
    using assms(1) disc_ok_cong [OF assms(2,3)] by (simp add: serial_inv_def)
  have "disc_ok pc n'" if "t \<in> set (nd_trackers n')" "tk_pc t = Some pc" for t pc
    using assms(4) that old by (cases "t \<in> set (nd_trackers n)") auto
  then show ?thesis using ok assms(5,6) unfolding serial_inv_def by blast
qed

lemma busy_one:
  assumes "length (filter P xs) \<le> 1" "i < length xs" "P (xs ! i)" "j < length xs" "j \<noteq> i"
  shows "\<not> P (xs ! j)"
proof
  assume "P (xs ! j)"
  with assms have "card {k. k < length xs \<and> P (xs ! k)} \<ge> card {i, j}"
    by (intro card_mono) auto
  with assms(1,5) show False by (simp add: length_filter_conv_card)
qed

lemma set_pc_simps [simp]:
  "nd_heap (set_pc i pc n) = nd_heap n" "nd_backend (set_pc i pc n) = nd_backend n"
  "nd_trackers (set_pc i pc n) = (nd_trackers n)[i := (nd_trackers n ! i)\<lparr>tk_pc := pc\<rparr>]"
  by (simp_all add: set_pc_def)

lemma serial_inv_step:
  assumes "node_step e s s'" "serial_inv s" "serial s'"
  shows "serial_inv s'"
  using assms
proof cases
  case (start_busy n data)
  then show ?thesis using assms(2,3) serial_inv_frame [of Idle n n] by simp
next
  case (start_free n data)
  then show ?thesis using assms(2,3) serial_inv_frame [of Idle n n] by simp
next
  case (stop n)
  then show ?thesis using assms(2,3) serial_inv_frame [of Idle n n] by simp
next
  case (disc pc n pc' n' req)
  then have "heap_ok n" "disc_ok pc n" "\<forall>t \<in> set (nd_trackers n). tk_pc t = None"
    using assms(2) by (auto simp: serial_inv_def trackers_idle_def)
  from disc_step_ok [OF this(1,2) disc(3)] this(3) show ?thesis
    using disc(2) assms(3) by (simp add: serial_inv_def)
next
  case (disc_end pc n n' req)
  then have "heap_ok n" "disc_ok pc n" "\<forall>t \<in> set (nd_trackers n). tk_pc t = None"
    using assms(2) by (auto simp: serial_inv_def trackers_idle_def)
  from disc_step_ok [OF this(1,2) disc_end(3)] this(3) show ?thesis
    using disc_end(2) assms(3) by (cases req) (simp_all add: serial_inv_def)
next
  case (started data n n')
  then have "heap_ok n" "nd_backend n = None" "\<forall>t \<in> set (nd_trackers n). tk_pc t = None"
    using assms(2) by (auto simp: serial_inv_def trackers_idle_def)
  from StartBackend_ok [OF this(1,2) started(3)] this(3) show ?thesis
    using started(2) assms(3) by (simp add: serial_inv_def)
next
  case (start_failed data n err n')
  then have "heap_ok n" "nd_backend n = None" "\<forall>t \<in> set (nd_trackers n). tk_pc t = None"
    using assms(2) by (auto simp: serial_inv_def trackers_idle_def)
  from StartBackend_ok [OF this(1,2) start_failed(3)] this(3) show ?thesis
    using start_failed(2) assms(3) by (simp add: serial_inv_def)
next
  case (connect data n)
  then show ?thesis
    using assms(2,3) serial_inv_frame [of "Connecting data" n "Connect e (bk_KeepAlive data) n" Idle]
    by (auto simp: Connect_def Let_def)
next
  case (request c n)
  then show ?thesis using assms(2,3) serial_inv_frame [of c n "NewRequest e n" c]
      control_ok_cong [of "NewRequest e n" n c]
    by (simp add: NewRequest_def serial_inv_def)
next
  case (sample c n r)
  have "nd_heap (collect r n) = nd_heap n" "nd_backend (collect r n) = nd_backend n"
    "nd_trackers (collect r n) = nd_trackers n" by (cases r; simp add: collect_def)+
  then show ?thesis using sample assms(2,3) serial_inv_frame [of c n "collect r n" c]
      control_ok_cong [of "collect r n" n c] by (simp add: serial_inv_def)
next
  case (world c n w)
  then show ?thesis using assms(2,3) serial_inv_frame [of c n "n\<lparr>nd_w := w\<rparr>" c]
      control_ok_cong [of "n\<lparr>nd_w := w\<rparr>" n c] by (simp add: serial_inv_def)
next
  case (tick i n c)
  let ?n = "set_pc i (Some D_cancel) n"
  have "t \<in> set (nd_trackers n) \<or> tk_pc t = None \<or> tk_pc t = Some D_cancel"
    if "t \<in> set (nd_trackers ?n)" for t
    using that by (auto dest: subsetD [OF set_update_subset_insert])
  moreover have "serial_inv (c, n)" "serial (c, ?n)" "control_ok c ?n"
    using tick(1,2) assms(2,3) control_ok_cong [of ?n n c] by (simp_all add: serial_inv_def)
  ultimately show ?thesis using tick(2) serial_inv_frame [of c n ?n c] by simp
next
  case (tracker i n pc pc' n' c)
  let ?P = "\<lambda>t. tk_pc t \<noteq> None"
  have inv: "heap_ok n" "disc_ok pc n" "length (filter ?P (nd_trackers n)) \<le> 1"
    "c \<noteq> Idle \<longrightarrow> trackers_idle n"
    using assms(2) tracker(1,3,4) by (auto simp: serial_inv_def)
  then have c: "c = Idle" using tracker(3,4) by (force simp: trackers_idle_def)
  have other: "tk_pc (nd_trackers n ! j) = None" if "j < length (nd_trackers n)" "j \<noteq> i" for j
    using busy_one [OF inv(3) tracker(3)] that tracker(4) by auto
  have n': "heap_ok n'" "\<And>q. pc' = Some q \<Longrightarrow> disc_ok q n'" "nd_trackers n' = nd_trackers n"
    using disc_step_ok [OF inv(1,2) tracker(5)] by simp_all
  have heap: "heap_ok (set_pc i pc' n')" using n'(1) heap_ok_cong [of "set_pc i pc' n'" n'] by simp
  have "disc_ok q (set_pc i pc' n')" if "t \<in> set (nd_trackers (set_pc i pc' n'))" "tk_pc t = Some q" for t q
  proof -
    have "t \<in> set ((nd_trackers n)[i := (nd_trackers n ! i)\<lparr>tk_pc := pc'\<rparr>])"
      using that(1) n'(3) by simp
    then obtain j where "j < length (nd_trackers n)"
      "t = (nd_trackers n)[i := (nd_trackers n ! i)\<lparr>tk_pc := pc'\<rparr>] ! j"
      by (metis in_set_conv_nth length_list_update)
    then have "pc' = Some q" using that(2) other [of j] by (cases "j = i") auto
    then show ?thesis using n'(2) disc_ok_cong [of "set_pc i pc' n'" n' q] by simp
  qed
  then show ?thesis using tracker(2) c heap assms(3) by (simp add: serial_inv_def)
next
  case (tracker_done t n c)
  then show ?thesis using assms(2,3) serial_inv_frame [of c n "n\<lparr>nd_trackers := remove1 t (nd_trackers n)\<rparr>" c]
      control_ok_cong [of "n\<lparr>nd_trackers := remove1 t (nd_trackers n)\<rparr>" n c] set_remove1_subset [of t "nd_trackers n"]
    by (auto simp: serial_inv_def)
qed

lemma serial_reach_inv:
  "serial_reach e (Idle, controller_New e cfg w) s \<Longrightarrow> serial_inv s"
proof (induction rule: serial_reach.induct)
  case here
  show ?case by (simp add: serial_inv_def heap_ok_def only_current_def controller_New_def)
next
  case (step s s')
  then show ?case using serial_inv_step by blast
qed


section \<open>A disconnection during a start\<close>

text \<open>The node in which tracker \<open>i\<close> has shut the backend \<open>p\<close> down and not yet cleared the controller.\<close>

definition half_disconnected :: "'w node_env \<Rightarrow> nat \<Rightarrow> 'w Node \<Rightarrow> 'w Node" where
  "half_disconnected e i n = set_pc i (Some D_clear) (disc_shutdown e (nd_backend n) (disc_cancel n))"

lemma disc_shutdown_set_pc: "disc_shutdown e b (set_pc i pc n) = set_pc i pc (disc_shutdown e b n)"
  by (simp add: disc_shutdown_def set_pc_def split: option.split prod.split)

lemma set_pc_twice: "i < length (nd_trackers n) \<Longrightarrow> set_pc i pc (set_pc i pc' n) = set_pc i pc n"
  by (simp add: set_pc_def)

lemma disc_frame [simp]:
  "nd_trackers (disc_cancel n) = nd_trackers n" "nd_backend (disc_cancel n) = nd_backend n"
  "nd_trackers (disc_shutdown e b n) = nd_trackers n" "nd_backend (disc_shutdown e b n) = nd_backend n"
  "nd_trackers (disc_clear e n) = nd_trackers n"
  by (simp_all add: disc_cancel_def disc_shutdown_def disc_clear_def split: option.split prod.split)

lemma tracker_half:
  assumes "i < length (nd_trackers n)" "tk_pc (nd_trackers n ! i) = None"
    "keepAlive_expired e (nd_trackers n ! i) n"
  shows "(node_step e)\<^sup>*\<^sup>* (c, n) (c, half_disconnected e i n)"
proof -
  let ?n1 = "set_pc i (Some D_cancel) n"
  have 1: "node_step e (c, n) (c, ?n1)" by (rule tick [OF assms])
  have 2: "node_step e (c, ?n1) (c, set_pc i (Some D_snapshot) (disc_cancel ?n1))"
    using assms(1) by (intro tracker [where pc = D_cancel]) simp_all
  let ?n2 = "set_pc i (Some D_snapshot) (disc_cancel ?n1)"
  have 3: "node_step e (c, ?n2) (c, set_pc i (Some (D_shutdown (nd_backend n))) ?n2)"
    using assms(1) by (intro tracker [where pc = D_snapshot]) simp_all
  let ?n3 = "set_pc i (Some (D_shutdown (nd_backend n))) ?n2"
  have 4: "node_step e (c, ?n3) (c, set_pc i (Some D_clear) (disc_shutdown e (nd_backend n) ?n3))"
    using assms(1) by (intro tracker [where pc = "D_shutdown (nd_backend n)"]) simp_all
  have "set_pc i (Some D_clear) (disc_shutdown e (nd_backend n) ?n3) = half_disconnected e i n"
    using assms(1)
    by (simp add: half_disconnected_def disc_cancel_def disc_shutdown_def set_pc_def
        split: option.split prod.split)
  then show ?thesis using 1 2 3 4 by (metis converse_rtranclp_into_rtranclp rtranclp.rtrancl_refl)
qed

lemma start_steps:
  assumes "nd_backend n \<noteq> None" "StartBackend e data (Disconnect e n) = Some (None, n')"
  shows "(node_step e)\<^sup>*\<^sup>* (Idle, n) (Idle, Connect e (bk_KeepAlive data) n')"
proof -
  have "(node_step e)\<^sup>*\<^sup>* (Idle, n) (Starting data, Disconnect e n)"
    using Disconnect_steps [of e "Some data" n] start_busy [OF assms(1), of e data]
    by (simp add: converse_rtranclp_into_rtranclp)
  then show ?thesis
    using started [OF assms(2)] connect [of e data n'] by (meson rtranclp.rtrancl_into_rtrancl)
qed

text \<open>
  C37. Error. When a tracker disconnects an idle client while a new client starts a backend, the node can
  end with a running backend that no request can reach or stop: the \<^verbatim>\<open>Disconnect\<close> of the tracker
  does not hold \<^verbatim>\<open>controlMu\<close>, and its last part clears the pointer to the new backend.
\<close>

theorem keep_alive_loses_backend:
  assumes "nd_backend n \<noteq> None" "i < length (nd_trackers n)" "tk_pc (nd_trackers n ! i) = None"
    and "keepAlive_expired e (nd_trackers n ! i) n"
    and "StartBackend e data (Disconnect e (half_disconnected e i n)) = Some (None, n')"
    and "nd_backend n' = Some q" "be_Started (nd_heap n' ! q)"
  shows "\<exists>n''. (node_step e)\<^sup>*\<^sup>* (Idle, n) (Idle, n'') \<and> nd_backend n'' = None \<and>
    be_Started (nd_heap n'' ! q)"
proof -
  let ?h = "half_disconnected e i n"
  let ?c = "Connect e (bk_KeepAlive data) n'"
  have h: "nd_backend ?h = nd_backend n" "length (nd_trackers ?h) = length (nd_trackers n)"
    "tk_pc (nd_trackers ?h ! i) = Some D_clear"
    using assms(2) by (simp_all add: half_disconnected_def)
  have t: "nd_trackers n' = nd_trackers ?h"
    using assms(5) by (cases rule: StartBackend_cases) (simp_all add: install_def Disconnect_def)
  have "i < length (nd_trackers ?c)" "tk_pc (nd_trackers ?c ! i) = Some D_clear"
    using t h assms(2) by (simp_all add: Connect_def Let_def nth_append)
  then have clear: "node_step e (Idle, ?c) (Idle, set_pc i None (disc_clear e ?c))"
    by (intro tracker [where pc = D_clear]) simp_all
  have "(node_step e)\<^sup>*\<^sup>* (Idle, n) (Idle, ?h)" by (rule tracker_half [OF assms(2-4)])
  moreover have "(node_step e)\<^sup>*\<^sup>* (Idle, ?h) (Idle, ?c)"
    using h(1) assms(1,5) by (intro start_steps) simp_all
  ultimately have "(node_step e)\<^sup>*\<^sup>* (Idle, n) (Idle, set_pc i None (disc_clear e ?c))"
    using clear by (meson rtranclp_trans rtranclp.rtrancl_into_rtrancl)
  then show ?thesis using assms(7)
    by (intro exI [of _ "set_pc i None (disc_clear e ?c)"]) (simp add: disc_clear_def Connect_def Let_def)
qed

definition demo_data :: BackendMsg where
  "demo_data = \<lparr>bk_Type = WIREGUARD, bk_Config = [], bk_Users = [], bk_KeepAlive = 5, bk_ExcludeInbounds = []\<rparr>"

definition demo_wgconfig :: Config where
  "demo_wgconfig = ex_config\<lparr>c_Latency := Some (default_latency None)\<rparr>"

lemma demo_config: "NewConfig (cx_Validate demo_ctx) (en_wg_config demo_node_env) [] = Inr demo_wgconfig"
  by (simp add: NewConfig_def demo_ctx_def demo_node_env_def ex_config_def demo_wgconfig_def)

lemma demo_tickers: "initStatsTickers demo_settings = None"
  unfolding demo_settings_def ex_node_def by code_simp

lemma demo_routing: "applyLinuxHostRouting s (Some demo_settings) i w = (None, w)"
  by (simp add: applyLinuxHostRouting_def demo_settings_def)

lemma demo_initialize:
  "InitializeWithPeers demo_host \<lparr>m_client = True, m_iFaceName = i, m_amneziaWG = False, m_awgConfig = d\<rparr>
     k port [] peers w = (None, w)"
  by (simp add: InitializeWithPeers_def cleanupExistingInterface_def configure_link_def demo_host_def)

lemma demo_wireguard_New:
  "\<exists>wg w'. wireguard_New demo_ctx demo_settings (Some demo_wgconfig) [] w = (Inr wg, w') \<and> wg_Started wg"
proof -
  obtain v w1 where v: "getWireGuardVersion demo_sys w = (v, w1)"
    by (cases "getWireGuardVersion demo_sys w")
  have sel: "cx_sys demo_ctx = demo_sys" "cx_ParseKey demo_ctx = raw_ParseKey" "cx_rng demo_ctx = asc_iter"
    "cx_host demo_ctx = demo_host" "cx_KeyString demo_ctx = raw_KeyString"
    by (simp_all add: demo_ctx_def)
  have c: "c_AmneziaWG demo_wgconfig = False" "c_PrivateKey demo_wgconfig = raw_KeyString ex_key"
    "c_privateKeySet demo_wgconfig = False" "c_presharedKeySet demo_wgconfig = False"
    "c_PreSharedKey demo_wgconfig = []" "c_Address demo_wgconfig = []"
    by (simp_all add: demo_wgconfig_def ex_config_def)
  have k: "raw_KeyString ex_key \<noteq> []" by (simp add: raw_KeyString_def ex_key_def)
  have new: "NewManager demo_host i w = (Inr \<lparr>m_client = True, m_iFaceName = i, m_amneziaWG = False,
      m_awgConfig = empty_device_config\<rparr>, w)" for i w
    by (simp add: NewManager_def demo_host_def)
  show ?thesis
    by (simp add: wireguard_New_def newWithManagerFactory_def sel v c k GetPrivateKey_def
        normalizeUsers_def last_by_email_def asc_iter_def collectDesiredPeers_def buildSyncDiff_def
        GetPreSharedKey_def buildExistingPeersByKeySnapshot_def wg_initial_def GetAll_def NewPeerStore_def
        peers_by_key_def buildRemoveConfigsForPeers_def buildTargetPeerConfigs_def new
        start_with_manager_def demo_initialize demo_routing demo_tickers wg_Started_def
        setPeerAdvancedSecurity_def)
qed

lemma demo_StartBackend:
  assumes "nd_cfg n = demo_settings"
  obtains n' where "StartBackend demo_node_env demo_data n = Some (None, n')"
    "nd_backend n' = Some (length (nd_heap n))" "length (nd_heap n') = Suc (length (nd_heap n))"
    "be_Started (nd_heap n' ! length (nd_heap n))" "nd_trackers n' = nd_trackers n"
proof -
  have wg: "en_wg demo_node_env = demo_ctx" by (simp add: demo_node_env_def)
  obtain wg w' where "wireguard_New demo_ctx demo_settings (Some demo_wgconfig) [] (nd_w n) = (Inr wg, w')"
    "wg_Started wg" using demo_wireguard_New by blast
  then have "StartBackend demo_node_env demo_data n = Some (None, install (BWireGuard wg) w' n)"
    "be_Started (BWireGuard wg)"
    using assms demo_config by (simp_all add: StartBackend_def demo_data_def wg)
  then show thesis using that [of "install (BWireGuard wg) w' n"] by (simp add: install_def)
qed

definition demo_idle :: "demo_world Node" where
  "demo_idle = demo_node\<lparr>nd_trackers := [\<lparr>tk_ctx = 0, tk_keepAlive = keepAlive_duration 5, tk_pc = None\<rparr>]\<rparr>"

theorem keep_alive_loses_backend_witness:
  "\<exists>n q. (node_step demo_node_env)\<^sup>*\<^sup>* (Idle, demo_idle) (Idle, n) \<and> nd_backend n = None \<and>
     be_Started (nd_heap n ! q)"
proof -
  let ?n = "Disconnect demo_node_env (half_disconnected demo_node_env 0 demo_idle)"
  have "nd_cfg ?n = demo_settings"
    by (simp add: Disconnect_def half_disconnected_def disc_clear_def disc_shutdown_def disc_cancel_def
        set_pc_def demo_idle_def demo_node_def controller_New_def split: option.split prod.split)
  then obtain n' where "StartBackend demo_node_env demo_data ?n = Some (None, n')"
    "nd_backend n' = Some (length (nd_heap ?n))" "be_Started (nd_heap n' ! length (nd_heap ?n))"
    by (rule demo_StartBackend)
  moreover have "nd_backend demo_idle \<noteq> None" "0 < length (nd_trackers demo_idle)"
    "tk_pc (nd_trackers demo_idle ! 0) = None"
    "keepAlive_expired demo_node_env (nd_trackers demo_idle ! 0) demo_idle"
    by (simp_all add: demo_idle_def demo_node_def controller_New_def keepAlive_expired_def demo_node_env_def
        keepAlive_duration_def second_def time_zero_def)
  ultimately show ?thesis using keep_alive_loses_backend [of demo_idle 0 demo_node_env demo_data n'] by blast
qed


end
