(* ===== verification/NodeMain.thy ===== *)
theory NodeMain
  imports ControllerProps
begin

text \<open>
  The process: \<^verbatim>\<open>cmd/node/main.go\<close> with \<^verbatim>\<open>pkg/tlsutil/tls.go\<close> and the two functions that start a listener,
  \<^verbatim>\<open>controller/rpc/service.go\<close> and \<^verbatim>\<open>controller/rest/service.go\<close>. What the requests make of the node
  between the start of the listener and the signal, and while the server shuts down, is a parameter.
\<close>

section \<open>The environment of the process\<close>

datatype ClientAuthType =
  NoClientCert | RequestClientCert | RequireAnyClientCert | VerifyClientCertIfGiven | RequireAndVerifyClientCert

record 'c tls_Config =
  tls_Certificates :: "'c list"
  tls_ClientAuth :: ClientAuthType

text \<open>
  \<open>mn_serve\<close> is the node when the signal arrives, if one does; \<open>mn_GracefulStop\<close> says whether the server
  stopped before the context of the shutdown ended, and the node then; \<open>mn_HttpShutdown\<close> is
  \<^verbatim>\<open>(*http.Server).Shutdown\<close>.
\<close>

record ('w, 'c) main_env =
  mn_node :: "'w node_env"
  mn_uuid_Parse :: "string \<Rightarrow> UUID result"
  mn_env :: env
  mn_LoadX509KeyPair :: "string \<Rightarrow> string \<Rightarrow> 'w \<Rightarrow> 'c result"
  mn_net_Listen :: "string \<Rightarrow> 'w \<Rightarrow> go_error option"
  mn_tls_Listen :: "'c tls_Config \<Rightarrow> string \<Rightarrow> 'w \<Rightarrow> go_error option"
  mn_serve :: "'w Node \<Rightarrow> 'w Node option"
  mn_GracefulStop :: "'w Node \<Rightarrow> bool \<times> 'w Node"
  mn_HttpShutdown :: "'w Node \<Rightarrow> go_error option \<times> 'w Node"

section \<open>Listeners\<close>

definition LoadTLSCredentials :: "('w, 'c) main_env \<Rightarrow> string \<Rightarrow> string \<Rightarrow> 'w \<Rightarrow> 'c tls_Config result" where
  "LoadTLSCredentials me cert key w =
     (case mn_LoadX509KeyPair me cert key w of
        Inl err \<Rightarrow> Inl err
      | Inr serverCert \<Rightarrow> Inr \<lparr>tls_Certificates = [serverCert], tls_ClientAuth = NoClientCert\<rparr>)"

type_synonym 'w shutdown_func = "'w Node \<Rightarrow> go_error option \<times> 'w Node"

definition grpc_shutdown :: "('w, 'c) main_env \<Rightarrow> 'w shutdown_func" where
  "grpc_shutdown me n =
     (case mn_GracefulStop me n of
        (True, n') \<Rightarrow> (None, n')
      | (False, n') \<Rightarrow> (Some (errors_New ''context deadline exceeded''), n'))"

definition StartGRPCListener ::
  "('w, 'c) main_env \<Rightarrow> 'c tls_Config \<Rightarrow> string \<Rightarrow> NodeConfig \<Rightarrow> 'w \<Rightarrow> ('w shutdown_func \<times> 'w Node) result" where
  "StartGRPCListener me tlsConfig addr cfg w =
     (let s = controller_New (mn_node me) cfg w
      in case mn_net_Listen me addr w of
           Some err \<Rightarrow> Inl (Errorf_w (''failed to listen on '' @ addr @ '': '') err)
         | None \<Rightarrow> Inr (grpc_shutdown me, s))"

definition StartHttpListener ::
  "('w, 'c) main_env \<Rightarrow> 'c tls_Config \<Rightarrow> string \<Rightarrow> NodeConfig \<Rightarrow> 'w \<Rightarrow> ('w shutdown_func \<times> 'w Node) result" where
  "StartHttpListener me tlsConfig addr cfg w =
     (let s = controller_New (mn_node me) cfg w
      in case mn_tls_Listen me tlsConfig addr w of
           Some err \<Rightarrow> Inl err
         | None \<Rightarrow> Inr (mn_HttpShutdown me, s))"

section \<open>The process\<close>

text \<open>\<^verbatim>\<open>log.Fatal\<close> ends the process at once; otherwise \<^verbatim>\<open>main\<close> returns, with the node as it left it.\<close>

datatype 'w main_exit = LogFatal go_error | Returned "'w Node"

definition service_addr :: "NodeConfig \<Rightarrow> string" where
  "service_addr cfg = nc_NodeHost cfg @ '':'' @ int_text (nc_ServicePort cfg)"

definition node_main :: "('w, 'c) main_env \<Rightarrow> 'w \<Rightarrow> 'w main_exit option" where
  "node_main me w =
     (case Load (mn_uuid_Parse me) (mn_env me) of
        (cfg, Some err) \<Rightarrow> Some (LogFatal err)
      | (cfg, None) \<Rightarrow>
          (case LoadTLSCredentials me (nc_SslCertFile cfg) (nc_SslKeyFile cfg) w of
             Inl err \<Rightarrow> Some (LogFatal err)
           | Inr tlsConfig \<Rightarrow>
               (case (if nc_ServiceProtocol cfg = ''rest''
                      then StartHttpListener me tlsConfig (service_addr cfg) cfg w
                      else StartGRPCListener me tlsConfig (service_addr cfg) cfg w) of
                  Inl err \<Rightarrow> Some (LogFatal err)
                | Inr (shutdownFunc, service) \<Rightarrow>
                    (case mn_serve me service of
                       None \<Rightarrow> None
                     | Some n \<Rightarrow>
                         (case shutdownFunc n of
                            (err, n') \<Rightarrow> Some (Returned (Disconnect (mn_node me) n')))))))"

section \<open>The end of the process\<close>

text \<open>
  The requests from the start of the process to the end of the shutdown are a serial run of the
  controller, and none of them controls the backend at its end.
\<close>

definition serves_serially :: "('w, 'c) main_env \<Rightarrow> bool" where
  "serves_serially me \<longleftrightarrow>
     (\<forall>cfg w n sh. mn_serve me (controller_New (mn_node me) cfg w) = Some n \<longrightarrow>
        sh \<in> {grpc_shutdown me, mn_HttpShutdown me} \<longrightarrow>
        serial_reach (mn_node me) (Idle, controller_New (mn_node me) cfg w) (Idle, snd (sh n)) \<and>
        trackers_idle (snd (sh n)))"

lemma Disconnect_none_runs:
  assumes "heap_ok n"
  shows "nd_backend (Disconnect e n) = None \<and> (\<forall>b \<in> set (nd_heap (Disconnect e n)). \<not> be_Started b)"
proof -
  let ?n = "disc_cancel n"
  let ?m = "disc_shutdown e (nd_backend n) ?n"
  have "heap_ok ?n" using assms heap_ok_cong [of ?n n] by (simp add: disc_cancel_def)
  then have "disc_ok D_clear ?m"
    using disc_step_ok [of ?n "D_shutdown (nd_backend n)" e "Some D_clear" ?m] by simp
  then show ?thesis by (auto simp: Disconnect_def disc_clear_def in_set_conv_nth)
qed

lemma node_main_run:
  assumes "node_main me w = Some (Returned m)"
  obtains cfg n sh where "mn_serve me (controller_New (mn_node me) cfg w) = Some n"
    "sh \<in> {grpc_shutdown me, mn_HttpShutdown me}" "m = Disconnect (mn_node me) (snd (sh n))"
  using assms by (auto simp: node_main_def StartHttpListener_def StartGRPCListener_def Let_def
      split: prod.splits option.splits sum.splits if_splits intro: that)


section \<open>An instance\<close>

text \<open>
  A node whose panel starts a WireGuard backend before the signal arrives; the shutdown of the server
  runs into its deadline.
\<close>

definition demo_serve :: "demo_world Node \<Rightarrow> demo_world Node option" where
  "demo_serve n =
     (case StartBackend demo_node_env demo_data n of
        Some (None, n') \<Rightarrow> Some (Connect demo_node_env (bk_KeepAlive demo_data) n')
      | _ \<Rightarrow> None)"

definition demo_main :: "(demo_world, string) main_env" where
  "demo_main =
     \<lparr>mn_node = demo_node_env, mn_uuid_Parse = (\<lambda>s. Inr (replicate 16 7)),
      mn_env = [''PG_NODE_WG_HOST_ROUTING'' \<mapsto> ''false''],
      mn_LoadX509KeyPair = (\<lambda>cert key w. Inr cert), mn_net_Listen = (\<lambda>addr w. None),
      mn_tls_Listen = (\<lambda>c addr w. None), mn_serve = demo_serve,
      mn_GracefulStop = Pair False, mn_HttpShutdown = Pair None\<rparr>"

lemma demo_serves_serially: "serves_serially demo_main"
  unfolding serves_serially_def
proof (intro allI impI)
  fix cfg w n and sh :: "demo_world shutdown_func"
  let ?s = "controller_New demo_node_env cfg w"
  assume serve: "mn_serve demo_main (controller_New (mn_node demo_main) cfg w) = Some n"
    and sh: "sh \<in> {grpc_shutdown demo_main, mn_HttpShutdown demo_main}"
  have end_node: "snd (sh n) = n" using sh by (auto simp: grpc_shutdown_def demo_main_def)
  obtain n' where n': "StartBackend demo_node_env demo_data ?s = Some (None, n')"
    and n: "n = Connect demo_node_env (bk_KeepAlive demo_data) n'"
    using serve by (auto simp: demo_main_def demo_serve_def split: option.splits prod.splits)
  have trackers: "nd_trackers n' = []"
    using n' by (rule StartBackend_cases) (simp_all add: install_def controller_New_def)
  have "serial_reach demo_node_env (Idle, ?s) (Starting demo_data, ?s)"
    by (rule serial_reach.step [OF serial_reach.here start_free])
      (simp_all add: trackers_idle_def controller_New_def)
  then have "serial_reach demo_node_env (Idle, ?s) (Connecting demo_data, n')"
    by (rule serial_reach.step [OF _ started [OF n']]) (simp add: trackers trackers_idle_def)
  then have "serial_reach demo_node_env (Idle, ?s) (Idle, n)"
    unfolding n by (rule serial_reach.step [OF _ connect]) (simp add: trackers Connect_def)
  moreover have "trackers_idle n" by (simp add: n trackers trackers_idle_def Connect_def)
  ultimately show "serial_reach (mn_node demo_main) (Idle, controller_New (mn_node demo_main) cfg w) (Idle, snd (sh n)) \<and>
      trackers_idle (snd (sh n))"
    by (simp add: end_node) (simp add: demo_main_def)
qed

lemma demo_Load: "Load (mn_uuid_Parse demo_main) (mn_env demo_main) = (demo_settings, None)"
  unfolding demo_main_def demo_settings_def ex_node_def main_env.simps by code_simp


end
