(* ===== verification/XrayProcessWindows.thy ===== *)
theory XrayProcessWindows
  imports XrayProcess
begin

text \<open>
  \<^verbatim>\<open>backend/xray/process_windows.go\<close> and \<^verbatim>\<open>core_windows.go\<close>: the same functions as in \<open>XrayProcess\<close> for
  Windows, over what \<^verbatim>\<open>wmic\<close>, \<^verbatim>\<open>taskkill\<close> and the package \<^verbatim>\<open>os\<close> answer. The lemmas say what the
  search makes of a table in the format the code expects and of one with the columns in alphabetical
  order, and what the functions report when no signal but a kill can be sent.
\<close>

section \<open>The operating system\<close>

text \<open>
  \<open>wo_wmic\<close> runs \<^verbatim>\<open>wmic\<close> with the arguments and returns its standard output; \<open>wo_taskkill\<close> runs
  \<^verbatim>\<open>taskkill\<close> and returns the combined output with the error.
\<close>

record 'w wsys =
  wo_Abs :: "string \<Rightarrow> string result"
  wo_wmic :: "string list \<Rightarrow> 'w \<Rightarrow> string result"
  wo_taskkill :: "string list \<Rightarrow> 'w \<Rightarrow> (string \<times> go_error option) \<times> 'w"
  wo_FindProcess :: "int \<Rightarrow> 'w \<Rightarrow> go_error option"
  wo_Signal :: "int \<Rightarrow> go_signal \<Rightarrow> 'w \<Rightarrow> go_error option \<times> 'w"
  wo_Sleep :: "'w \<Rightarrow> 'w"

section \<open>Paths\<close>

text \<open>
  \<^verbatim>\<open>filepath.Base\<close> on Windows: both slashes separate, and the volume (a drive, a share or a device)
  is not part of the name.
\<close>

definition is_separator :: "char \<Rightarrow> bool" where
  "is_separator c \<longleftrightarrow> c = CHR ''/'' \<or> c = CHR 0x5C"

fun prefix_fold :: "string \<Rightarrow> string \<Rightarrow> bool" where
  "prefix_fold s [] = (case s of [] \<Rightarrow> True | c # _ \<Rightarrow> is_separator c)"
| "prefix_fold [] (p # ps) = False"
| "prefix_fold (c # cs) (p # ps) =
     ((if is_separator p then is_separator c else lower_char c = lower_char p) \<and> prefix_fold cs ps)"

text \<open>The position of the second separator from \<open>i\<close> on, the length where there is none.\<close>

fun unc_len :: "nat \<Rightarrow> nat \<Rightarrow> string \<Rightarrow> nat" where
  "unc_len i n [] = i"
| "unc_len i n (c # cs) =
     (if is_separator c then (if n = 1 then i else unc_len (Suc i) (Suc n) cs) else unc_len (Suc i) n cs)"

definition VolumeNameLen :: "string \<Rightarrow> nat" where
  "VolumeNameLen p =
     (if 2 \<le> length p \<and> p ! 1 = CHR '':'' then 2
      else if p = [] \<or> \<not> is_separator (hd p) then 0
      else if prefix_fold p ''//./UNC'' then unc_len (min 8 (length p)) 0 (drop 8 p)
      else if prefix_fold p ''//.'' \<or> prefix_fold p ''//?'' \<or> prefix_fold p ''/??'' then
        (if length p = 3 then 3
         else 4 + length (takeWhile (\<lambda>c. \<not> is_separator c) (drop 4 p)))
      else if 2 \<le> length p \<and> is_separator (p ! 1) then unc_len 2 0 (drop 2 p)
      else 0)"

definition path_Base_win :: "string \<Rightarrow> string" where
  "path_Base_win p =
     (if p = [] then ''.''
      else (let s = rev (dropWhile is_separator (rev p));
                v = drop (VolumeNameLen s) s;
                b = rev (takeWhile (\<lambda>c. \<not> is_separator c) (rev v))
            in if b = [] then [CHR 0x5C] else b))"

section \<open>Whether a process runs\<close>

definition isProcessRunning_win :: "'w wsys \<Rightarrow> int \<Rightarrow> 'w \<Rightarrow> bool \<times> 'w" where
  "isProcessRunning_win s pid w =
     (case wo_FindProcess s pid w of
        Some err \<Rightarrow> (False, w)
      | None \<Rightarrow> (case wo_Signal s pid SIG0 w of (err, w') \<Rightarrow> (err = None, w')))"

definition verifyProcessDead_win :: "'w wsys \<Rightarrow> int \<Rightarrow> 'w \<Rightarrow> go_error option \<times> 'w" where
  "verifyProcessDead_win s pid w =
     (case isProcessRunning_win s pid w of
        (False, w') \<Rightarrow> (None, w')
      | (True, w') \<Rightarrow> (Some (errors_New (''process '' @ int_text pid @ '' is still running'')), w'))"

text \<open>The rest of the first trimmed line that begins with \<open>key\<close>, trimmed.\<close>

definition list_value :: "string \<Rightarrow> string list \<Rightarrow> string option" where
  "list_value key lines =
     map_option (\<lambda>l. TrimSpace (drop (length key) (TrimSpace l)))
       (List.find (\<lambda>l. HasPrefix (TrimSpace l) key) lines)"

definition isProcessZombie_win :: "'w wsys \<Rightarrow> int \<Rightarrow> 'w \<Rightarrow> bool \<times> 'w" where
  "isProcessZombie_win s pid w =
     (case wo_wmic s [''process'', ''where'', ''ProcessId='' @ int_text pid, ''get'', ''ParentProcessId'', ''/format:list''] w of
        Inl err \<Rightarrow> (False, w)
      | Inr output \<Rightarrow>
          (let ppidStr = (case list_value ''ParentProcessId='' (Split output nl) of
                            Some v \<Rightarrow> v | None \<Rightarrow> [])
           in if ppidStr = [] then (False, w)
              else (case Atoi ppidStr of
                      None \<Rightarrow> (False, w)
                    | Some ppid \<Rightarrow>
                        (if ppid \<le> 4 then isProcessRunning_win s pid w
                         else (case isProcessRunning_win s ppid w of
                                 (True, w1) \<Rightarrow> (False, w1)
                               | (False, w1) \<Rightarrow> isProcessRunning_win s pid w1)))))"

section \<open>Finding processes\<close>

definition getProcessPath_win :: "'w wsys \<Rightarrow> int \<Rightarrow> 'w \<Rightarrow> string result" where
  "getProcessPath_win s pid w =
     (case wo_wmic s [''process'', ''where'', ''ProcessId='' @ int_text pid, ''get'', ''ExecutablePath'', ''/format:list''] w of
        Inl err \<Rightarrow> Inl err
      | Inr output \<Rightarrow>
          (case list_value ''ExecutablePath='' (Split output nl) of
             Some path \<Rightarrow> Inr path
           | None \<Rightarrow> Inl (errors_New (''executable path not found for PID '' @ int_text pid))))"

text \<open>One line of the table: the process it stands for; \<open>None\<close> where the loop goes on.\<close>

definition wmic_line :: "'w wsys \<Rightarrow> string \<Rightarrow> string \<Rightarrow> (int \<times> int) option" where
  "wmic_line s absPath line0 =
     (let line = TrimSpace line0
      in if line = [] \<or> HasPrefix line ''Node'' \<or> HasPrefix line ''ProcessId'' then None
         else (case Split line '','' of
                 _ # c1 # c2 # c3 # _ \<Rightarrow>
                   (let pidStr = TrimSpace c1; ppidStr = TrimSpace c2; procPath = TrimSpace c3
                    in if procPath = [] then None
                       else (case wo_Abs s procPath of
                               Inl err \<Rightarrow> None
                             | Inr procAbsPath \<Rightarrow>
                                 (if \<not> EqualFold procAbsPath absPath \<and>
                                     \<not> EqualFold (path_Base_win procAbsPath) (path_Base_win absPath)
                                  then None
                                  else (case Atoi pidStr of
                                          None \<Rightarrow> None
                                        | Some pid \<Rightarrow>
                                            (if ppidStr = [] then Some (pid, 0)
                                             else map_option (Pair pid) (Atoi ppidStr))))))
               | _ \<Rightarrow> None))"

fun wmic_lines :: "'w wsys \<Rightarrow> string \<Rightarrow> string list \<Rightarrow> 'w \<Rightarrow> ProcessInfo list \<times> 'w" where
  "wmic_lines s absPath [] w = ([], w)"
| "wmic_lines s absPath (line # ls) w =
     (case wmic_line s absPath line of
        None \<Rightarrow> wmic_lines s absPath ls w
      | Some (pid, ppid) \<Rightarrow>
          (case isProcessZombie_win s pid w of
             (z, w1) \<Rightarrow>
               (case wmic_lines s absPath ls w1 of
                  (ps, w2) \<Rightarrow> (\<lparr>pi_PID = pid, pi_PPID = ppid, pi_IsZombie = z\<rparr> # ps, w2))))"

definition findXrayProcesses_win :: "'w wsys \<Rightarrow> string \<Rightarrow> 'w \<Rightarrow> ProcessInfo list result \<times> 'w" where
  "findXrayProcesses_win s executablePath w =
     (case wo_Abs s executablePath of
        Inl err \<Rightarrow> (Inl err, w)
      | Inr absPath \<Rightarrow>
          (case wo_wmic s [''process'', ''get'', ''ProcessId,ParentProcessId,ExecutablePath'', ''/format:csv''] w of
             Inl err \<Rightarrow> (Inl (Errorf_w ''failed to list processes: '' err), w)
           | Inr output \<Rightarrow>
               (case wmic_lines s absPath (Split output nl) w of (ps, w') \<Rightarrow> (Inr ps, w'))))"

section \<open>Killing processes\<close>

definition killProcessTree_win :: "'w wsys \<Rightarrow> int \<Rightarrow> 'w \<Rightarrow> go_error option \<times> 'w" where
  "killProcessTree_win s pid w =
     (case wo_FindProcess s pid w of
        Some err \<Rightarrow>
          (case isProcessRunning_win s pid w of
             (False, w1) \<Rightarrow> (None, w1)
           | (True, w1) \<Rightarrow> (Some (Errorf_w (''failed to find process '' @ int_text pid @ '': '') err), w1))
      | None \<Rightarrow>
          (let w1 = snd (wo_Signal s pid SIGTERM w)
           in case wo_taskkill s [''/F'', ''/T'', ''/PID'', int_text pid] w1 of
                ((output, Some err), w2) \<Rightarrow>
                  (case isProcessRunning_win s pid w2 of
                     (False, w3) \<Rightarrow> (None, w3)
                   | (True, w3) \<Rightarrow>
                       (let outputStr = ToLower output
                        in if Contains outputStr ''not found'' \<or> Contains outputStr ''does not exist''
                           then (None, w3)
                           else (Some (GoErr Plain (''failed to kill process tree '' @ int_text pid @ '': '' @
                                    Error_text err @ '' (output: '' @ output @ '')'') (Some err)), w3)))
              | ((output, None), w2) \<Rightarrow>
                  (case isProcessRunning_win s pid w2 of
                     (False, w3) \<Rightarrow> (None, w3)
                   | (True, w3) \<Rightarrow>
                       (case isProcessRunning_win s pid (wo_Sleep s w3) of
                          (False, w4) \<Rightarrow> (None, w4)
                        | (True, w4) \<Rightarrow>
                            (Some (errors_New (''process '' @ int_text pid @ '' is still running after kill attempt'')), w4)))))"

section \<open>Text\<close>

lemma split_go_char:
  "c \<notin> set p \<Longrightarrow> split_go [c] cur 0 (p @ c # s) = (rev cur @ p) # split_go [c] [] 0 s"
  by (induction p arbitrary: cur) (auto simp: HasPrefix_def)

lemma split_go_char_end: "c \<notin> set p \<Longrightarrow> split_go [c] cur 0 p = [rev cur @ p]"
  by (induction p arbitrary: cur) (auto simp: HasPrefix_def)

lemma Split_char: "c \<notin> set p \<Longrightarrow> Split (p @ c # s) [c] = p # Split s [c]"
  by (simp add: Split_def split_go_char)

lemma Split_char_end: "c \<notin> set p \<Longrightarrow> Split p [c] = [p]"
  by (simp add: Split_def split_go_char_end)

lemma nl_char: "nl = [CHR 0x0A]"
  by code_simp

lemma Split_lines:
  "list_all (\<lambda>l. CHR 0x0A \<notin> set l) ls \<Longrightarrow> Split (concat (map (\<lambda>l. l @ nl) ls)) nl = ls @ [[]]"
  by (induction ls) (simp_all add: nl_char Split_char Split_char_end)

lemma dropWhile_hd: "xs = [] \<or> \<not> P (hd xs) \<Longrightarrow> dropWhile P xs = xs"
  by (cases xs) auto

lemma TrimSpace_plain: "s = [] \<or> \<not> is_space (hd s) \<and> \<not> is_space (last s) \<Longrightarrow> TrimSpace s = s"
  by (auto simp: TrimSpace_def dropWhile_hd hd_rev)

lemma TrimSpace_CR:
  "s \<noteq> [] \<Longrightarrow> \<not> is_space (hd s) \<Longrightarrow> \<not> is_space (last s) \<Longrightarrow> TrimSpace (s @ [CHR 0x0D]) = s"
proof -
  assume s: "s \<noteq> []" "\<not> is_space (hd s)" "\<not> is_space (last s)"
  have "is_space (CHR 0x0D)" by (simp add: is_space_def)
  then show ?thesis using s by (simp add: TrimSpace_def dropWhile_hd hd_rev)
qed

lemma decimal_digits: "decimal n \<noteq> [] \<and> list_all is_digit (decimal n)"
proof (induction n rule: decimal.induct)
  case (1 n)
  have digit: "is_digit (char_of (48 + k))" if "k < 10" for k :: nat
    using that by (simp add: is_digit_def Let_def)
  then show ?case
    using 1 digit [of n] digit [of "n mod 10"] by (subst (1 2) decimal.simps) simp
qed

lemma digit_plain: "is_digit c \<Longrightarrow> \<not> is_space c \<and> c \<noteq> CHR '','' \<and> c \<noteq> CHR ''-'' \<and> c \<noteq> CHR ''+'' \<and> c \<noteq> CHR 0x0A"
  by (auto simp: is_digit_def is_space_def Let_def)

lemma decimal_plain: "c \<in> set (decimal n) \<Longrightarrow> is_digit c"
  using decimal_digits [of n] by (simp add: list_all_iff)

lemma TrimSpace_decimal: "TrimSpace (decimal n) = decimal n"
  by (rule TrimSpace_plain) (metis decimal_digits decimal_plain digit_plain hd_in_set last_in_set)

lemma Atoi_decimal: "n < 2 ^ 63 \<Longrightarrow> Atoi (decimal n) = Some (int n)"
proof -
  assume n: "n < 2 ^ 63"
  obtain c cs where d: "decimal n = c # cs" using decimal_digits [of n] by (cases "decimal n") auto
  then have "c \<noteq> CHR ''-''" "c \<noteq> CHR ''+''" using decimal_plain [of c n] digit_plain [of c] by auto
  moreover have "list_all is_digit (c # cs)" "digits_value (c # cs) = int n"
    using decimal_digits [of n] digits_value_decimal [of n] d by auto
  ultimately show ?thesis using n d by (simp add: Atoi_def Let_def)
qed

section \<open>The table the search expects\<close>

record wmic_row =
  wr_Node :: string
  wr_PID :: nat
  wr_PPID :: nat
  wr_Path :: string

definition row_text :: "wmic_row \<Rightarrow> string" where
  "row_text r = wr_Node r @ '','' @ decimal (wr_PID r) @ '','' @ decimal (wr_PPID r) @ '','' @ wr_Path r @ [CHR 0x0D]"

definition wmic_table :: "wmic_row list \<Rightarrow> string" where
  "wmic_table rows =
     concat (map (\<lambda>l. l @ nl) ((''Node,ProcessId,ParentProcessId,ExecutablePath'' @ [CHR 0x0D]) # map row_text rows))"

text \<open>Values without commas and line breaks that trimming leaves alone.\<close>

definition plain_value :: "string \<Rightarrow> bool" where
  "plain_value s \<longleftrightarrow> CHR '','' \<notin> set s \<and> CHR 0x0A \<notin> set s \<and> (s = [] \<or> \<not> is_space (hd s) \<and> \<not> is_space (last s))"

definition row_ok :: "wmic_row \<Rightarrow> bool" where
  "row_ok r \<longleftrightarrow>
     plain_value (wr_Node r) \<and> wr_Node r \<noteq> [] \<and> \<not> HasPrefix (wr_Node r) ''Node'' \<and>
     \<not> HasPrefix (wr_Node r) ''ProcessId'' \<and> plain_value (wr_Path r) \<and> wr_PID r < 2 ^ 63 \<and> wr_PPID r < 2 ^ 63"

definition is_xray_path :: "'w wsys \<Rightarrow> string \<Rightarrow> string \<Rightarrow> bool" where
  "is_xray_path s absPath path \<longleftrightarrow>
     path \<noteq> [] \<and>
     (case wo_Abs s path of
        Inl err \<Rightarrow> False
      | Inr p \<Rightarrow> EqualFold p absPath \<or> EqualFold (path_Base_win p) (path_Base_win absPath))"

lemma prefix_before_comma:
  assumes "\<not> HasPrefix a p" "CHR '','' \<notin> set p"
  shows "\<not> HasPrefix (a @ CHR '','' # b) p"
proof
  assume h: "HasPrefix (a @ CHR '','' # b) p"
  show False
  proof (cases "length p \<le> length a")
    case True then show False using h assms(1) by (simp add: HasPrefix_def)
  next
    case False
    have "take (length p) (a @ CHR '','' # b) ! length a = CHR '',''"
      using False by (simp del: take_append)
    then have "p ! length a = CHR '',''" using h by (simp only: HasPrefix_def)
    then have "CHR '','' \<in> set p" using False by (metis linorder_not_le nth_mem)
    then show False using assms(2) by simp
  qed
qed

lemma wmic_line_row:
  assumes "row_ok r"
  shows "wmic_line s absPath (row_text r) =
           (if is_xray_path s absPath (wr_Path r) then Some (int (wr_PID r), int (wr_PPID r)) else None)"
proof -
  define l where "l = wr_Node r @ '','' @ decimal (wr_PID r) @ '','' @ decimal (wr_PPID r) @ '','' @ wr_Path r"
  have trim: "TrimSpace (row_text r) = l"
    using TrimSpace_CR [of l] assms
    by (auto simp: l_def row_text_def row_ok_def plain_value_def is_space_def)
  have prefix: "l \<noteq> []" "\<not> HasPrefix l ''Node''" "\<not> HasPrefix l ''ProcessId''"
    using prefix_before_comma [of "wr_Node r"] assms by (auto simp: l_def row_ok_def)
  have comma: "CHR '','' \<notin> set (decimal n)" for n using decimal_plain digit_plain by blast
  have split: "Split l '','' = [wr_Node r, decimal (wr_PID r), decimal (wr_PPID r), wr_Path r]"
    using assms by (simp add: l_def row_ok_def plain_value_def Split_char Split_char_end comma)
  have path: "TrimSpace (wr_Path r) = wr_Path r"
    using assms by (auto simp: row_ok_def plain_value_def TrimSpace_plain)
  have ids: "Atoi (decimal (wr_PID r)) = Some (int (wr_PID r))" "Atoi (decimal (wr_PPID r)) = Some (int (wr_PPID r))"
    using assms by (simp_all add: row_ok_def Atoi_decimal)
  show ?thesis
    using prefix decimal_digits [of "wr_PPID r"]
    by (simp add: wmic_line_def Let_def trim split path ids TrimSpace_decimal is_xray_path_def split: sum.split)
qed

lemma wmic_lines_ids:
  "map (\<lambda>p. (pi_PID p, pi_PPID p)) (fst (wmic_lines s absPath ls w)) = List.map_filter (wmic_line s absPath) ls"
  by (induction ls arbitrary: w)
    (simp_all add: List.map_filter_simps split_beta split: option.split)


section \<open>Without signals\<close>

text \<open>
  On Windows \<^verbatim>\<open>(*os.Process).Signal\<close> sends no signal but \<^verbatim>\<open>os.Kill\<close>: for every other one it returns an
  error. So the code's test whether a process runs says no for each of them.
\<close>

definition kill_only :: "'w wsys \<Rightarrow> bool" where
  "kill_only s \<longleftrightarrow> (\<forall>p w. fst (wo_Signal s p SIG0 w) \<noteq> None)"

lemma kill_only_running: "kill_only s \<Longrightarrow> \<not> fst (isProcessRunning_win s p w)"
  by (auto simp: kill_only_def isProcessRunning_win_def split_beta split: option.split)

lemma kill_only_zombie: "kill_only s \<Longrightarrow> \<not> fst (isProcessZombie_win s p w)"
  by (simp add: isProcessZombie_win_def Let_def split_beta kill_only_running split: option.split sum.split)

lemma windows_kill_reports_success:
  assumes "kill_only s"
  shows "fst (killProcessTree_win s p w) = None \<and> fst (verifyProcessDead_win s p w) = None"
  by (simp add: killProcessTree_win_def verifyProcessDead_win_def Let_def split_beta
      kill_only_running [OF assms] split: option.split)

text \<open>
  A host on which a process cannot be killed: the world is the list of the running processes, and
  \<^verbatim>\<open>taskkill\<close> is denied access.
\<close>

definition demo_windows :: "int list wsys" where
  "demo_windows =
     \<lparr>wo_Abs = Inr,
      wo_wmic = (\<lambda>args w.
        if args = [''process'', ''get'', ''ProcessId,ParentProcessId,ExecutablePath'', ''/format:csv'']
        then Inr (wmic_table
               [\<lparr>wr_Node = ''PC'', wr_PID = 4, wr_PPID = 0, wr_Path = []\<rparr>,
                \<lparr>wr_Node = ''PC'', wr_PID = 812, wr_PPID = 700, wr_Path = ''D:/node/XRAY.exe''\<rparr>,
                \<lparr>wr_Node = ''PC'', wr_PID = 900, wr_PPID = 4, wr_Path = ''C:/cmd.exe''\<rparr>])
        else Inl (errors_New ''exit status 1'')),
      wo_taskkill = (\<lambda>args w. ((''ERROR: Access is denied.'', Some (errors_New ''exit status 1'')), w)),
      wo_FindProcess = (\<lambda>p w. if p \<in> set w then None else Some (errors_New ''OpenProcess: The parameter is incorrect.'')),
      wo_Signal = (\<lambda>p sg w. (Some (errors_New ''not supported by windows''), w)),
      wo_Sleep = id\<rparr>"

lemma demo_windows_kill_only: "kill_only demo_windows"
  by (simp add: kill_only_def demo_windows_def)

lemma windows_kill_reports_success_witness:
  "fst (killProcessTree_win demo_windows 812 [4, 812]) = None \<and>
   812 \<in> set (snd (killProcessTree_win demo_windows 812 [4, 812]))"
  using windows_kill_reports_success [OF demo_windows_kill_only, of 812 "[4, 812]"]
  by (simp add: killProcessTree_win_def isProcessRunning_win_def demo_windows_def)


section \<open>Columns in alphabetical order\<close>

text \<open>
  \<^verbatim>\<open>wmic\<close> writes the columns of its \<^verbatim>\<open>csv\<close> format in alphabetical order. Then the second field is the path,
  which is not a number, so that the search drops every line.
\<close>

definition sorted_row_text :: "wmic_row \<Rightarrow> string" where
  "sorted_row_text r = wr_Node r @ '','' @ wr_Path r @ '','' @ decimal (wr_PPID r) @ '','' @ decimal (wr_PID r) @ [CHR 0x0D]"

lemma wmic_line_sorted:
  assumes "row_ok r" and "Atoi (wr_Path r) = None"
  shows "wmic_line s absPath (sorted_row_text r) = None"
proof -
  define l where "l = wr_Node r @ '','' @ wr_Path r @ '','' @ decimal (wr_PPID r) @ '','' @ decimal (wr_PID r)"
  have "\<not> is_space (last (decimal n))" for n
    using decimal_digits [of n] decimal_plain [of "last (decimal n)" n] digit_plain by auto
  then have trim: "TrimSpace (sorted_row_text r) = l"
    using TrimSpace_CR [of l] assms decimal_digits [of "wr_PID r"]
    by (auto simp: l_def sorted_row_text_def row_ok_def plain_value_def)
  have comma: "CHR '','' \<notin> set (decimal n)" for n using decimal_plain digit_plain by blast
  have split: "Split l '','' = [wr_Node r, wr_Path r, decimal (wr_PPID r), decimal (wr_PID r)]"
    using assms by (simp add: l_def row_ok_def plain_value_def Split_char Split_char_end comma)
  have "TrimSpace (wr_Path r) = wr_Path r"
    using assms by (auto simp: row_ok_def plain_value_def TrimSpace_plain)
  then show ?thesis
    using assms(2) by (simp add: wmic_line_def Let_def trim split split: sum.split)
qed

lemma sorted_columns_hide_processes:
  assumes "list_all (\<lambda>r. row_ok r \<and> Atoi (wr_Path r) = None) rows"
  shows "wmic_lines s absPath (map sorted_row_text rows) w = ([], w)"
  using assms by (induction rows) (simp_all add: wmic_line_sorted)

end
