(* ===== verification/SysStats.thy ===== *)
theory SysStats
  imports Complex_Main NodeConfig NodeReplies
begin

text \<open>
  \<^verbatim>\<open>pkg/sysstats/sys.go\<close>: the statistics of the host, over what the sampling library answers. A
  \<^verbatim>\<open>float64\<close> is the rational number it stands for, and every operation rounds its exact result to the
  nearest one with a significand of 53 bits (ties to even); NaN and the infinities are left out, as
  the numbers are seconds since boot. The lemmas are the bounds of the percentage and what
  \<^verbatim>\<open>sync.Once\<close> makes of the number of cores.
\<close>

section \<open>Floating point numbers\<close>

text \<open>The number of bits of a positive integer, and the exponent \<open>e\<close> with \<open>2 ^ e \<le> q < 2 ^ (e + 1)\<close>.\<close>

function bit_count :: "int \<Rightarrow> int" where
  "bit_count n = (if n \<le> 0 then 0 else 1 + bit_count (n div 2))"
  by pat_completeness auto
termination by (relation "measure nat") auto

declare bit_count.simps [simp del]

definition pow2 :: "int \<Rightarrow> rat" where
  "pow2 e = (if 0 \<le> e then 2 ^ nat e else 1 / 2 ^ nat (- e))"

definition rat_exponent :: "rat \<Rightarrow> int" where
  "rat_exponent q =
     (case quotient_of q of
        (n, d) \<Rightarrow>
          (let e = bit_count n - bit_count d
           in if pow2 e \<le> q then e else e - 1))"

definition round_even :: "rat \<Rightarrow> int" where
  "round_even q =
     (let f = \<lfloor>q\<rfloor>; r = q - of_int f
      in if r < 1 / 2 then f else if 1 / 2 < r then f + 1 else if even f then f else f + 1)"

text \<open>The lowest exponent of a unit in the last place is \<open>-1074\<close>.\<close>

definition float_ulp :: "rat \<Rightarrow> rat" where
  "float_ulp q = pow2 (max (- 1074) (rat_exponent \<bar>q\<bar> - 52))"

definition float_round :: "rat \<Rightarrow> rat" where
  "float_round q = (if q = 0 then 0 else of_int (round_even (q / float_ulp q)) * float_ulp q)"

text \<open>\<^verbatim>\<open>math.Float64bits\<close> of a number that is not negative.\<close>

definition float_bits :: "rat \<Rightarrow> uint64" where
  "float_bits q =
     (if q = 0 then 0
      else (let e = rat_exponent q
            in if e < - 1022 then word_of_int \<lfloor>q / pow2 (- 1074)\<rfloor>
               else word_of_int ((e + 1022) * 2 ^ 52 + \<lfloor>q / pow2 (e - 52)\<rfloor>)))"

definition fadd :: "rat \<Rightarrow> rat \<Rightarrow> rat" where
  "fadd a b = float_round (a + b)"

definition fsub :: "rat \<Rightarrow> rat \<Rightarrow> rat" where
  "fsub a b = float_round (a - b)"

section \<open>The load of the processors\<close>

record TimesStat =
  ts_User :: rat
  ts_System :: rat
  ts_Idle :: rat
  ts_Nice :: rat
  ts_Iowait :: rat
  ts_Irq :: rat
  ts_Softirq :: rat
  ts_Steal :: rat

definition cpuBusyTotal :: "TimesStat \<Rightarrow> rat \<times> rat" where
  "cpuBusyTotal t =
     (let busy = fadd (fadd (fadd (fadd (fadd (fadd (ts_User t) (ts_System t)) (ts_Nice t))
                   (ts_Iowait t)) (ts_Irq t)) (ts_Softirq t)) (ts_Steal t)
      in (fadd busy (ts_Idle t), busy))"

definition cpuPercent :: "TimesStat \<Rightarrow> TimesStat \<Rightarrow> rat" where
  "cpuPercent t1 t2 =
     (let (t1All, t1Busy) = cpuBusyTotal t1; (t2All, t2Busy) = cpuBusyTotal t2
      in if t2Busy \<le> t1Busy then 0
         else if t2All \<le> t1All then 100
         else min 100 (max 0 (float_round
                (float_round (fsub t2Busy t1Busy / fsub t2All t1All) * 100))))"

section \<open>Bandwidth\<close>

record IOCountersStat =
  io_Name :: string
  io_BytesRecv :: uint64
  io_BytesSent :: uint64

definition prev_counters :: "IOCountersStat list \<Rightarrow> (string \<rightharpoonup> IOCountersStat)" where
  "prev_counters first =
     fold (\<lambda>c prev. if io_Name c = ''lo'' then prev else prev(io_Name c \<mapsto> c)) first Map.empty"

definition bandwidthDelta :: "IOCountersStat list \<Rightarrow> IOCountersStat list \<Rightarrow> uint64 \<times> uint64" where
  "bandwidthDelta first snapshot2 =
     (let prev = prev_counters first
      in fold (\<lambda>c (rx, tx).
           if io_Name c = ''lo'' then (rx, tx)
           else (case prev (io_Name c) of
                   Some p \<Rightarrow> (rx + (io_BytesRecv c - io_BytesRecv p), tx + (io_BytesSent c - io_BytesSent p))
                 | None \<Rightarrow> (rx, tx))) snapshot2 (0, 0))"

section \<open>The samples\<close>

text \<open>
  What the library and the context answer: \<open>sy_Done\<close> says whether the context is done before the timer
  of the given duration fires (\<^verbatim>\<open>select\<close> may take either when both are ready).
\<close>

record 'w sampler =
  sy_Err :: "'w \<Rightarrow> go_error option"
  sy_VirtualMemory :: "'w \<Rightarrow> (uint64 \<times> uint64) result \<times> 'w"
  sy_Counts :: "'w \<Rightarrow> int result \<times> 'w"
  sy_Times :: "'w \<Rightarrow> TimesStat list result \<times> 'w"
  sy_IOCounters :: "'w \<Rightarrow> IOCountersStat list result \<times> 'w"
  sy_Done :: "int \<Rightarrow> 'w \<Rightarrow> bool \<times> 'w"

text \<open>The package variables \<^verbatim>\<open>cpuCoresOnce\<close>, \<^verbatim>\<open>cpuCores\<close> and \<^verbatim>\<open>cpuCoresErr\<close>.\<close>

record core_cache =
  cc_once :: bool
  cc_cores :: uint64
  cc_err :: "go_error option"

definition empty_cache :: core_cache where
  "empty_cache = \<lparr>cc_once = False, cc_cores = 0, cc_err = None\<rparr>"

definition cachedCPUCores ::
  "'w sampler \<Rightarrow> core_cache \<Rightarrow> 'w \<Rightarrow> (uint64 \<times> go_error option) \<times> core_cache \<times> 'w" where
  "cachedCPUCores s c w =
     (let (c', w') =
        (if cc_once c then (c, w)
         else (case sy_Counts s w of
                 (Inl err, w') \<Rightarrow> (c\<lparr>cc_once := True, cc_err := Some err\<rparr>, w')
               | (Inr n, w') \<Rightarrow> (c\<lparr>cc_once := True, cc_cores := word_of_int n\<rparr>, w')))
      in ((cc_cores c', cc_err c'), c', w'))"

definition sampleInterval :: int where
  "sampleInterval = second"

definition waitSample :: "'w sampler \<Rightarrow> int \<Rightarrow> 'w \<Rightarrow> go_error option \<times> 'w" where
  "waitSample s d w = (case sy_Done s d w of (fired, w') \<Rightarrow> (if fired then sy_Err s w' else None, w'))"

definition no_stats :: SystemStatsResponse where
  "no_stats = \<lparr>ss_MemTotal = 0, ss_MemUsed = 0, ss_CpuCores = 0, ss_CpuUsage = 0,
     ss_IncomingBandwidthSpeed = 0, ss_OutgoingBandwidthSpeed = 0, ss_Uptime = 0\<rparr>"

type_synonym 'w sampled = "(SystemStatsResponse \<times> go_error option) \<times> core_cache \<times> 'w"

text \<open>The two samples with the pause between them; the statistics so far are \<open>stats\<close>.\<close>

definition sample_rates :: "'w sampler \<Rightarrow> SystemStatsResponse \<Rightarrow> 'w \<Rightarrow> (SystemStatsResponse \<times> go_error option) \<times> 'w" where
  "sample_rates s stats w0 =
     (case sy_Times s w0 of (Inl err, w) \<Rightarrow> ((stats, Some err), w) | (Inr cpuFirst, w1) \<Rightarrow>
     (case sy_IOCounters s w1 of (Inl err, w) \<Rightarrow> ((stats, Some err), w) | (Inr netFirst, w2) \<Rightarrow>
     (case waitSample s sampleInterval w2 of (Some err, w) \<Rightarrow> ((stats, Some err), w) | (None, w3) \<Rightarrow>
     (case sy_Times s w3 of (Inl err, w) \<Rightarrow> ((stats, Some err), w) | (Inr cpuSecond, w4) \<Rightarrow>
     (case sy_IOCounters s w4 of (Inl err, w) \<Rightarrow> ((stats, Some err), w) | (Inr netSecond, w5) \<Rightarrow>
       (let stats1 = (case (cpuFirst, cpuSecond) of
                        (c1 # _, c2 # _) \<Rightarrow> stats\<lparr>ss_CpuUsage := float_bits (cpuPercent c1 c2)\<rparr>
                      | _ \<Rightarrow> stats);
            (rx, tx) = bandwidthDelta netFirst netSecond
        in ((stats1\<lparr>ss_IncomingBandwidthSpeed := rx, ss_OutgoingBandwidthSpeed := tx\<rparr>, None), w5)))))))"

definition GetSystemStats :: "'w sampler \<Rightarrow> core_cache \<Rightarrow> 'w \<Rightarrow> 'w sampled" where
  "GetSystemStats s c w0 =
     (case sy_Err s w0 of Some err \<Rightarrow> ((no_stats, Some err), c, w0) | None \<Rightarrow>
     (case sy_VirtualMemory s w0 of (Inl err, w) \<Rightarrow> ((no_stats, Some err), c, w) | (Inr (vmTotal, vmUsed), w1) \<Rightarrow>
       (let stats = no_stats\<lparr>ss_MemTotal := vmTotal, ss_MemUsed := vmUsed\<rparr>
        in case cachedCPUCores s c w1 of
             ((_, Some err), c', w) \<Rightarrow> ((stats, Some err), c', w)
           | ((cores, None), c', w2) \<Rightarrow>
               (case sample_rates s (stats\<lparr>ss_CpuCores := cores\<rparr>) w2 of (r, w) \<Rightarrow> (r, c', w)))))"

text \<open>Successive calls in one process: the cache is the package's, the world goes its own way between them.\<close>

fun sample_calls :: "'w sampler \<Rightarrow> (nat \<Rightarrow> 'w \<Rightarrow> 'w) \<Rightarrow> nat \<Rightarrow> core_cache \<Rightarrow> 'w \<Rightarrow> (SystemStatsResponse \<times> go_error option) list" where
  "sample_calls s other 0 c w = []"
| "sample_calls s other (Suc k) c w =
     (case GetSystemStats s c (other k w) of (r, c', w') \<Rightarrow> r # sample_calls s other k c' w')"

section \<open>Lemmas\<close>

lemma cachedCPUCores_once:
  "cc_once c \<Longrightarrow> cachedCPUCores s c w = ((cc_cores c, cc_err c), c, w)"
  by (simp add: cachedCPUCores_def)

lemma GetSystemStats_cache:
  assumes "cc_once c" and "GetSystemStats s c w = (r, c', w')"
  shows "c' = c"
  using assms by (auto simp: GetSystemStats_def cachedCPUCores_once Let_def
      split: option.splits sum.splits prod.splits)

lemma sample_rates_cores: "ss_CpuCores (fst (fst (sample_rates s stats w))) = ss_CpuCores stats"
  by (auto simp: sample_rates_def Let_def split: sum.split prod.split option.split list.split)

lemma sample_rates_kept:
  "sample_rates s stats w = (r, w') \<Longrightarrow> ss_CpuCores (fst r) = ss_CpuCores stats"
  using sample_rates_cores [of s stats w] by simp

text \<open>What a call can return once the processors were counted.\<close>

definition fixed_cores :: "core_cache \<Rightarrow> (SystemStatsResponse \<times> go_error option) set" where
  "fixed_cores c =
     (case cc_err c of
        Some err \<Rightarrow> {r. snd r \<noteq> None}
      | None \<Rightarrow> {r. snd r \<noteq> None \<or> ss_CpuCores (fst r) = cc_cores c})"

lemma counted_cores:
  "cachedCPUCores s c w = ((n, err), c', w') \<Longrightarrow> cc_once c' \<and> n = cc_cores c' \<and> err = cc_err c'"
  by (auto simp: cachedCPUCores_def Let_def split: if_splits prod.splits sum.splits)

lemma GetSystemStats_fixed:
  assumes "GetSystemStats s c w = (r, c', w')" and "cc_once c'"
  shows "r \<in> fixed_cores c'"
proof (cases "sy_Err s w")
  case (Some err)
  then show ?thesis using assms(1)
    by (auto simp: GetSystemStats_def fixed_cores_def split: option.split)
next
  case ctx: None
  show ?thesis
  proof (cases "sy_VirtualMemory s w")
    case (Pair vm w1)
    obtain n err c1 w2 where cores: "cachedCPUCores s c w1 = ((n, err), c1, w2)" by (metis prod.exhaust)
    show ?thesis
      using assms(1) ctx Pair cores counted_cores [OF cores]
      by (auto simp: GetSystemStats_def fixed_cores_def Let_def
          split: sum.splits prod.splits option.splits dest: sample_rates_kept)
  qed
qed

lemma sample_calls_fixed:
  "cc_once c \<Longrightarrow> set (sample_calls s other k c w) \<subseteq> fixed_cores c"
proof (induction k arbitrary: c w)
  case (Suc k)
  obtain r c' w' where g: "GetSystemStats s c (other k w) = (r, c', w')" using prod_cases3 by blast
  then have "c' = c" "r \<in> fixed_cores c"
    using GetSystemStats_cache [OF Suc.prems g] GetSystemStats_fixed [OF g] Suc.prems by auto
  then show ?case using Suc.IH [OF Suc.prems, of w'] g by simp
qed simp

lemma pow2_pos [simp]: "0 < pow2 e"
  by (simp add: pow2_def)

lemma cpuPercent_range: "0 \<le> cpuPercent t1 t2 \<and> cpuPercent t1 t2 \<le> 100"
  by (simp add: cpuPercent_def Let_def split: prod.split)

text \<open>What a call can return, given the only answer to the request for the number of processors.\<close>

definition answers_of :: "int result \<Rightarrow> (SystemStatsResponse \<times> go_error option) set" where
  "answers_of count =
     (case count of
        Inl err \<Rightarrow> {r. snd r \<noteq> None}
      | Inr n \<Rightarrow> {r. snd r \<noteq> None \<or> ss_CpuCores (fst r) = word_of_int n})"

lemma first_count:
  assumes "sy_Err s w = None" "sy_VirtualMemory s w = (Inr vm, w1)" "sy_Counts s w1 = (count, w2)"
    and "GetSystemStats s empty_cache w = (r, c', w')"
  shows "cc_once c' \<and> fixed_cores c' = answers_of count"
  using assms by (cases count)
    (auto simp: GetSystemStats_def cachedCPUCores_def empty_cache_def fixed_cores_def answers_of_def Let_def
      split: prod.splits)

text \<open>
  C39. The number of processors is final: when the first call of \<^verbatim>\<open>GetSystemStats\<close> asks the library for it,
  the answer to that request decides what this call and every later one return: always an error if it was an
  error, and otherwise the number in every call that succeeds, whatever the library would answer later.
\<close>

theorem core_count_final:
  assumes "sy_Err s w = None" "sy_VirtualMemory s w = (Inr vm, w1)" "sy_Counts s w1 = (count, w2)"
    and "GetSystemStats s empty_cache w = (r, c', w')"
  shows "set (r # sample_calls s other k c' w') \<subseteq> answers_of count"
proof -
  have c: "cc_once c'" "fixed_cores c' = answers_of count" using first_count [OF assms] by simp_all
  show ?thesis using GetSystemStats_fixed [OF assms(4) c(1)] sample_calls_fixed [OF c(1)] c(2) by simp
qed

text \<open>A host whose first count fails; the world counts the requests.\<close>

definition demo_sampler :: "nat sampler" where
  "demo_sampler =
     \<lparr>sy_Err = (\<lambda>w. None),
      sy_VirtualMemory = (\<lambda>w. (Inr (1000, 10), w)),
      sy_Counts = (\<lambda>w. (if w = 0 then Inl (errors_New ''interrupted'') else Inr 4, Suc w)),
      sy_Times = (\<lambda>w. (Inr [], Suc w)),
      sy_IOCounters = (\<lambda>w. (Inr [], Suc w)),
      sy_Done = (\<lambda>d w. (False, w))\<rparr>"

theorem core_count_final_witness:
  "fst (sy_Counts demo_sampler 1) = Inr 4 \<and>
   (\<exists>r c' w'. GetSystemStats demo_sampler empty_cache 0 = (r, c', w') \<and>
      None \<notin> snd ` set (r # sample_calls demo_sampler (\<lambda>_ w. Suc w) 20 c' w'))"
proof -
  obtain r c' w' where g: "GetSystemStats demo_sampler empty_cache 0 = (r, c', w')" using prod_cases3 by blast
  have "set (r # sample_calls demo_sampler (\<lambda>_ w. Suc w) 20 c' w') \<subseteq> answers_of (Inl (errors_New ''interrupted''))"
    by (rule core_count_final [where ?w2.0 = 1, OF _ _ _ g]) (simp_all add: demo_sampler_def)
  then show ?thesis using g by (auto simp: answers_of_def demo_sampler_def)
qed

end
