(* ===== verification/Spec2Isabelle.thy ===== *)
theory Spec2Isabelle
  imports WireGuardProps XrayUsers XrayApplyProps XrayBackendProps XrayAgree Chunks ControllerProps
    NodeMain XrayProcessWindows SysStats
begin

text \<open>
  A model of the node: the worker that a panel controls over gRPC or HTTP and that runs one backend, either
  a WireGuard interface of the kernel or an Xray process.

  \<^bold>\<open>Parts of the program and how they interact.\<close> A server (\<^verbatim>\<open>controller/rpc\<close> or \<^verbatim>\<open>controller/rest\<close>)
  checks the API key and hands a request to its handler. The handlers call the controller
  (\<^verbatim>\<open>controller/controller.go\<close>), which holds the pointer to the current backend, starts and disconnects
  backends and drops clients that are silent for too long. A backend (\<^verbatim>\<open>backend/backend.go\<close>) is
  \<^verbatim>\<open>backend/wireguard\<close>, which keeps a peer store beside the peer table of the kernel and accounts traffic
  (\<^verbatim>\<open>pkg/stats\<close>), or \<^verbatim>\<open>backend/xray\<close>, which keeps a configuration beside a running core, watches the core
  and changes its users through the API of the core.

  \<^bold>\<open>Theories.\<close>
  \<^item> \<open>Prelude\<close>: Go's integers, strings, errors and map iteration; \<open>GoNet\<close> (\<^verbatim>\<open>net\<close>), \<open>GoCrypto\<close> (base64 and
    SHA-256): what the source uses of the standard library.
  \<^item> \<open>NodeMessages\<close>, \<open>NodeReplies\<close>: the structs of \<^verbatim>\<open>common/service.pb.go\<close>. \<open>NodeConfig\<close>: \<^verbatim>\<open>config/config.go\<close>,
    \<^verbatim>\<open>pkg/netutil/port.go\<close>. \<open>SysStats\<close>: \<^verbatim>\<open>pkg/sysstats/sys.go\<close>. \<open>Helper\<close>: \<^verbatim>\<open>common/helper.go\<close>.
  \<^item> WireGuard. \<open>PeerStore\<close>: \<^verbatim>\<open>peer_store.go\<close>, the locale \<open>peer_directory\<close> and its interpretation. \<open>WGConfig\<close>:
    \<^verbatim>\<open>config.go\<close>. \<open>WGSync\<close>: \<^verbatim>\<open>user_common.go\<close>. \<open>WGManager\<close>: \<^verbatim>\<open>manager.go\<close> over a host of netlink and wgctrl
    calls, with a simulated host. \<open>Ledger\<close>, \<open>StatsTracker\<close>: \<^verbatim>\<open>pkg/stats\<close> and the accounting contract it keeps.
    \<open>HostRouting\<close>: \<^verbatim>\<open>host_routing_linux.go\<close>, \<^verbatim>\<open>defaultroute_linux.go\<close>. \<open>WireGuardBackend\<close>: \<^verbatim>\<open>wireguard.go\<close>,
    \<^verbatim>\<open>user*.go\<close>, \<^verbatim>\<open>jobs.go\<close>, \<^verbatim>\<open>stats.go\<close>, \<^verbatim>\<open>log.go\<close>, \<^verbatim>\<open>latency.go\<close>. \<open>WireGuardSync\<close>: the lemmas on synchronisation,
    restart and shutdown. \<open>WireGuardProps\<close>: the properties and their instances.
  \<^item> Xray. \<open>XrayAccount\<close>: \<^verbatim>\<open>api/account.go\<close>, \<^verbatim>\<open>api/message.go\<close>, \<^verbatim>\<open>api/proxyman.go\<close>. \<open>XrayConfig\<close>, \<open>XrayApply\<close>:
    \<^verbatim>\<open>config.go\<close>, \<^verbatim>\<open>config_clone.go\<close>. \<open>XrayUsers\<close>, \<open>XrayApplyProps\<close>: their properties. \<open>XrayProcess\<close>:
    \<^verbatim>\<open>process_unix.go\<close>. \<open>XrayProcessWindows\<close>: \<^verbatim>\<open>process_windows.go\<close>. \<open>LogRing\<close>, \<open>Logger\<close>, \<open>XrayLog\<close>: \<^verbatim>\<open>startup_diagnostics.go\<close>, \<^verbatim>\<open>logger/logger.go\<close>,
    \<^verbatim>\<open>log.go\<close>. \<open>XrayCore\<close>, \<open>XrayCoreProps\<close>: \<^verbatim>\<open>core.go\<close>. \<open>XrayStats\<close>: \<^verbatim>\<open>api/stats.go\<close>, \<^verbatim>\<open>api/routing.go\<close>.
    \<open>XrayBackend\<close>, \<open>XrayBackendProps\<close>: \<^verbatim>\<open>xray.go\<close>, \<^verbatim>\<open>user.go\<close>, \<^verbatim>\<open>jobs.go\<close>, \<^verbatim>\<open>stats.go\<close>, \<^verbatim>\<open>routing.go\<close>,
    \<^verbatim>\<open>latency.go\<close>. \<open>XrayAgree\<close>: the running core and the configuration have the same users.
  \<^item> The node. \<open>Chunks\<close>: \<^verbatim>\<open>controller/users_chunk.go\<close> and the chunk handlers. \<open>Backend\<close>: the interface of the
    backends, the locale \<open>managed_backend\<close>. \<open>Controller\<close>: \<^verbatim>\<open>controller/controller.go\<close>. \<open>RpcServer\<close>, \<open>RestServer\<close>:
    the handlers and the middleware. \<open>ServerProps\<close>, \<open>ControllerProps\<close>: their properties. \<open>NodeMain\<close>:
    \<^verbatim>\<open>cmd/node/main.go\<close> with the start of the listeners, from the configuration to the end of the process.

  \<^bold>\<open>State and effects.\<close> A struct is a record under the source's name with a prefix to its fields; an operation
  is a function that takes the record and the world and returns them changed. A pointer to another
  component is its value, except for the backend of the controller, which is an index into a store, since
  a backend can outlive the pointer. An error is a \<open>go_error\<close> in a sum or an option; a run-time panic is an
  error of kind \<open>Panic\<close>. Machine integers are words where the code can wrap. The operating system, the
  libraries (netlink, wgctrl, the Xray API, gRPC, chi, JSON, protobuf) and the clock are records of functions
  of a world of any type; what a property needs of them is a named predicate in its hypotheses (\<open>env_ok\<close>,
  \<open>fd_laws\<close>, \<open>signal_laws\<close>, \<open>api_laws\<close>, \<open>table_laws\<close>, \<open>chain_law\<close>, \<open>chi_laws\<close>), and each has a concrete
  instance that the witnesses use. The order in which Go visits a map is the parameter \<open>go_iter\<close>.

  \<^bold>\<open>What the lemmas show.\<close> The peer store is one-to-one and its operations do what they report. Traffic is
  neither lost nor counted twice. A synchronisation of WireGuard leaves store and kernel table exactly as the
  request asks, or nothing changed. Shutdown is final and a failed set-up leaves no interface. The accounts
  of Xray inbounds are well typed; an incremental update equals a full one; the API that the node adds to a
  configuration is guarded. The core's log files, sockets and processes are accounted for; the clean-up
  before a start signals only orphans. The running core and the configuration agree after every update of
  users, and a change by restart happens completely or not at all. A core that does not answer is
  restarted. Users cut into chunks come out as they went in on both servers. No handler runs without the API
  key, both servers give the same answers, and a running backend is the one of the controller unless a
  keep-alive disconnection overlaps with a start; when the process ends on a signal, none is left. Several
  theorems state what goes wrong instead: a duplicate API inbound, a pending restart after a shutdown, the
  lost backend of such an overlap, a count of the processors that failed once and is never repeated.

  \<^bold>\<open>Bounds.\<close> There is no fuel. A wait of the source that may not end (\<^verbatim>\<open>checkXrayStatus\<close>, the log streams)
  takes the list of what it receives and has no result when the list ends first; that a synchronisation
  returns when its contexts end is the theorem \<open>sync_by_restart_returns\<close>. The assembly of chunks is a
  \<^theory_text>\<open>partial_function\<close>, and \<open>BuildUsersFromChunks_returns\<close> says when it returns. The ten rounds of the wait
  for a killed process and the search for a free port are bounded by the source.

  \<^bold>\<open>Concurrency.\<close> An operation that holds its mutex throughout is one step. Steps between which the source
  releases it are separate: the parts of \<^verbatim>\<open>Disconnect\<close>, the decision of the health check and its restart. The
  steps of \<open>ControllerProps\<close> are the requests that start and stop, the trackers of keep-alive and the clock;
  what the other handlers do to a backend at the same time is not among them.

  \<^bold>\<open>Floating point.\<close> The CPU usage is computed with rationals that \<open>float_round\<close> rounds to double precision
  after every operation; NaN and the infinities are left out.

  \<^bold>\<open>Not modelled.\<close> The encoding of protobuf and of JSON, TLS itself, the set-up of the gRPC client of the Xray API,
  the HTTP probe for latencies, the helpers that only the tests use, the flags with which the core process
  is created, the lines the node logs about itself: calls of libraries without a decision of the node's
  own. Strings are ASCII where case and white space matter.
\<close>

end
